(* ===== verification/Epoch_Prelude.thy ===== *)
theory Epoch_Prelude
  imports Main "HOL-Library.Word"
begin

text \<open>
  Shared vocabulary of the development.

  \<^item> Machine integers: a Rust \<open>u64\<close> is a \<open>64 word\<close>, a \<open>u16\<close> a \<open>16 word\<close>; an \<open>i64\<close> (and with
    it every SQLite INTEGER column) is an \<open>int\<close> that the code only compares, decrements above
    zero or increments below \<open>i64::MAX\<close>, so its bounds are written out where they matter.
  \<^item> Fallible code: \<open>Result<T, E>\<close> is the sum \<open>'e + 'a\<close> with \<open>Inl\<close> for \<open>Err\<close>. \<open>rbind\<close> is the
    \<open>?\<close> operator, \<open>option_try\<close> is \<open>map(..).transpose()?\<close>, \<open>list_try\<close> is collecting an iterator
    of results.
  \<^item> SQL: a table is the list of its rows in insertion order; \<open>sql_insert\<close> and \<open>sql_update\<close> are
    one statement with the constraints and triggers that can refuse it; \<open>run_tx\<close> is a
    transaction that commits when its body succeeds and rolls back otherwise.
\<close>

named_theorems result_simps \<open>rewriting of results threaded with the question-mark operator\<close>
named_theorems table_simps \<open>rewriting of SQL statements over tables\<close>

section \<open>Machine integers\<close>

type_synonym u8 = "8 word"
type_synonym u16 = "16 word"
type_synonym u32 = "32 word"
type_synonym u64 = "64 word"
type_synonym i64 = int

definition i64_max :: i64 where
  "i64_max = 9223372036854775807"

text \<open>\<open>i64::try_from(value).ok()\<close> and \<open>u64::try_from(value).ok()\<close>.\<close>

definition i64_of_u64 :: "u64 \<Rightarrow> i64 option" where
  "i64_of_u64 v = (if uint v \<le> i64_max then Some (uint v) else None)"

definition u64_of_i64 :: "i64 \<Rightarrow> u64 option" where
  "u64_of_i64 v = (if v < 0 then None else Some (word_of_int v))"

lemma i64_of_u64_Some_iff:
  "i64_of_u64 v = Some i \<longleftrightarrow> i = uint v \<and> i \<le> i64_max"
  by (auto simp: i64_of_u64_def)

lemma i64_of_u64_nonneg: "i64_of_u64 v = Some i \<Longrightarrow> 0 \<le> i"
  by (simp add: i64_of_u64_Some_iff)

lemma u64_of_i64_of_u64: "i64_of_u64 v = Some i \<Longrightarrow> u64_of_i64 i = Some v"
  by (simp add: i64_of_u64_Some_iff u64_of_i64_def)

lemma i64_of_u64_of_i64:
  assumes "0 \<le> i" and "i \<le> i64_max"
  shows "\<exists>v. u64_of_i64 i = Some v \<and> i64_of_u64 v = Some i"
proof -
  have "i < 2 ^ 64" using assms(2) by (simp add: i64_max_def)
  then have "uint (word_of_int i :: u64) = i"
    using assms(1) by (simp add: uint_word_of_int)
  then show ?thesis using assms by (simp add: u64_of_i64_def i64_of_u64_def)
qed

lemma i64_of_u64_inj:
  "i64_of_u64 v = Some i \<Longrightarrow> i64_of_u64 w = Some i \<Longrightarrow> v = w"
  by (metis option.inject u64_of_i64_of_u64)

section \<open>Results\<close>

type_synonym ('e, 'a) result = "'e + 'a"

fun rbind :: "('e, 'a) result \<Rightarrow> ('a \<Rightarrow> ('e, 'b) result) \<Rightarrow> ('e, 'b) result" where
  "rbind (Inl e) f = Inl e"
| "rbind (Inr x) f = f x"

definition ensure :: "bool \<Rightarrow> 'e \<Rightarrow> ('e, unit) result" where
  "ensure c e = (if c then Inr () else Inl e)"

text \<open>\<open>Option::ok_or\<close>.\<close>

definition ok_or :: "'a option \<Rightarrow> 'e \<Rightarrow> ('e, 'a) result" where
  "ok_or m e = (case m of None \<Rightarrow> Inl e | Some x \<Rightarrow> Inr x)"

definition map_err :: "('e \<Rightarrow> 'f) \<Rightarrow> ('e, 'a) result \<Rightarrow> ('f, 'a) result" where
  "map_err f m = (case m of Inl e \<Rightarrow> Inl (f e) | Inr x \<Rightarrow> Inr x)"

fun option_try :: "('a \<Rightarrow> ('e, 'b) result) \<Rightarrow> 'a option \<Rightarrow> ('e, 'b option) result" where
  "option_try f None = Inr None"
| "option_try f (Some x) = rbind (f x) (\<lambda>y. Inr (Some y))"

fun list_try :: "('a \<Rightarrow> ('e, 'b) result) \<Rightarrow> 'a list \<Rightarrow> ('e, 'b list) result" where
  "list_try f [] = Inr []"
| "list_try f (x # xs) = rbind (f x) (\<lambda>y. rbind (list_try f xs) (\<lambda>ys. Inr (y # ys)))"

lemma rbind_eq_Inr [result_simps]:
  "rbind m f = Inr y \<longleftrightarrow> (\<exists>x. m = Inr x \<and> f x = Inr y)"
  by (cases m) auto

lemma rbind_eq_Inl [result_simps]:
  "rbind m f = Inl e \<longleftrightarrow> m = Inl e \<or> (\<exists>x. m = Inr x \<and> f x = Inl e)"
  by (cases m) auto

lemma ensure_eq_Inr [result_simps]: "ensure c e = Inr u \<longleftrightarrow> c"
  by (simp add: ensure_def)

lemma ensure_eq_Inl [result_simps]: "ensure c e = Inl e' \<longleftrightarrow> \<not> c \<and> e' = e"
  by (auto simp: ensure_def)

lemma ok_or_eq_Inr [result_simps]: "ok_or m e = Inr x \<longleftrightarrow> m = Some x"
  by (simp add: ok_or_def split: option.split)

lemma ok_or_eq_Inl [result_simps]: "ok_or m e = Inl e' \<longleftrightarrow> m = None \<and> e' = e"
  by (auto simp: ok_or_def split: option.split)

lemma map_err_eq_Inr [result_simps]: "map_err f m = Inr x \<longleftrightarrow> m = Inr x"
  by (simp add: map_err_def split: sum.split)

lemma map_err_eq_Inl [result_simps]: "map_err f m = Inl e \<longleftrightarrow> (\<exists>e'. m = Inl e' \<and> e = f e')"
  by (auto simp: map_err_def split: sum.split)

lemma ok_or_simps [simp]: "ok_or None e = Inl e" "ok_or (Some x) e = Inr x"
  by (simp_all add: ok_or_def)

lemma map_err_simps [simp]: "map_err f (Inl e) = Inl (f e)" "map_err f (Inr x) = Inr x"
  by (simp_all add: map_err_def)

lemma ensure_simps [simp]: "ensure True e = Inr ()" "ensure False e = Inl e"
  by (simp_all add: ensure_def)

lemma option_try_eq_Inr [result_simps]:
  "option_try f m = Inr r \<longleftrightarrow>
     (m = None \<and> r = None) \<or> (\<exists>x y. m = Some x \<and> f x = Inr y \<and> r = Some y)"
  by (cases m) (auto simp: rbind_eq_Inr)

lemma list_try_eq_Inr:
  "list_try f xs = Inr ys \<longleftrightarrow> list_all2 (\<lambda>x y. f x = Inr y) xs ys"
proof (induction xs arbitrary: ys)
  case Nil
  show ?case by auto
next
  case (Cons x xs)
  show ?case by (cases ys) (auto simp: rbind_eq_Inr Cons.IH)
qed

lemma list_try_append:
  "list_try f (xs @ ys) = rbind (list_try f xs) (\<lambda>as. rbind (list_try f ys) (\<lambda>bs. Inr (as @ bs)))"
proof (induction xs)
  case Nil
  show ?case by (cases "list_try f ys") simp_all
next
  case (Cons x xs)
  show ?case
    by (cases "f x"; cases "list_try f xs"; cases "list_try f ys") (simp_all add: Cons.IH)
qed

lemma list_all2_witness: "list_all2 P xs ys \<Longrightarrow> \<forall>y \<in> set ys. \<exists>x \<in> set xs. P x y"
  by (induction rule: list_all2_induct) auto

lemma list_all2_image: "list_all2 P xs ys \<Longrightarrow> \<forall>x \<in> set xs. \<exists>y \<in> set ys. P x y"
  by (induction rule: list_all2_induct) auto

section \<open>SQL statements over tables\<close>

text \<open>One inserted row: \<open>ok\<close> holds the table's CHECK, UNIQUE and FOREIGN KEY constraints.\<close>

definition sql_insert :: "('r list \<Rightarrow> 'r \<Rightarrow> bool) \<Rightarrow> 'r \<Rightarrow> 'r list \<Rightarrow> 'r list option" where
  "sql_insert ok r rows = (if ok rows r then Some (rows @ [r]) else None)"

text \<open>
  \<open>UPDATE .. SET f WHERE P\<close>: every matching row is replaced; the statement fails as a whole when
  a replacement violates a CHECK or makes a trigger abort (\<open>ok old new\<close>). The number of changed
  rows is returned, as \<open>Connection::execute\<close> does.
\<close>

definition sql_update ::
  "('r \<Rightarrow> 'r \<Rightarrow> bool) \<Rightarrow> ('r \<Rightarrow> bool) \<Rightarrow> ('r \<Rightarrow> 'r) \<Rightarrow> 'r list \<Rightarrow> (nat \<times> 'r list) option" where
  "sql_update ok P f rows =
     (if list_all (\<lambda>r. P r \<longrightarrow> ok r (f r)) rows
      then Some (length (filter P rows), map (\<lambda>r. if P r then f r else r) rows)
      else None)"

lemma sql_insert_eq_Some [table_simps]:
  "sql_insert ok r rows = Some rows' \<longleftrightarrow> ok rows r \<and> rows' = rows @ [r]"
  by (auto simp: sql_insert_def)

lemma sql_update_eq_Some [table_simps]:
  "sql_update ok P f rows = Some (n, rows') \<longleftrightarrow>
     (\<forall>r \<in> set rows. P r \<longrightarrow> ok r (f r)) \<and> n = length (filter P rows) \<and>
     rows' = map (\<lambda>r. if P r then f r else r) rows"
  by (auto simp: sql_update_def list_all_iff)

lemma sql_update_none_changed:
  "list_all (\<lambda>r. \<not> P r) rows \<Longrightarrow> sql_update ok P f rows = Some (0, rows)"
  by (auto simp: sql_update_def list_all_iff filter_empty_conv intro: map_idI)

lemma sql_update_keys:
  assumes "sql_update ok P f rows = Some (n, rows')" and "\<And>r. k (f r) = k r"
  shows "map k rows' = map k rows"
  using assms by (auto simp: sql_update_eq_Some)

lemma distinct_key_eq:
  "distinct (map k rows) \<Longrightarrow> x \<in> set rows \<Longrightarrow> y \<in> set rows \<Longrightarrow> k x = k y \<Longrightarrow> x = y"
  by (auto simp: distinct_map dest: inj_onD)

text \<open>Looking a row up by its primary key.\<close>

definition by_key :: "('r \<Rightarrow> 'k) \<Rightarrow> 'k \<Rightarrow> 'r list \<Rightarrow> 'r option" where
  "by_key key k rows = find (\<lambda>r. key r = k) rows"

lemma by_key_eq_None [table_simps]: "by_key key k rows = None \<longleftrightarrow> k \<notin> key ` set rows"
  by (auto simp: by_key_def find_None_iff)

lemma by_key_eq_SomeD: "by_key key k rows = Some r \<Longrightarrow> r \<in> set rows \<and> key r = k"
  by (auto simp: by_key_def find_Some_iff)

lemma by_key_eq_Some:
  assumes "distinct (map key rows)"
  shows "by_key key k rows = Some r \<longleftrightarrow> r \<in> set rows \<and> key r = k"
  using assms by (induction rows) (auto simp: by_key_def)

lemma by_key_append:
  "by_key key k (rows @ [r]) =
     (case by_key key k rows of Some r' \<Rightarrow> Some r' | None \<Rightarrow> if key r = k then Some r else None)"
  by (induction rows) (auto simp: by_key_def)

lemma by_key_map:
  assumes "\<And>r. key (f r) = key r"
  shows "by_key key k (map f rows) = map_option f (by_key key k rows)"
  using assms by (induction rows) (auto simp: by_key_def)

lemma filter_by_key:
  assumes "distinct (map key rows)"
  shows "filter (\<lambda>r. key r = k) rows =
     (case by_key key k rows of None \<Rightarrow> [] | Some r \<Rightarrow> [r])"
  using assms
proof (induction rows)
  case Nil
  show ?case by (simp add: by_key_def)
next
  case (Cons x xs)
  show ?case
  proof (cases "key x = k")
    case True
    with Cons.prems have "filter (\<lambda>r. key r = k) xs = []"
      by (simp add: filter_empty_conv) (metis image_eqI)
    with True show ?thesis by (simp add: by_key_def)
  next
    case False
    with Cons show ?thesis by (simp add: by_key_def)
  qed
qed

section \<open>Transactions\<close>

text \<open>
  An immediate transaction over the state \<open>s\<close>: the body either fails, and dropping the
  transaction rolls every write back, or returns a value and the state to commit.
\<close>

definition run_tx :: "('e, 'a \<times> 's) result \<Rightarrow> 's \<Rightarrow> ('e, 'a) result \<times> 's" where
  "run_tx body s = (case body of Inl e \<Rightarrow> (Inl e, s) | Inr (x, s') \<Rightarrow> (Inr x, s'))"

lemma run_tx_eq:
  "run_tx body s = (r, s') \<longleftrightarrow>
     (\<exists>e. body = Inl e \<and> r = Inl e \<and> s' = s) \<or> (\<exists>x. body = Inr (x, s') \<and> r = Inr x)"
  by (auto simp: run_tx_def split: sum.splits prod.splits)

lemma run_tx_Inr [result_simps]: "run_tx body s = (Inr x, s') \<longleftrightarrow> body = Inr (x, s')"
  by (auto simp: run_tx_eq)

lemma run_tx_Inl [result_simps]: "run_tx body s = (Inl e, s') \<longleftrightarrow> body = Inl e \<and> s' = s"
  by (auto simp: run_tx_eq)

section \<open>Runs\<close>

text \<open>A sequence of operations, each applied to the state the previous one left.\<close>

fun run_ops :: "('op \<Rightarrow> 's \<Rightarrow> 's) \<Rightarrow> 'op list \<Rightarrow> 's \<Rightarrow> 's" where
  "run_ops step [] s = s"
| "run_ops step (a # as) s = run_ops step as (step a s)"

lemma run_ops_append: "run_ops step (as @ bs) s = run_ops step bs (run_ops step as s)"
  by (induction as arbitrary: s) auto

text \<open>
  What a client of a component may rely on: an invariant every operation keeps, and a transitive
  relation (what later states owe to earlier ones) every operation respects.
\<close>

locale machine =
  fixes step :: "'op \<Rightarrow> 's \<Rightarrow> 's"
    and inv :: "'s \<Rightarrow> bool"
    and evolves :: "'s \<Rightarrow> 's \<Rightarrow> bool"
  assumes inv_step: "inv s \<Longrightarrow> inv (step a s)"
    and evolves_step: "inv s \<Longrightarrow> evolves s (step a s)"
    and evolves_refl: "evolves s s"
    and evolves_trans: "evolves s t \<Longrightarrow> evolves t u \<Longrightarrow> evolves s u"
begin

lemma run_inv: "inv s \<Longrightarrow> inv (run_ops step as s)"
  by (induction as arbitrary: s) (auto intro: inv_step)

lemma run_evolves: "inv s \<Longrightarrow> evolves s (run_ops step as s)"
proof (induction as arbitrary: s)
  case Nil
  show ?case by (simp add: evolves_refl)
next
  case (Cons a as)
  have "evolves s (step a s)" by (rule evolves_step [OF Cons.prems])
  moreover have "evolves (step a s) (run_ops step as (step a s))"
    by (rule Cons.IH [OF inv_step [OF Cons.prems]])
  ultimately show ?case by (auto intro: evolves_trans)
qed

end

section \<open>Stored codes\<close>

text \<open>
  The contract of an enumeration stored as text: a stored text reads back as \<open>x\<close> exactly when it is
  the code of \<open>x\<close>.
\<close>

locale code_table =
  fixes encode :: "'a \<Rightarrow> string"
    and decode :: "string \<Rightarrow> ('e, 'a) result"
  assumes decode_iff: "decode s = Inr x \<longleftrightarrow> s = encode x"
begin

lemma decode_encode: "decode (encode x) = Inr x"
  by (simp add: decode_iff)

lemma encode_inj: "encode x = encode y \<longleftrightarrow> x = y"
  by (metis decode_encode sum.inject(2))

lemma decode_unknown: "(\<And>x. s \<noteq> encode x) \<Longrightarrow> \<exists>e. decode s = Inl e"
  using decode_iff by (cases "decode s") auto

lemma decode_rows: "list_try decode (map encode xs) = Inr xs"
  by (simp add: list_try_eq_Inr list_all2_conv_all_nth decode_encode)

end

end
