(* ===== verification/Epoch_Text.thy ===== *)
theory Epoch_Text
  imports Epoch_Prelude
begin

text \<open>
  The part of Rust's \<open>str\<close> and byte-slice library the crates use, and the values that cross into
  third-party crates.

  A Rust string is the list of its UTF-8 bytes (\<open>char\<close> is a byte), so \<open>len()\<close> is \<open>length\<close> and
  comparison is bytewise. Where the library works on Unicode scalar values (\<open>trim\<close>,
  \<open>chars().any(char::is_control)\<close>) the bytes are first grouped into encoded scalars.

  The crates \<open>uuid\<close>, \<open>sha2\<close> and \<open>serde_json\<close> and SQLite are not part of the repository: their
  functions are
  the fields of the record \<open>externals\<close>, an argument of every operation that calls them.
\<close>

section \<open>Bytes\<close>

abbreviation byte :: "char \<Rightarrow> int" where
  "byte c \<equiv> of_char c"

definition is_ascii_digit :: "char \<Rightarrow> bool" where
  "is_ascii_digit c \<longleftrightarrow> 48 \<le> byte c \<and> byte c \<le> 57"

definition is_ascii_lowercase :: "char \<Rightarrow> bool" where
  "is_ascii_lowercase c \<longleftrightarrow> 97 \<le> byte c \<and> byte c \<le> 122"

definition is_ascii_uppercase :: "char \<Rightarrow> bool" where
  "is_ascii_uppercase c \<longleftrightarrow> 65 \<le> byte c \<and> byte c \<le> 90"

definition is_ascii_control :: "char \<Rightarrow> bool" where
  "is_ascii_control c \<longleftrightarrow> byte c < 32 \<or> byte c = 127"

text \<open>\<open>u8::is_ascii_whitespace\<close>: tab, line feed, form feed, carriage return, space.\<close>

definition is_ascii_whitespace :: "char \<Rightarrow> bool" where
  "is_ascii_whitespace c \<longleftrightarrow> byte c \<in> {9, 10, 12, 13, 32}"

text \<open>The byte class \<open>is_ascii_digit() || (b'a'..=b'f').contains(..)\<close> of canonical digests.\<close>

definition is_hex_byte :: "char \<Rightarrow> bool" where
  "is_hex_byte c \<longleftrightarrow> is_ascii_digit c \<or> (97 \<le> byte c \<and> byte c \<le> 102)"

definition to_ascii_lowercase :: "string \<Rightarrow> string" where
  "to_ascii_lowercase s =
     map (\<lambda>c. if is_ascii_uppercase c then char_of (byte c + 32) else c) s"

section \<open>Unicode scalars inside a UTF-8 string\<close>

definition is_continuation :: "char \<Rightarrow> bool" where
  "is_continuation c \<longleftrightarrow> 128 \<le> byte c \<and> byte c < 192"

function utf8_scalars :: "string \<Rightarrow> string list" where
  "utf8_scalars [] = []"
| "utf8_scalars (c # cs) =
     (if byte c < 128 then [c] # utf8_scalars cs
      else (c # takeWhile is_continuation cs) # utf8_scalars (dropWhile is_continuation cs))"
  by pat_completeness auto
termination
  by (relation "measure length") (auto simp: length_dropWhile_le less_Suc_eq_le)

text \<open>\<open>char::is_control\<close>: general category Cc, U+0000..U+001F and U+007F..U+009F.\<close>

fun is_control_scalar :: "string \<Rightarrow> bool" where
  "is_control_scalar [a] \<longleftrightarrow> byte a < 32 \<or> byte a = 127"
| "is_control_scalar [a, b] \<longleftrightarrow> byte a = 194 \<and> 128 \<le> byte b \<and> byte b \<le> 159"
| "is_control_scalar _ \<longleftrightarrow> False"

definition has_control :: "string \<Rightarrow> bool" where
  "has_control s \<longleftrightarrow> list_ex is_control_scalar (utf8_scalars s)"

text \<open>\<open>char::is_whitespace\<close>: the Unicode property White_Space, by encoded scalar.\<close>

fun is_whitespace_scalar :: "string \<Rightarrow> bool" where
  "is_whitespace_scalar [a] \<longleftrightarrow> (9 \<le> byte a \<and> byte a \<le> 13) \<or> byte a = 32"
| "is_whitespace_scalar [a, b] \<longleftrightarrow> byte a = 194 \<and> (byte b = 133 \<or> byte b = 160)"
| "is_whitespace_scalar [a, b, c] \<longleftrightarrow>
     (byte a = 225 \<and> byte b = 154 \<and> byte c = 128)
   \<or> (byte a = 226 \<and> byte b = 128 \<and> (128 \<le> byte c \<and> byte c \<le> 138 \<or> byte c \<in> {168, 169, 175}))
   \<or> (byte a = 226 \<and> byte b = 129 \<and> byte c = 159)
   \<or> (byte a = 227 \<and> byte b = 128 \<and> byte c = 128)"
| "is_whitespace_scalar _ \<longleftrightarrow> False"

text \<open>\<open>str::trim\<close>.\<close>

definition trim :: "string \<Rightarrow> string" where
  "trim s = concat (rev (dropWhile is_whitespace_scalar
     (rev (dropWhile is_whitespace_scalar (utf8_scalars s)))))"

lemma concat_utf8_scalars [simp]: "concat (utf8_scalars s) = s"
  by (induction s rule: utf8_scalars.induct) auto

lemma length_utf8_scalars_le: "length (utf8_scalars s) \<le> length s"
proof (induction s rule: utf8_scalars.induct)
  case (2 c cs)
  have "length (dropWhile is_continuation cs) \<le> length cs" by (rule length_dropWhile_le)
  with 2 show ?case by auto
qed simp

lemma utf8_scalars_eq_Nil [simp]: "utf8_scalars s = [] \<longleftrightarrow> s = []"
  by (cases s) auto

section \<open>Substrings\<close>

fun strip_prefix :: "string \<Rightarrow> string \<Rightarrow> string option" where
  "strip_prefix [] s = Some s"
| "strip_prefix (p # ps) [] = None"
| "strip_prefix (p # ps) (c # cs) = (if p = c then strip_prefix ps cs else None)"

definition strip_suffix :: "string \<Rightarrow> string \<Rightarrow> string option" where
  "strip_suffix p s = map_option rev (strip_prefix (rev p) (rev s))"

definition starts_with :: "string \<Rightarrow> string \<Rightarrow> bool" where
  "starts_with p s \<longleftrightarrow> strip_prefix p s \<noteq> None"

definition ends_with :: "string \<Rightarrow> string \<Rightarrow> bool" where
  "ends_with p s \<longleftrightarrow> strip_suffix p s \<noteq> None"

text \<open>\<open>str::contains\<close> and \<open>str::split_once\<close> with a string pattern: the leftmost match.\<close>

fun split_once :: "string \<Rightarrow> string \<Rightarrow> (string \<times> string) option" where
  "split_once p [] = (if p = [] then Some ([], []) else None)"
| "split_once p (c # cs) =
     (case strip_prefix p (c # cs) of
        Some rest \<Rightarrow> Some ([], rest)
      | None \<Rightarrow> map_option (\<lambda>(a, b). (c # a, b)) (split_once p cs))"

definition contains_str :: "string \<Rightarrow> string \<Rightarrow> bool" where
  "contains_str p s \<longleftrightarrow> split_once p s \<noteq> None"

text \<open>\<open>str::replace\<close> with a single-byte pattern.\<close>

definition replace_byte :: "char \<Rightarrow> string \<Rightarrow> string \<Rightarrow> string" where
  "replace_byte c by s = concat (map (\<lambda>d. if d = c then by else [d]) s)"

lemma strip_prefix_eq_Some: "strip_prefix p s = Some r \<longleftrightarrow> s = p @ r"
  by (induction p s rule: strip_prefix.induct) auto

lemma strip_suffix_eq_Some: "strip_suffix p s = Some r \<longleftrightarrow> s = r @ p"
  by (auto simp: strip_suffix_def strip_prefix_eq_Some) (metis rev_append rev_rev_ident)

lemma starts_with_iff: "starts_with p s \<longleftrightarrow> (\<exists>r. s = p @ r)"
  by (auto simp: starts_with_def strip_prefix_eq_Some)

lemma ends_with_iff: "ends_with p s \<longleftrightarrow> (\<exists>r. s = r @ p)"
  by (auto simp: ends_with_def strip_suffix_eq_Some)

lemma split_once_eq_SomeD: "split_once p s = Some (a, b) \<Longrightarrow> s = a @ p @ b"
  by (induction p s arbitrary: a b rule: split_once.induct)
    (auto simp: strip_prefix_eq_Some split: if_splits option.splits)

lemma split_once_eq_NoneD: "split_once p s = None \<Longrightarrow> s \<noteq> a @ p @ b"
proof (induction p s arbitrary: a rule: split_once.induct)
  case (1 p)
  then show ?case by (auto split: if_splits)
next
  case (2 p c cs)
  show ?case
  proof
    assume eq: "c # cs = a @ p @ b"
    show False
    proof (cases a)
      case Nil
      with eq have "strip_prefix p (c # cs) = Some b" by (simp add: strip_prefix_eq_Some)
      with "2.prems" show ?thesis by simp
    next
      case (Cons d ds)
      with eq "2.prems" "2.IH" [of ds] show ?thesis by (auto split: option.splits)
    qed
  qed
qed

lemma contains_str_iff: "contains_str p s \<longleftrightarrow> (\<exists>a b. s = a @ p @ b)"
proof (cases "split_once p s")
  case None
  with split_once_eq_NoneD [OF None] show ?thesis by (auto simp: contains_str_def)
next
  case (Some r)
  then obtain a b where "split_once p s = Some (a, b)" by (cases r) auto
  then have "s = a @ p @ b" by (rule split_once_eq_SomeD)
  with Some show ?thesis by (auto simp: contains_str_def)
qed

text \<open>\<open>to_string\<close> of an integer.\<close>

fun show_nat :: "nat \<Rightarrow> string" where
  "show_nat n =
     (if n < 10 then [char_of (48 + n)] else show_nat (n div 10) @ [char_of (48 + n mod 10)])"

declare show_nat.simps [simp del]

definition show_int :: "int \<Rightarrow> string" where
  "show_int i = (if i < 0 then CHR ''-'' # show_nat (nat (- i)) else show_nat (nat i))"

section \<open>Hexadecimal digests\<close>

definition hex_digit :: "int \<Rightarrow> char" where
  "hex_digit n = ''0123456789abcdef'' ! nat n"

text \<open>\<open>encode_hex\<close>: \<open>byte >> 4\<close> and \<open>byte & 0x0f\<close> index the digit table.\<close>

definition encode_hex :: "string \<Rightarrow> string" where
  "encode_hex bs = concat (map (\<lambda>b. [hex_digit (byte b div 16), hex_digit (byte b mod 16)]) bs)"

text \<open>The canonical form of a SHA-256 digest: 64 lowercase hexadecimal bytes.\<close>

definition is_sha256_hex :: "string \<Rightarrow> bool" where
  "is_sha256_hex s \<longleftrightarrow> length s = 64 \<and> list_all is_hex_byte s"

lemma length_encode_hex [simp]: "length (encode_hex bs) = 2 * length bs"
  by (induction bs) (auto simp: encode_hex_def)

lemma is_hex_byte_hex_digit:
  assumes "0 \<le> n" "n < 16"
  shows "is_hex_byte (hex_digit n)"
proof -
  have "list_all is_hex_byte ''0123456789abcdef''" by code_simp
  moreover have "nat n < length ''0123456789abcdef''" using assms by simp
  ultimately show ?thesis unfolding hex_digit_def list_all_length by blast
qed

lemma byte_nibbles: "0 \<le> byte c div 16" "byte c div 16 < 16" "0 \<le> byte c mod 16" "byte c mod 16 < 16"
proof -
  have nat: "byte c = int (of_char c)" by (simp only: of_nat_of_char)
  have "(of_char c :: nat) < 256" by (rule nat_of_char_less_256)
  then have "byte c < 256" "0 \<le> byte c" unfolding nat by simp_all
  then show "0 \<le> byte c div 16" "byte c div 16 < 16" "0 \<le> byte c mod 16" "byte c mod 16 < 16"
    by (auto simp: pos_imp_zdiv_nonneg_iff)
qed

lemma list_all_encode_hex: "list_all is_hex_byte (encode_hex bs)"
proof -
  have "is_hex_byte (hex_digit (byte b div 16))" "is_hex_byte (hex_digit (byte b mod 16))" for b
    by (rule is_hex_byte_hex_digit; rule byte_nibbles)+
  then show ?thesis by (auto simp: encode_hex_def list_all_iff)
qed

lemma hex_digit_inj:
  assumes "0 \<le> m" "m < 16" "0 \<le> n" "n < 16" "hex_digit m = hex_digit n"
  shows "m = n"
proof -
  have "distinct ''0123456789abcdef''" by code_simp
  moreover have "nat m < length ''0123456789abcdef''" "nat n < length ''0123456789abcdef''"
    using assms by simp_all
  ultimately have "nat m = nat n"
    using assms(5) unfolding hex_digit_def by (simp only: nth_eq_iff_index_eq)
  with assms(1,3) show ?thesis by simp
qed

lemma encode_hex_inj: "encode_hex a = encode_hex b \<Longrightarrow> a = b"
proof (induction a arbitrary: b)
  case Nil
  then show ?case by (cases b) (auto simp: encode_hex_def)
next
  case (Cons x xs)
  then obtain y ys where b: "b = y # ys"
    by (cases b) (auto simp: encode_hex_def)
  from Cons.prems b have "hex_digit (byte x div 16) = hex_digit (byte y div 16)"
    and "hex_digit (byte x mod 16) = hex_digit (byte y mod 16)"
    and rest: "encode_hex xs = encode_hex ys"
    by (auto simp: encode_hex_def)
  then have "byte x div 16 = byte y div 16" "byte x mod 16 = byte y mod 16"
    by (simp_all add: hex_digit_inj byte_nibbles)
  then have "byte x = byte y" by (metis div_mult_mod_eq)
  then have "x = y" by simp
  with rest Cons.IH b show ?case by simp
qed

section \<open>JSON values\<close>

text \<open>\<open>serde_json::Value\<close>: an object is the sequence of its fields in the order the map yields
  them; a number keeps which of its three forms it has, a float by its bits.\<close>

datatype json_number = PosInt u64 | NegInt i64 | Float u64

datatype json =
    JNull
  | JBool bool
  | JNumber json_number
  | JString string
  | JArray "json list"
  | JObject "(string \<times> json) list"

section \<open>Third-party functions\<close>

type_synonym uuid = "128 word"

record externals =
  uuid_to_string :: "uuid \<Rightarrow> string"
  uuid_parse :: "string \<Rightarrow> uuid option"
  sha256 :: "string \<Rightarrow> string"
  json_to_string :: "json \<Rightarrow> string"
  json_from_slice :: "string \<Rightarrow> json option"
  sqlite_json_valid :: "string \<Rightarrow> bool"

text \<open>What the code relies on: a printed identifier parses back to itself; a digest has 32
  bytes; SQLite's \<open>json_valid\<close> accepts what \<open>serde_json\<close> prints; \<open>serde_json\<close> reads back what it
  printed. All are documented behaviour of these crates.\<close>

definition uuid_codec :: "externals \<Rightarrow> bool" where
  "uuid_codec X \<longleftrightarrow> (\<forall>u. uuid_parse X (uuid_to_string X u) = Some u)"

definition sha256_sized :: "externals \<Rightarrow> bool" where
  "sha256_sized X \<longleftrightarrow> (\<forall>b. length (sha256 X b) = 32)"

definition json_printed_valid :: "externals \<Rightarrow> bool" where
  "json_printed_valid X \<longleftrightarrow> (\<forall>j. sqlite_json_valid X (json_to_string X j))"

definition sha256_hex :: "externals \<Rightarrow> string \<Rightarrow> string" where
  "sha256_hex X bs = encode_hex (sha256 X bs)"

lemma uuid_codecD [simp]: "uuid_codec X \<Longrightarrow> uuid_parse X (uuid_to_string X u) = Some u"
  by (simp add: uuid_codec_def)

lemma uuid_to_string_inj:
  "uuid_codec X \<Longrightarrow> uuid_to_string X u = uuid_to_string X v \<longleftrightarrow> u = v"
  by (metis option.inject uuid_codecD)

lemma is_sha256_hex_sha256_hex: "sha256_sized X \<Longrightarrow> is_sha256_hex (sha256_hex X bs)"
  by (simp add: is_sha256_hex_def sha256_hex_def sha256_sized_def list_all_encode_hex)

end
