(* ===== verification/Epoch_Core.thy ===== *)
theory Epoch_Core
  imports Epoch_Text
begin

text \<open>
  The crate \<open>epoch-core\<close>: typed identifiers (\<open>id.rs\<close>), session and branch lifecycles (\<open>state.rs\<close>)
  and the validated event vocabulary (\<open>event.rs\<close>). The two lifecycles share one contract, the
  locale \<open>lifecycle\<close>, interpreted on both.
\<close>

section \<open>Identifiers\<close>

text \<open>
  The macro \<open>domain_id!\<close> makes six newtypes over \<open>Uuid\<close>. The phantom parameter keeps them apart;
  \<open>id_to_string\<close> is \<open>Display\<close> and \<open>id_parse\<close> is \<open>FromStr\<close>.
\<close>

datatype 'k domain_id = DomainId (as_uuid: uuid)

datatype session_tag = SessionTag
datatype branch_tag = BranchTag
datatype epoch_tag = EpochTag
datatype event_tag = EventTag
datatype capability_tag = CapabilityTag
datatype effect_tag = EffectTag

type_synonym session_id = "session_tag domain_id"
type_synonym branch_id = "branch_tag domain_id"
type_synonym epoch_id = "epoch_tag domain_id"
type_synonym event_id = "event_tag domain_id"
type_synonym capability_id = "capability_tag domain_id"
type_synonym effect_id = "effect_tag domain_id"

definition id_to_string :: "externals \<Rightarrow> 'k domain_id \<Rightarrow> string" where
  "id_to_string X i = uuid_to_string X (as_uuid i)"

definition id_parse :: "externals \<Rightarrow> string \<Rightarrow> 'k domain_id option" where
  "id_parse X s = map_option DomainId (uuid_parse X s)"

lemma id_parse_to_string [simp]: "uuid_codec X \<Longrightarrow> id_parse X (id_to_string X i) = Some i"
  by (simp add: id_parse_def id_to_string_def)

lemma id_to_string_inj [simp]:
  "uuid_codec X \<Longrightarrow> id_to_string X i = id_to_string X j \<longleftrightarrow> i = j"
  by (metis id_parse_to_string option.inject)

section \<open>Lifecycles\<close>

record 's transition_error =
  te_current :: 's
  te_requested :: 's

datatype session_state =
  SCreated | SStarting | SRunning | SSuspended | SCheckpointing | SRestoring | SCompleted | SFailed

definition session_can_transition_to :: "session_state \<Rightarrow> session_state \<Rightarrow> bool" where
  "session_can_transition_to self next =
     (case self of
        SCreated \<Rightarrow> next \<in> {SStarting, SFailed}
      | SStarting \<Rightarrow> next \<in> {SRunning, SFailed}
      | SRunning \<Rightarrow> next \<in> {SSuspended, SCheckpointing, SRestoring, SCompleted, SFailed}
      | SSuspended \<Rightarrow> next \<in> {SRunning, SRestoring, SCompleted, SFailed}
      | SCheckpointing \<Rightarrow> next \<in> {SRunning, SSuspended, SFailed}
      | SRestoring \<Rightarrow> next \<in> {SRunning, SSuspended, SFailed}
      | SCompleted \<Rightarrow> False
      | SFailed \<Rightarrow> False)"

text \<open>\<open>transition_to(&mut self, next)\<close> returns the result and the state left behind.\<close>

definition session_transition_to ::
  "session_state \<Rightarrow> session_state \<Rightarrow> (session_state transition_error, unit) result \<times> session_state"
where
  "session_transition_to self next =
     (if session_can_transition_to self next then (Inr (), next)
      else (Inl \<lparr>te_current = self, te_requested = next\<rparr>, self))"

datatype branch_state =
  BCreated | BRunning | BSuspended | BCompleted | BPromoted | BAbandoned | BFailed

definition branch_can_transition_to :: "branch_state \<Rightarrow> branch_state \<Rightarrow> bool" where
  "branch_can_transition_to self next =
     (case self of
        BCreated \<Rightarrow> next \<in> {BRunning, BAbandoned, BFailed}
      | BRunning \<Rightarrow> next \<in> {BSuspended, BCompleted, BAbandoned, BFailed}
      | BSuspended \<Rightarrow> next \<in> {BRunning, BCompleted, BAbandoned, BFailed}
      | BCompleted \<Rightarrow> next \<in> {BPromoted, BAbandoned}
      | BPromoted \<Rightarrow> False
      | BAbandoned \<Rightarrow> False
      | BFailed \<Rightarrow> False)"

definition branch_transition_to ::
  "branch_state \<Rightarrow> branch_state \<Rightarrow> (branch_state transition_error, unit) result \<times> branch_state"
where
  "branch_transition_to self next =
     (if branch_can_transition_to self next then (Inr (), next)
      else (Inl \<lparr>te_current = self, te_requested = next\<rparr>, self))"

text \<open>A caller that makes a sequence of requests, whatever each of them returns.\<close>

fun drive :: "('s \<Rightarrow> 's \<Rightarrow> 'r \<times> 's) \<Rightarrow> 's \<Rightarrow> 's list \<Rightarrow> 's" where
  "drive t s [] = s"
| "drive t s (n # ns) = drive t (snd (t s n)) ns"

lemma drive_append: "drive t s (xs @ ys) = drive t (drive t s xs) ys"
  by (induction xs arbitrary: s) auto

text \<open>
  The contract of a lifecycle: a permitted request installs the state, a refused one reports both
  states and leaves the current one. What a client may conclude about sequences of requests is
  proved here once.
\<close>

locale lifecycle =
  fixes can_transition :: "'s \<Rightarrow> 's \<Rightarrow> bool"
    and transition :: "'s \<Rightarrow> 's \<Rightarrow> ('s transition_error, unit) result \<times> 's"
  assumes permitted: "can_transition s n \<Longrightarrow> transition s n = (Inr (), n)"
    and refused:
      "\<not> can_transition s n \<Longrightarrow> transition s n = (Inl \<lparr>te_current = s, te_requested = n\<rparr>, s)"
begin

lemma transition_ok_iff: "fst (transition s n) = Inr () \<longleftrightarrow> can_transition s n"
  using permitted [of s n] refused [of s n] by (cases "can_transition s n") auto

lemma step_or_stay:
  "snd (transition s n) = s \<or> (can_transition s n \<and> snd (transition s n) = n)"
  using permitted [of s n] refused [of s n] by (cases "can_transition s n") auto

lemma terminal_absorbing:
  assumes "\<And>n. \<not> can_transition s n"
  shows "drive transition s ns = s"
proof (induction ns)
  case (Cons n ns)
  with refused [OF assms] show ?case by simp
qed simp

lemma drive_reachable: "can_transition\<^sup>*\<^sup>* s (drive transition s ns)"
proof (induction ns arbitrary: s)
  case (Cons n ns)
  have "can_transition\<^sup>*\<^sup>* s (snd (transition s n))"
    using step_or_stay [of s n] by auto
  moreover have "can_transition\<^sup>*\<^sup>* (snd (transition s n)) (drive transition (snd (transition s n)) ns)"
    by (rule Cons.IH)
  ultimately show ?case by simp
qed simp

text \<open>A state all of whose predecessors are \<open>mid\<close> is entered only through \<open>mid\<close>.\<close>

lemma entered_through:
  assumes pred: "\<And>s. can_transition s goal \<Longrightarrow> s = mid"
    and "drive transition s ns = goal" and "s \<noteq> goal"
  shows "\<exists>xs ys. ns = xs @ ys \<and> drive transition s xs = mid"
  using assms(2,3)
proof (induction ns arbitrary: s)
  case (Cons n ns)
  show ?case
  proof (cases "snd (transition s n) = goal")
    case True
    with step_or_stay [of s n] Cons.prems(2) have "s = mid" by (auto intro: pred)
    then have "drive transition s [] = mid" by simp
    then show ?thesis by (metis append_Nil)
  next
    case False
    with Cons.prems(1) obtain xs ys
      where "ns = xs @ ys" "drive transition (snd (transition s n)) xs = mid"
      using Cons.IH [of "snd (transition s n)"] by auto
    then have "n # ns = (n # xs) @ ys \<and> drive transition s (n # xs) = mid" by simp
    then show ?thesis by blast
  qed
qed simp

end

interpretation session: lifecycle session_can_transition_to session_transition_to
  by unfold_locales (auto simp: session_transition_to_def)

interpretation branch: lifecycle branch_can_transition_to branch_transition_to
  by unfold_locales (auto simp: branch_transition_to_def)

section \<open>Event vocabulary\<close>

datatype event_actor = Agent | Supervisor | Tool | Gateway | Operator

datatype event_status = Started | Succeeded | Failed | Denied | Unknown

definition event_kind_byte :: "char \<Rightarrow> bool" where
  "event_kind_byte c \<longleftrightarrow>
     is_ascii_lowercase c \<or> is_ascii_digit c \<or> c = CHR ''.'' \<or> c = CHR ''_''"

datatype event_kind = EventKind (kind_as_str: string)

datatype invalid_event_kind = InvalidEventKind string

definition event_kind_new :: "string \<Rightarrow> (invalid_event_kind, event_kind) result" where
  "event_kind_new value =
     (if value \<noteq> [] \<and> length value \<le> 128 \<and> list_all event_kind_byte value
      then Inr (EventKind value) else Inl (InvalidEventKind value))"

section \<open>Properties\<close>

text \<open>Whatever requests a caller makes, a completed or failed session stays as it is, and these
  two states are exactly the ones with no way out.\<close>

theorem session_terminal_states:
  "((\<forall>n. \<not> session_can_transition_to s n) \<longleftrightarrow> s = SCompleted \<or> s = SFailed) \<and>
   drive session_transition_to SCompleted ns = SCompleted \<and>
   drive session_transition_to SFailed ns = SFailed"
proof (intro conjI)
  show "(\<forall>n. \<not> session_can_transition_to s n) \<longleftrightarrow> s = SCompleted \<or> s = SFailed"
    by (cases s) (auto simp: session_can_transition_to_def)
  show "drive session_transition_to SCompleted ns = SCompleted"
    "drive session_transition_to SFailed ns = SFailed"
    by (rule session.terminal_absorbing, simp add: session_can_transition_to_def)+
qed

text \<open>A branch is promoted only after it completed: whatever requests lead a branch that is not
  promoted to the promoted state, after some initial part of them it was in the completed state.\<close>

theorem promotion_requires_completion:
  assumes "drive branch_transition_to s ns = BPromoted" and "s \<noteq> BPromoted"
  shows "\<exists>xs ys. ns = xs @ ys \<and> drive branch_transition_to s xs = BCompleted"
proof (rule branch.entered_through [OF _ assms])
  fix s assume "branch_can_transition_to s BPromoted"
  then show "s = BCompleted" by (cases s) (auto simp: branch_can_transition_to_def)
qed

theorem promotion_requires_completion_witness:
  "\<exists>xs ys. [BRunning, BPromoted, BCompleted, BPromoted] = xs @ ys \<and>
     drive branch_transition_to BCreated xs = BCompleted"
proof (rule promotion_requires_completion)
  show "drive branch_transition_to BCreated [BRunning, BPromoted, BCompleted, BPromoted] = BPromoted"
    by code_simp
qed simp

end
