(* ===== verification/Epoch_Schema.thy ===== *)
theory Epoch_Schema
  imports Epoch_Core
begin

text \<open>
  The trusted database: the tables the migrations of \<open>epoch-storage\<close> create, as one record of
  lists of rows, with the CHECK, UNIQUE and FOREIGN KEY constraints and the triggers that can
  refuse a statement. A TEXT column is a string, an INTEGER column an \<open>int\<close>, a nullable column an
  option. An AUTOINCREMENT sequence is the row's position, since those tables are append-only.
\<close>

section \<open>Rows\<close>

record session_row =
  s_id :: string
  s_state :: string
  s_policy_revision :: i64
  s_revision :: i64
  s_created_at :: i64
  s_updated_at :: i64

record blob_row =
  bl_hash :: string
  bl_byte_length :: i64
  bl_media_type :: string
  bl_created_at :: i64

record branch_row =
  b_id :: string
  b_session_id :: string
  b_parent_branch_id :: "string option"
  b_fork_epoch_id :: "string option"
  b_state :: string
  b_next_event_sequence :: i64
  b_created_at :: i64
  b_updated_at :: i64
  b_name :: "string option"
  b_fork_point_sequence :: "i64 option"
  b_fork_component_hash :: "string option"

record epoch_row =
  e_id :: string
  e_session_id :: string
  e_branch_id :: string
  e_parent_epoch_id :: "string option"
  e_sequence :: i64
  e_status :: string
  e_backend :: "string option"
  e_policy_revision :: i64
  e_effect_frontier :: i64
  e_manifest_hash :: "string option"
  e_created_at :: i64
  e_committed_at :: "i64 option"
  e_capability_frontier :: i64

record component_row =
  k_epoch_id :: string
  k_kind :: string
  k_status :: string
  k_backend :: string
  k_blob_hash :: "string option"
  k_checksum :: string
  k_byte_length :: i64
  k_metadata_json :: string
  k_staged_at :: i64
  k_committed_at :: "i64 option"

record event_row =
  ev_id :: string
  ev_session_id :: string
  ev_branch_id :: string
  ev_sequence :: i64
  ev_epoch_id :: "string option"
  ev_causal_parent_id :: "string option"
  ev_monotonic_ns :: i64
  ev_occurred_at :: i64
  ev_actor :: string
  ev_kind :: string
  ev_input_hash :: "string option"
  ev_output_hash :: "string option"
  ev_status :: string
  ev_payload_json :: string
  ev_payload_blob_hash :: "string option"

record capability_row =
  c_id :: string
  c_session_id :: string
  c_branch_id :: string
  c_subject :: string
  c_action :: string
  c_resource :: string
  c_constraints_json :: string
  c_handle_hash :: string
  c_delegated_from_id :: "string option"
  c_remaining_uses :: "i64 option"
  c_policy_revision :: i64
  c_status :: string
  c_issued_at :: i64
  c_expires_at :: "i64 option"
  c_updated_at :: i64
  c_remaining_budget :: "i64 option"

record policy_row =
  p_session_id :: string
  p_branch_id :: string
  p_current_revision :: i64
  p_updated_at :: i64

record ancestry_row =
  a_capability_id :: string
  a_ancestor_id :: string
  a_depth :: i64

record authorization_row =
  z_capability_id :: string
  z_request_id :: string
  z_request_hash :: string
  z_budget_units :: i64
  z_authorized_at :: i64

record decision_row =
  d_decision_id :: string
  d_capability_id :: "string option"
  d_handle_hash :: string
  d_session_id :: string
  d_branch_id :: string
  d_subject :: string
  d_action :: string
  d_resource :: string
  d_request_id :: string
  d_request_hash :: string
  d_policy_revision :: i64
  d_budget_units :: i64
  d_outcome :: string
  d_reason :: string
  d_decided_at :: i64

record intent_row =
  i_id :: string
  i_session_id :: string
  i_branch_id :: string
  i_capability_id :: "string option"
  i_operation_id :: string
  i_replay_key :: string
  i_action :: string
  i_resource :: string
  i_input_hash :: string
  i_state :: string
  i_result_hash :: "string option"
  i_error_json :: "string option"
  i_policy_revision :: i64
  i_prepared_at :: i64
  i_dispatched_at :: "i64 option"
  i_resolved_at :: "i64 option"
  i_revision :: i64

record attempt_row =
  t_id :: string
  t_effect_id :: string
  t_attempt_no :: i64
  t_state :: string
  t_idempotency_key :: string
  t_response_hash :: "string option"
  t_error_json :: "string option"
  t_started_at :: i64
  t_completed_at :: "i64 option"

record transition_row =
  h_effect_id :: string
  h_sequence :: i64
  h_state :: string
  h_occurred_at :: i64
  h_detail_json :: string

record attempt_history_row =
  ah_effect_id :: string
  ah_attempt_no :: i64
  ah_sequence :: i64
  ah_state :: string
  ah_occurred_at :: i64
  ah_detail_json :: string

record db =
  t_sessions :: "session_row list"
  t_blobs :: "blob_row list"
  t_branches :: "branch_row list"
  t_epochs :: "epoch_row list"
  t_components :: "component_row list"
  t_events :: "event_row list"
  t_capabilities :: "capability_row list"
  t_policies :: "policy_row list"
  t_ancestry :: "ancestry_row list"
  t_authorizations :: "authorization_row list"
  t_decisions :: "decision_row list"
  t_intents :: "intent_row list"
  t_attempts :: "attempt_row list"
  t_transitions :: "transition_row list"
  t_attempt_history :: "attempt_history_row list"

section \<open>Constraint vocabulary\<close>

text \<open>SQLite's \<open>length\<close> of a TEXT value: characters before the first NUL.\<close>

definition sql_length :: "string \<Rightarrow> nat" where
  "sql_length s = length (utf8_scalars (takeWhile (\<lambda>c. byte c \<noteq> 0) s))"

definition length_between :: "string \<Rightarrow> nat \<Rightarrow> nat \<Rightarrow> bool" where
  "length_between s lo hi \<longleftrightarrow> lo \<le> sql_length s \<and> sql_length s \<le> hi"

definition null_or :: "('a \<Rightarrow> bool) \<Rightarrow> 'a option \<Rightarrow> bool" where
  "null_or P m = (case m of None \<Rightarrow> True | Some x \<Rightarrow> P x)"

lemma null_or_simps [simp]: "null_or P None" "null_or P (Some x) \<longleftrightarrow> P x"
  by (simp_all add: null_or_def)

lemma sql_length_le: "sql_length s \<le> length s"
proof -
  have "length (utf8_scalars (takeWhile (\<lambda>c. byte c \<noteq> 0) s)) \<le> length (takeWhile (\<lambda>c. byte c \<noteq> 0) s)"
    by (rule length_utf8_scalars_le)
  also have "\<dots> \<le> length s" by (rule length_takeWhile_le)
  finally show ?thesis by (simp add: sql_length_def)
qed

definition branch_exists :: "db \<Rightarrow> string \<Rightarrow> string \<Rightarrow> bool" where
  "branch_exists d branch session \<longleftrightarrow>
     list_ex (\<lambda>b. b_id b = branch \<and> b_session_id b = session) (t_branches d)"

definition blob_registered :: "db \<Rightarrow> string \<Rightarrow> bool" where
  "blob_registered d hash \<longleftrightarrow> list_ex (\<lambda>b. bl_hash b = hash) (t_blobs d)"

section \<open>Capability tables\<close>

definition capability_check :: "externals \<Rightarrow> capability_row \<Rightarrow> bool" where
  "capability_check X r \<longleftrightarrow>
     length_between (c_subject r) 1 255 \<and> length_between (c_action r) 1 255 \<and>
     length_between (c_resource r) 1 2048 \<and> sqlite_json_valid X (c_constraints_json r) \<and>
     is_sha256_hex (c_handle_hash r) \<and> null_or (\<lambda>u. 0 \<le> u) (c_remaining_uses r) \<and>
     0 \<le> c_policy_revision r \<and>
     c_status r \<in> {''active'', ''consumed'', ''expired'', ''revoked''} \<and>
     0 \<le> c_issued_at r \<and> null_or (\<lambda>e. c_issued_at r \<le> e) (c_expires_at r) \<and>
     c_issued_at r \<le> c_updated_at r \<and> null_or (\<lambda>u. 0 \<le> u) (c_remaining_budget r)"

definition capability_insert_ok :: "externals \<Rightarrow> db \<Rightarrow> capability_row list \<Rightarrow> capability_row \<Rightarrow> bool" where
  "capability_insert_ok X d rows r \<longleftrightarrow>
     capability_check X r \<and> c_id r \<notin> set (map c_id rows) \<and>
     c_handle_hash r \<notin> set (map c_handle_hash rows) \<and>
     branch_exists d (c_branch_id r) (c_session_id r) \<and>
     null_or (\<lambda>p. p \<in> set (map c_id rows)) (c_delegated_from_id r)"

text \<open>The triggers \<open>capabilities_immutable_scope\<close>, \<open>capabilities_no_counter_increase\<close> and
  \<open>capabilities_no_reactivation\<close>, and the CHECKs of the new row.\<close>

definition counter_not_increased :: "i64 option \<Rightarrow> i64 option \<Rightarrow> bool" where
  "counter_not_increased old new =
     (case old of None \<Rightarrow> True | Some o' \<Rightarrow> (case new of None \<Rightarrow> False | Some n \<Rightarrow> n \<le> o'))"

definition same_scope :: "capability_row \<Rightarrow> capability_row \<Rightarrow> bool" where
  "same_scope old new \<longleftrightarrow>
     c_id new = c_id old \<and> c_session_id new = c_session_id old \<and>
     c_branch_id new = c_branch_id old \<and> c_subject new = c_subject old \<and>
     c_action new = c_action old \<and> c_resource new = c_resource old \<and>
     c_constraints_json new = c_constraints_json old \<and>
     c_handle_hash new = c_handle_hash old \<and>
     c_delegated_from_id new = c_delegated_from_id old \<and>
     c_policy_revision new = c_policy_revision old \<and>
     c_issued_at new = c_issued_at old \<and> c_expires_at new = c_expires_at old"

definition capability_update_ok :: "externals \<Rightarrow> capability_row \<Rightarrow> capability_row \<Rightarrow> bool" where
  "capability_update_ok X old new \<longleftrightarrow>
     capability_check X new \<and> same_scope old new \<and>
     counter_not_increased (c_remaining_uses old) (c_remaining_uses new) \<and>
     counter_not_increased (c_remaining_budget old) (c_remaining_budget new) \<and>
     (c_status old \<noteq> ''active'' \<longrightarrow> c_status new \<noteq> ''active'')"

definition policy_insert_ok :: "db \<Rightarrow> policy_row list \<Rightarrow> policy_row \<Rightarrow> bool" where
  "policy_insert_ok d rows r \<longleftrightarrow>
     0 \<le> p_current_revision r \<and> 0 \<le> p_updated_at r \<and>
     (p_session_id r, p_branch_id r) \<notin> set (map (\<lambda>p. (p_session_id p, p_branch_id p)) rows) \<and>
     branch_exists d (p_branch_id r) (p_session_id r)"

definition policy_update_ok :: "policy_row \<Rightarrow> policy_row \<Rightarrow> bool" where
  "policy_update_ok old new \<longleftrightarrow>
     0 \<le> p_current_revision new \<and> 0 \<le> p_updated_at new \<and>
     p_current_revision old \<le> p_current_revision new"

definition ancestry_insert_ok :: "db \<Rightarrow> ancestry_row list \<Rightarrow> ancestry_row \<Rightarrow> bool" where
  "ancestry_insert_ok d rows r \<longleftrightarrow>
     0 \<le> a_depth r \<and>
     (a_capability_id r, a_ancestor_id r) \<notin> set (map (\<lambda>a. (a_capability_id a, a_ancestor_id a)) rows) \<and>
     (a_capability_id r, a_depth r) \<notin> set (map (\<lambda>a. (a_capability_id a, a_depth a)) rows) \<and>
     a_capability_id r \<in> set (map c_id (t_capabilities d)) \<and>
     a_ancestor_id r \<in> set (map c_id (t_capabilities d))"

definition authorization_insert_ok :: "db \<Rightarrow> authorization_row list \<Rightarrow> authorization_row \<Rightarrow> bool" where
  "authorization_insert_ok d rows r \<longleftrightarrow>
     length_between (z_request_id r) 1 255 \<and> is_sha256_hex (z_request_hash r) \<and>
     1 \<le> z_budget_units r \<and> 0 \<le> z_authorized_at r \<and>
     (z_capability_id r, z_request_id r) \<notin> set (map (\<lambda>z. (z_capability_id z, z_request_id z)) rows) \<and>
     z_capability_id r \<in> set (map c_id (t_capabilities d))"

definition decision_insert_ok :: "db \<Rightarrow> decision_row list \<Rightarrow> decision_row \<Rightarrow> bool" where
  "decision_insert_ok d rows r \<longleftrightarrow>
     d_decision_id r \<notin> set (map d_decision_id rows) \<and> is_sha256_hex (d_handle_hash r) \<and>
     length_between (d_subject r) 1 255 \<and> length_between (d_action r) 1 255 \<and>
     length_between (d_resource r) 1 2048 \<and> length_between (d_request_id r) 1 255 \<and>
     is_sha256_hex (d_request_hash r) \<and> 0 \<le> d_policy_revision r \<and> 1 \<le> d_budget_units r \<and>
     d_outcome r \<in> {''allow'', ''deny''} \<and> length_between (d_reason r) 1 64 \<and>
     0 \<le> d_decided_at r \<and>
     null_or (\<lambda>c. c \<in> set (map c_id (t_capabilities d))) (d_capability_id r)"

lemmas capability_table_defs =
  capability_insert_ok_def capability_update_ok_def policy_insert_ok_def policy_update_ok_def
  ancestry_insert_ok_def authorization_insert_ok_def decision_insert_ok_def

end
