(* ===== verification/Epoch_Capabilities.thy ===== *)
theory Epoch_Capabilities
  imports Epoch_Schema
begin

text \<open>
  The crate \<open>epoch-capabilities\<close>: opaque handles, issue, attenuation, revocation and the
  check-and-consume authorization, each as the transaction the code runs on the trusted database.
  What the host supplies to a call is an argument: the clock reading, the fresh identifiers, the
  random bytes, and whether the store mutex is poisoned.
\<close>

section \<open>Values\<close>

datatype capability_error =
    CStorage
  | CDatabase
  | CInvalidField string
  | CInvalidExpiration
  | CInvalidClock
  | CRandomnessUnavailable
  | CPolicyNotInitialized
  | CPolicyRevisionRollback u64 u64
  | CPolicyNotCurrent u64 u64
  | CUnknownParentCapability
  | CCapabilityNotFound capability_id
  | CInactiveParentCapability
  | CAttenuationWouldWiden string
  | CCorruptRecord string
  | CConcurrentAuthorityChange
  | CLockPoisoned

type_synonym 'a cap_result = "(capability_error, 'a) result"

definition handle_prefix :: string where
  "handle_prefix = ''ecap_v1_''"

datatype capability_handle = CapabilityHandle (expose: string)

definition handle_generate :: "string option \<Rightarrow> capability_handle cap_result" where
  "handle_generate secret =
     rbind (ok_or secret CRandomnessUnavailable)
       (\<lambda>bs. Inr (CapabilityHandle (handle_prefix @ encode_hex bs)))"

definition handle_digest :: "externals \<Rightarrow> capability_handle \<Rightarrow> string" where
  "handle_digest X h = sha256_hex X (expose h)"

definition handle_from_str :: "string \<Rightarrow> capability_handle option" where
  "handle_from_str value =
     (case strip_prefix handle_prefix value of
        None \<Rightarrow> None
      | Some secret \<Rightarrow>
          if length secret \<noteq> 64 \<or> \<not> list_all is_hex_byte secret then None
          else Some (CapabilityHandle value))"

record capability_constraints =
  cc_max_uses :: "u64 option"
  cc_budget_units :: "u64 option"

record issue_request =
  q_session_id :: session_id
  q_branch_id :: branch_id
  q_subject :: string
  q_action :: string
  q_resource :: string
  q_constraints :: capability_constraints
  q_expires_at :: "i64 option"
  q_policy_revision :: u64

record issued_capability =
  issued_id :: capability_id
  issued_handle :: capability_handle

datatype capability_state = CapActive | CapConsumed | CapExpired | CapRevoked

definition capability_state_parse :: "string \<Rightarrow> capability_state cap_result" where
  "capability_state_parse value =
     (if value = ''active'' then Inr CapActive
      else if value = ''consumed'' then Inr CapConsumed
      else if value = ''expired'' then Inr CapExpired
      else if value = ''revoked'' then Inr CapRevoked
      else Inl (CCorruptRecord ''capabilities.status''))"

datatype decision_outcome = Allow | Deny

datatype denial_reason =
    Allowed | UnknownHandle | SessionMismatch | BranchMismatch | SubjectMismatch | ActionMismatch
  | ResourceMismatch | RevokedReason | ExpiredReason | ConsumedReason | AncestorRevoked
  | AncestorExpired | AncestorConsumed | PolicyUnavailable | PolicyStale | PolicyRevisionMismatch
  | BudgetExceeded | RequestAlreadyAuthorized | CorruptAuthority

fun denial_as_str :: "denial_reason \<Rightarrow> string" where
  "denial_as_str Allowed = ''allowed''"
| "denial_as_str UnknownHandle = ''unknown_handle''"
| "denial_as_str SessionMismatch = ''session_mismatch''"
| "denial_as_str BranchMismatch = ''branch_mismatch''"
| "denial_as_str SubjectMismatch = ''subject_mismatch''"
| "denial_as_str ActionMismatch = ''action_mismatch''"
| "denial_as_str ResourceMismatch = ''resource_mismatch''"
| "denial_as_str RevokedReason = ''revoked''"
| "denial_as_str ExpiredReason = ''expired''"
| "denial_as_str ConsumedReason = ''consumed''"
| "denial_as_str AncestorRevoked = ''ancestor_revoked''"
| "denial_as_str AncestorExpired = ''ancestor_expired''"
| "denial_as_str AncestorConsumed = ''ancestor_consumed''"
| "denial_as_str PolicyUnavailable = ''policy_unavailable''"
| "denial_as_str PolicyStale = ''policy_stale''"
| "denial_as_str PolicyRevisionMismatch = ''policy_revision_mismatch''"
| "denial_as_str BudgetExceeded = ''budget_exceeded''"
| "denial_as_str RequestAlreadyAuthorized = ''request_already_authorized''"
| "denial_as_str CorruptAuthority = ''corrupt_authority''"

definition denial_from_str :: "string \<Rightarrow> denial_reason cap_result" where
  "denial_from_str v =
     (if v = ''allowed'' then Inr Allowed
      else if v = ''unknown_handle'' then Inr UnknownHandle
      else if v = ''session_mismatch'' then Inr SessionMismatch
      else if v = ''branch_mismatch'' then Inr BranchMismatch
      else if v = ''subject_mismatch'' then Inr SubjectMismatch
      else if v = ''action_mismatch'' then Inr ActionMismatch
      else if v = ''resource_mismatch'' then Inr ResourceMismatch
      else if v = ''revoked'' then Inr RevokedReason
      else if v = ''expired'' then Inr ExpiredReason
      else if v = ''consumed'' then Inr ConsumedReason
      else if v = ''ancestor_revoked'' then Inr AncestorRevoked
      else if v = ''ancestor_expired'' then Inr AncestorExpired
      else if v = ''ancestor_consumed'' then Inr AncestorConsumed
      else if v = ''policy_unavailable'' then Inr PolicyUnavailable
      else if v = ''policy_stale'' then Inr PolicyStale
      else if v = ''policy_revision_mismatch'' then Inr PolicyRevisionMismatch
      else if v = ''budget_exceeded'' then Inr BudgetExceeded
      else if v = ''request_already_authorized'' then Inr RequestAlreadyAuthorized
      else if v = ''corrupt_authority'' then Inr CorruptAuthority
      else Inl (CCorruptRecord ''capability_decisions.reason''))"

record capability_decision =
  dec_outcome :: decision_outcome
  dec_reason :: denial_reason
  dec_capability_id :: "capability_id option"

section \<open>Field validation\<close>

definition validate_text :: "string \<Rightarrow> string \<Rightarrow> nat \<Rightarrow> unit cap_result" where
  "validate_text field value maximum =
     (if value = [] \<or> maximum < length value \<or> has_control value \<or> trim value \<noteq> value
      then Inl (CInvalidField field) else Inr ())"

definition validate_digest :: "string \<Rightarrow> unit cap_result" where
  "validate_digest value =
     (if length value = 64 \<and> list_all is_hex_byte value then Inr ()
      else Inl (CInvalidField ''request_hash''))"

definition i64_from_u64 :: "string \<Rightarrow> u64 \<Rightarrow> i64 cap_result" where
  "i64_from_u64 field value = ok_or (i64_of_u64 value) (CInvalidField field)"

definition positive_i64 :: "string \<Rightarrow> u64 \<Rightarrow> i64 cap_result" where
  "positive_i64 field value =
     (if value = 0 then Inl (CInvalidField field) else i64_from_u64 field value)"

definition stored_u64 :: "string \<Rightarrow> i64 \<Rightarrow> u64 cap_result" where
  "stored_u64 field value = ok_or (u64_of_i64 value) (CCorruptRecord field)"

text \<open>\<open>u64::try_from(value).unwrap_or(u64::MAX)\<close>.\<close>

definition u64_or_max :: "i64 \<Rightarrow> u64" where
  "u64_or_max v = (case u64_of_i64 v of None \<Rightarrow> - 1 | Some w \<Rightarrow> w)"

record capability_use =
  use_session_id :: session_id
  use_branch_id :: branch_id
  use_subject :: string
  use_action :: string
  use_resource :: string
  use_policy_revision :: u64
  use_budget_units :: u64
  use_request_id :: string
  use_request_hash :: string

definition capability_use_new ::
  "session_id \<Rightarrow> branch_id \<Rightarrow> string \<Rightarrow> string \<Rightarrow> string \<Rightarrow> u64 \<Rightarrow> u64 \<Rightarrow> string \<Rightarrow> string \<Rightarrow>
   capability_use cap_result" where
  "capability_use_new session branch subject action resource revision budget request hash =
     rbind (validate_text ''subject'' subject 255) (\<lambda>_.
     rbind (validate_text ''action'' action 255) (\<lambda>_.
     rbind (validate_text ''resource'' resource 2048) (\<lambda>_.
     rbind (validate_text ''request_id'' request 255) (\<lambda>_.
     rbind (validate_digest hash) (\<lambda>_.
     if budget = 0 then Inl (CInvalidField ''budget_units'') else
     rbind (i64_from_u64 ''policy_revision'' revision) (\<lambda>_.
     rbind (i64_from_u64 ''budget_units'' budget) (\<lambda>_.
     Inr \<lparr>use_session_id = session, use_branch_id = branch, use_subject = subject,
          use_action = action, use_resource = resource, use_policy_revision = revision,
          use_budget_units = budget, use_request_id = request, use_request_hash = hash\<rparr>)))))))"

section \<open>Stored capabilities\<close>

record stored_capability =
  st_id :: capability_id
  st_session_id :: session_id
  st_branch_id :: branch_id
  st_subject :: string
  st_action :: string
  st_resource :: string
  st_remaining_uses :: "i64 option"
  st_remaining_budget :: "i64 option"
  st_policy_revision :: i64
  st_status :: capability_state
  st_expires_at :: "i64 option"

definition parse_capability_id :: "externals \<Rightarrow> string \<Rightarrow> capability_id cap_result" where
  "parse_capability_id X value = ok_or (id_parse X value) (CCorruptRecord ''capabilities.id'')"

definition stored_capability_from_raw ::
  "externals \<Rightarrow> capability_row \<Rightarrow> stored_capability cap_result" where
  "stored_capability_from_raw X raw =
     rbind (parse_capability_id X (c_id raw)) (\<lambda>cid.
     rbind (ok_or (id_parse X (c_session_id raw)) (CCorruptRecord ''capabilities.session_id'')) (\<lambda>sid.
     rbind (ok_or (id_parse X (c_branch_id raw)) (CCorruptRecord ''capabilities.branch_id'')) (\<lambda>bid.
     rbind (capability_state_parse (c_status raw)) (\<lambda>status.
     Inr \<lparr>st_id = cid, st_session_id = sid, st_branch_id = bid, st_subject = c_subject raw,
          st_action = c_action raw, st_resource = c_resource raw,
          st_remaining_uses = c_remaining_uses raw, st_remaining_budget = c_remaining_budget raw,
          st_policy_revision = c_policy_revision raw, st_status = status,
          st_expires_at = c_expires_at raw\<rparr>))))"

definition load_capability_by_hash ::
  "externals \<Rightarrow> db \<Rightarrow> string \<Rightarrow> stored_capability option cap_result" where
  "load_capability_by_hash X d hash =
     option_try (stored_capability_from_raw X) (by_key c_handle_hash hash (t_capabilities d))"

definition load_capability_by_id ::
  "externals \<Rightarrow> db \<Rightarrow> capability_id \<Rightarrow> stored_capability option cap_result" where
  "load_capability_by_id X d cid =
     option_try (stored_capability_from_raw X) (by_key c_id (id_to_string X cid) (t_capabilities d))"

text \<open>The join of the ancestry rows of a capability, by depth, with the capability rows.\<close>

definition ancestor_rows :: "db \<Rightarrow> string \<Rightarrow> capability_row list" where
  "ancestor_rows d cid =
     concat (map (\<lambda>a. filter (\<lambda>c. c_id c = a_ancestor_id a) (t_capabilities d))
       (sort_key a_depth (filter (\<lambda>a. a_capability_id a = cid) (t_ancestry d))))"

definition load_ancestors :: "externals \<Rightarrow> db \<Rightarrow> capability_id \<Rightarrow> stored_capability list cap_result" where
  "load_ancestors X d cid =
     list_try (stored_capability_from_raw X) (ancestor_rows d (id_to_string X cid))"

definition current_policy :: "externals \<Rightarrow> db \<Rightarrow> session_id \<Rightarrow> branch_id \<Rightarrow> i64 option" where
  "current_policy X d session branch =
     map_option p_current_revision
       (find (\<lambda>p. p_session_id p = id_to_string X session \<and> p_branch_id p = id_to_string X branch)
         (t_policies d))"

section \<open>Service plumbing\<close>

definition service_now :: "i64 \<Rightarrow> i64 cap_result" where
  "service_now clock = (if clock < 0 then Inl CInvalidClock else Inr clock)"

definition lock_store :: "bool \<Rightarrow> unit cap_result" where
  "lock_store poisoned = (if poisoned then Inl CLockPoisoned else Inr ())"

text \<open>A statement refused by the database is \<open>CapabilityError::Database\<close>.\<close>

definition sql :: "'a option \<Rightarrow> 'a cap_result" where
  "sql m = ok_or m CDatabase"

definition update_capabilities ::
  "externals \<Rightarrow> (capability_row \<Rightarrow> bool) \<Rightarrow> (capability_row \<Rightarrow> capability_row) \<Rightarrow> db \<Rightarrow>
   (nat \<times> db) cap_result" where
  "update_capabilities X P f d =
     rbind (sql (sql_update (capability_update_ok X) P f (t_capabilities d)))
       (\<lambda>(n, rows). Inr (n, d\<lparr>t_capabilities := rows\<rparr>))"

section \<open>Policy revisions\<close>

definition set_policy_revision ::
  "externals \<Rightarrow> bool \<Rightarrow> i64 \<Rightarrow> session_id \<Rightarrow> branch_id \<Rightarrow> u64 \<Rightarrow> db \<Rightarrow> (unit \<times> db) cap_result" where
  "set_policy_revision X poisoned clock session branch revision d =
     rbind (i64_from_u64 ''policy_revision'' revision) (\<lambda>rev.
     rbind (service_now clock) (\<lambda>now.
     rbind (lock_store poisoned) (\<lambda>_.
       case current_policy X d session branch of
         Some current \<Rightarrow>
           if rev < current then
             Inl (CPolicyRevisionRollback (u64_or_max current) (u64_or_max rev))
           else if rev = current then Inr ((), d)
           else
             rbind (sql (sql_update policy_update_ok
                 (\<lambda>p. p_session_id p = id_to_string X session \<and> p_branch_id p = id_to_string X branch)
                 (\<lambda>p. p\<lparr>p_current_revision := rev, p_updated_at := now\<rparr>) (t_policies d)))
               (\<lambda>(_, rows). Inr ((), d\<lparr>t_policies := rows\<rparr>))
       | None \<Rightarrow>
           rbind (sql (sql_insert (policy_insert_ok d)
               \<lparr>p_session_id = id_to_string X session, p_branch_id = id_to_string X branch,
                p_current_revision = rev, p_updated_at = now\<rparr> (t_policies d)))
             (\<lambda>rows. Inr ((), d\<lparr>t_policies := rows\<rparr>)))))"

section \<open>Issue and attenuation\<close>

record validated_issue =
  v_session_id :: session_id
  v_branch_id :: branch_id
  v_subject :: string
  v_action :: string
  v_resource :: string
  v_constraints_json :: string
  v_remaining_uses :: "i64 option"
  v_remaining_budget :: "i64 option"
  v_expires_at :: "i64 option"
  v_policy_revision :: i64
  v_issued_at :: i64

definition json_of_u64_option :: "u64 option \<Rightarrow> json" where
  "json_of_u64_option m = (case m of None \<Rightarrow> JNull | Some v \<Rightarrow> JNumber (PosInt v))"

definition validated_issue_new :: "externals \<Rightarrow> issue_request \<Rightarrow> i64 \<Rightarrow> validated_issue cap_result" where
  "validated_issue_new X request now =
     rbind (validate_text ''subject'' (q_subject request) 255) (\<lambda>_.
     rbind (validate_text ''action'' (q_action request) 255) (\<lambda>_.
     rbind (validate_text ''resource'' (q_resource request) 2048) (\<lambda>_.
     rbind (option_try (positive_i64 ''max_uses'') (cc_max_uses (q_constraints request))) (\<lambda>uses.
     rbind (option_try (positive_i64 ''budget_units'') (cc_budget_units (q_constraints request))) (\<lambda>budget.
     if \<not> null_or (\<lambda>e. now < e) (q_expires_at request) then Inl CInvalidExpiration else
     rbind (i64_from_u64 ''policy_revision'' (q_policy_revision request)) (\<lambda>rev.
     Inr \<lparr>v_session_id = q_session_id request, v_branch_id = q_branch_id request,
          v_subject = q_subject request, v_action = q_action request,
          v_resource = q_resource request,
          v_constraints_json = json_to_string X (JObject
            [(''budget_units'', json_of_u64_option (cc_budget_units (q_constraints request))),
             (''max_uses'', json_of_u64_option (cc_max_uses (q_constraints request)))]),
          v_remaining_uses = uses, v_remaining_budget = budget,
          v_expires_at = q_expires_at request, v_policy_revision = rev, v_issued_at = now\<rparr>))))))"

definition require_current_policy ::
  "externals \<Rightarrow> db \<Rightarrow> issue_request \<Rightarrow> i64 \<Rightarrow> unit cap_result" where
  "require_current_policy X d request requested =
     rbind (ok_or (current_policy X d (q_session_id request) (q_branch_id request))
         CPolicyNotInitialized) (\<lambda>current.
       if current = requested then Inr ()
       else Inl (CPolicyNotCurrent (u64_or_max current) (q_policy_revision request)))"

definition insert_capability ::
  "externals \<Rightarrow> validated_issue \<Rightarrow> capability_id option \<Rightarrow> capability_id \<Rightarrow> string option \<Rightarrow> db \<Rightarrow>
   (issued_capability \<times> db) cap_result" where
  "insert_capability X request delegated new_id secret d =
     rbind (handle_generate secret) (\<lambda>handle.
     rbind (sql (sql_insert (capability_insert_ok X d)
         \<lparr>c_id = id_to_string X new_id, c_session_id = id_to_string X (v_session_id request),
          c_branch_id = id_to_string X (v_branch_id request), c_subject = v_subject request,
          c_action = v_action request, c_resource = v_resource request,
          c_constraints_json = v_constraints_json request, c_handle_hash = handle_digest X handle,
          c_delegated_from_id = map_option (id_to_string X) delegated,
          c_remaining_uses = v_remaining_uses request,
          c_policy_revision = v_policy_revision request, c_status = ''active'',
          c_issued_at = v_issued_at request, c_expires_at = v_expires_at request,
          c_updated_at = v_issued_at request, c_remaining_budget = v_remaining_budget request\<rparr>
         (t_capabilities d))) (\<lambda>rows.
       Inr (\<lparr>issued_id = new_id, issued_handle = handle\<rparr>, d\<lparr>t_capabilities := rows\<rparr>)))"

fun insert_ancestry :: "ancestry_row list \<Rightarrow> db \<Rightarrow> db cap_result" where
  "insert_ancestry [] d = Inr d"
| "insert_ancestry (r # rs) d =
     rbind (sql (sql_insert (ancestry_insert_ok d) r (t_ancestry d)))
       (\<lambda>rows. insert_ancestry rs (d\<lparr>t_ancestry := rows\<rparr>))"

definition self_ancestry :: "string \<Rightarrow> ancestry_row" where
  "self_ancestry cid = \<lparr>a_capability_id = cid, a_ancestor_id = cid, a_depth = 0\<rparr>"

definition issue ::
  "externals \<Rightarrow> bool \<Rightarrow> i64 \<Rightarrow> capability_id \<Rightarrow> string option \<Rightarrow> issue_request \<Rightarrow> db \<Rightarrow>
   (issued_capability \<times> db) cap_result" where
  "issue X poisoned clock new_id secret request d =
     rbind (service_now clock) (\<lambda>now.
     rbind (validated_issue_new X request now) (\<lambda>validated.
     rbind (lock_store poisoned) (\<lambda>_.
     rbind (require_current_policy X d request (v_policy_revision validated)) (\<lambda>_.
     rbind (insert_capability X validated None new_id secret d) (\<lambda>(issued, d1).
     rbind (insert_ancestry [self_ancestry (id_to_string X (issued_id issued))] d1) (\<lambda>d2.
     Inr (issued, d2)))))))"

text \<open>\<open>mark_expired\<close> and \<open>mark_consumed\<close>: the number of changed rows is ignored.\<close>

definition mark_status :: "externals \<Rightarrow> string \<Rightarrow> capability_id \<Rightarrow> i64 \<Rightarrow> db \<Rightarrow> (nat \<times> db) cap_result" where
  "mark_status X status cid now d =
     update_capabilities X
       (\<lambda>c. c_id c = id_to_string X cid \<and> c_status c = ''active'')
       (\<lambda>c. c\<lparr>c_status := status, c_updated_at := now\<rparr>) d"

definition mark_expired :: "externals \<Rightarrow> capability_id \<Rightarrow> i64 \<Rightarrow> db \<Rightarrow> db cap_result" where
  "mark_expired X cid now d = rbind (mark_status X ''expired'' cid now d) (\<lambda>(_, d'). Inr d')"

definition mark_consumed :: "externals \<Rightarrow> capability_id \<Rightarrow> i64 \<Rightarrow> db \<Rightarrow> db cap_result" where
  "mark_consumed X cid now d = rbind (mark_status X ''consumed'' cid now d) (\<lambda>(_, d'). Inr d')"

definition exhausted :: "stored_capability \<Rightarrow> bool" where
  "exhausted c \<longleftrightarrow> st_remaining_uses c = Some 0 \<or> st_remaining_budget c = Some 0"

definition past_expiry :: "i64 \<Rightarrow> stored_capability \<Rightarrow> bool" where
  "past_expiry now c \<longleftrightarrow> (case st_expires_at c of None \<Rightarrow> False | Some e \<Rightarrow> e \<le> now)"

definition direct_state_denial ::
  "externals \<Rightarrow> stored_capability \<Rightarrow> i64 \<Rightarrow> db \<Rightarrow> (denial_reason option \<times> db) cap_result" where
  "direct_state_denial X c now d =
     (case st_status c of
        CapRevoked \<Rightarrow> Inr (Some RevokedReason, d)
      | CapExpired \<Rightarrow> Inr (Some ExpiredReason, d)
      | CapConsumed \<Rightarrow> Inr (Some ConsumedReason, d)
      | CapActive \<Rightarrow>
          if exhausted c then
            rbind (mark_consumed X (st_id c) now d) (\<lambda>d'. Inr (Some ConsumedReason, d'))
          else if past_expiry now c then
            rbind (mark_expired X (st_id c) now d) (\<lambda>d'. Inr (Some ExpiredReason, d'))
          else Inr (None, d))"

text \<open>The loop of \<open>ancestor_denial\<close> over the ancestors past the capability itself.\<close>

fun ancestor_denial_loop ::
  "externals \<Rightarrow> stored_capability list \<Rightarrow> i64 \<Rightarrow> db \<Rightarrow> (denial_reason option \<times> db) cap_result" where
  "ancestor_denial_loop X [] now d = Inr (None, d)"
| "ancestor_denial_loop X (a # as) now d =
     (case st_status a of
        CapRevoked \<Rightarrow> Inr (Some AncestorRevoked, d)
      | CapExpired \<Rightarrow> Inr (Some AncestorExpired, d)
      | CapConsumed \<Rightarrow> Inr (Some AncestorConsumed, d)
      | CapActive \<Rightarrow>
          if exhausted a then
            rbind (mark_consumed X (st_id a) now d) (\<lambda>d'. Inr (Some AncestorConsumed, d'))
          else if past_expiry now a then
            rbind (mark_expired X (st_id a) now d) (\<lambda>d'. Inr (Some AncestorExpired, d'))
          else ancestor_denial_loop X as now d)"

definition ancestor_denial ::
  "externals \<Rightarrow> stored_capability list \<Rightarrow> i64 \<Rightarrow> db \<Rightarrow> (denial_reason option \<times> db) cap_result" where
  "ancestor_denial X ancestors now d = ancestor_denial_loop X (drop 1 ancestors) now d"

text \<open>\<open>ancestors.first().is_none_or(|ancestor| ancestor.id != id)\<close>, negated.\<close>

definition starts_with_self :: "stored_capability list \<Rightarrow> capability_id \<Rightarrow> bool" where
  "starts_with_self ancestors cid = (case ancestors of [] \<Rightarrow> False | a # _ \<Rightarrow> st_id a = cid)"

definition require_narrower_limit :: "i64 option \<Rightarrow> i64 option \<Rightarrow> string \<Rightarrow> unit cap_result" where
  "require_narrower_limit child parent field =
     (case parent of
        None \<Rightarrow> Inr ()
      | Some p \<Rightarrow> (case child of
          None \<Rightarrow> Inl (CAttenuationWouldWiden field)
        | Some c \<Rightarrow> if p < c then Inl (CAttenuationWouldWiden field) else Inr ()))"

definition validate_attenuation ::
  "externals \<Rightarrow> stored_capability \<Rightarrow> validated_issue \<Rightarrow> i64 \<Rightarrow> db \<Rightarrow> db cap_result" where
  "validate_attenuation X parent child now d =
     rbind (direct_state_denial X parent now d) (\<lambda>(denial, d1).
     if denial \<noteq> None then Inl CInactiveParentCapability else
     rbind (load_ancestors X d1 (st_id parent)) (\<lambda>ancestors.
     if \<not> starts_with_self ancestors (st_id parent)
       then Inl (CCorruptRecord ''capability_ancestry'') else
     rbind (ancestor_denial X ancestors now d1) (\<lambda>(adenial, d2).
     if adenial \<noteq> None then Inl CInactiveParentCapability
     else if st_session_id parent \<noteq> v_session_id child then Inl (CAttenuationWouldWiden ''session_id'')
     else if st_branch_id parent \<noteq> v_branch_id child then Inl (CAttenuationWouldWiden ''branch_id'')
     else if st_subject parent \<noteq> v_subject child then Inl (CAttenuationWouldWiden ''subject'')
     else if st_action parent \<noteq> v_action child then Inl (CAttenuationWouldWiden ''action'')
     else if st_resource parent \<noteq> v_resource child then Inl (CAttenuationWouldWiden ''resource'')
     else if st_policy_revision parent \<noteq> v_policy_revision child
       then Inl (CAttenuationWouldWiden ''policy_revision'') else
     rbind (require_narrower_limit (v_remaining_uses child) (st_remaining_uses parent) ''max_uses'') (\<lambda>_.
     rbind (require_narrower_limit (v_remaining_budget child) (st_remaining_budget parent)
         ''budget_units'') (\<lambda>_.
     rbind (require_narrower_limit (v_expires_at child) (st_expires_at parent)
         ''expires_at_unix_ms'') (\<lambda>_.
     rbind (ok_or (current_policy X d2 (st_session_id parent) (st_branch_id parent))
         CPolicyNotInitialized) (\<lambda>current.
     if current \<noteq> st_policy_revision parent then Inl CInactiveParentCapability else Inr d2)))))))"

text \<open>\<open>INSERT .. SELECT ?1, ancestor_id, depth + 1 .. WHERE capability_id = ?2\<close>.\<close>

definition inherited_ancestry :: "string \<Rightarrow> string \<Rightarrow> db \<Rightarrow> ancestry_row list" where
  "inherited_ancestry child parent d =
     map (\<lambda>a. \<lparr>a_capability_id = child, a_ancestor_id = a_ancestor_id a, a_depth = a_depth a + 1\<rparr>)
       (filter (\<lambda>a. a_capability_id a = parent) (t_ancestry d))"

definition attenuate ::
  "externals \<Rightarrow> bool \<Rightarrow> i64 \<Rightarrow> capability_id \<Rightarrow> string option \<Rightarrow> capability_handle \<Rightarrow> issue_request \<Rightarrow>
   db \<Rightarrow> (issued_capability \<times> db) cap_result" where
  "attenuate X poisoned clock new_id secret parent_handle request d =
     rbind (service_now clock) (\<lambda>now.
     rbind (validated_issue_new X request now) (\<lambda>validated.
     rbind (lock_store poisoned) (\<lambda>_.
     rbind (load_capability_by_hash X d (handle_digest X parent_handle)) (\<lambda>found.
     rbind (ok_or found CUnknownParentCapability) (\<lambda>parent.
     rbind (validate_attenuation X parent validated now d) (\<lambda>d1.
     rbind (insert_capability X validated (Some (st_id parent)) new_id secret d1) (\<lambda>(issued, d2).
     rbind (insert_ancestry
         (inherited_ancestry (id_to_string X (issued_id issued)) (id_to_string X (st_id parent)) d2)
         d2) (\<lambda>d3.
     rbind (insert_ancestry [self_ancestry (id_to_string X (issued_id issued))] d3) (\<lambda>d4.
     Inr (issued, d4))))))))))"

section \<open>Revocation\<close>

definition revoke :: "externals \<Rightarrow> bool \<Rightarrow> i64 \<Rightarrow> capability_handle \<Rightarrow> db \<Rightarrow> (unit \<times> db) cap_result" where
  "revoke X poisoned clock handle d =
     rbind (service_now clock) (\<lambda>now.
     rbind (lock_store poisoned) (\<lambda>_.
     rbind (load_capability_by_hash X d (handle_digest X handle)) (\<lambda>found.
     rbind (ok_or found CUnknownParentCapability) (\<lambda>c.
     if st_status c = CapActive then
       rbind (mark_status X ''revoked'' (st_id c) now d) (\<lambda>(_, d'). Inr ((), d'))
     else Inr ((), d)))))"

definition revoke_by_id ::
  "externals \<Rightarrow> bool \<Rightarrow> i64 \<Rightarrow> capability_id \<Rightarrow> db \<Rightarrow> (unit \<times> db) cap_result" where
  "revoke_by_id X poisoned clock cid d =
     rbind (service_now clock) (\<lambda>now.
     rbind (lock_store poisoned) (\<lambda>_.
     rbind (load_capability_by_id X d cid) (\<lambda>found.
     rbind (ok_or found (CCapabilityNotFound cid)) (\<lambda>c.
     if st_status c = CapActive then
       rbind (mark_status X ''revoked'' cid now d) (\<lambda>(changed, d').
       if changed \<noteq> 1 then Inl CConcurrentAuthorityChange else Inr ((), d'))
     else Inr ((), d)))))"

section \<open>Inspection\<close>

record capability_snapshot =
  sn_capability_id :: capability_id
  sn_session_id :: session_id
  sn_branch_id :: branch_id
  sn_subject :: string
  sn_action :: string
  sn_resource :: string
  sn_remaining_uses :: "u64 option"
  sn_remaining_budget :: "u64 option"
  sn_policy_revision :: u64
  sn_state :: capability_state
  sn_expires_at :: "i64 option"

definition snapshot_of :: "stored_capability \<Rightarrow> capability_snapshot cap_result" where
  "snapshot_of c =
     rbind (option_try (stored_u64 ''capabilities.remaining_uses'') (st_remaining_uses c)) (\<lambda>uses.
     rbind (option_try (stored_u64 ''capabilities.remaining_budget_units'') (st_remaining_budget c)) (\<lambda>budget.
     rbind (stored_u64 ''capabilities.policy_revision'' (st_policy_revision c)) (\<lambda>rev.
     Inr \<lparr>sn_capability_id = st_id c, sn_session_id = st_session_id c, sn_branch_id = st_branch_id c,
          sn_subject = st_subject c, sn_action = st_action c, sn_resource = st_resource c,
          sn_remaining_uses = uses, sn_remaining_budget = budget, sn_policy_revision = rev,
          sn_state = st_status c, sn_expires_at = st_expires_at c\<rparr>)))"

definition inspect_capability ::
  "externals \<Rightarrow> bool \<Rightarrow> capability_id \<Rightarrow> db \<Rightarrow> capability_snapshot cap_result" where
  "inspect_capability X poisoned cid d =
     rbind (lock_store poisoned) (\<lambda>_.
     rbind (load_capability_by_id X d cid) (\<lambda>found.
     rbind (ok_or found (CCapabilityNotFound cid)) snapshot_of))"

section \<open>Authorization\<close>

datatype authority_evaluation =
    EvalDeny denial_reason
  | EvalAllow "stored_capability list" i64

definition binding_denial :: "stored_capability \<Rightarrow> capability_use \<Rightarrow> denial_reason option" where
  "binding_denial c request =
     (if st_session_id c \<noteq> use_session_id request then Some SessionMismatch
      else if st_branch_id c \<noteq> use_branch_id request then Some BranchMismatch
      else if st_subject c \<noteq> use_subject request then Some SubjectMismatch
      else if st_action c \<noteq> use_action request then Some ActionMismatch
      else if st_resource c \<noteq> use_resource request then Some ResourceMismatch
      else None)"

definition policy_denial ::
  "externals \<Rightarrow> db \<Rightarrow> stored_capability \<Rightarrow> capability_use \<Rightarrow> denial_reason option cap_result" where
  "policy_denial X d c request =
     (case current_policy X d (st_session_id c) (st_branch_id c) of
        None \<Rightarrow> Inr (Some PolicyUnavailable)
      | Some current \<Rightarrow>
          if current \<noteq> st_policy_revision c then Inr (Some PolicyStale)
          else rbind (i64_from_u64 ''policy_revision'' (use_policy_revision request)) (\<lambda>rev.
            Inr (if current \<noteq> rev then Some PolicyRevisionMismatch else None)))"

definition already_authorized :: "externals \<Rightarrow> db \<Rightarrow> capability_id \<Rightarrow> string \<Rightarrow> bool" where
  "already_authorized X d cid request \<longleftrightarrow>
     list_ex (\<lambda>z. z_capability_id z = id_to_string X cid \<and> z_request_id z = request)
       (t_authorizations d)"

definition over_budget :: "i64 \<Rightarrow> stored_capability \<Rightarrow> bool" where
  "over_budget requested a =
     (case st_remaining_budget a of None \<Rightarrow> False | Some remaining \<Rightarrow> remaining < requested)"

definition evaluate_authority ::
  "externals \<Rightarrow> stored_capability \<Rightarrow> capability_use \<Rightarrow> i64 \<Rightarrow> db \<Rightarrow>
   (authority_evaluation \<times> db) cap_result" where
  "evaluate_authority X c request now d =
     (case binding_denial c request of
        Some reason \<Rightarrow> Inr (EvalDeny reason, d)
      | None \<Rightarrow>
     rbind (direct_state_denial X c now d) (\<lambda>(direct, d1).
     case direct of
       Some reason \<Rightarrow> Inr (EvalDeny reason, d1)
     | None \<Rightarrow>
     rbind (policy_denial X d1 c request) (\<lambda>policy.
     case policy of
       Some reason \<Rightarrow> Inr (EvalDeny reason, d1)
     | None \<Rightarrow>
     rbind (load_ancestors X d1 (st_id c)) (\<lambda>ancestors.
     if \<not> starts_with_self ancestors (st_id c) then Inr (EvalDeny CorruptAuthority, d1) else
     rbind (ancestor_denial X ancestors now d1) (\<lambda>(ancestral, d2).
     case ancestral of
       Some reason \<Rightarrow> Inr (EvalDeny reason, d2)
     | None \<Rightarrow>
     if already_authorized X d2 (st_id c) (use_request_id request)
       then Inr (EvalDeny RequestAlreadyAuthorized, d2) else
     rbind (i64_from_u64 ''budget_units'' (use_budget_units request)) (\<lambda>requested.
     if list_ex (over_budget requested) ancestors then Inr (EvalDeny BudgetExceeded, d2)
     else Inr (EvalAllow ancestors requested, d2)))))))"

definition consume_counter ::
  "externals \<Rightarrow> i64 \<Rightarrow> i64 \<Rightarrow> stored_capability \<Rightarrow> db \<Rightarrow> db cap_result" where
  "consume_counter X budget now c d =
     (let uses = map_option (\<lambda>r. r - 1) (st_remaining_uses c);
          remaining = map_option (\<lambda>r. r - budget) (st_remaining_budget c);
          status = (if uses = Some 0 \<or> remaining = Some 0 then ''consumed'' else ''active'')
      in rbind (update_capabilities X
            (\<lambda>r. c_id r = id_to_string X (st_id c) \<and> c_status r = ''active'')
            (\<lambda>r. r\<lparr>c_remaining_uses := uses, c_remaining_budget := remaining,
                  c_status := status, c_updated_at := now\<rparr>) d)
          (\<lambda>(changed, d'). if changed = 1 then Inr d' else Inl CConcurrentAuthorityChange))"

fun consume_all :: "externals \<Rightarrow> i64 \<Rightarrow> i64 \<Rightarrow> stored_capability list \<Rightarrow> db \<Rightarrow> db cap_result" where
  "consume_all X budget now [] d = Inr d"
| "consume_all X budget now (a # as) d =
     rbind (consume_counter X budget now a d) (\<lambda>d'. consume_all X budget now as d')"

definition outcome_str :: "decision_outcome \<Rightarrow> string" where
  "outcome_str outcome = (case outcome of Allow \<Rightarrow> ''allow'' | Deny \<Rightarrow> ''deny'')"

definition record_decision ::
  "externals \<Rightarrow> uuid \<Rightarrow> capability_id option \<Rightarrow> string \<Rightarrow> capability_use \<Rightarrow> decision_outcome \<Rightarrow>
   denial_reason \<Rightarrow> i64 \<Rightarrow> db \<Rightarrow> (capability_decision \<times> db) cap_result" where
  "record_decision X decision_id cid hash request outcome reason now d =
     rbind (i64_from_u64 ''policy_revision'' (use_policy_revision request)) (\<lambda>rev.
     rbind (i64_from_u64 ''budget_units'' (use_budget_units request)) (\<lambda>budget.
     rbind (sql (sql_insert (decision_insert_ok d)
         \<lparr>d_decision_id = uuid_to_string X decision_id,
          d_capability_id = map_option (id_to_string X) cid, d_handle_hash = hash,
          d_session_id = id_to_string X (use_session_id request),
          d_branch_id = id_to_string X (use_branch_id request),
          d_subject = use_subject request, d_action = use_action request,
          d_resource = use_resource request, d_request_id = use_request_id request,
          d_request_hash = use_request_hash request, d_policy_revision = rev,
          d_budget_units = budget, d_outcome = outcome_str outcome,
          d_reason = denial_as_str reason, d_decided_at = now\<rparr> (t_decisions d))) (\<lambda>rows.
     Inr (\<lparr>dec_outcome = outcome, dec_reason = reason, dec_capability_id = cid\<rparr>,
          d\<lparr>t_decisions := rows\<rparr>))))"

definition authorize_and_consume_in_transaction ::
  "externals \<Rightarrow> i64 \<Rightarrow> uuid \<Rightarrow> capability_handle \<Rightarrow> capability_use \<Rightarrow> db \<Rightarrow>
   (capability_decision \<times> db) cap_result" where
  "authorize_and_consume_in_transaction X clock decision_id handle request d =
     rbind (service_now clock) (\<lambda>now.
     rbind (load_capability_by_hash X d (handle_digest X handle)) (\<lambda>found.
     case found of
       None \<Rightarrow>
         record_decision X decision_id None (handle_digest X handle) request Deny UnknownHandle now d
     | Some c \<Rightarrow>
         rbind (evaluate_authority X c request now d) (\<lambda>(evaluation, d1).
         case evaluation of
           EvalDeny reason \<Rightarrow>
             record_decision X decision_id (Some (st_id c)) (handle_digest X handle) request
               Deny reason now d1
         | EvalAllow ancestors requested \<Rightarrow>
             rbind (consume_all X requested now ancestors d1) (\<lambda>d2.
             rbind (sql (sql_insert (authorization_insert_ok d2)
                 \<lparr>z_capability_id = id_to_string X (st_id c), z_request_id = use_request_id request,
                  z_request_hash = use_request_hash request, z_budget_units = requested,
                  z_authorized_at = now\<rparr> (t_authorizations d2))) (\<lambda>rows.
             record_decision X decision_id (Some (st_id c)) (handle_digest X handle) request
               Allow Allowed now (d2\<lparr>t_authorizations := rows\<rparr>))))))"

definition authorize_and_consume ::
  "externals \<Rightarrow> bool \<Rightarrow> i64 \<Rightarrow> uuid \<Rightarrow> capability_handle \<Rightarrow> capability_use \<Rightarrow> db \<Rightarrow>
   (capability_decision \<times> db) cap_result" where
  "authorize_and_consume X poisoned clock decision_id handle request d =
     rbind (lock_store poisoned) (\<lambda>_.
       authorize_and_consume_in_transaction X clock decision_id handle request d)"

section \<open>Audit history\<close>

record capability_audit_record =
  au_sequence :: u64
  au_capability_id :: "capability_id option"
  au_outcome :: decision_outcome
  au_reason :: denial_reason
  au_request_id :: string
  au_decided_at :: i64

definition outcome_parse :: "string \<Rightarrow> decision_outcome cap_result" where
  "outcome_parse v =
     (if v = ''allow'' then Inr Allow else if v = ''deny'' then Inr Deny
      else Inl (CCorruptRecord ''capability_decisions.outcome''))"

definition audit_record_of ::
  "externals \<Rightarrow> i64 \<times> decision_row \<Rightarrow> capability_audit_record cap_result" where
  "audit_record_of X = (\<lambda>(sequence, r).
     rbind (ok_or (u64_of_i64 sequence) (CCorruptRecord ''capability_decisions.sequence'')) (\<lambda>seq.
     rbind (option_try (parse_capability_id X) (d_capability_id r)) (\<lambda>cid.
     rbind (outcome_parse (d_outcome r)) (\<lambda>outcome.
     rbind (denial_from_str (d_reason r)) (\<lambda>reason.
     Inr \<lparr>au_sequence = seq, au_capability_id = cid, au_outcome = outcome, au_reason = reason,
          au_request_id = d_request_id r, au_decided_at = d_decided_at r\<rparr>)))))"

definition audit_history :: "externals \<Rightarrow> bool \<Rightarrow> db \<Rightarrow> capability_audit_record list cap_result" where
  "audit_history X poisoned d =
     rbind (lock_store poisoned) (\<lambda>_.
       list_try (audit_record_of X)
         (zip (map int [1..<Suc (length (t_decisions d))]) (t_decisions d)))"

end
