(* ===== verification/Epoch_Capability_Proofs.thy ===== *)
theory Epoch_Capability_Proofs
  imports Epoch_Capabilities "HOL-Library.Sublist"
begin

text \<open>
  Proof library of the capability service: the accounts of a capability (what is left on it plus
  what was spent through it and its descendants), the invariant \<open>cap_inv\<close>, the relation
  \<open>cap_evolves\<close> between earlier and later databases, and for each operation that it keeps the one
  and respects the other.
\<close>

section \<open>Accounts and the service invariant\<close>

abbreviation cap_ids :: "db \<Rightarrow> string set" where
  "cap_ids d \<equiv> c_id ` set (t_capabilities d)"

definition is_ancestor :: "db \<Rightarrow> string \<Rightarrow> string \<Rightarrow> bool" where
  "is_ancestor d x i \<longleftrightarrow>
     list_ex (\<lambda>a. a_capability_id a = x \<and> a_ancestor_id a = i) (t_ancestry d)"

definition canonical_id :: "externals \<Rightarrow> string \<Rightarrow> bool" where
  "canonical_id X s = (case uuid_parse X s of None \<Rightarrow> False | Some u \<Rightarrow> uuid_to_string X u = s)"

definition cap_inv :: "externals \<Rightarrow> db \<Rightarrow> bool" where
  "cap_inv X d \<longleftrightarrow>
     distinct (map c_id (t_capabilities d)) \<and>
     list_all (\<lambda>c. capability_check X c \<and> canonical_id X (c_id c) \<and> is_ancestor d (c_id c) (c_id c))
       (t_capabilities d) \<and>
     distinct (map (\<lambda>a. (a_capability_id a, a_ancestor_id a)) (t_ancestry d)) \<and>
     list_all (\<lambda>a. a_capability_id a \<in> cap_ids d \<and> a_ancestor_id a \<in> cap_ids d) (t_ancestry d) \<and>
     distinct (map (\<lambda>z. (z_capability_id z, z_request_id z)) (t_authorizations d)) \<and>
     list_all (\<lambda>z. z_capability_id z \<in> cap_ids d \<and> 1 \<le> z_budget_units z) (t_authorizations d) \<and>
     distinct (map c_handle_hash (t_capabilities d))"

definition spent_budget :: "db \<Rightarrow> string \<Rightarrow> i64" where
  "spent_budget d i =
     (\<Sum>z\<leftarrow>filter (\<lambda>z. is_ancestor d (z_capability_id z) i) (t_authorizations d). z_budget_units z)"

definition spent_uses :: "db \<Rightarrow> string \<Rightarrow> i64" where
  "spent_uses d i =
     int (length (filter (\<lambda>z. is_ancestor d (z_capability_id z) i) (t_authorizations d)))"

text \<open>What is left on a capability plus everything spent through it and its descendants.\<close>

definition budget_account :: "db \<Rightarrow> string \<Rightarrow> i64 option option" where
  "budget_account d i =
     map_option (\<lambda>c. map_option (\<lambda>r. r + spent_budget d i) (c_remaining_budget c))
       (by_key c_id i (t_capabilities d))"

definition uses_account :: "db \<Rightarrow> string \<Rightarrow> i64 option option" where
  "uses_account d i =
     map_option (\<lambda>c. map_option (\<lambda>r. r + spent_uses d i) (c_remaining_uses c))
       (by_key c_id i (t_capabilities d))"

definition same_accounts :: "db \<Rightarrow> db \<Rightarrow> bool" where
  "same_accounts d d' \<longleftrightarrow>
     (\<forall>i \<in> cap_ids d. i \<in> cap_ids d' \<and> budget_account d' i = budget_account d i
        \<and> uses_account d' i = uses_account d i)"

lemma canonical_id_to_string: "uuid_codec X \<Longrightarrow> canonical_id X (id_to_string X i)"
  by (simp add: canonical_id_def id_to_string_def)

lemma canonical_id_parse:
  assumes "canonical_id X s" and "id_parse X s = Some (i :: 'k domain_id)"
  shows "id_to_string X i = s"
  using assms by (auto simp: canonical_id_def id_parse_def id_to_string_def split: option.splits)

section \<open>Decoded rows\<close>

lemma stored_from_raw:
  assumes "stored_capability_from_raw X raw = Inr st" and "canonical_id X (c_id raw)"
  shows "id_to_string X (st_id st) = c_id raw" "st_remaining_uses st = c_remaining_uses raw"
    "st_remaining_budget st = c_remaining_budget raw" "capability_state_parse (c_status raw) = Inr (st_status st)"
    "st_expires_at st = c_expires_at raw" "st_policy_revision st = c_policy_revision raw"
    "st_subject st = c_subject raw" "st_action st = c_action raw" "st_resource st = c_resource raw"
    "id_parse X (c_session_id raw) = Some (st_session_id st)"
    "id_parse X (c_branch_id raw) = Some (st_branch_id st)"
  using assms canonical_id_parse [OF assms(2)]
  by (auto simp: stored_capability_from_raw_def parse_capability_id_def result_simps)

lemma status_active_iff: "capability_state_parse s = Inr CapActive \<longleftrightarrow> s = ''active''"
  by (simp add: capability_state_parse_def)

lemma cap_invD:
  assumes "cap_inv X d"
  shows "distinct (map c_id (t_capabilities d))"
    "c \<in> set (t_capabilities d) \<Longrightarrow> capability_check X c"
    "c \<in> set (t_capabilities d) \<Longrightarrow> canonical_id X (c_id c)"
    "c \<in> set (t_capabilities d) \<Longrightarrow> is_ancestor d (c_id c) (c_id c)"
    "distinct (map (\<lambda>a. (a_capability_id a, a_ancestor_id a)) (t_ancestry d))"
    "a \<in> set (t_ancestry d) \<Longrightarrow> a_capability_id a \<in> cap_ids d"
    "a \<in> set (t_ancestry d) \<Longrightarrow> a_ancestor_id a \<in> cap_ids d"
    "z \<in> set (t_authorizations d) \<Longrightarrow> z_capability_id z \<in> cap_ids d"
    "z \<in> set (t_authorizations d) \<Longrightarrow> 1 \<le> z_budget_units z"
    "distinct (map (\<lambda>z. (z_capability_id z, z_request_id z)) (t_authorizations d))"
    "distinct (map c_handle_hash (t_capabilities d))"
  using assms by (auto simp: cap_inv_def list_all_iff)

text \<open>The joined ancestors are exactly the ancestors, each once.\<close>

lemma ancestor_row_ids:
  assumes "cap_inv X d"
  shows "map c_id (ancestor_rows d x) =
     map a_ancestor_id (sort_key a_depth (filter (\<lambda>a. a_capability_id a = x) (t_ancestry d)))"
    (is "_ = map _ ?rows")
proof -
  have one: "map c_id (filter (\<lambda>c. c_id c = a_ancestor_id a) (t_capabilities d)) = [a_ancestor_id a]"
    if "a \<in> set ?rows" for a
  proof -
    have "a_ancestor_id a \<in> cap_ids d" using that cap_invD(7) [OF assms] by auto
    then obtain c where "by_key c_id (a_ancestor_id a) (t_capabilities d) = Some c"
      by (metis not_Some_eq table_simps(3))
    then show ?thesis
      using cap_invD(1) [OF assms] by (auto simp: filter_by_key dest: by_key_eq_SomeD)
  qed
  have "map c_id (ancestor_rows d x) =
      concat (map (\<lambda>a. map c_id (filter (\<lambda>c. c_id c = a_ancestor_id a) (t_capabilities d))) ?rows)"
    by (simp add: ancestor_rows_def map_concat comp_def)
  also have "\<dots> = concat (map (\<lambda>a. [a_ancestor_id a]) ?rows)"
    using one by (intro arg_cong [where f = concat] map_cong) auto
  finally show ?thesis by simp
qed

lemma distinct_ancestor_rows:
  assumes "cap_inv X d"
  shows "distinct (map c_id (ancestor_rows d x))"
proof -
  let ?rows = "filter (\<lambda>a. a_capability_id a = x) (t_ancestry d)"
  have "inj_on a_ancestor_id (set ?rows)" "distinct ?rows"
    using cap_invD(5) [OF assms] by (auto simp: distinct_map inj_on_def intro: distinct_filter)
  then show ?thesis
    by (simp add: ancestor_row_ids [OF assms] distinct_map)
qed

lemma set_ancestor_rows:
  assumes "cap_inv X d"
  shows "c \<in> set (ancestor_rows d x) \<longleftrightarrow> c \<in> set (t_capabilities d) \<and> is_ancestor d x (c_id c)"
  by (auto simp: ancestor_rows_def is_ancestor_def list_ex_iff)

section \<open>Row updates\<close>

lemma update_capabilities_Inr [result_simps]:
  "update_capabilities X P f d = Inr (n, d') \<longleftrightarrow>
     (\<forall>c \<in> set (t_capabilities d). P c \<longrightarrow> capability_update_ok X c (f c)) \<and>
     n = length (filter P (t_capabilities d)) \<and>
     d' = d\<lparr>t_capabilities := map (\<lambda>c. if P c then f c else c) (t_capabilities d)\<rparr>"
  by (auto simp: update_capabilities_def sql_def result_simps table_simps)

text \<open>
  \<open>marked X d d'\<close>: at most one active capability has left the active state, by an update the
  schema admits; nothing else differs.
\<close>

definition retire :: "string \<Rightarrow> string \<Rightarrow> i64 \<Rightarrow> capability_row \<Rightarrow> capability_row" where
  "retire k s now c =
     (if c_id c = k \<and> c_status c = ''active'' then c\<lparr>c_status := s, c_updated_at := now\<rparr> else c)"

definition marked :: "externals \<Rightarrow> db \<Rightarrow> db \<Rightarrow> bool" where
  "marked X d d' \<longleftrightarrow> d' = d \<or>
     (\<exists>k s now. s \<noteq> ''active'' \<and> d' = d\<lparr>t_capabilities := map (retire k s now) (t_capabilities d)\<rparr> \<and>
        (\<forall>c \<in> set (t_capabilities d). capability_check X c \<longrightarrow> capability_check X (retire k s now c)))"

lemma marked_refl [simp, intro]: "marked X d d"
  by (simp add: marked_def)

lemma mark_status_marked:
  assumes "mark_status X s cid now d = Inr (n, d')" and "s \<noteq> ''active''"
  shows "marked X d d'"
proof -
  have "d' = d\<lparr>t_capabilities := map (retire (id_to_string X cid) s now) (t_capabilities d)\<rparr>"
    using assms(1) by (auto simp: mark_status_def retire_def result_simps cong: map_cong)
  moreover have "\<forall>c \<in> set (t_capabilities d). capability_check X c \<longrightarrow>
      capability_check X (retire (id_to_string X cid) s now c)"
    using assms(1) by (auto simp: mark_status_def retire_def result_simps capability_update_ok_def)
  ultimately show ?thesis using assms(2) unfolding marked_def by blast
qed

lemma mark_consumed_marked: "mark_consumed X cid now d = Inr d' \<Longrightarrow> marked X d d'"
  by (auto simp: mark_consumed_def result_simps intro: mark_status_marked)

lemma mark_expired_marked: "mark_expired X cid now d = Inr d' \<Longrightarrow> marked X d d'"
  by (auto simp: mark_expired_def result_simps intro: mark_status_marked)

lemma direct_state_denial_marked:
  assumes "direct_state_denial X c now d = Inr (r, d')"
  shows "marked X d d'" "r = None \<Longrightarrow> d' = d"
  using assms
  by (auto simp: direct_state_denial_def result_simps mark_consumed_marked mark_expired_marked
      split: capability_state.splits if_splits)

lemma direct_state_denial_None:
  "direct_state_denial X c now d = Inr (None, d') \<longleftrightarrow>
     d' = d \<and> st_status c = CapActive \<and> \<not> exhausted c \<and> \<not> past_expiry now c"
  by (auto simp: direct_state_denial_def result_simps split: capability_state.splits if_splits)

lemma ancestor_denial_loop_marked:
  assumes "ancestor_denial_loop X as now d = Inr (r, d')"
  shows "marked X d d'"
  using assms
  by (induction as) (auto simp: result_simps mark_consumed_marked mark_expired_marked
      split: capability_state.splits if_splits)

lemma ancestor_denial_loop_None:
  "ancestor_denial_loop X as now d = Inr (None, d') \<longleftrightarrow>
     d' = d \<and> (\<forall>a \<in> set as. st_status a = CapActive \<and> \<not> exhausted a \<and> \<not> past_expiry now a)"
  by (induction as) (auto simp: result_simps split: capability_state.splits if_splits)

lemma ancestor_denial_marked: "ancestor_denial X as now d = Inr (r, d') \<Longrightarrow> marked X d d'"
  by (auto simp: ancestor_denial_def intro: ancestor_denial_loop_marked)

lemma ancestor_denial_None:
  "ancestor_denial X as now d = Inr (None, d') \<longleftrightarrow>
     d' = d \<and> (\<forall>a \<in> set (drop 1 as). st_status a = CapActive \<and> \<not> exhausted a \<and> \<not> past_expiry now a)"
  by (simp add: ancestor_denial_def ancestor_denial_loop_None)

subsection \<open>What an evaluation establishes\<close>

text \<open>
  The conditions under which a use is allowed, read off the database: the capability is live when it
  is active, has uses and budget left and has not expired.
\<close>

definition live :: "i64 \<Rightarrow> stored_capability \<Rightarrow> bool" where
  "live now a \<longleftrightarrow> st_status a = CapActive \<and> st_remaining_uses a \<noteq> Some 0 \<and> st_remaining_budget a \<noteq> Some 0 \<and>
     null_or (\<lambda>expires. now < expires) (st_expires_at a)"

definition authority_holds ::
  "externals \<Rightarrow> stored_capability \<Rightarrow> capability_use \<Rightarrow> i64 \<Rightarrow> db \<Rightarrow> stored_capability list \<Rightarrow> i64 \<Rightarrow> bool"
where
  "authority_holds X c request now d ancestors requested \<longleftrightarrow>
     st_session_id c = use_session_id request \<and> st_branch_id c = use_branch_id request \<and>
     st_subject c = use_subject request \<and> st_action c = use_action request \<and>
     st_resource c = use_resource request \<and>
     load_ancestors X d (st_id c) = Inr ancestors \<and> ancestors \<noteq> [] \<and> st_id (hd ancestors) = st_id c \<and>
     (\<forall>a \<in> set (c # tl ancestors). live now a) \<and>
     current_policy X d (st_session_id c) (st_branch_id c) = Some (st_policy_revision c) \<and>
     i64_of_u64 (use_policy_revision request) = Some (st_policy_revision c) \<and>
     (\<forall>z \<in> set (t_authorizations d). z_capability_id z = id_to_string X (st_id c) \<longrightarrow>
        z_request_id z \<noteq> use_request_id request) \<and>
     i64_of_u64 (use_budget_units request) = Some requested \<and>
     (\<forall>a \<in> set ancestors. null_or (\<lambda>remaining. requested \<le> remaining) (st_remaining_budget a))"

text \<open>The same conditions in the words of the code's checks.\<close>

lemma authority_holds_checks:
  "authority_holds X c request now d ancestors requested \<longleftrightarrow>
     st_session_id c = use_session_id request \<and> st_branch_id c = use_branch_id request \<and>
     st_subject c = use_subject request \<and> st_action c = use_action request \<and>
     st_resource c = use_resource request \<and>
     load_ancestors X d (st_id c) = Inr ancestors \<and> starts_with_self ancestors (st_id c) \<and>
     (\<forall>a \<in> set (c # drop 1 ancestors). st_status a = CapActive \<and> \<not> exhausted a \<and> \<not> past_expiry now a) \<and>
     current_policy X d (st_session_id c) (st_branch_id c) = Some (st_policy_revision c) \<and>
     i64_of_u64 (use_policy_revision request) = Some (st_policy_revision c) \<and>
     \<not> already_authorized X d (st_id c) (use_request_id request) \<and>
     i64_of_u64 (use_budget_units request) = Some requested \<and>
     (\<forall>a \<in> set ancestors. \<not> over_budget requested a)"
proof -
  have "live now a \<longleftrightarrow> st_status a = CapActive \<and> \<not> exhausted a \<and> \<not> past_expiry now a" for a
    by (auto simp: live_def exhausted_def past_expiry_def null_or_def split: option.split)
  moreover have "starts_with_self ancestors (st_id c) \<longleftrightarrow> ancestors \<noteq> [] \<and> st_id (hd ancestors) = st_id c"
    by (cases ancestors) (auto simp: starts_with_self_def)
  moreover have "\<not> over_budget requested a \<longleftrightarrow> null_or (\<lambda>remaining. requested \<le> remaining) (st_remaining_budget a)" for a
    by (auto simp: over_budget_def null_or_def split: option.split)
  moreover have "\<not> already_authorized X d (st_id c) (use_request_id request) \<longleftrightarrow>
      (\<forall>z \<in> set (t_authorizations d). z_capability_id z = id_to_string X (st_id c) \<longrightarrow>
        z_request_id z \<noteq> use_request_id request)"
    by (auto simp: already_authorized_def list_ex_iff)
  ultimately show ?thesis by (simp add: authority_holds_def drop_Suc)
qed

lemma binding_denial_None:
  "binding_denial c request = None \<longleftrightarrow>
     st_session_id c = use_session_id request \<and> st_branch_id c = use_branch_id request \<and>
     st_subject c = use_subject request \<and> st_action c = use_action request \<and>
     st_resource c = use_resource request"
  by (simp add: binding_denial_def)

lemma policy_denial_None:
  "policy_denial X d c request = Inr None \<longleftrightarrow>
     current_policy X d (st_session_id c) (st_branch_id c) = Some (st_policy_revision c) \<and>
     i64_of_u64 (use_policy_revision request) = Some (st_policy_revision c)"
  by (auto simp: policy_denial_def i64_from_u64_def result_simps split: option.splits if_splits)

lemma evaluate_authority_allow:
  "evaluate_authority X c request now d = Inr (EvalAllow ancestors requested, d') \<longleftrightarrow>
     d' = d \<and> authority_holds X c request now d ancestors requested"
proof -
  have 1: "evaluate_authority X c request now d = Inr (EvalAllow ancestors requested, d') \<longleftrightarrow>
     binding_denial c request = None \<and> direct_state_denial X c now d = Inr (None, d) \<and>
     policy_denial X d c request = Inr None \<and> load_ancestors X d (st_id c) = Inr ancestors \<and>
     starts_with_self ancestors (st_id c) \<and> ancestor_denial X ancestors now d = Inr (None, d) \<and>
     \<not> already_authorized X d (st_id c) (use_request_id request) \<and>
     i64_of_u64 (use_budget_units request) = Some requested \<and>
     \<not> list_ex (over_budget requested) ancestors \<and> d' = d"
    by (auto simp: evaluate_authority_def result_simps i64_from_u64_def direct_state_denial_None
        ancestor_denial_None split: option.splits if_splits)
  show ?thesis
    unfolding 1 authority_holds_checks binding_denial_None policy_denial_None direct_state_denial_None
      ancestor_denial_None
    by (auto simp: list_ex_iff)
qed

lemma evaluate_authority_marked:
  assumes "evaluate_authority X c request now d = Inr (r, d')"
  shows "marked X d d'"
proof (cases "binding_denial c request")
  case (Some reason)
  with assms show ?thesis by (simp add: evaluate_authority_def)
next
  case unbound: None
  with assms obtain rd d1 where direct: "direct_state_denial X c now d = Inr (rd, d1)"
    by (auto simp: evaluate_authority_def rbind_eq_Inr)
  show ?thesis
  proof (cases rd)
    case (Some reason)
    with assms unbound direct have "d' = d1" by (simp add: evaluate_authority_def)
    with direct show ?thesis by (simp add: direct_state_denial_marked(1))
  next
    case None
    with direct have "d1 = d" by (simp add: direct_state_denial_marked(2))
    with assms unbound direct None
    have "d' = d \<or> (\<exists>as r. ancestor_denial X as now d = Inr (r, d'))"
      by (auto simp: evaluate_authority_def rbind_eq_Inr split: option.splits if_splits)
    then show ?thesis by (auto dest: ancestor_denial_marked)
  qed
qed

section \<open>Consumption\<close>

definition spend :: "i64 \<Rightarrow> i64 \<Rightarrow> capability_row \<Rightarrow> capability_row" where
  "spend budget now c =
     (let uses = map_option (\<lambda>r. r - 1) (c_remaining_uses c);
          remaining = map_option (\<lambda>r. r - budget) (c_remaining_budget c)
      in c\<lparr>c_remaining_uses := uses, c_remaining_budget := remaining,
           c_status := (if uses = Some 0 \<or> remaining = Some 0 then ''consumed'' else ''active''),
           c_updated_at := now\<rparr>)"

lemma spend_fields [simp]:
  "c_id (spend b now c) = c_id c"
  "c_handle_hash (spend b now c) = c_handle_hash c"
  "c_remaining_uses (spend b now c) = map_option (\<lambda>r. r - 1) (c_remaining_uses c)"
  "c_remaining_budget (spend b now c) = map_option (\<lambda>r. r - b) (c_remaining_budget c)"
  by (simp_all add: spend_def Let_def)

lemma retire_fields [simp]:
  "c_id (retire k s now c) = c_id c"
  "c_handle_hash (retire k s now c) = c_handle_hash c"
  "c_remaining_uses (retire k s now c) = c_remaining_uses c"
  "c_remaining_budget (retire k s now c) = c_remaining_budget c"
  by (simp_all add: retire_def)

text \<open>The loaded ancestor still agrees with its row.\<close>

definition loaded_from :: "externals \<Rightarrow> capability_row list \<Rightarrow> stored_capability \<Rightarrow> bool" where
  "loaded_from X rows a \<longleftrightarrow>
     (\<exists>c \<in> set rows. c_id c = id_to_string X (st_id a) \<and>
        c_remaining_uses c = st_remaining_uses a \<and> c_remaining_budget c = st_remaining_budget a)"

definition spend_on :: "string set \<Rightarrow> i64 \<Rightarrow> i64 \<Rightarrow> capability_row \<Rightarrow> capability_row" where
  "spend_on ids b now c = (if c_id c \<in> ids then spend b now c else c)"

lemma filter_active_one:
  assumes "distinct (map c_id rows)" and "length (filter (\<lambda>r. c_id r = k \<and> c_status r = ''active'') rows) = 1"
    and "c \<in> set rows" and "c_id c = k"
  shows "c_status c = ''active''"
proof -
  obtain r where r: "filter (\<lambda>r. c_id r = k \<and> c_status r = ''active'') rows = [r]"
    using assms(2) by (auto simp only: One_nat_def length_Suc_conv length_0_conv)
  have "r \<in> set (filter (\<lambda>r. c_id r = k \<and> c_status r = ''active'') rows)"
    unfolding r by (rule list.set_intros)
  then have r': "r \<in> set rows" "c_id r = k" "c_status r = ''active''" by simp_all
  have "inj_on c_id (set rows)" using assms(1) by (simp add: distinct_map)
  then have "c = r" using r' assms(3,4) by (auto dest: inj_onD)
  with r' show ?thesis by simp
qed

lemma consume_counter_effect:
  assumes "consume_counter X b now a d = Inr d'"
    and "distinct (map c_id (t_capabilities d))"
    and "loaded_from X (t_capabilities d) a"
  shows "d' = d\<lparr>t_capabilities := map (spend_on {id_to_string X (st_id a)} b now) (t_capabilities d)\<rparr>"
    and "\<And>c. c \<in> set (t_capabilities d) \<Longrightarrow> c_id c = id_to_string X (st_id a) \<Longrightarrow>
       c_status c = ''active'' \<and> capability_update_ok X c (spend b now c)"
proof -
  let ?k = "id_to_string X (st_id a)"
  let ?P = "\<lambda>r. c_id r = ?k \<and> c_status r = ''active''"
  let ?uses = "map_option (\<lambda>r. r - 1) (st_remaining_uses a)"
  let ?rem = "map_option (\<lambda>r. r - b) (st_remaining_budget a)"
  let ?f = "\<lambda>r. r\<lparr>c_remaining_uses := ?uses, c_remaining_budget := ?rem,
      c_status := (if ?uses = Some 0 \<or> ?rem = Some 0 then ''consumed'' else ''active''),
      c_updated_at := now\<rparr>"
  have "update_capabilities X ?P ?f d = Inr (1, d')"
    using assms(1) by (auto simp: consume_counter_def Let_def result_simps split: if_splits)
  then have ok: "\<forall>c \<in> set (t_capabilities d). ?P c \<longrightarrow> capability_update_ok X c (?f c)"
    and one: "length (filter ?P (t_capabilities d)) = 1"
    and d': "d' = d\<lparr>t_capabilities := map (\<lambda>c. if ?P c then ?f c else c) (t_capabilities d)\<rparr>"
    by (auto simp: update_capabilities_Inr)
  obtain c0 where c0: "c0 \<in> set (t_capabilities d)" "c_id c0 = ?k"
    "c_remaining_uses c0 = st_remaining_uses a" "c_remaining_budget c0 = st_remaining_budget a"
    using assms(3) by (auto simp: loaded_from_def)
  have same: "c = c0" if "c \<in> set (t_capabilities d)" "c_id c = ?k" for c
    using that c0 assms(2) by (metis distinct_map inj_on_eq_iff)
  have active: "c_status c = ''active''" if "c \<in> set (t_capabilities d)" "c_id c = ?k" for c
    using filter_active_one [OF assms(2) one that] .
  have spend: "?f c = spend b now c" if "c \<in> set (t_capabilities d)" "c_id c = ?k" for c
    using same [OF that] c0 by (simp add: spend_def)
  show "d' = d\<lparr>t_capabilities := map (spend_on {?k} b now) (t_capabilities d)\<rparr>"
    unfolding d' using active spend
    by (auto simp: spend_on_def intro!: arg_cong [where f = "\<lambda>r. d\<lparr>t_capabilities := r\<rparr>"] map_cong)
  show "c_status c = ''active'' \<and> capability_update_ok X c (spend b now c)"
    if "c \<in> set (t_capabilities d)" "c_id c = ?k" for c
    using ok active [OF that] spend [OF that] that by metis
qed

lemma consume_all_effect:
  assumes "consume_all X b now as d = Inr d'"
    and "distinct (map c_id (t_capabilities d))"
    and "distinct (map (\<lambda>a. id_to_string X (st_id a)) as)"
    and "\<forall>a \<in> set as. loaded_from X (t_capabilities d) a"
  shows "d' = d\<lparr>t_capabilities :=
      map (spend_on ((\<lambda>a. id_to_string X (st_id a)) ` set as) b now) (t_capabilities d)\<rparr> \<and>
    (\<forall>c \<in> set (t_capabilities d). c_id c \<in> (\<lambda>a. id_to_string X (st_id a)) ` set as \<longrightarrow>
       c_status c = ''active'' \<and> capability_update_ok X c (spend b now c))"
  using assms
proof (induction as arbitrary: d)
  case Nil
  then show ?case by (simp add: spend_on_def cong: map_cong)
next
  case (Cons a as)
  let ?ids = "(\<lambda>a. id_to_string X (st_id a)) ` set as"
  from Cons.prems(1) obtain d1 where d1: "consume_counter X b now a d = Inr d1"
    and rest: "consume_all X b now as d1 = Inr d'"
    by (auto simp: result_simps)
  note eff = consume_counter_effect [OF d1 Cons.prems(2)]
  have a: "loaded_from X (t_capabilities d) a" using Cons.prems(4) by simp
  have caps1: "t_capabilities d1 = map (spend_on {id_to_string X (st_id a)} b now) (t_capabilities d)"
    using eff(1) [OF a] by simp
  have ids: "map c_id (t_capabilities d1) = map c_id (t_capabilities d)"
    by (simp add: caps1 spend_on_def)
  have fresh: "id_to_string X (st_id a) \<notin> ?ids" using Cons.prems(3) by auto
  have loaded: "\<forall>b \<in> set as. loaded_from X (t_capabilities d1) b"
  proof
    fix e assume e: "e \<in> set as"
    then obtain c where c: "c \<in> set (t_capabilities d)" "c_id c = id_to_string X (st_id e)"
      "c_remaining_uses c = st_remaining_uses e" "c_remaining_budget c = st_remaining_budget e"
      using Cons.prems(4) by (auto simp: loaded_from_def)
    have "c_id c \<noteq> id_to_string X (st_id a)" using c(2) e fresh by (metis image_eqI)
    then have "c \<in> set (t_capabilities d1)"
      using c(1) by (auto simp: caps1 spend_on_def image_iff)
    with c show "loaded_from X (t_capabilities d1) e" by (auto simp: loaded_from_def)
  qed
  have IH: "d' = d1\<lparr>t_capabilities := map (spend_on ?ids b now) (t_capabilities d1)\<rparr> \<and>
    (\<forall>c \<in> set (t_capabilities d1). c_id c \<in> ?ids \<longrightarrow>
       c_status c = ''active'' \<and> capability_update_ok X c (spend b now c))"
    using Cons.IH [OF rest] Cons.prems(2,3) ids loaded by simp
  have comp: "spend_on ?ids b now (spend_on {id_to_string X (st_id a)} b now c) =
      spend_on (insert (id_to_string X (st_id a)) ?ids) b now c" for c
    using fresh by (auto simp: spend_on_def)
  have "d' = d\<lparr>t_capabilities := map (spend_on (insert (id_to_string X (st_id a)) ?ids) b now) (t_capabilities d)\<rparr>"
    using IH eff(1) [OF a] by (simp add: comp_def comp)
  moreover have "\<forall>c \<in> set (t_capabilities d). c_id c \<in> insert (id_to_string X (st_id a)) ?ids \<longrightarrow>
       c_status c = ''active'' \<and> capability_update_ok X c (spend b now c)"
  proof (intro ballI impI)
    fix c assume c: "c \<in> set (t_capabilities d)" "c_id c \<in> insert (id_to_string X (st_id a)) ?ids"
    show "c_status c = ''active'' \<and> capability_update_ok X c (spend b now c)"
    proof (cases "c_id c = id_to_string X (st_id a)")
      case True
      with eff(2) [OF a] c show ?thesis by blast
    next
      case False
      then have "c \<in> set (t_capabilities d1)" using c(1) by (auto simp: caps1 spend_on_def image_iff)
      with IH c False show ?thesis by blast
    qed
  qed
  ultimately show ?case by simp
qed

text \<open>Loading gives rows that agree, with distinct identifiers: the ancestors.\<close>

lemma load_ancestors_ids:
  assumes "cap_inv X d" and "load_ancestors X d cid = Inr as"
  shows "map (\<lambda>a. id_to_string X (st_id a)) as = map c_id (ancestor_rows d (id_to_string X cid))"
    and "\<forall>a \<in> set as. loaded_from X (t_capabilities d) a"
proof -
  have all: "list_all2 (\<lambda>r a. stored_capability_from_raw X r = Inr a)
      (ancestor_rows d (id_to_string X cid)) as"
    using assms(2) by (simp add: load_ancestors_def list_try_eq_Inr)
  have row: "r \<in> set (t_capabilities d)" "canonical_id X (c_id r)"
    if "r \<in> set (ancestor_rows d (id_to_string X cid))" for r
    using that assms(1) by (auto simp: set_ancestor_rows dest: cap_invD(3))
  show "map (\<lambda>a. id_to_string X (st_id a)) as = map c_id (ancestor_rows d (id_to_string X cid))"
    using all row
    by (induction rule: list_all2_induct) (auto simp: stored_from_raw)
  show "\<forall>a \<in> set as. loaded_from X (t_capabilities d) a"
  proof
    fix a assume a: "a \<in> set as"
    from all have "\<forall>a \<in> set as. \<exists>r \<in> set (ancestor_rows d (id_to_string X cid)).
        stored_capability_from_raw X r = Inr a"
      by (rule list_all2_witness)
    with a obtain r where "r \<in> set (ancestor_rows d (id_to_string X cid))"
      "stored_capability_from_raw X r = Inr a" by blast
    with row [of r] stored_from_raw [of X r a] show "loaded_from X (t_capabilities d) a"
      by (auto simp: loaded_from_def)
  qed
qed

section \<open>How the tables evolve\<close>

text \<open>
  \<open>cap_evolves d d'\<close>: no capability disappears or changes its scope, one that has left the active
  state never changes again, ancestry of an existing capability is fixed, authorizations and
  decisions are only appended, and every account is conserved.
\<close>

definition row_evolves :: "capability_row \<Rightarrow> capability_row \<Rightarrow> bool" where
  "row_evolves c c' \<longleftrightarrow> same_scope c c' \<and> (c_status c \<noteq> ''active'' \<longrightarrow> c' = c)"

definition cap_evolves :: "db \<Rightarrow> db \<Rightarrow> bool" where
  "cap_evolves d d' \<longleftrightarrow>
     (\<forall>i c. by_key c_id i (t_capabilities d) = Some c \<longrightarrow>
        (\<exists>c'. by_key c_id i (t_capabilities d') = Some c' \<and> row_evolves c c')) \<and>
     (\<forall>x \<in> cap_ids d. \<forall>i. is_ancestor d' x i \<longleftrightarrow> is_ancestor d x i) \<and>
     same_accounts d d' \<and>
     prefix (t_authorizations d) (t_authorizations d') \<and>
     prefix (t_decisions d) (t_decisions d')"

lemma row_evolves_refl [simp]: "row_evolves c c"
  by (simp add: row_evolves_def same_scope_def)

lemma row_evolves_trans: "row_evolves a b \<Longrightarrow> row_evolves b c \<Longrightarrow> row_evolves a c"
  by (auto simp: row_evolves_def same_scope_def)

lemma same_accounts_refl [simp]: "same_accounts d d"
  by (simp add: same_accounts_def)

lemma same_accounts_trans: "same_accounts a b \<Longrightarrow> same_accounts b c \<Longrightarrow> same_accounts a c"
  unfolding same_accounts_def by metis

lemma same_accountsD:
  assumes "same_accounts d d'" and "i \<in> cap_ids d"
  shows "i \<in> cap_ids d'" "budget_account d' i = budget_account d i" "uses_account d' i = uses_account d i"
  using assms unfolding same_accounts_def by blast+

lemma cap_evolves_row:
  assumes "cap_evolves d d'" and "by_key c_id i (t_capabilities d) = Some c"
  obtains c' where "by_key c_id i (t_capabilities d') = Some c'" "row_evolves c c'"
  using assms unfolding cap_evolves_def by blast

lemma cap_evolvesD:
  assumes "cap_evolves d d'"
  shows "x \<in> cap_ids d \<Longrightarrow> is_ancestor d' x i = is_ancestor d x i"
    "same_accounts d d'" "prefix (t_authorizations d) (t_authorizations d')"
    "prefix (t_decisions d) (t_decisions d')"
  using assms unfolding cap_evolves_def by blast+

lemma cap_evolves_refl [simp]: "cap_evolves d d"
  by (simp add: cap_evolves_def)

lemma cap_evolves_trans:
  assumes "cap_evolves a b" and "cap_evolves b c"
  shows "cap_evolves a c"
proof -
  note a = cap_evolvesD [OF assms(1)] and b = cap_evolvesD [OF assms(2)]
  have "\<exists>r'. by_key c_id i (t_capabilities c) = Some r' \<and> row_evolves r r'"
    if row: "by_key c_id i (t_capabilities a) = Some r" for i r
  proof -
    obtain r1 where r1: "by_key c_id i (t_capabilities b) = Some r1" "row_evolves r r1"
      using cap_evolves_row [OF assms(1) row] .
    obtain r2 where "by_key c_id i (t_capabilities c) = Some r2" "row_evolves r1 r2"
      using cap_evolves_row [OF assms(2) r1(1)] .
    with r1(2) show ?thesis by (blast intro: row_evolves_trans)
  qed
  moreover have "is_ancestor c x i = is_ancestor a x i" if "x \<in> cap_ids a" for x i
    using a(1) [OF that] b(1) [OF same_accountsD(1) [OF a(2) that]] by simp
  moreover have "same_accounts a c" by (rule same_accounts_trans [OF a(2) b(2)])
  moreover have "prefix (t_authorizations a) (t_authorizations c)"
    by (rule prefix_order.trans [OF a(3) b(3)])
  moreover have "prefix (t_decisions a) (t_decisions c)"
    by (rule prefix_order.trans [OF a(4) b(4)])
  ultimately show ?thesis unfolding cap_evolves_def by blast
qed

lemma is_ancestor_cong: "t_ancestry d' = t_ancestry d \<Longrightarrow> is_ancestor d' = is_ancestor d"
  by (simp add: is_ancestor_def fun_eq_iff)

text \<open>Rewriting every capability row in place.\<close>

definition rewrites_rows_by :: "externals \<Rightarrow> (capability_row \<Rightarrow> capability_row) \<Rightarrow> db \<Rightarrow> bool" where
  "rewrites_rows_by X f d \<longleftrightarrow> (\<forall>c \<in> set (t_capabilities d). row_evolves c (f c) \<and> capability_check X (f c))"

lemma rewrites_ids:
  assumes "rewrites_rows_by X f d"
  shows "map c_id (map f (t_capabilities d)) = map c_id (t_capabilities d)"
  using assms by (auto simp: rewrites_rows_by_def row_evolves_def same_scope_def)

lemma rewrites_by_key:
  assumes "rewrites_rows_by X f d"
  shows "by_key c_id i (map f (t_capabilities d)) = map_option f (by_key c_id i (t_capabilities d))"
proof -
  have "\<forall>c \<in> set rows. c_id (f c) = c_id c \<Longrightarrow>
     by_key c_id i (map f rows) = map_option f (by_key c_id i rows)" for rows
    by (induction rows) (auto simp: by_key_def)
  with assms show ?thesis by (simp add: rewrites_rows_by_def row_evolves_def same_scope_def)
qed

lemma rewrites_inv:
  assumes "cap_inv X d" and "rewrites_rows_by X f d"
  shows "cap_inv X (d\<lparr>t_capabilities := map f (t_capabilities d)\<rparr>)"
proof -
  have ids: "map (\<lambda>x. c_id (f x)) (t_capabilities d) = map c_id (t_capabilities d)"
    using rewrites_ids [OF assms(2)] by (simp add: comp_def)
  then have id: "c \<in> set (t_capabilities d) \<Longrightarrow> c_id (f c) = c_id c" for c by simp
  have set: "c_id ` set (map f (t_capabilities d)) = cap_ids d"
    using rewrites_ids [OF assms(2)] by (metis list.set_map)
  have anc: "is_ancestor (d\<lparr>t_capabilities := map f (t_capabilities d)\<rparr>) = is_ancestor d"
    by (rule is_ancestor_cong) simp
  have "distinct (map (\<lambda>x. c_id (f x)) (t_capabilities d))"
    unfolding ids by (rule cap_invD(1) [OF assms(1)])
  moreover have "distinct (map (\<lambda>x. c_handle_hash (f x)) (t_capabilities d))"
  proof -
    have "map (\<lambda>x. c_handle_hash (f x)) (t_capabilities d) = map c_handle_hash (t_capabilities d)"
      using assms(2) by (auto simp: rewrites_rows_by_def row_evolves_def same_scope_def)
    then show ?thesis using cap_invD(11) [OF assms(1)] by metis
  qed
  moreover have "\<forall>c \<in> set (t_capabilities d). capability_check X (f c) \<and> canonical_id X (c_id (f c)) \<and>
      is_ancestor d (c_id (f c)) (c_id (f c))"
    using cap_invD(3,4) [OF assms(1)] id assms(2) by (simp add: rewrites_rows_by_def)
  ultimately show ?thesis
    using assms(1) set anc by (simp add: cap_inv_def list_all_iff comp_def)
qed

lemma rewrites_row:
  assumes "rewrites_rows_by X f d" and "by_key c_id i (t_capabilities d) = Some c"
  shows "row_evolves c (f c)"
  using assms by (auto simp: rewrites_rows_by_def dest: by_key_eq_SomeD)

lemma marked_rewrites:
  assumes "cap_inv X d" and "marked X d d'"
  obtains f where "rewrites_rows_by X f d" "d' = d\<lparr>t_capabilities := map f (t_capabilities d)\<rparr>"
    "\<And>c. c_remaining_uses (f c) = c_remaining_uses c"
    "\<And>c. c_remaining_budget (f c) = c_remaining_budget c"
proof (cases "d' = d")
  case True
  have "rewrites_rows_by X (\<lambda>c. c) d" using cap_invD(2) [OF assms(1)] by (simp add: rewrites_rows_by_def)
  with True that [of "\<lambda>c. c"] show ?thesis by simp
next
  case False
  with assms(2) obtain k s now where
    d': "d' = d\<lparr>t_capabilities := map (retire k s now) (t_capabilities d)\<rparr>" and
    ok: "\<forall>c \<in> set (t_capabilities d). capability_check X c \<longrightarrow> capability_check X (retire k s now c)"
    by (auto simp: marked_def)
  have "rewrites_rows_by X (retire k s now) d"
    using ok cap_invD(2) [OF assms(1)]
    by (auto simp: rewrites_rows_by_def row_evolves_def same_scope_def retire_def)
  with d' that [of "retire k s now"] show ?thesis by simp
qed

lemma marked_step:
  assumes "cap_inv X d" and "marked X d d'"
  shows "cap_inv X d'" "cap_evolves d d'"
proof -
  obtain f where f: "rewrites_rows_by X f d" and d': "d' = d\<lparr>t_capabilities := map f (t_capabilities d)\<rparr>"
    and uses: "\<And>c. c_remaining_uses (f c) = c_remaining_uses c"
    and budget: "\<And>c. c_remaining_budget (f c) = c_remaining_budget c"
    using marked_rewrites [OF assms] by blast
  show "cap_inv X d'" unfolding d' by (rule rewrites_inv [OF assms(1) f])
  have anc: "is_ancestor d' = is_ancestor d" by (rule is_ancestor_cong) (simp add: d')
  have ids: "cap_ids d' = cap_ids d"
    using arg_cong [OF rewrites_ids [OF f], of set] by (simp add: d' image_image)
  have "same_accounts d d'"
    by (simp add: same_accounts_def ids budget_account_def uses_account_def spent_budget_def
        spent_uses_def anc, simp add: d' rewrites_by_key [OF f] option.map_comp comp_def uses budget)
  moreover have "\<exists>c'. by_key c_id i (t_capabilities d') = Some c' \<and> row_evolves c c'"
    if row: "by_key c_id i (t_capabilities d) = Some c" for i c
    using row rewrites_by_key [OF f] rewrites_row [OF f row] by (simp add: d')
  ultimately show "cap_evolves d d'"
    by (simp add: cap_evolves_def anc) (simp add: d')
qed

section \<open>Spending through an authorized capability\<close>

definition authorized :: "db \<Rightarrow> string \<Rightarrow> i64 \<Rightarrow> i64 \<Rightarrow> authorization_row \<Rightarrow> db" where
  "authorized d x b now z =
     d\<lparr>t_capabilities := map (spend_on {i. is_ancestor d x i} b now) (t_capabilities d),
       t_authorizations := t_authorizations d @ [z]\<rparr>"

lemma spent_authorized:
  assumes "z_capability_id z = x" and "z_budget_units z = b"
  shows "spent_budget (authorized d x b now z) i = spent_budget d i + (if is_ancestor d x i then b else 0)"
    and "spent_uses (authorized d x b now z) i = spent_uses d i + (if is_ancestor d x i then 1 else 0)"
proof -
  have "is_ancestor (authorized d x b now z) = is_ancestor d"
    by (rule is_ancestor_cong) (simp add: authorized_def)
  then show "spent_budget (authorized d x b now z) i = spent_budget d i + (if is_ancestor d x i then b else 0)"
    "spent_uses (authorized d x b now z) i = spent_uses d i + (if is_ancestor d x i then 1 else 0)"
    using assms by (simp_all add: spent_budget_def spent_uses_def) (simp_all add: authorized_def)
qed

lemma accounts_authorized:
  assumes f: "rewrites_rows_by X (spend_on {i. is_ancestor d x i} b now) d"
    and z: "z_capability_id z = x" "z_budget_units z = b"
  shows "same_accounts d (authorized d x b now z)"
proof -
  let ?f = "spend_on {i. is_ancestor d x i} b now"
  let ?d = "authorized d x b now z"
  have caps: "t_capabilities ?d = map ?f (t_capabilities d)" by (simp add: authorized_def)
  have row: "by_key c_id i (t_capabilities ?d) = map_option ?f (by_key c_id i (t_capabilities d))" for i
    unfolding caps by (rule rewrites_by_key [OF f])
  have id: "c_id c = i" if "by_key c_id i (t_capabilities d) = Some c" for i c
    using by_key_eq_SomeD [OF that] by simp
  have "cap_ids ?d = cap_ids d"
    using arg_cong [OF rewrites_ids [OF f], of set] unfolding caps by (simp only: set_map)
  moreover have "budget_account ?d i = budget_account d i" for i
    unfolding budget_account_def row spent_authorized(1) [OF z]
    using id [of i] by (cases "by_key c_id i (t_capabilities d)") (auto simp: spend_on_def option.map_comp comp_def)
  moreover have "uses_account ?d i = uses_account d i" for i
    unfolding uses_account_def row spent_authorized(2) [OF z]
    using id [of i] by (cases "by_key c_id i (t_capabilities d)") (auto simp: spend_on_def option.map_comp comp_def)
  ultimately show ?thesis by (simp add: same_accounts_def)
qed

lemma authorized_step:
  assumes inv: "cap_inv X d"
    and f: "rewrites_rows_by X (spend_on {i. is_ancestor d x i} b now) d"
    and z: "z_capability_id z = x" "z_budget_units z = b"
    and new: "authorization_insert_ok d (t_authorizations d) z"
  shows "cap_inv X (authorized d x b now z)" "cap_evolves d (authorized d x b now z)"
proof -
  let ?f = "spend_on {i. is_ancestor d x i} b now"
  let ?d = "authorized d x b now z"
  have anc: "is_ancestor ?d = is_ancestor d" by (rule is_ancestor_cong) (simp add: authorized_def)
  have inv1: "cap_inv X (d\<lparr>t_capabilities := map ?f (t_capabilities d)\<rparr>)" (is "cap_inv X ?d1")
    by (rule rewrites_inv [OF inv f])
  have ids: "cap_ids ?d1 = cap_ids d"
    using arg_cong [OF rewrites_ids [OF f], of set] by (simp add: image_image)
  have eq: "?d = ?d1\<lparr>t_authorizations := t_authorizations ?d1 @ [z]\<rparr>" by (simp add: authorized_def)
  have anc1: "is_ancestor ?d = is_ancestor ?d1"
    unfolding anc by (rule is_ancestor_cong [symmetric]) simp
  have "z_capability_id z \<in> cap_ids ?d1" "1 \<le> z_budget_units z"
    "(z_capability_id z, z_request_id z) \<notin> (\<lambda>z. (z_capability_id z, z_request_id z)) ` set (t_authorizations d)"
    using new unfolding ids by (auto simp: authorization_insert_ok_def)
  with inv1 anc1 show "cap_inv X ?d"
    unfolding cap_inv_def eq by simp
  have "\<exists>c'. by_key c_id i (t_capabilities ?d) = Some c' \<and> row_evolves c c'"
    if row: "by_key c_id i (t_capabilities d) = Some c" for i c
    using rewrites_by_key [OF f, of i] rewrites_row [OF f row] row by (simp add: authorized_def)
  moreover have "same_accounts d ?d" by (rule accounts_authorized [OF f z])
  moreover have "prefix (t_authorizations d) (t_authorizations ?d)" "t_decisions ?d = t_decisions d"
    by (simp_all add: authorized_def)
  ultimately show "cap_evolves d ?d" unfolding cap_evolves_def anc by simp
qed

section \<open>New capabilities\<close>

lemma insert_ancestry_effect:
  assumes "insert_ancestry rs d = Inr d'"
  shows "d' = d\<lparr>t_ancestry := t_ancestry d @ rs\<rparr>"
    and "distinct (map (\<lambda>a. (a_capability_id a, a_ancestor_id a)) (t_ancestry d)) \<Longrightarrow>
      distinct (map (\<lambda>a. (a_capability_id a, a_ancestor_id a)) (t_ancestry d @ rs))"
    and "\<forall>a \<in> set rs. a_capability_id a \<in> cap_ids d \<and> a_ancestor_id a \<in> cap_ids d"
proof -
  have "d' = d\<lparr>t_ancestry := t_ancestry d @ rs\<rparr> \<and>
    (distinct (map (\<lambda>a. (a_capability_id a, a_ancestor_id a)) (t_ancestry d)) \<longrightarrow>
      distinct (map (\<lambda>a. (a_capability_id a, a_ancestor_id a)) (t_ancestry d @ rs))) \<and>
    (\<forall>a \<in> set rs. a_capability_id a \<in> cap_ids d \<and> a_ancestor_id a \<in> cap_ids d)"
    using assms
  proof (induction rs arbitrary: d)
    case (Cons r rs)
    let ?d = "d\<lparr>t_ancestry := t_ancestry d @ [r]\<rparr>"
    from Cons.prems have ok: "ancestry_insert_ok d (t_ancestry d) r" and rest: "insert_ancestry rs ?d = Inr d'"
      by (auto simp: sql_def result_simps table_simps)
    note IH = Cons.IH [OF rest]
    have new: "(a_capability_id r, a_ancestor_id r) \<notin>
        set (map (\<lambda>a. (a_capability_id a, a_ancestor_id a)) (t_ancestry d))"
      "a_capability_id r \<in> cap_ids d" "a_ancestor_id r \<in> cap_ids d"
      using ok unfolding ancestry_insert_ok_def by simp_all
    have "d' = d\<lparr>t_ancestry := t_ancestry d @ (r # rs)\<rparr>"
      "\<forall>a \<in> set rs. a_capability_id a \<in> cap_ids d \<and> a_ancestor_id a \<in> cap_ids d" using IH by auto
    moreover have "distinct (map (\<lambda>a. (a_capability_id a, a_ancestor_id a)) (t_ancestry d)) \<longrightarrow>
      distinct (map (\<lambda>a. (a_capability_id a, a_ancestor_id a)) (t_ancestry d @ (r # rs)))"
    proof
      assume old: "distinct (map (\<lambda>a. (a_capability_id a, a_ancestor_id a)) (t_ancestry d))"
      have "distinct (map (\<lambda>a. (a_capability_id a, a_ancestor_id a)) (t_ancestry ?d))"
        using old new(1) by simp
      with IH show "distinct (map (\<lambda>a. (a_capability_id a, a_ancestor_id a)) (t_ancestry d @ (r # rs)))"
        by simp
    qed
    ultimately show ?case using new(2,3) by simp
  qed simp
  then show "d' = d\<lparr>t_ancestry := t_ancestry d @ rs\<rparr>"
    "distinct (map (\<lambda>a. (a_capability_id a, a_ancestor_id a)) (t_ancestry d)) \<Longrightarrow>
      distinct (map (\<lambda>a. (a_capability_id a, a_ancestor_id a)) (t_ancestry d @ rs))"
    "\<forall>a \<in> set rs. a_capability_id a \<in> cap_ids d \<and> a_ancestor_id a \<in> cap_ids d" by blast+
qed

definition admitted :: "db \<Rightarrow> capability_row \<Rightarrow> ancestry_row list \<Rightarrow> db" where
  "admitted d c rs = d\<lparr>t_capabilities := t_capabilities d @ [c], t_ancestry := t_ancestry d @ rs\<rparr>"

lemma admitted_ancestor:
  assumes "\<forall>a \<in> set rs. a_capability_id a = c_id c"
  shows "x \<noteq> c_id c \<Longrightarrow> is_ancestor (admitted d c rs) x i = is_ancestor d x i"
  using assms by (auto simp: is_ancestor_def admitted_def list_ex_iff)

lemma admitted_step:
  assumes inv: "cap_inv X d" and fresh: "c_id c \<notin> cap_ids d"
    and hash: "c_handle_hash c \<notin> c_handle_hash ` set (t_capabilities d)"
    and c: "capability_check X c" "canonical_id X (c_id c)"
    and rs: "\<forall>a \<in> set rs. a_capability_id a = c_id c \<and> a_ancestor_id a \<in> insert (c_id c) (cap_ids d)"
    and self: "\<exists>a \<in> set rs. a_ancestor_id a = c_id c"
    and dist: "distinct (map (\<lambda>a. (a_capability_id a, a_ancestor_id a)) (t_ancestry d @ rs))"
  shows "cap_inv X (admitted d c rs)" "cap_evolves d (admitted d c rs)"
proof -
  let ?d = "admitted d c rs"
  have anc: "is_ancestor ?d x i = is_ancestor d x i" if "x \<in> cap_ids d" for x i
  proof (rule admitted_ancestor)
    show "x \<noteq> c_id c" using that fresh by metis
  qed (use rs in blast)
  have own: "is_ancestor ?d (c_id c) (c_id c)"
    using self rs by (auto simp: is_ancestor_def admitted_def list_ex_iff)
  have sel: "t_capabilities ?d = t_capabilities d @ [c]" "t_ancestry ?d = t_ancestry d @ rs"
    "t_authorizations ?d = t_authorizations d" "t_decisions ?d = t_decisions d"
    by (simp_all add: admitted_def)
  have ids: "cap_ids ?d = insert (c_id c) (cap_ids d)" by (auto simp: sel)
  show "cap_inv X ?d"
    unfolding cap_inv_def sel(1-3) list_all_iff
  proof (intro conjI)
    show "distinct (map c_id (t_capabilities d @ [c]))"
      using cap_invD(1) [OF inv] fresh by simp
    show "\<forall>x \<in> set (t_capabilities d @ [c]). capability_check X x \<and> canonical_id X (c_id x) \<and>
        is_ancestor ?d (c_id x) (c_id x)"
      using cap_invD(2-4) [OF inv] c own anc by simp
    show "distinct (map (\<lambda>a. (a_capability_id a, a_ancestor_id a)) (t_ancestry d @ rs))" by (rule dist)
    show "\<forall>a \<in> set (t_ancestry d @ rs).
        a_capability_id a \<in> c_id ` set (t_capabilities d @ [c]) \<and>
        a_ancestor_id a \<in> c_id ` set (t_capabilities d @ [c])"
      using cap_invD(6,7) [OF inv] rs by auto
    show "distinct (map (\<lambda>z. (z_capability_id z, z_request_id z)) (t_authorizations d))"
      by (rule cap_invD(10) [OF inv])
    show "\<forall>z \<in> set (t_authorizations d). z_capability_id z \<in> c_id ` set (t_capabilities d @ [c]) \<and>
        1 \<le> z_budget_units z"
      using cap_invD(8,9) [OF inv] by auto
    show "distinct (map c_handle_hash (t_capabilities d @ [c]))"
      using cap_invD(11) [OF inv] hash by simp
  qed
  have row: "by_key c_id i (t_capabilities ?d) = by_key c_id i (t_capabilities d)"
    if "i \<in> cap_ids d" for i
    using that fresh unfolding sel by (auto simp: by_key_append table_simps split: option.split)
  have filt: "filter (\<lambda>z. is_ancestor ?d (z_capability_id z) i) (t_authorizations d) =
      filter (\<lambda>z. is_ancestor d (z_capability_id z) i) (t_authorizations d)" for i
    using cap_invD(8) [OF inv] anc by (intro filter_cong) auto
  have "same_accounts d ?d"
    by (simp add: same_accounts_def ids budget_account_def uses_account_def row spent_budget_def
        spent_uses_def sel(3) filt)
  moreover have "\<exists>r'. by_key c_id i (t_capabilities ?d) = Some r' \<and> row_evolves r r'"
    if r: "by_key c_id i (t_capabilities d) = Some r" for i r
  proof -
    have "i \<in> cap_ids d" using by_key_eq_SomeD [OF r] by auto
    with r row show ?thesis by simp
  qed
  ultimately show "cap_evolves d ?d"
    unfolding cap_evolves_def using anc by (simp add: sel)
qed

section \<open>The operations\<close>

subsection \<open>Issue and attenuation\<close>

definition new_row :: "externals \<Rightarrow> validated_issue \<Rightarrow> capability_id option \<Rightarrow> issued_capability \<Rightarrow> capability_row" where
  "new_row X v delegated issued =
     \<lparr>c_id = id_to_string X (issued_id issued), c_session_id = id_to_string X (v_session_id v),
      c_branch_id = id_to_string X (v_branch_id v), c_subject = v_subject v,
      c_action = v_action v, c_resource = v_resource v,
      c_constraints_json = v_constraints_json v, c_handle_hash = handle_digest X (issued_handle issued),
      c_delegated_from_id = map_option (id_to_string X) delegated,
      c_remaining_uses = v_remaining_uses v,
      c_policy_revision = v_policy_revision v, c_status = ''active'',
      c_issued_at = v_issued_at v, c_expires_at = v_expires_at v,
      c_updated_at = v_issued_at v, c_remaining_budget = v_remaining_budget v\<rparr>"

lemma new_row_id [simp]: "c_id (new_row X v dl issued) = id_to_string X (issued_id issued)"
  by (simp add: new_row_def)

lemma insert_capability_Inr:
  "insert_capability X v dl new_id secret d = Inr (issued, d') \<longleftrightarrow>
     issued_id issued = new_id \<and> handle_generate secret = Inr (issued_handle issued) \<and>
     capability_insert_ok X d (t_capabilities d) (new_row X v dl issued) \<and>
     d' = d\<lparr>t_capabilities := t_capabilities d @ [new_row X v dl issued]\<rparr>"
  by (cases issued)
    (auto simp: insert_capability_def new_row_def sql_def result_simps table_simps)

lemma issue_Inr:
  assumes "issue X poisoned clock new_id secret request d = Inr (issued, d')"
  obtains v where "validated_issue_new X request clock = Inr v" "0 \<le> clock" "issued_id issued = new_id"
    "handle_generate secret = Inr (issued_handle issued)"
    "current_policy X d (q_session_id request) (q_branch_id request) = Some (v_policy_revision v)"
    "capability_insert_ok X d (t_capabilities d) (new_row X v None issued)"
    "insert_ancestry [self_ancestry (id_to_string X new_id)]
       (d\<lparr>t_capabilities := t_capabilities d @ [new_row X v None issued]\<rparr>) = Inr d'"
proof -
  from assms obtain v d1 where v: "validated_issue_new X request clock = Inr v" "0 \<le> clock"
    and pol: "require_current_policy X d request (v_policy_revision v) = Inr ()"
    and ins: "insert_capability X v None new_id secret d = Inr (issued, d1)"
    and anc: "insert_ancestry [self_ancestry (id_to_string X (issued_id issued))] d1 = Inr d'"
    by (auto simp: issue_def service_now_def lock_store_def rbind_eq_Inr split: if_splits)
  have "current_policy X d (q_session_id request) (q_branch_id request) = Some (v_policy_revision v)"
    using pol by (auto simp: require_current_policy_def result_simps split: if_splits)
  with v ins anc that show ?thesis by (simp add: insert_capability_Inr)
qed

lemma validate_attenuation_Inr:
  assumes "validate_attenuation X parent v now d = Inr d'"
  shows "d' = d" "st_status parent = CapActive" "\<not> exhausted parent" "\<not> past_expiry now parent"
    "st_session_id parent = v_session_id v" "st_branch_id parent = v_branch_id v"
    "st_subject parent = v_subject v" "st_action parent = v_action v"
    "st_resource parent = v_resource v" "st_policy_revision parent = v_policy_revision v"
    "require_narrower_limit (v_remaining_uses v) (st_remaining_uses parent) ''max_uses'' = Inr ()"
    "require_narrower_limit (v_remaining_budget v) (st_remaining_budget parent) ''budget_units'' = Inr ()"
    "require_narrower_limit (v_expires_at v) (st_expires_at parent) ''expires_at_unix_ms'' = Inr ()"
    "current_policy X d (st_session_id parent) (st_branch_id parent) = Some (st_policy_revision parent)"
    "\<exists>as. load_ancestors X d (st_id parent) = Inr as \<and> starts_with_self as (st_id parent) \<and>
       (\<forall>a \<in> set (drop 1 as). st_status a = CapActive \<and> \<not> exhausted a \<and> \<not> past_expiry now a)"
proof -
  from assms obtain d1 as d2 where
    1: "direct_state_denial X parent now d = Inr (None, d1)"
    and 2: "load_ancestors X d1 (st_id parent) = Inr as" "starts_with_self as (st_id parent)"
    and 3: "ancestor_denial X as now d1 = Inr (None, d2)"
    and 4: "st_session_id parent = v_session_id v" "st_branch_id parent = v_branch_id v"
    "st_subject parent = v_subject v" "st_action parent = v_action v"
    "st_resource parent = v_resource v" "st_policy_revision parent = v_policy_revision v"
    "require_narrower_limit (v_remaining_uses v) (st_remaining_uses parent) ''max_uses'' = Inr ()"
    "require_narrower_limit (v_remaining_budget v) (st_remaining_budget parent) ''budget_units'' = Inr ()"
    "require_narrower_limit (v_expires_at v) (st_expires_at parent) ''expires_at_unix_ms'' = Inr ()"
    "current_policy X d2 (st_session_id parent) (st_branch_id parent) = Some (st_policy_revision parent)"
    "d' = d2"
    by (auto simp: validate_attenuation_def rbind_eq_Inr ok_or_eq_Inr split: if_splits)
  have same: "d1 = d" "d2 = d" using 1 3 by (simp_all add: direct_state_denial_None ancestor_denial_None)
  show "d' = d" "st_session_id parent = v_session_id v" "st_branch_id parent = v_branch_id v"
    "st_subject parent = v_subject v" "st_action parent = v_action v"
    "st_resource parent = v_resource v" "st_policy_revision parent = v_policy_revision v"
    "require_narrower_limit (v_remaining_uses v) (st_remaining_uses parent) ''max_uses'' = Inr ()"
    "require_narrower_limit (v_remaining_budget v) (st_remaining_budget parent) ''budget_units'' = Inr ()"
    "require_narrower_limit (v_expires_at v) (st_expires_at parent) ''expires_at_unix_ms'' = Inr ()"
    "current_policy X d (st_session_id parent) (st_branch_id parent) = Some (st_policy_revision parent)"
    using 4 same by simp_all
  show "st_status parent = CapActive" "\<not> exhausted parent" "\<not> past_expiry now parent"
    using 1 by (simp_all add: direct_state_denial_None)
  show "\<exists>as. load_ancestors X d (st_id parent) = Inr as \<and> starts_with_self as (st_id parent) \<and>
       (\<forall>a \<in> set (drop 1 as). st_status a = CapActive \<and> \<not> exhausted a \<and> \<not> past_expiry now a)"
    using 2 3 same by (auto simp: ancestor_denial_None)
qed

lemma attenuate_Inr:
  assumes "attenuate X poisoned clock new_id secret parent_handle request d = Inr (issued, d')"
  obtains v parent d1 where "validated_issue_new X request clock = Inr v" "issued_id issued = new_id"
    "handle_generate secret = Inr (issued_handle issued)"
    "load_capability_by_hash X d (handle_digest X parent_handle) = Inr (Some parent)"
    "validate_attenuation X parent v clock d = Inr d"
    "capability_insert_ok X d (t_capabilities d) (new_row X v (Some (st_id parent)) issued)"
    "insert_ancestry (inherited_ancestry (id_to_string X new_id) (id_to_string X (st_id parent)) d)
       (d\<lparr>t_capabilities := t_capabilities d @ [new_row X v (Some (st_id parent)) issued]\<rparr>) = Inr d1"
    "insert_ancestry [self_ancestry (id_to_string X new_id)] d1 = Inr d'"
proof -
  from assms obtain v parent d0 d1 d2 where v: "validated_issue_new X request clock = Inr v"
    and p: "load_capability_by_hash X d (handle_digest X parent_handle) = Inr (Some parent)"
    and att: "validate_attenuation X parent v clock d = Inr d0"
    and ins: "insert_capability X v (Some (st_id parent)) new_id secret d0 = Inr (issued, d1)"
    and anc: "insert_ancestry (inherited_ancestry (id_to_string X (issued_id issued))
        (id_to_string X (st_id parent)) d1) d1 = Inr d2"
      "insert_ancestry [self_ancestry (id_to_string X (issued_id issued))] d2 = Inr d'"
    by (auto simp: attenuate_def service_now_def lock_store_def rbind_eq_Inr ok_or_eq_Inr split: if_splits)
  have "d0 = d" by (rule validate_attenuation_Inr(1) [OF att])
  with v p att ins anc that show ?thesis by (simp add: insert_capability_Inr inherited_ancestry_def)
qed

lemma new_row_admitted:
  assumes "cap_inv X d" and "uuid_codec X"
    and "capability_insert_ok X d (t_capabilities d) (new_row X v dl issued)"
    and rs: "insert_ancestry rs (d\<lparr>t_capabilities := t_capabilities d @ [new_row X v dl issued]\<rparr>) = Inr d1"
    and self: "insert_ancestry [self_ancestry (id_to_string X (issued_id issued))] d1 = Inr d'"
    and own: "\<forall>a \<in> set rs. a_capability_id a = id_to_string X (issued_id issued)"
  shows "d' = admitted d (new_row X v dl issued) (rs @ [self_ancestry (id_to_string X (issued_id issued))])"
    "cap_inv X d'" "cap_evolves d d'"
proof -
  let ?c = "new_row X v dl issued" and ?s = "self_ancestry (id_to_string X (issued_id issued))"
  let ?d0 = "d\<lparr>t_capabilities := t_capabilities d @ [?c]\<rparr>"
  note e1 = insert_ancestry_effect [OF rs] and e2 = insert_ancestry_effect [OF self]
  have d1: "t_capabilities d1 = t_capabilities d @ [?c]" "t_ancestry d1 = t_ancestry d @ rs"
    using e1(1) by simp_all
  show d': "d' = admitted d ?c (rs @ [?s])" using e1(1) e2(1) by (simp add: admitted_def)
  have c: "capability_check X ?c" "c_id ?c \<notin> cap_ids d"
    "c_handle_hash ?c \<notin> c_handle_hash ` set (t_capabilities d)"
    using assms(3) by (auto simp: capability_insert_ok_def)
  have dist: "distinct (map (\<lambda>a. (a_capability_id a, a_ancestor_id a)) (t_ancestry d @ rs @ [?s]))"
    using e2(2) e1(2) cap_invD(5) [OF assms(1)] d1 by simp
  have rows: "\<forall>a \<in> set (rs @ [?s]). a_capability_id a = c_id ?c \<and>
      a_ancestor_id a \<in> insert (c_id ?c) (cap_ids d)"
    using own e1(3) by (simp add: self_ancestry_def)
  have self': "\<exists>a \<in> set (rs @ [?s]). a_ancestor_id a = c_id ?c" by (simp add: self_ancestry_def)
  have can: "canonical_id X (c_id ?c)" by (simp add: canonical_id_to_string [OF assms(2)])
  show "cap_inv X d'" "cap_evolves d d'" unfolding d'
    by (rule admitted_step [OF assms(1) c(2,3,1) can rows self' dist])+
qed

lemma inherited_own: "\<forall>a \<in> set (inherited_ancestry k p d). a_capability_id a = k"
  by (simp add: inherited_ancestry_def)

lemma issue_step:
  assumes "cap_inv X d" and "uuid_codec X"
    and "issue X poisoned clock new_id secret request d = Inr (issued, d')"
  shows "cap_inv X d'" "cap_evolves d d'"
proof -
  obtain v where
    ok: "capability_insert_ok X d (t_capabilities d) (new_row X v None issued)" and
    anc: "insert_ancestry [self_ancestry (id_to_string X (issued_id issued))]
       (d\<lparr>t_capabilities := t_capabilities d @ [new_row X v None issued]\<rparr>) = Inr d'"
    using issue_Inr [OF assms(3)] by metis
  show "cap_inv X d'" "cap_evolves d d'"
    by (rule new_row_admitted [OF assms(1,2) ok _ anc, of "[]"]; simp)+
qed

lemma attenuate_step:
  assumes "cap_inv X d" and "uuid_codec X"
    and "attenuate X poisoned clock new_id secret parent_handle request d = Inr (issued, d')"
  shows "cap_inv X d'" "cap_evolves d d'"
proof -
  obtain v and parent :: stored_capability and d1 where id: "issued_id issued = new_id" and
    ok: "capability_insert_ok X d (t_capabilities d) (new_row X v (Some (st_id parent)) issued)" and
    anc: "insert_ancestry (inherited_ancestry (id_to_string X new_id) (id_to_string X (st_id parent)) d)
       (d\<lparr>t_capabilities := t_capabilities d @ [new_row X v (Some (st_id parent)) issued]\<rparr>) = Inr d1"
      "insert_ancestry [self_ancestry (id_to_string X new_id)] d1 = Inr d'"
    by (rule attenuate_Inr [OF assms(3)]) blast
  show "cap_inv X d'" "cap_evolves d d'"
    by (rule new_row_admitted [OF assms(1,2) ok anc [folded id]]; simp add: id inherited_own)+
qed

subsection \<open>Decisions\<close>

lemma record_decision_Inr:
  assumes "record_decision X did cid hash request outcome reason now d = Inr (dec, d')"
  shows "\<exists>r. d' = d\<lparr>t_decisions := t_decisions d @ [r]\<rparr> \<and> d_decision_id r = uuid_to_string X did \<and>
      d_capability_id r = map_option (id_to_string X) cid \<and> d_handle_hash r = hash \<and>
      d_request_id r = use_request_id request \<and> d_request_hash r = use_request_hash request \<and>
      d_outcome r = outcome_str outcome \<and> d_reason r = denial_as_str reason \<and> d_decided_at r = now \<and>
      decision_insert_ok d (t_decisions d) r"
    and "dec = \<lparr>dec_outcome = outcome, dec_reason = reason, dec_capability_id = cid\<rparr>"
  using assms by (auto simp: record_decision_def sql_def result_simps table_simps)

lemma decisions_step:
  assumes "cap_inv X d"
  shows "cap_inv X (d\<lparr>t_decisions := t_decisions d @ rs\<rparr>)"
    "cap_evolves d (d\<lparr>t_decisions := t_decisions d @ rs\<rparr>)"
proof -
  let ?d = "d\<lparr>t_decisions := t_decisions d @ rs\<rparr>"
  have anc: "is_ancestor ?d = is_ancestor d" by (rule is_ancestor_cong) simp
  show "cap_inv X ?d" using assms unfolding cap_inv_def anc by simp
  show "cap_evolves d ?d"
    unfolding cap_evolves_def anc same_accounts_def budget_account_def uses_account_def
      spent_budget_def spent_uses_def
    by simp
qed

lemma record_decision_step:
  assumes "record_decision X did cid hash request outcome reason now d = Inr (dec, d')" "cap_inv X d"
  shows "cap_inv X d'" "cap_evolves d d'"
proof -
  obtain r where "d' = d\<lparr>t_decisions := t_decisions d @ [r]\<rparr>"
    using record_decision_Inr(1) [OF assms(1)] by blast
  with decisions_step [OF assms(2)] show "cap_inv X d'" "cap_evolves d d'" by simp_all
qed

lemma set_load_ancestors:
  assumes "cap_inv X d" and "load_ancestors X d cid = Inr as"
  shows "(\<lambda>a. id_to_string X (st_id a)) ` set as = {i \<in> cap_ids d. is_ancestor d (id_to_string X cid) i}"
proof -
  have "(\<lambda>a. id_to_string X (st_id a)) ` set as = c_id ` set (ancestor_rows d (id_to_string X cid))"
    using arg_cong [OF load_ancestors_ids(1) [OF assms], of set] by simp
  also have "\<dots> = {i \<in> cap_ids d. is_ancestor d (id_to_string X cid) i}"
    using set_ancestor_rows [OF assms(1)] by auto
  finally show ?thesis .
qed

text \<open>Consuming the loaded ancestors spends on every ancestor row, each of them active.\<close>

lemma consume_ancestors:
  assumes inv: "cap_inv X d" and as: "load_ancestors X d cid = Inr as"
    and run: "consume_all X b now as d = Inr d'"
  shows "d' = d\<lparr>t_capabilities :=
      map (spend_on {i. is_ancestor d (id_to_string X cid) i} b now) (t_capabilities d)\<rparr>"
    and "rewrites_rows_by X (spend_on {i. is_ancestor d (id_to_string X cid) i} b now) d"
proof -
  let ?x = "id_to_string X cid"
  let ?ids = "(\<lambda>a. id_to_string X (st_id a)) ` set as"
  have "distinct (map (\<lambda>a. id_to_string X (st_id a)) as)"
    unfolding load_ancestors_ids(1) [OF inv as] by (rule distinct_ancestor_rows [OF inv])
  note eff = consume_all_effect [OF run cap_invD(1) [OF inv] this load_ancestors_ids(2) [OF inv as]]
  have on: "spend_on ?ids b now c = spend_on {i. is_ancestor d ?x i} b now c"
    if "c \<in> set (t_capabilities d)" for c
    using that by (simp add: spend_on_def set_load_ancestors [OF inv as])
  then show "d' = d\<lparr>t_capabilities := map (spend_on {i. is_ancestor d ?x i} b now) (t_capabilities d)\<rparr>"
    using eff by (simp cong: map_cong)
  show "rewrites_rows_by X (spend_on {i. is_ancestor d ?x i} b now) d"
    unfolding rewrites_rows_by_def
  proof
    fix c assume c: "c \<in> set (t_capabilities d)"
    show "row_evolves c (spend_on {i. is_ancestor d ?x i} b now c) \<and>
      capability_check X (spend_on {i. is_ancestor d ?x i} b now c)"
    proof (cases "is_ancestor d ?x (c_id c)")
      case True
      then have "c_id c \<in> ?ids" using c by (simp add: set_load_ancestors [OF inv as])
      with eff c have "c_status c = ''active''" "capability_update_ok X c (spend b now c)" by blast+
      with True show ?thesis by (simp add: spend_on_def row_evolves_def capability_update_ok_def)
    next
      case False
      with c cap_invD(2) [OF inv] show ?thesis by (simp add: spend_on_def)
    qed
  qed
qed

text \<open>The outcomes of one authorization.\<close>

lemma authorize_in_tx_cases:
  assumes "authorize_and_consume_in_transaction X clock did handle request d = Inr (dec, d')"
  obtains (unknown) "0 \<le> clock" "load_capability_by_hash X d (handle_digest X handle) = Inr None"
      "record_decision X did None (handle_digest X handle) request Deny UnknownHandle clock d = Inr (dec, d')"
    | (deny) c reason d1 where "0 \<le> clock"
      "load_capability_by_hash X d (handle_digest X handle) = Inr (Some c)"
      "evaluate_authority X c request clock d = Inr (EvalDeny reason, d1)"
      "record_decision X did (Some (st_id c)) (handle_digest X handle) request Deny reason clock d1
         = Inr (dec, d')"
    | (allow) c as b d1 z where "0 \<le> clock"
      "load_capability_by_hash X d (handle_digest X handle) = Inr (Some c)"
      "authority_holds X c request clock d as b"
      "consume_all X b clock as d = Inr d1"
      "z = \<lparr>z_capability_id = id_to_string X (st_id c), z_request_id = use_request_id request,
            z_request_hash = use_request_hash request, z_budget_units = b, z_authorized_at = clock\<rparr>"
      "authorization_insert_ok d1 (t_authorizations d1) z"
      "record_decision X did (Some (st_id c)) (handle_digest X handle) request Allow Allowed clock
         (d1\<lparr>t_authorizations := t_authorizations d1 @ [z]\<rparr>) = Inr (dec, d')"
proof -
  from assms obtain found where clock: "0 \<le> clock"
    and found: "load_capability_by_hash X d (handle_digest X handle) = Inr found"
    by (auto simp: authorize_and_consume_in_transaction_def service_now_def rbind_eq_Inr split: if_splits)
  note run = assms [unfolded authorize_and_consume_in_transaction_def service_now_def found rbind.simps]
  show ?thesis
  proof (cases found)
    case None
    with run clock found unknown show ?thesis by simp
  next
    case (Some c)
    with run clock obtain ev d1 where ev: "evaluate_authority X c request clock d = Inr (ev, d1)"
      by (auto simp: rbind_eq_Inr)
    show ?thesis
    proof (cases ev)
      case (EvalDeny reason)
      with run clock Some found ev deny show ?thesis by simp
    next
      case (EvalAllow as b)
      with ev have "d1 = d" "authority_holds X c request clock d as b"
        by (simp_all add: evaluate_authority_allow)
      moreover from run clock Some ev EvalAllow obtain d2 rows
        where "consume_all X b clock as d1 = Inr d2"
          "sql_insert (authorization_insert_ok d2)
             \<lparr>z_capability_id = id_to_string X (st_id c), z_request_id = use_request_id request,
              z_request_hash = use_request_hash request, z_budget_units = b, z_authorized_at = clock\<rparr>
             (t_authorizations d2) = Some rows"
          "record_decision X did (Some (st_id c)) (handle_digest X handle) request Allow Allowed clock
             (d2\<lparr>t_authorizations := rows\<rparr>) = Inr (dec, d')"
        by (auto simp: rbind_eq_Inr sql_def ok_or_eq_Inr)
      ultimately show ?thesis
        using clock Some found by (intro allow) (auto simp: table_simps)
    qed
  qed
qed

lemma authorize_allow_db:
  assumes inv: "cap_inv X d" and "authority_holds X c request now d as b"
    and "consume_all X b now as d = Inr d1" and "authorization_insert_ok d1 (t_authorizations d1) z"
    and z: "z_capability_id z = id_to_string X (st_id c)" "z_budget_units z = b"
  shows "d1\<lparr>t_authorizations := t_authorizations d1 @ [z]\<rparr> = authorized d (id_to_string X (st_id c)) b now z"
    "cap_inv X (authorized d (id_to_string X (st_id c)) b now z)"
    "cap_evolves d (authorized d (id_to_string X (st_id c)) b now z)"
proof -
  let ?x = "id_to_string X (st_id c)"
  have as: "load_ancestors X d (st_id c) = Inr as" using assms(2) by (simp add: authority_holds_checks)
  note d1 = consume_ancestors(1) [OF inv as assms(3)] and f = consume_ancestors(2) [OF inv as assms(3)]
  show "d1\<lparr>t_authorizations := t_authorizations d1 @ [z]\<rparr> = authorized d ?x b now z"
    using d1 by (simp add: authorized_def)
  have "t_authorizations d1 = t_authorizations d" using d1 by simp
  moreover have "cap_ids d1 = cap_ids d"
    using arg_cong [OF rewrites_ids [OF f], of set] by (simp add: d1 image_image)
  ultimately have "authorization_insert_ok d (t_authorizations d) z"
    using assms(4) by (simp add: authorization_insert_ok_def)
  then show "cap_inv X (authorized d ?x b now z)" "cap_evolves d (authorized d ?x b now z)"
    by (rule authorized_step [OF inv f z])+
qed

lemma authorize_in_tx_step:
  assumes inv: "cap_inv X d"
    and run: "authorize_and_consume_in_transaction X clock did handle request d = Inr (dec, d')"
  shows "cap_inv X d' \<and> cap_evolves d d'"
  using run
proof (cases rule: authorize_in_tx_cases)
  case unknown
  with inv show ?thesis by (blast intro: record_decision_step)
next
  case (deny c reason d1)
  have d1: "cap_inv X d1" "cap_evolves d d1"
    using marked_step [OF inv evaluate_authority_marked [OF deny(3)]] .
  with record_decision_step [OF deny(4)] show ?thesis by (blast intro: cap_evolves_trans)
next
  case (allow c as b d1 z)
  have z: "z_capability_id z = id_to_string X (st_id c)" "z_budget_units z = b" using allow(5) by simp_all
  note a = authorize_allow_db [OF inv allow(3,4,6) z]
  from record_decision_step [OF allow(7) [unfolded a(1)] a(2)] a(3)
  show ?thesis by (blast intro: cap_evolves_trans)
qed

subsection \<open>Revocation and policy\<close>

lemma revoke_marked:
  assumes "revoke X poisoned clock handle d = Inr (u, d')"
  shows "marked X d d'"
  using assms
  by (auto simp: revoke_def service_now_def lock_store_def result_simps intro: mark_status_marked
      split: if_splits)

lemma revoke_by_id_marked:
  assumes "revoke_by_id X poisoned clock cid d = Inr (u, d')"
  shows "marked X d d'"
  using assms
  by (auto simp: revoke_by_id_def service_now_def lock_store_def result_simps intro: mark_status_marked
      split: if_splits)

lemma set_policy_revision_caps:
  assumes "set_policy_revision X poisoned clock session branch revision d = Inr (u, d')"
  shows "\<exists>rows. d' = d\<lparr>t_policies := rows\<rparr>"
proof -
  have "d = d\<lparr>t_policies := t_policies d\<rparr>" by simp
  then have "\<exists>rows. d = d\<lparr>t_policies := rows\<rparr>" by blast
  with assms show ?thesis
    by (auto simp: set_policy_revision_def rbind_eq_Inr split: option.splits if_splits)
qed

lemma policies_step:
  assumes "cap_inv X d"
  shows "cap_inv X (d\<lparr>t_policies := rows\<rparr>)" "cap_evolves d (d\<lparr>t_policies := rows\<rparr>)"
proof -
  let ?d = "d\<lparr>t_policies := rows\<rparr>"
  have anc: "is_ancestor ?d = is_ancestor d" by (rule is_ancestor_cong) simp
  show "cap_inv X ?d" using assms unfolding cap_inv_def anc by simp
  show "cap_evolves d ?d"
    unfolding cap_evolves_def anc same_accounts_def budget_account_def uses_account_def
      spent_budget_def spent_uses_def
    by simp
qed

end
