(* ===== verification/Epoch_Capability_Service.thy ===== *)
theory Epoch_Capability_Service
  imports Epoch_Capability_Proofs
begin

text \<open>
  The capability service as its callers see it: every public operation is one immediate transaction
  on the shared database, and clients issue them in any order. The locale \<open>machine\<close> is
  interpreted on that service; the properties below hold of every sequence of calls, whatever the
  clock, the fresh identifiers and the random bytes of each call are.
\<close>

section \<open>The service\<close>

datatype service_op =
    OpSetPolicy bool i64 session_id branch_id u64
  | OpIssue bool i64 capability_id "string option" issue_request
  | OpAttenuate bool i64 capability_id "string option" capability_handle issue_request
  | OpRevoke bool i64 capability_handle
  | OpRevokeById bool i64 capability_id
  | OpAuthorize bool i64 uuid capability_handle capability_use

fun service_step :: "externals \<Rightarrow> service_op \<Rightarrow> db \<Rightarrow> db" where
  "service_step X (OpSetPolicy p clock s b revision) d =
     snd (run_tx (set_policy_revision X p clock s b revision d) d)"
| "service_step X (OpIssue p clock cid secret request) d =
     snd (run_tx (issue X p clock cid secret request d) d)"
| "service_step X (OpAttenuate p clock cid secret parent request) d =
     snd (run_tx (attenuate X p clock cid secret parent request d) d)"
| "service_step X (OpRevoke p clock handle) d = snd (run_tx (revoke X p clock handle d) d)"
| "service_step X (OpRevokeById p clock cid) d = snd (run_tx (revoke_by_id X p clock cid d) d)"
| "service_step X (OpAuthorize p clock did handle request) d =
     snd (run_tx (authorize_and_consume X p clock did handle request d) d)"

abbreviation service_run :: "externals \<Rightarrow> service_op list \<Rightarrow> db \<Rightarrow> db" where
  "service_run X ops d \<equiv> run_ops (service_step X) ops d"

lemma snd_run_tx_step:
  assumes "\<And>x d'. body = Inr (x, d') \<Longrightarrow> P d'" and "P d"
  shows "P (snd (run_tx body d))"
  using assms by (cases body) (auto simp: run_tx_def)

lemma authorize_and_consume_Inr:
  "authorize_and_consume X p clock did handle request d = Inr r \<longleftrightarrow>
     \<not> p \<and> authorize_and_consume_in_transaction X clock did handle request d = Inr r"
  by (auto simp: authorize_and_consume_def lock_store_def)

lemma service_step_keeps:
  assumes "uuid_codec X" and "cap_inv X d"
  shows "cap_inv X (service_step X a d) \<and> cap_evolves d (service_step X a d)"
proof (cases a)
  case (OpSetPolicy p clock s b revision)
  show ?thesis unfolding OpSetPolicy service_step.simps
  proof (rule snd_run_tx_step)
    fix x d' assume "set_policy_revision X p clock s b revision d = Inr (x, d')"
    then obtain rows where "d' = d\<lparr>t_policies := rows\<rparr>" by (blast dest: set_policy_revision_caps)
    with policies_step [OF assms(2)] show "cap_inv X d' \<and> cap_evolves d d'" by simp
  qed (simp add: assms)
next
  case (OpIssue p clock cid secret request)
  show ?thesis unfolding OpIssue service_step.simps
    by (rule snd_run_tx_step) (use assms issue_step in \<open>blast, simp\<close>)
next
  case (OpAttenuate p clock cid secret parent request)
  show ?thesis unfolding OpAttenuate service_step.simps
    by (rule snd_run_tx_step) (use assms attenuate_step in \<open>blast, simp\<close>)
next
  case (OpRevoke p clock handle)
  show ?thesis unfolding OpRevoke service_step.simps
    by (rule snd_run_tx_step) (use assms marked_step revoke_marked in \<open>blast, simp\<close>)
next
  case (OpRevokeById p clock cid)
  show ?thesis unfolding OpRevokeById service_step.simps
    by (rule snd_run_tx_step) (use assms marked_step revoke_by_id_marked in \<open>blast, simp\<close>)
next
  case (OpAuthorize p clock did handle request)
  show ?thesis unfolding OpAuthorize service_step.simps
    by (rule snd_run_tx_step)
      (use assms authorize_in_tx_step authorize_and_consume_Inr in \<open>blast, simp\<close>)
qed

interpretation service: machine "service_step X" "\<lambda>d. uuid_codec X \<and> cap_inv X d" cap_evolves for X
  by unfold_locales (auto intro: cap_evolves_trans dest: service_step_keeps)

lemmas service_run_inv = service.run_inv [OF conjI, THEN conjunct2]
lemmas service_run_evolves = service.run_evolves [OF conjI]

section \<open>Consequences of the evolution\<close>

lemma by_key_id: "by_key c_id i (t_capabilities d) = Some c \<Longrightarrow> i \<in> cap_ids d"
  by (auto dest: by_key_eq_SomeD)

lemma inactive_stays:
  assumes "cap_evolves d d'" and "by_key c_id i (t_capabilities d) = Some c" and "c_status c \<noteq> ''active''"
  shows "by_key c_id i (t_capabilities d') = Some c"
  using cap_evolves_row [OF assms(1,2)] assms(3) by (metis row_evolves_def)

lemma by_hash_loaded:
  assumes "cap_inv X d" and "load_capability_by_hash X d h = Inr (Some c)"
  obtains r where "by_key c_handle_hash h (t_capabilities d) = Some r" "r \<in> set (t_capabilities d)"
    "stored_capability_from_raw X r = Inr c" "id_to_string X (st_id c) = c_id r"
proof -
  obtain r where r: "by_key c_handle_hash h (t_capabilities d) = Some r" "stored_capability_from_raw X r = Inr c"
    using assms(2) by (auto simp: load_capability_by_hash_def option_try_eq_Inr)
  have "r \<in> set (t_capabilities d)" using by_key_eq_SomeD [OF r(1)] by simp
  with r that stored_from_raw(1) [OF r(2) cap_invD(3) [OF assms(1)]] show ?thesis by blast
qed

text \<open>A handle keeps naming the same capability.\<close>

lemma by_hash_stays:
  assumes "cap_evolves d d'" and "cap_inv X d" and "cap_inv X d'"
    and "by_key c_handle_hash h (t_capabilities d) = Some r"
  obtains r' where "by_key c_handle_hash h (t_capabilities d') = Some r'" "row_evolves r r'"
proof -
  have r: "r \<in> set (t_capabilities d)" "c_handle_hash r = h"
    using by_key_eq_SomeD [OF assms(4)] by simp_all
  then have "by_key c_id (c_id r) (t_capabilities d) = Some r"
    by (simp add: by_key_eq_Some cap_invD(1) [OF assms(2)])
  then obtain r' where r': "by_key c_id (c_id r) (t_capabilities d') = Some r'" "row_evolves r r'"
    using cap_evolves_row [OF assms(1)] by metis
  then have "r' \<in> set (t_capabilities d')" "c_handle_hash r' = h"
    using by_key_eq_SomeD [OF r'(1)] r(2) by (simp_all add: row_evolves_def same_scope_def)
  then have "by_key c_handle_hash h (t_capabilities d') = Some r'"
    by (simp add: by_key_eq_Some cap_invD(11) [OF assms(3)])
  with r'(2) that show ?thesis by blast
qed

text \<open>A use is allowed only when every ancestor row is active.\<close>

lemma allowed_ancestors_active:
  assumes inv: "cap_inv X d" and c: "load_capability_by_hash X d h = Inr (Some c)"
    and holds: "authority_holds X c request now d as b"
    and r: "r \<in> set (t_capabilities d)" "is_ancestor d (id_to_string X (st_id c)) (c_id r)"
  shows "c_status r = ''active''"
proof -
  have as: "load_ancestors X d (st_id c) = Inr as" and self: "starts_with_self as (st_id c)"
    and active: "\<forall>a \<in> set (c # drop 1 as). st_status a = CapActive"
    using holds by (auto simp: authority_holds_checks)
  have rows: "list_all2 (\<lambda>r a. stored_capability_from_raw X r = Inr a)
      (ancestor_rows d (id_to_string X (st_id c))) as"
    using as by (simp add: load_ancestors_def list_try_eq_Inr)
  obtain r0 where r0: "r0 \<in> set (t_capabilities d)" "stored_capability_from_raw X r0 = Inr c"
      "id_to_string X (st_id c) = c_id r0"
    using by_hash_loaded [OF inv c] by metis
  have "r \<in> set (ancestor_rows d (id_to_string X (st_id c)))"
    using r by (simp add: set_ancestor_rows [OF inv])
  then obtain a where a: "a \<in> set as" "stored_capability_from_raw X r = Inr a"
    using list_all2_image [OF rows] by blast
  have "st_status a = CapActive"
  proof (cases "a \<in> set (drop 1 as)")
    case True
    with active show ?thesis by simp
  next
    case False
    with a(1) self have id: "st_id a = st_id c" by (cases as) (auto simp: starts_with_self_def)
    have "id_to_string X (st_id a) = c_id r" by (rule stored_from_raw(1) [OF a(2) cap_invD(3) [OF inv r(1)]])
    with id r0 have "c_id r = c_id r0" by simp
    with r(1) r0(1) cap_invD(1) [OF inv] have "r = r0" by (blast intro: distinct_key_eq)
    with a(2) r0(2) active show ?thesis by simp
  qed
  with stored_from_raw(4) [OF a(2) cap_invD(3) [OF inv r(1)]] show ?thesis
    by (simp add: status_active_iff)
qed

lemma inactive_ancestor_denied:
  assumes inv: "cap_inv X d"
    and auth: "authorize_and_consume_in_transaction X clock did handle request d = Inr (dec, d')"
    and r: "by_key c_handle_hash (handle_digest X handle) (t_capabilities d) = Some r"
      "is_ancestor d (c_id r) i"
    and i: "by_key c_id i (t_capabilities d) = Some c" "c_status c \<noteq> ''active''"
  shows "dec_outcome dec = Deny"
  using auth
proof (cases rule: authorize_in_tx_cases)
  case unknown
  then show ?thesis by (simp add: record_decision_Inr(2) [OF unknown(3)])
next
  case (deny c reason d1)
  then show ?thesis by (simp add: record_decision_Inr(2) [OF deny(4)])
next
  case (allow s as b d1 z)
  obtain r' where "by_key c_handle_hash (handle_digest X handle) (t_capabilities d) = Some r'"
    "id_to_string X (st_id s) = c_id r'"
    using by_hash_loaded [OF inv allow(2)] by metis
  with r have "is_ancestor d (id_to_string X (st_id s)) i" by simp
  moreover have "c \<in> set (t_capabilities d)" "c_id c = i" using by_key_eq_SomeD [OF i(1)] by simp_all
  ultimately have "c_status c = ''active''"
    using allowed_ancestors_active [OF inv allow(2,3)] by simp
  with i(2) show ?thesis by simp
qed

end
