(* ===== verification/Epoch_Blob.thy ===== *)
theory Epoch_Blob
  imports Epoch_Text
begin

text \<open>
  The crate \<open>epoch-blob\<close>: the content-addressed store over the managed directory tree.

  The tree below the store's root is an association list from paths (lists of components) to nodes.
  A call returns its result and the tree it leaves, since an error does not undo earlier file
  operations. What another process does between two file operations of a call is the argument
  \<open>env\<close>, one tree transformer per gap. Failures of the host's file system other than an absent or
  an already existing file are not modelled, nor are the \<open>fsync\<close> calls.
\<close>

section \<open>Nodes and errors\<close>

type_synonym path = "string list"

datatype node =
    Dir u32
  | Regular (node_mode: u32) (node_bytes: string) (node_mtime: i64)
  | Symlink
  | SpecialNode

type_synonym fs = "(path \<times> node) list"

datatype blob_hash = BlobHash (hash_str: string)

datatype io_kind = IoNotFound | IoAlreadyExists

datatype blob_error =
    BIo io_kind
  | BSizeLimitExceeded u64 u64
  | BNotFound blob_hash
  | BHashMismatch blob_hash blob_hash
  | BUnsafeSymlink path
  | BUnexpectedFileType path string
  | BInsecurePermissions path u32 u32
  | BInvalidMediaType string
  | BCorruptMediaType blob_hash
  | BMediaTypeConflict blob_hash string string

definition blob_hash_digest :: "externals \<Rightarrow> string \<Rightarrow> blob_hash" where
  "blob_hash_digest X bs = BlobHash (encode_hex (sha256 X bs))"

definition blob_hash_from_str :: "string \<Rightarrow> blob_hash option" where
  "blob_hash_from_str value =
     (if length value = 64 \<and> list_all is_hex_byte value then Some (BlobHash value) else None)"

record blob_metadata =
  m_hash :: blob_hash
  m_length :: u64
  m_media_type :: string

definition default_max_blob_bytes :: u64 where
  "default_max_blob_bytes = 256 * 1024 * 1024"

text \<open>Modes \<open>0o700\<close> and \<open>0o600\<close>.\<close>

definition private_directory_mode :: u32 where "private_directory_mode = 448"
definition private_file_mode :: u32 where "private_file_mode = 384"

section \<open>File operations\<close>

type_synonym 'a fsop = "fs \<Rightarrow> (blob_error, 'a) result \<times> fs"

definition fok :: "'a \<Rightarrow> 'a fsop" where "fok x t = (Inr x, t)"
definition ferr :: "blob_error \<Rightarrow> 'a fsop" where "ferr e t = (Inl e, t)"
definition fpure :: "(fs \<Rightarrow> (blob_error, 'a) result) \<Rightarrow> 'a fsop" where "fpure f t = (f t, t)"
definition fdo :: "(fs \<Rightarrow> fs) \<Rightarrow> unit fsop" where "fdo f t = (Inr (), f t)"

definition fbind :: "'a fsop \<Rightarrow> ('a \<Rightarrow> 'b fsop) \<Rightarrow> 'b fsop" where
  "fbind m f t = (case m t of (Inl e, t') \<Rightarrow> (Inl e, t') | (Inr x, t') \<Rightarrow> f x t')"

definition fs_put :: "path \<Rightarrow> node \<Rightarrow> fs \<Rightarrow> fs" where
  "fs_put p n t = (p, n) # filter (\<lambda>e. fst e \<noteq> p) t"

definition fs_remove :: "path \<Rightarrow> fs \<Rightarrow> fs" where
  "fs_remove p t = filter (\<lambda>e. fst e \<noteq> p) t"

definition symlink_metadata :: "path \<Rightarrow> fs \<Rightarrow> (blob_error, node) result" where
  "symlink_metadata p t = ok_or (map_of t p) (BIo IoNotFound)"

definition validate_unix_permissions :: "path \<Rightarrow> u32 \<Rightarrow> u32 \<Rightarrow> (blob_error, unit) result" where
  "validate_unix_permissions p mode expected =
     (let actual = take_bit 12 mode in
      if actual = expected then Inr () else Inl (BInsecurePermissions p expected actual))"

definition validate_directory :: "path \<Rightarrow> node \<Rightarrow> (blob_error, unit) result" where
  "validate_directory p n =
     (case n of
        Symlink \<Rightarrow> Inl (BUnsafeSymlink p)
      | Dir mode \<Rightarrow> validate_unix_permissions p mode private_directory_mode
      | _ \<Rightarrow> Inl (BUnexpectedFileType p ''directory''))"

definition validate_regular_file :: "path \<Rightarrow> node \<Rightarrow> (blob_error, unit) result" where
  "validate_regular_file p n =
     (case n of
        Symlink \<Rightarrow> Inl (BUnsafeSymlink p)
      | Regular mode _ _ \<Rightarrow> validate_unix_permissions p mode private_file_mode
      | _ \<Rightarrow> Inl (BUnexpectedFileType p ''regular file''))"

definition ensure_secure_directory :: "path \<Rightarrow> bool fsop" where
  "ensure_secure_directory p t =
     (case map_of t p of
        Some n \<Rightarrow> (rbind (validate_directory p n) (\<lambda>_. Inr False), t)
      | None \<Rightarrow> (Inr True, fs_put p (Dir private_directory_mode) t))"

definition secure_regular_file_exists :: "path \<Rightarrow> fs \<Rightarrow> (blob_error, bool) result" where
  "secure_regular_file_exists p t =
     (case map_of t p of
        Some n \<Rightarrow> rbind (validate_regular_file p n) (\<lambda>_. Inr True)
      | None \<Rightarrow> Inr False)"

text \<open>The node of an opened file, with the checks of \<open>open_secure_regular_file\<close>.\<close>

definition open_secure_regular_file :: "path \<Rightarrow> fs \<Rightarrow> (blob_error, node) result" where
  "open_secure_regular_file p t =
     rbind (symlink_metadata p t) (\<lambda>n. rbind (validate_regular_file p n) (\<lambda>_. Inr n))"

text \<open>\<open>TemporaryBlob::create\<close> followed by \<open>write_and_sync\<close>: \<open>create_new\<close> refuses an existing
  path.\<close>

definition create_temporary :: "i64 \<Rightarrow> path \<Rightarrow> string \<Rightarrow> unit fsop" where
  "create_temporary now p bs t =
     (if map_of t p \<noteq> None then (Inl (BIo IoAlreadyExists), t)
      else (Inr (), fs_put p (Regular private_file_mode bs now) t))"

text \<open>\<open>fs::hard_link(temporary, final)\<close>: an existing final path is left as it is and reported.\<close>

definition hard_link :: "path \<Rightarrow> path \<Rightarrow> bool fsop" where
  "hard_link source target t =
     (case map_of t source of
        None \<Rightarrow> (Inl (BIo IoNotFound), t)
      | Some n \<Rightarrow> if map_of t target \<noteq> None then (Inr False, t) else (Inr True, fs_put target n t))"

definition discard_temporary :: "path \<Rightarrow> unit fsop" where
  "discard_temporary p t =
     (if map_of t p = None then (Inl (BIo IoNotFound), t) else (Inr (), fs_remove p t))"

definition publish_no_clobber :: "path \<Rightarrow> path \<Rightarrow> bool fsop" where
  "publish_no_clobber temporary target =
     fbind (hard_link temporary target) (\<lambda>published.
     fbind (discard_temporary temporary) (\<lambda>_. fok published))"

text \<open>\<open>Drop for TemporaryBlob\<close> removes the temporary file on every way out of its scope.\<close>

definition with_temporary :: "i64 \<Rightarrow> path \<Rightarrow> string \<Rightarrow> 'a fsop \<Rightarrow> 'a fsop" where
  "with_temporary now p bs body =
     fbind (create_temporary now p bs) (\<lambda>_ t. let (r, t') = body t in (r, fs_remove p t'))"

section \<open>Addresses\<close>

definition shard_directory :: "blob_hash \<Rightarrow> path" where
  "shard_directory h = [''sha256'', take 2 (hash_str h)]"

definition blob_path :: "blob_hash \<Rightarrow> path" where
  "blob_path h = [''sha256'', take 2 (hash_str h), hash_str h]"

definition media_type_path :: "blob_hash \<Rightarrow> path" where
  "media_type_path h = [''sha256'', take 2 (hash_str h), hash_str h @ ''.media-type'']"

definition temp_directory :: path where
  "temp_directory = [''sha256'', ''.tmp'']"

definition temporary_path :: "externals \<Rightarrow> blob_hash \<Rightarrow> uuid \<Rightarrow> path" where
  "temporary_path X h u =
     [''sha256'', ''.tmp'', hash_str h @ ''.'' @ uuid_to_string X u @ ''.tmp'']"

section \<open>Media types\<close>

definition valid_media_type :: "string \<Rightarrow> bool" where
  "valid_media_type v \<longleftrightarrow>
     v \<noteq> [] \<and> length v \<le> 255 \<and> list_all (\<lambda>c. byte c < 128 \<and> \<not> is_ascii_control c) v"

definition validate_media_type :: "string \<Rightarrow> (blob_error, unit) result" where
  "validate_media_type v = (if valid_media_type v then Inr () else Inl (BInvalidMediaType v))"

definition compare_media_type :: "blob_hash \<Rightarrow> string \<Rightarrow> string \<Rightarrow> (blob_error, unit) result" where
  "compare_media_type h stored requested =
     (if stored = requested then Inr () else Inl (BMediaTypeConflict h stored requested))"

text \<open>
  A stored media type that is too long, not UTF-8, or not a valid media type is corrupt; a byte that
  is not ASCII is rejected by the second check when it is UTF-8 and by the first when it is not.
\<close>

definition read_media_type :: "blob_hash \<Rightarrow> fs \<Rightarrow> (blob_error, string) result" where
  "read_media_type h t =
     rbind (open_secure_regular_file (media_type_path h) t) (\<lambda>n.
     if 255 < length (node_bytes n) then Inl (BCorruptMediaType h)
     else if \<not> valid_media_type (node_bytes n) then Inl (BCorruptMediaType h)
     else Inr (node_bytes n))"

section \<open>Operations\<close>

record blob_store =
  max_blob_bytes :: u64

definition blob_read :: "externals \<Rightarrow> blob_store \<Rightarrow> blob_hash \<Rightarrow> fs \<Rightarrow> (blob_error, string) result" where
  "blob_read X st h t =
     (case open_secure_regular_file (blob_path h) t of
        Inl (BIo IoNotFound) \<Rightarrow> Inl (BNotFound h)
      | Inl e \<Rightarrow> Inl e
      | Inr n \<Rightarrow>
          if unat (max_blob_bytes st) < length (node_bytes n)
          then Inl (BSizeLimitExceeded (of_nat (length (node_bytes n))) (max_blob_bytes st))
          else if blob_hash_digest X (node_bytes n) = h then Inr (node_bytes n)
          else Inl (BHashMismatch h (blob_hash_digest X (node_bytes n))))"

definition ensure_media_type ::
  "externals \<Rightarrow> (nat \<Rightarrow> fs \<Rightarrow> fs) \<Rightarrow> i64 \<Rightarrow> uuid \<Rightarrow> blob_hash \<Rightarrow> string \<Rightarrow> unit fsop" where
  "ensure_media_type X env now u h requested =
     fbind (fpure (secure_regular_file_exists (media_type_path h))) (\<lambda>exists.
     if exists then fpure (\<lambda>t. rbind (read_media_type h t) (\<lambda>stored. compare_media_type h stored requested))
     else with_temporary now (temporary_path X h u) requested (
       fbind (fdo (env 2)) (\<lambda>_.
       fbind (publish_no_clobber (temporary_path X h u) (media_type_path h)) (\<lambda>published.
       if published then fok ()
       else fpure (\<lambda>t. rbind (read_media_type h t) (\<lambda>stored. compare_media_type h stored requested))))))"

definition store_bytes ::
  "externals \<Rightarrow> blob_store \<Rightarrow> (nat \<Rightarrow> fs \<Rightarrow> fs) \<Rightarrow> i64 \<Rightarrow> uuid \<Rightarrow> blob_hash \<Rightarrow> string \<Rightarrow> unit fsop" where
  "store_bytes X st env now u h bs =
     fbind (fpure (secure_regular_file_exists (blob_path h))) (\<lambda>exists.
     if exists then fbind (fpure (blob_read X st h)) (\<lambda>_. fok ())
     else
       fbind (ensure_secure_directory (shard_directory h)) (\<lambda>_.
       with_temporary now (temporary_path X h u) bs (
         fbind (fdo (env 0)) (\<lambda>_.
         fbind (fpure (secure_regular_file_exists (blob_path h))) (\<lambda>won.
         fbind (if won then fbind (discard_temporary (temporary_path X h u)) (\<lambda>_. fok True)
                else fbind (fdo (env 1)) (\<lambda>_.
                  fbind (publish_no_clobber (temporary_path X h u) (blob_path h)) (\<lambda>published.
                  fok (\<not> published)))) (\<lambda>winner_exists.
         if winner_exists then fbind (fpure (blob_read X st h)) (\<lambda>_. fok ()) else fok ()))))))"

definition blob_put ::
  "externals \<Rightarrow> blob_store \<Rightarrow> (nat \<Rightarrow> fs \<Rightarrow> fs) \<Rightarrow> i64 \<Rightarrow> uuid \<Rightarrow> uuid \<Rightarrow> string \<Rightarrow> string \<Rightarrow>
   blob_metadata fsop" where
  "blob_put X st env now u u' bs media_type =
     (if unat (max_blob_bytes st) < length bs
      then ferr (BSizeLimitExceeded (of_nat (length bs)) (max_blob_bytes st))
      else
        fbind (fpure (\<lambda>_. validate_media_type media_type)) (\<lambda>_.
        let h = blob_hash_digest X bs in
        fbind (store_bytes X st env now u h bs) (\<lambda>_.
        fbind (ensure_media_type X env now u' h media_type) (\<lambda>_.
        fok \<lparr>m_hash = h, m_length = of_nat (length bs), m_media_type = media_type\<rparr>))))"

text \<open>\<open>is_managed_temporary_name\<close>.\<close>

definition is_managed_temporary_name :: "externals \<Rightarrow> string \<Rightarrow> bool" where
  "is_managed_temporary_name X name =
     (case strip_suffix ''.tmp'' name of
        None \<Rightarrow> False
      | Some stem \<Rightarrow> (case split_once ''.'' stem of
          None \<Rightarrow> False
        | Some (h, identifier) \<Rightarrow> blob_hash_from_str h \<noteq> None \<and> uuid_parse X identifier \<noteq> None))"

text \<open>The entries of a directory, in the order the host lists them.\<close>

definition dir_entries :: "path \<Rightarrow> fs \<Rightarrow> (string \<times> node) list" where
  "dir_entries p t =
     map (\<lambda>(q, n). (last q, n)) (filter (\<lambda>(q, n). q \<noteq> [] \<and> butlast q = p) t)"

fun cleanup_loop ::
  "externals \<Rightarrow> i64 \<Rightarrow> (string \<times> node) list \<Rightarrow> nat \<Rightarrow> nat fsop" where
  "cleanup_loop X cutoff [] removed = fok removed"
| "cleanup_loop X cutoff ((name, n) # rest) removed =
     (if n = Symlink then ferr (BUnsafeSymlink (temp_directory @ [name]))
      else if \<not> is_managed_temporary_name X name then cleanup_loop X cutoff rest removed
      else (case n of
        Regular _ _ mtime \<Rightarrow>
          if mtime \<le> cutoff
          then fbind (fdo (fs_remove (temp_directory @ [name])))
                 (\<lambda>_. cleanup_loop X cutoff rest (removed + 1))
          else cleanup_loop X cutoff rest removed
      | _ \<Rightarrow> ferr (BUnexpectedFileType (temp_directory @ [name]) ''regular file'')))"

text \<open>\<open>cutoff\<close> is the current time less \<open>minimum_age\<close>, in milliseconds.\<close>

definition cleanup_stale_temporary_files :: "externals \<Rightarrow> i64 \<Rightarrow> i64 \<Rightarrow> nat fsop" where
  "cleanup_stale_temporary_files X now minimum_age =
     fbind (fpure (\<lambda>t. rbind (symlink_metadata temp_directory t) (validate_directory temp_directory)))
       (\<lambda>_ t. cleanup_loop X (now - minimum_age) (dir_entries temp_directory t) 0 t)"

definition stale_temporary_age :: i64 where
  "stale_temporary_age = 24 * 60 * 60 * 1000"

definition blob_open :: "externals \<Rightarrow> i64 \<Rightarrow> u64 \<Rightarrow> blob_store fsop" where
  "blob_open X now maximum =
     fbind (ensure_secure_directory []) (\<lambda>_.
     fbind (ensure_secure_directory [''sha256'']) (\<lambda>_.
     fbind (ensure_secure_directory temp_directory) (\<lambda>_.
     fbind (cleanup_stale_temporary_files X now stale_temporary_age) (\<lambda>_.
     fok \<lparr>max_blob_bytes = maximum\<rparr>))))"

section \<open>Published files\<close>

text \<open>
  A path outside the temporary directory is published. \<open>grows\<close>: published nodes stay as they are.
  An environment is polite when it lets published nodes be and leaves the given temporaries alone.
\<close>

definition published :: "path \<Rightarrow> bool" where
  "published p \<longleftrightarrow> take 2 p \<noteq> temp_directory"

definition grows :: "fs \<Rightarrow> fs \<Rightarrow> bool" where
  "grows t t' \<longleftrightarrow> (\<forall>p n. published p \<and> map_of t p = Some n \<longrightarrow> map_of t' p = Some n)"

definition polite :: "path set \<Rightarrow> (nat \<Rightarrow> fs \<Rightarrow> fs) \<Rightarrow> bool" where
  "polite own env \<longleftrightarrow> (\<forall>i t. grows t (env i t) \<and> (\<forall>p \<in> own. map_of (env i t) p = map_of t p))"

lemma grows_refl [simp]: "grows t t"
  by (simp add: grows_def)

lemma grows_trans: "grows a b \<Longrightarrow> grows b c \<Longrightarrow> grows a c"
  by (simp add: grows_def)

lemma growsD: "grows t t' \<Longrightarrow> published p \<Longrightarrow> map_of t p = Some n \<Longrightarrow> map_of t' p = Some n"
  by (simp add: grows_def)

lemma map_of_fs_put [simp]: "map_of (fs_put p n t) q = (if q = p then Some n else map_of t q)"
  by (induction t) (auto simp: fs_put_def)

lemma map_of_fs_remove [simp]: "map_of (fs_remove p t) q = (if q = p then None else map_of t q)"
  by (induction t) (auto simp: fs_remove_def)

lemma temporary_not_published [simp]: "\<not> published (temporary_path X h u)"
  by (simp add: published_def temporary_path_def temp_directory_def)

lemma paths_published [simp]:
  "published (blob_path h)" "published (media_type_path h)" "published (shard_directory h)"
proof -
  have "take 2 (hash_str h) \<noteq> ''.tmp''" by (metis length_take min.cobounded2 length_Cons list.size(3)
      Suc_1 Suc_le_mono not_less_eq_eq zero_le numeral_2_eq_2)
  then show "published (blob_path h)" "published (media_type_path h)" "published (shard_directory h)"
    by (simp_all add: published_def blob_path_def media_type_path_def shard_directory_def temp_directory_def)
qed

section \<open>No operation changes a published file\<close>

definition preserving :: "'a fsop \<Rightarrow> bool" where
  "preserving m \<longleftrightarrow> (\<forall>t. grows t (snd (m t)))"

named_theorems preserving_intros

lemma preservingD: "preserving m \<Longrightarrow> m t = (r, t') \<Longrightarrow> grows t t'"
  by (metis preserving_def snd_conv)

lemma preserving_pure [preserving_intros]:
  "preserving (fok x)" "preserving (ferr e)" "preserving (fpure f)"
  by (simp_all add: preserving_def fok_def ferr_def fpure_def)

lemma preserving_fbind [preserving_intros]:
  assumes "preserving m" and "\<And>x. preserving (f x)"
  shows "preserving (fbind m f)"
  unfolding preserving_def
proof
  fix t
  obtain r t1 where m: "m t = (r, t1)" by (cases "m t")
  have "grows t t1" by (rule preservingD [OF assms(1) m])
  moreover have "grows t1 (snd (f x t1))" for x using assms(2) by (simp add: preserving_def)
  ultimately show "grows t (snd (fbind m f t))"
    by (cases r) (auto simp: fbind_def m intro: grows_trans)
qed

lemma preserving_if [preserving_intros]:
  "preserving a \<Longrightarrow> preserving b \<Longrightarrow> preserving (if c then a else b)"
  by simp

lemma preserving_env [preserving_intros]: "polite own env \<Longrightarrow> preserving (fdo (env i))"
  by (simp add: polite_def preserving_def fdo_def)

lemma preserving_directory [preserving_intros]: "preserving (ensure_secure_directory p)"
  by (auto simp: preserving_def ensure_secure_directory_def grows_def split: option.splits)

lemma preserving_link [preserving_intros]: "preserving (hard_link a b)"
  by (auto simp: preserving_def hard_link_def grows_def split: option.splits)

lemma preserving_discard [preserving_intros]: "\<not> published p \<Longrightarrow> preserving (discard_temporary p)"
  by (auto simp: preserving_def discard_temporary_def grows_def)

lemma preserving_create [preserving_intros]: "\<not> published p \<Longrightarrow> preserving (create_temporary now p bs)"
  by (auto simp: preserving_def create_temporary_def grows_def)

lemma preserving_temporary [preserving_intros]:
  assumes "preserving body" and "\<not> published p"
  shows "preserving (with_temporary now p bs body)"
proof -
  have "preserving (\<lambda>t. let (r, t') = body t in (r, fs_remove p t'))"
    unfolding preserving_def
  proof
    fix t
    obtain r t1 where b: "body t = (r, t1)" by (cases "body t")
    have "grows t t1" by (rule preservingD [OF assms(1) b])
    with assms(2) show "grows t (snd (let (r, t') = body t in (r, fs_remove p t')))"
      by (auto simp: b grows_def)
  qed
  with assms(2) show ?thesis
    unfolding with_temporary_def by (intro preserving_intros)
qed

lemma preserving_publish [preserving_intros]:
  "\<not> published p \<Longrightarrow> preserving (publish_no_clobber p q)"
  unfolding publish_no_clobber_def by (intro preserving_intros)

lemma preserving_store_bytes [preserving_intros]:
  "polite own env \<Longrightarrow> preserving (store_bytes X st env now u h bs)"
  unfolding store_bytes_def by (intro preserving_intros) simp_all

lemma preserving_media_type [preserving_intros]:
  "polite own env \<Longrightarrow> preserving (ensure_media_type X env now u h v)"
  unfolding ensure_media_type_def by (intro preserving_intros) simp_all

lemma preserving_put:
  "polite own env \<Longrightarrow> preserving (blob_put X st env now u u' bs v)"
  unfolding blob_put_def Let_def by (intro preserving_intros)

section \<open>What a read depends on\<close>

lemma open_secure_Inr:
  "open_secure_regular_file p t = Inr n \<longleftrightarrow> map_of t p = Some n \<and> validate_regular_file p n = Inr ()"
  by (auto simp: open_secure_regular_file_def symlink_metadata_def result_simps)

lemma blob_read_Inr:
  "blob_read X st h t = Inr c \<longleftrightarrow>
     (\<exists>n. map_of t (blob_path h) = Some n \<and> validate_regular_file (blob_path h) n = Inr () \<and>
        node_bytes n = c \<and> length c \<le> unat (max_blob_bytes st) \<and> blob_hash_digest X c = h)"
proof (cases "open_secure_regular_file (blob_path h) t")
  case (Inl e)
  then have "\<not> (\<exists>n. map_of t (blob_path h) = Some n \<and> validate_regular_file (blob_path h) n = Inr ())"
    by (metis open_secure_Inr Inl_Inr_False)
  then show ?thesis using Inl
    by (auto simp: blob_read_def split: blob_error.splits io_kind.splits)
next
  case (Inr n)
  then have n: "map_of t (blob_path h) = Some n" "validate_regular_file (blob_path h) n = Inr ()"
    by (simp_all add: open_secure_Inr)
  have "blob_read X st h t = Inr c \<longleftrightarrow>
      node_bytes n = c \<and> length c \<le> unat (max_blob_bytes st) \<and> blob_hash_digest X c = h"
    using Inr by (auto simp: blob_read_def not_less)
  with n show ?thesis by auto
qed

lemma blob_read_grows:
  assumes "grows t t'" and "blob_read X st h t = Inr c"
  shows "blob_read X st h t' = Inr c"
  using assms(2) growsD [OF assms(1) paths_published(1)] unfolding blob_read_Inr by blast

lemma read_media_type_Inr:
  "read_media_type h t = Inr v \<longleftrightarrow>
     (\<exists>n. map_of t (media_type_path h) = Some n \<and> validate_regular_file (media_type_path h) n = Inr () \<and>
        node_bytes n = v \<and> valid_media_type v)"
proof -
  have "valid_media_type b \<Longrightarrow> length b \<le> 255" for b by (simp add: valid_media_type_def)
  then show ?thesis
    unfolding read_media_type_def rbind_eq_Inr open_secure_Inr by (fastforce split: if_splits)
qed

lemma read_media_type_grows:
  assumes "grows t t'" and "read_media_type h t = Inr v"
  shows "read_media_type h t' = Inr v"
  using assms(2) growsD [OF assms(1) paths_published(2)] unfolding read_media_type_Inr by blast

section \<open>Successful calls\<close>

lemma fbind_Inr [result_simps]:
  "fbind m f t = (Inr y, t') \<longleftrightarrow> (\<exists>x t1. m t = (Inr x, t1) \<and> f x t1 = (Inr y, t'))"
  by (auto simp: fbind_def split: prod.splits sum.splits)

lemma fok_Inr [result_simps]: "fok x t = (Inr y, t') \<longleftrightarrow> y = x \<and> t' = t"
  by (auto simp: fok_def)

lemma fpure_Inr [result_simps]: "fpure f t = (Inr y, t') \<longleftrightarrow> f t = Inr y \<and> t' = t"
  by (auto simp: fpure_def)

lemma fdo_Inr [result_simps]: "fdo f t = (Inr y, t') \<longleftrightarrow> t' = f t"
  by (auto simp: fdo_def)

lemma with_temporary_Inr:
  "with_temporary now p bs body t = (Inr y, t') \<longleftrightarrow>
     map_of t p = None \<and> (\<exists>t1. body (fs_put p (Regular private_file_mode bs now) t) = (Inr y, t1) \<and>
        t' = fs_remove p t1)"
  by (auto simp: with_temporary_def fbind_def create_temporary_def split: prod.splits)

text \<open>Publishing a temporary either installs its node or finds one already there.\<close>

lemma publish_Inr:
  assumes "publish_no_clobber p q t = (Inr installed, t')" and "map_of t p = Some n" and "p \<noteq> q"
  shows "map_of t' q = (if installed then Some n else map_of t q)" "installed \<longleftrightarrow> map_of t q = None"
  using assms
  by (auto simp: publish_no_clobber_def result_simps hard_link_def discard_temporary_def split: if_splits)

lemma validate_private: "validate_regular_file p (Regular private_file_mode bs now) = Inr ()"
proof -
  have "take_bit 12 private_file_mode = private_file_mode" by (simp add: private_file_mode_def take_bit_eq_mod)
  then show ?thesis by (simp add: validate_regular_file_def validate_unix_permissions_def)
qed

lemma temporary_fresh [simp]:
  "temporary_path X h u \<noteq> blob_path k" "temporary_path X h u \<noteq> media_type_path k"
  by (metis temporary_not_published paths_published)+

lemma blob_read_remove_temporary:
  "blob_read X st h (fs_remove (temporary_path X k u) t) = blob_read X st h t"
  unfolding blob_read_def open_secure_regular_file_def symlink_metadata_def
  by (simp add: temporary_fresh [symmetric])

lemma read_media_type_remove_temporary:
  "read_media_type h (fs_remove (temporary_path X k u) t) = read_media_type h t"
  unfolding read_media_type_def open_secure_regular_file_def symlink_metadata_def
  by (simp add: temporary_fresh [symmetric])

lemma store_bytes_readable:
  assumes env: "polite own env" "temporary_path X h u \<in> own"
    and run: "store_bytes X st env now u h bs t = (Inr (), t')"
    and h: "h = blob_hash_digest X bs" and size: "length bs \<le> unat (max_blob_bytes st)"
  shows "\<exists>c. blob_read X st h t' = Inr c"
proof (cases "secure_regular_file_exists (blob_path h) t")
  case (Inl e)
  with run show ?thesis by (simp add: store_bytes_def result_simps)
next
  case (Inr exists)
  let ?tmp = "temporary_path X h u"
  show ?thesis
  proof (cases exists)
    case True
    with run Inr show ?thesis by (auto simp: store_bytes_def result_simps)
  next
    case False
    with run Inr obtain b t1 t2 t3 t4 won winner
      where dir: "ensure_secure_directory (shard_directory h) t = (Inr b, t1)"
        and t2: "t2 = env 0 (fs_put ?tmp (Regular private_file_mode bs now) t1)"
        and won: "secure_regular_file_exists (blob_path h) t2 = Inr won"
        and pub: "(if won then fbind (discard_temporary ?tmp) (\<lambda>_. fok True)
              else fbind (fdo (env 1)) (\<lambda>_. fbind (publish_no_clobber ?tmp (blob_path h))
                (\<lambda>installed. fok (\<not> installed)))) t2 = (Inr winner, t3)"
        and fin: "(if winner then fbind (fpure (blob_read X st h)) (\<lambda>_. fok ()) else fok ()) t3 = (Inr (), t4)"
        and t': "t' = fs_remove ?tmp t4"
      by (auto simp: store_bytes_def fbind_Inr fpure_Inr fdo_Inr with_temporary_Inr simp del: if_split_asm)
    show ?thesis
    proof (cases winner)
      case True
      with fin have "\<exists>c. blob_read X st h t4 = Inr c" by (auto simp: result_simps)
      then show ?thesis by (simp add: t' blob_read_remove_temporary)
    next
      case False
      with pub have nw: "\<not> won" and p: "publish_no_clobber ?tmp (blob_path h) (env 1 t2) = (Inr True, t3)"
        by (auto simp: result_simps split: if_splits)
      have "map_of (env 1 t2) ?tmp = Some (Regular private_file_mode bs now)"
        using env by (simp add: polite_def t2)
      from publish_Inr(1) [OF p this] have "map_of t3 (blob_path h) = Some (Regular private_file_mode bs now)"
        by simp
      then have "blob_read X st h t3 = Inr bs"
        by (simp add: blob_read_Inr validate_private h size)
      moreover have "t4 = t3" using False fin by (simp add: result_simps)
      ultimately show ?thesis by (auto simp: t' blob_read_remove_temporary)
    qed
  qed
qed

lemma ensure_media_type_pins:
  assumes env: "polite own env" "temporary_path X h u \<in> own"
    and run: "ensure_media_type X env now u h v t = (Inr (), t')" and v: "valid_media_type v"
  shows "read_media_type h t' = Inr v"
proof (cases "secure_regular_file_exists (media_type_path h) t")
  case (Inl e)
  with run show ?thesis by (simp add: ensure_media_type_def result_simps)
next
  case (Inr exists)
  let ?tmp = "temporary_path X h u"
  have cmp: "compare_media_type h stored v = Inr () \<longleftrightarrow> stored = v" for stored
    by (simp add: compare_media_type_def)
  show ?thesis
  proof (cases exists)
    case True
    with run Inr show ?thesis by (auto simp: ensure_media_type_def result_simps cmp)
  next
    case False
    let ?t1 = "env 2 (fs_put ?tmp (Regular private_file_mode v now) t)"
    from False run Inr obtain installed t2 t3
      where pub: "publish_no_clobber ?tmp (media_type_path h) ?t1 = (Inr installed, t2)"
        and fin: "(if installed then fok () else fpure (\<lambda>t. rbind (read_media_type h t)
            (\<lambda>stored. compare_media_type h stored v))) t2 = (Inr (), t3)"
        and t': "t' = fs_remove ?tmp t3"
      by (auto simp: ensure_media_type_def fbind_Inr fpure_Inr fdo_Inr with_temporary_Inr simp del: if_split_asm)
    have "read_media_type h t3 = Inr v"
    proof (cases installed)
      case True
      have "map_of ?t1 ?tmp = Some (Regular private_file_mode v now)" using env by (simp add: polite_def)
      from publish_Inr(1) [OF pub this] True
      have "map_of t2 (media_type_path h) = Some (Regular private_file_mode v now)" by simp
      moreover have "t3 = t2" using True fin by (simp add: result_simps)
      ultimately show ?thesis by (simp add: read_media_type_Inr validate_private v)
    next
      case False
      with fin show ?thesis by (auto simp: result_simps cmp)
    qed
    then show ?thesis by (simp add: t' read_media_type_remove_temporary)
  qed
qed

lemma blob_put_Inr:
  assumes "blob_put X st env now u u' bs v t = (Inr m, t')"
  obtains t1 where "length bs \<le> unat (max_blob_bytes st)" "valid_media_type v"
    "store_bytes X st env now u (blob_hash_digest X bs) bs t = (Inr (), t1)"
    "ensure_media_type X env now u' (blob_hash_digest X bs) v t1 = (Inr (), t')"
    "m = \<lparr>m_hash = blob_hash_digest X bs, m_length = of_nat (length bs), m_media_type = v\<rparr>"
  using assms
  by (auto simp: blob_put_def ferr_def Let_def validate_media_type_def result_simps split: if_splits)

section \<open>The store's contract\<close>

text \<open>
  What a client of a content-addressed store relies on: a read is verified against its address, what
  is kept stays readable, and stored bytes are readable.
\<close>

locale content_store =
  fixes read :: "'h \<Rightarrow> 's \<Rightarrow> ('e, string) result"
    and digest :: "string \<Rightarrow> 'h"
    and keeps :: "'s \<Rightarrow> 's \<Rightarrow> bool"
    and stores :: "'s \<Rightarrow> string \<Rightarrow> 's \<Rightarrow> bool"
  assumes read_verified: "read h s = Inr c \<Longrightarrow> digest c = h"
    and keeps_read: "keeps s s' \<Longrightarrow> read h s = Inr c \<Longrightarrow> read h s' = Inr c"
    and stores_readable: "stores s bs s' \<Longrightarrow> \<exists>c. read (digest bs) s' = Inr c"
    and stores_keeps: "stores s bs s' \<Longrightarrow> keeps s s'"
begin

lemma read_back:
  assumes "stores s bs s'" and "keeps s' s''" and "\<And>c. digest c = digest bs \<Longrightarrow> c = bs"
  shows "read (digest bs) s'' = Inr bs"
proof -
  obtain c where c: "read (digest bs) s' = Inr c" using stores_readable [OF assms(1)] by blast
  then have "c = bs" using assms(3) read_verified by blast
  with c keeps_read [OF assms(2)] show ?thesis by blast
qed

lemma earlier_reads:
  assumes "stores s bs s'" and "read h s = Inr c"
  shows "read h s' = Inr c"
  by (rule keeps_read [OF stores_keeps [OF assms(1)] assms(2)])

end

definition blob_stored :: "externals \<Rightarrow> blob_store \<Rightarrow> fs \<Rightarrow> string \<Rightarrow> fs \<Rightarrow> bool" where
  "blob_stored X st t bs t' \<longleftrightarrow>
     (\<exists>env now u u' v m. polite {temporary_path X (blob_hash_digest X bs) u,
          temporary_path X (blob_hash_digest X bs) u'} env \<and>
        blob_put X st env now u u' bs v t = (Inr m, t'))"

lemma blob_put_readable:
  assumes "polite own env" and "temporary_path X (blob_hash_digest X bs) u \<in> own"
    and "blob_put X st env now u u' bs v t = (Inr m, t')"
  shows "\<exists>c. blob_read X st (blob_hash_digest X bs) t' = Inr c"
proof -
  obtain t1 where len: "length bs \<le> unat (max_blob_bytes st)"
    and s: "store_bytes X st env now u (blob_hash_digest X bs) bs t = (Inr (), t1)"
    and m: "ensure_media_type X env now u' (blob_hash_digest X bs) v t1 = (Inr (), t')"
    by (rule blob_put_Inr [OF assms(3)]) blast
  obtain c where "blob_read X st (blob_hash_digest X bs) t1 = Inr c"
    using store_bytes_readable [OF assms(1,2) s refl len] by blast
  moreover have "grows t1 t'"
    by (rule preservingD [OF preserving_media_type [OF assms(1)] m])
  ultimately show ?thesis using blob_read_grows by blast
qed

interpretation blobs: content_store "blob_read X st" "blob_hash_digest X" grows "blob_stored X st" for X st
proof
  show "blob_hash_digest X c = h" if "blob_read X st h s = Inr c" for h s c
    using that by (auto simp: blob_read_Inr)
  show "blob_read X st h s' = Inr c" if "grows s s'" "blob_read X st h s = Inr c" for s s' h c
    by (rule blob_read_grows [OF that])
  show "\<exists>c. blob_read X st (blob_hash_digest X bs) s' = Inr c" if "blob_stored X st s bs s'" for s bs s'
    using that unfolding blob_stored_def by (blast intro: blob_put_readable)
  show "grows s s'" if "blob_stored X st s bs s'" for s bs s'
    using that unfolding blob_stored_def by (blast intro: preservingD [OF preserving_put])
qed

end
