(* ===== verification/Epoch_Example.thy ===== *)
theory Epoch_Example
  imports Epoch_Capabilities Epoch_Blob
begin

text \<open>
  A concrete instance of the parameters, for the witnesses: identifiers print as binary numerals,
  the digest is the last 32 bytes, and JSON text is accepted as it is.
\<close>

fun bits_of_nat :: "nat \<Rightarrow> string" where
  "bits_of_nat n = (if n = 0 then [] else (if odd n then CHR ''1'' else CHR ''0'') # bits_of_nat (n div 2))"

declare bits_of_nat.simps [simp del]

fun nat_of_bits :: "string \<Rightarrow> nat" where
  "nat_of_bits [] = 0"
| "nat_of_bits (c # cs) = (if c = CHR ''1'' then 1 else 0) + 2 * nat_of_bits cs"

lemma nat_of_bits_of_nat [simp]: "nat_of_bits (bits_of_nat n) = n"
proof (induction n rule: bits_of_nat.induct)
  case (1 n)
  then show ?case by (subst bits_of_nat.simps) auto
qed

definition example_sha256 :: "string \<Rightarrow> string" where
  "example_sha256 bs = take 32 (rev bs @ replicate 32 (CHR ''0''))"

definition example_externals :: externals where
  "example_externals =
     \<lparr>uuid_to_string = (\<lambda>u. bits_of_nat (unat u)),
      uuid_parse = (\<lambda>s. Some (of_nat (nat_of_bits s))),
      sha256 = example_sha256,
      json_to_string = (\<lambda>j. ''{}''),
      json_from_slice = (\<lambda>s. Some JNull),
      sqlite_json_valid = (\<lambda>s. True)\<rparr>"

lemma example_codec: "uuid_codec example_externals"
  by (simp add: uuid_codec_def example_externals_def)

lemma example_sized: "sha256_sized example_externals"
  by (simp add: sha256_sized_def example_externals_def example_sha256_def) linarith

definition example_session :: session_id where "example_session = DomainId 1"
definition example_branch :: branch_id where "example_branch = DomainId 2"

definition example_db :: db where
  "example_db =
     \<lparr>t_sessions = [\<lparr>s_id = ''1'', s_state = ''running'', s_policy_revision = 0, s_revision = 0,
        s_created_at = 0, s_updated_at = 0\<rparr>],
      t_blobs = [],
      t_branches = [\<lparr>b_id = ''01'', b_session_id = ''1'', b_parent_branch_id = None,
        b_fork_epoch_id = None, b_state = ''running'', b_next_event_sequence = 0, b_created_at = 0,
        b_updated_at = 0, b_name = None, b_fork_point_sequence = None, b_fork_component_hash = None\<rparr>],
      t_epochs = [], t_components = [], t_events = [], t_capabilities = [], t_policies = [], t_ancestry = [],
      t_authorizations = [], t_decisions = [], t_intents = [], t_attempts = [], t_transitions = [],
      t_attempt_history = []\<rparr>"

definition example_request :: "u64 \<Rightarrow> issue_request" where
  "example_request budget =
     \<lparr>q_session_id = example_session, q_branch_id = example_branch, q_subject = ''agent'',
      q_action = ''fs.write'', q_resource = ''repo'',
      q_constraints = \<lparr>cc_max_uses = Some 5, cc_budget_units = Some budget\<rparr>,
      q_expires_at = Some 1000, q_policy_revision = 1\<rparr>"

definition example_use :: "string \<Rightarrow> u64 \<Rightarrow> capability_use" where
  "example_use request budget =
     \<lparr>use_session_id = example_session, use_branch_id = example_branch, use_subject = ''agent'',
      use_action = ''fs.write'', use_resource = ''repo'', use_policy_revision = 1,
      use_budget_units = budget, use_request_id = request,
      use_request_hash = replicate 64 (CHR ''a'')\<rparr>"

definition example_secret :: "char \<Rightarrow> string" where "example_secret c = replicate 32 c"

definition example_handle :: "char \<Rightarrow> capability_handle" where
  "example_handle c = CapabilityHandle (handle_prefix @ encode_hex (example_secret c))"

text \<open>The same database after a policy, a root capability \<open>p\<close> and a delegated capability \<open>q\<close>.\<close>

definition example_row :: "string \<Rightarrow> char \<Rightarrow> string option \<Rightarrow> i64 \<Rightarrow> i64 \<Rightarrow> capability_row" where
  "example_row i secret parent budget now =
     \<lparr>c_id = i, c_session_id = ''1'', c_branch_id = ''01'', c_subject = ''agent'',
      c_action = ''fs.write'', c_resource = ''repo'', c_constraints_json = ''{}'',
      c_handle_hash = handle_digest example_externals (example_handle secret),
      c_delegated_from_id = parent, c_remaining_uses = Some 5, c_policy_revision = 1,
      c_status = ''active'', c_issued_at = now, c_expires_at = Some 1000, c_updated_at = now,
      c_remaining_budget = Some budget\<rparr>"

definition example_delegated :: db where
  "example_delegated = example_db
     \<lparr>t_policies := [\<lparr>p_session_id = ''1'', p_branch_id = ''01'', p_current_revision = 1,
        p_updated_at = 10\<rparr>],
      t_capabilities := [example_row ''11'' (CHR ''p'') None 100 20,
        example_row ''001'' (CHR ''q'') (Some ''11'') 40 30],
      t_ancestry := [\<lparr>a_capability_id = ''11'', a_ancestor_id = ''11'', a_depth = 0\<rparr>,
        \<lparr>a_capability_id = ''001'', a_ancestor_id = ''11'', a_depth = 1\<rparr>,
        \<lparr>a_capability_id = ''001'', a_ancestor_id = ''001'', a_depth = 0\<rparr>]\<rparr>"

text \<open>A freshly opened blob store, used by nobody else.\<close>

definition opened_fs :: fs where
  "opened_fs = [([], Dir 448), ([''sha256''], Dir 448), ([''sha256'', ''.tmp''], Dir 448)]"

definition example_store :: blob_store where "example_store = \<lparr>max_blob_bytes = 1000\<rparr>"

abbreviation quiet :: "nat \<Rightarrow> fs \<Rightarrow> fs" where "quiet \<equiv> (\<lambda>i t. t)"

lemma quiet_polite: "polite own quiet"
  by (simp add: polite_def)

end
