(* ===== verification/Epoch_Capability_Properties.thy ===== *)
theory Epoch_Capability_Properties
  imports Epoch_Capability_Service Epoch_Example
begin

text \<open>
  What the capability service promises: conservation of budgets and uses under delegation,
  finality of revocation, attenuation, one authorization per request, the meaning of a decision and
  the audit trail, for every sequence of calls.
\<close>

section \<open>The example in use\<close>

abbreviation ex :: externals where "ex \<equiv> example_externals"

definition example_authorize :: service_op where
  "example_authorize = OpAuthorize False 40 7 (example_handle (CHR ''q'')) (example_use ''r1'' 25)"

lemma example_delegated_inv: "cap_inv ex example_delegated"
  by code_simp

section \<open>Conservation\<close>

text \<open>The service invariant (unique identifiers, rows within the schema's checks, closed and
  duplicate-free ancestry, at most one authorization per capability and request, each for a known
  capability and a positive amount) holds of a database without capabilities and is kept by every
  sequence of service calls.\<close>

theorem service_invariant:
  assumes "uuid_codec X" and "cap_inv X d"
  shows "cap_inv X (service_run X ops d)"
  using assms by (rule service_run_inv)

theorem service_invariant_witness: "cap_inv ex (service_run ex [example_authorize] example_delegated)"
  by (rule service_invariant [OF example_codec example_delegated_inv])

text \<open>C4: budgets and uses are conserved. For every capability and every sequence of service calls
  (issues, attenuations, revocations, policy changes and authorizations through it or through any of
  its descendants), what is left on it plus everything authorized through it and its descendants is
  the same as before; an unlimited one stays unlimited.\<close>

theorem budget_and_uses_conserved:
  assumes "uuid_codec X" and "cap_inv X d" and "i \<in> cap_ids d"
  shows "budget_account (service_run X ops d) i = budget_account d i \<and>
    uses_account (service_run X ops d) i = uses_account d i"
  using same_accountsD(2,3) [OF cap_evolvesD(2) [OF service_run_evolves [OF assms(1,2)]] assms(3)]
  by blast

lemma example_root: "''11'' \<in> cap_ids example_delegated"
  by code_simp

theorem budget_and_uses_conserved_witness:
  "budget_account (service_run ex [example_authorize] example_delegated) ''11'' = Some (Some 100) \<and>
   uses_account (service_run ex [example_authorize] example_delegated) ''11'' = Some (Some 5)"
proof -
  have "budget_account example_delegated ''11'' = Some (Some 100)"
    "uses_account example_delegated ''11'' = Some (Some 5)" by code_simp+
  with budget_and_uses_conserved [OF example_codec example_delegated_inv example_root,
      of "[example_authorize]"] show ?thesis
    by (simp del: run_ops.simps)
qed

text \<open>C35: delegation cannot amplify. Whatever is called after a capability with budget \<open>B\<close> and \<open>U\<close>
  uses exists, the amount authorized from then on through it and all its descendants together is at
  most \<open>B\<close>, in at most \<open>U\<close> authorizations.\<close>

theorem delegated_spending_bounded:
  assumes "uuid_codec X" and "cap_inv X d" and "by_key c_id i (t_capabilities d) = Some c"
  shows "null_or (\<lambda>B. spent_budget (service_run X ops d) i - spent_budget d i \<le> B) (c_remaining_budget c)
    \<and> null_or (\<lambda>U. spent_uses (service_run X ops d) i - spent_uses d i \<le> U) (c_remaining_uses c)"
proof -
  let ?d = "service_run X ops d"
  have i: "i \<in> cap_ids d" by (rule by_key_id [OF assms(3)])
  note ev = service_run_evolves [OF assms(1,2), of ops] and inv = service_run_inv [OF assms(1,2), of ops]
  obtain c' where c': "by_key c_id i (t_capabilities ?d) = Some c'"
    using cap_evolves_row [OF ev assms(3)] by metis
  have chk: "null_or (\<lambda>u. 0 \<le> u) (c_remaining_uses c')" "null_or (\<lambda>u. 0 \<le> u) (c_remaining_budget c')"
    using cap_invD(2) [OF inv] by_key_eq_SomeD [OF c'] by (auto simp: capability_check_def)
  note acc = same_accountsD(2,3) [OF cap_evolvesD(2) [OF ev] i]
  have "map_option (\<lambda>r. r + spent_budget ?d i) (c_remaining_budget c') =
      map_option (\<lambda>r. r + spent_budget d i) (c_remaining_budget c)"
    "map_option (\<lambda>r. r + spent_uses ?d i) (c_remaining_uses c') =
      map_option (\<lambda>r. r + spent_uses d i) (c_remaining_uses c)"
    using acc assms(3) c' by (simp_all add: budget_account_def uses_account_def)
  then show ?thesis
    using chk by (cases "c_remaining_budget c'"; cases "c_remaining_uses c'";
        cases "c_remaining_budget c"; cases "c_remaining_uses c") auto
qed

theorem delegated_spending_bounded_witness:
  "spent_budget (service_run ex [example_authorize] example_delegated) ''11''
     - spent_budget example_delegated ''11'' \<le> 100"
proof -
  have "by_key c_id ''11'' (t_capabilities example_delegated)
      = Some (example_row ''11'' (CHR ''p'') None 100 20)"
    by (simp add: example_delegated_def example_row_def by_key_def)
  from delegated_spending_bounded [OF example_codec example_delegated_inv this, of "[example_authorize]"]
  show ?thesis by (simp add: example_row_def del: run_ops.simps)
qed

section \<open>Revocation\<close>

lemma revoke_inactive:
  assumes "cap_inv X d" and "revoke X p clock handle d = Inr (u, d')"
    and "by_key c_handle_hash (handle_digest X handle) (t_capabilities d) = Some r"
  obtains r' where "by_key c_id (c_id r) (t_capabilities d') = Some r'" "c_status r' \<noteq> ''active''"
proof -
  from assms(2) obtain c where c: "load_capability_by_hash X d (handle_digest X handle) = Inr (Some c)"
    and upd: "if st_status c = CapActive
        then \<exists>n. mark_status X ''revoked'' (st_id c) clock d = Inr (n, d') else d' = d"
    by (auto simp: revoke_def service_now_def lock_store_def result_simps split: if_splits)
  obtain r0 where r0: "by_key c_handle_hash (handle_digest X handle) (t_capabilities d) = Some r0"
    "r0 \<in> set (t_capabilities d)" "stored_capability_from_raw X r0 = Inr c" "id_to_string X (st_id c) = c_id r0"
    using by_hash_loaded [OF assms(1) c] by metis
  have r: "r0 = r" using r0(1) assms(3) by simp
  have key: "by_key c_id (c_id r) (t_capabilities d) = Some r"
    using r0(2) r cap_invD(1) [OF assms(1)] by (simp add: by_key_eq_Some)
  have st: "capability_state_parse (c_status r) = Inr (st_status c)"
    using stored_from_raw(4) [OF r0(3) cap_invD(3) [OF assms(1) r0(2)]] r by simp
  show ?thesis
  proof (cases "st_status c = CapActive")
    case False
    with st have "c_status r \<noteq> ''active''" by (auto simp: capability_state_parse_def)
    with False upd key that show ?thesis by simp
  next
    case True
    let ?f = "retire (c_id r) ''revoked'' clock"
    from True upd r0(4) r have "t_capabilities d' = map ?f (t_capabilities d)"
      by (auto simp: mark_status_def retire_def result_simps cong: map_cong)
    then have "by_key c_id (c_id r) (t_capabilities d') = Some (?f r)"
      by (simp add: by_key_map key)
    moreover have "c_status (?f r) \<noteq> ''active''"
      using st True by (simp add: retire_def status_active_iff)
    ultimately show ?thesis using that by blast
  qed
qed

text \<open>C6: revocation is final and covers delegated authority. Once \<open>revoke\<close> has succeeded for a
  handle, then after any further service calls every authorization attempted with a handle whose
  capability descends from the revoked one (the revoked one included) is denied.\<close>

theorem revocation_is_final:
  assumes "uuid_codec X" and "cap_inv X d"
    and "run_tx (revoke X p clock handle d) d = (Inr (), d1)"
    and "by_key c_handle_hash (handle_digest X handle) (t_capabilities d) = Some r"
    and "by_key c_handle_hash (handle_digest X handle') (t_capabilities (service_run X ops d1)) = Some r'"
    and "is_ancestor (service_run X ops d1) (c_id r') (c_id r)"
    and "run_tx (authorize_and_consume X p' clock' did handle' request (service_run X ops d1))
           (service_run X ops d1) = (Inr dec, d2)"
  shows "dec_outcome dec = Deny"
proof -
  let ?d = "service_run X ops d1"
  have rv: "revoke X p clock handle d = Inr ((), d1)" using assms(3) by (simp add: run_tx_Inr)
  have inv1: "cap_inv X d1" using marked_step [OF assms(2) revoke_marked [OF rv]] by simp
  obtain c where c: "by_key c_id (c_id r) (t_capabilities d1) = Some c" "c_status c \<noteq> ''active''"
    using revoke_inactive [OF assms(2) rv assms(4)] .
  have "by_key c_id (c_id r) (t_capabilities ?d) = Some c"
    by (rule inactive_stays [OF service_run_evolves [OF assms(1) inv1] c])
  moreover have "authorize_and_consume_in_transaction X clock' did handle' request ?d = Inr (dec, d2)"
    using assms(7) by (simp add: run_tx_Inr authorize_and_consume_Inr)
  ultimately show ?thesis
    using inactive_ancestor_denied [OF service_run_inv [OF assms(1) inv1] _ assms(5,6)] c(2) by blast
qed

definition example_revoked :: db where
  "example_revoked =
     snd (run_tx (revoke ex False 50 (example_handle (CHR ''p'')) example_delegated) example_delegated)"

definition example_denied :: "capability_decision cap_result \<times> db" where
  "example_denied = run_tx (authorize_and_consume ex False 60 7 (example_handle (CHR ''q''))
     (example_use ''r1'' 25) example_revoked) example_revoked"

theorem revocation_is_final_witness:
  "fst example_denied = Inr \<lparr>dec_outcome = Deny, dec_reason = AncestorRevoked,
      dec_capability_id = Some (DomainId 4)\<rparr> \<and>
   dec_outcome \<lparr>dec_outcome = Deny, dec_reason = AncestorRevoked,
      dec_capability_id = Some (DomainId 4 :: capability_id)\<rparr> = Deny"
proof -
  let ?dec = "\<lparr>dec_outcome = Deny, dec_reason = AncestorRevoked,
      dec_capability_id = Some (DomainId 4 :: capability_id)\<rparr>"
  have 1: "run_tx (revoke ex False 50 (example_handle (CHR ''p'')) example_delegated) example_delegated
      = (Inr (), example_revoked)"
    unfolding example_revoked_def by (rule prod_eqI) (code_simp, simp)
  have 2: "by_key c_handle_hash (handle_digest ex (example_handle (CHR ''p''))) (t_capabilities example_delegated)
      = Some (example_row ''11'' (CHR ''p'') None 100 20)" by code_simp
  have 3: "by_key c_handle_hash (handle_digest ex (example_handle (CHR ''q'')))
      (t_capabilities (service_run ex [] example_revoked))
      = Some (example_row ''001'' (CHR ''q'') (Some ''11'') 40 30)" by code_simp
  have 4: "is_ancestor (service_run ex [] example_revoked)
      (c_id (example_row ''001'' (CHR ''q'') (Some ''11'') 40 30))
      (c_id (example_row ''11'' (CHR ''p'') None 100 20))" by code_simp
  have 5: "fst example_denied = Inr ?dec" by code_simp
  then have "run_tx (authorize_and_consume ex False 60 7 (example_handle (CHR ''q''))
      (example_use ''r1'' 25) (service_run ex [] example_revoked)) (service_run ex [] example_revoked)
      = (Inr ?dec, snd example_denied)"
    by (simp add: example_denied_def prod_eq_iff)
  from revocation_is_final [OF example_codec example_delegated_inv 1 2 3 4 this] 5 show ?thesis by simp
qed

section \<open>Attenuation\<close>

lemma require_narrower_limit_Inr:
  "require_narrower_limit child parent field = Inr () \<longleftrightarrow> counter_not_increased parent child"
  by (auto simp: require_narrower_limit_def counter_not_increased_def split: option.splits)

lemma validated_issue_fields:
  assumes "validated_issue_new X request now = Inr v"
  shows "v_session_id v = q_session_id request" "v_branch_id v = q_branch_id request"
    "v_subject v = q_subject request" "v_action v = q_action request"
    "v_resource v = q_resource request" "v_expires_at v = q_expires_at request"
    "v_issued_at v = now" "i64_of_u64 (q_policy_revision request) = Some (v_policy_revision v)"
    "option_try (positive_i64 ''max_uses'') (cc_max_uses (q_constraints request)) = Inr (v_remaining_uses v)"
    "option_try (positive_i64 ''budget_units'') (cc_budget_units (q_constraints request))
       = Inr (v_remaining_budget v)"
    "null_or (\<lambda>e. now < e) (q_expires_at request)"
  using assms
  by (auto simp: validated_issue_new_def rbind_eq_Inr i64_from_u64_def ok_or_eq_Inr split: if_splits)

lemma by_hash_stored:
  assumes "cap_inv X d" and "load_capability_by_hash X d h = Inr (Some c)"
  obtains r where "by_key c_handle_hash h (t_capabilities d) = Some r"
    "id_to_string X (st_id c) = c_id r" "st_remaining_uses c = c_remaining_uses r"
    "st_remaining_budget c = c_remaining_budget r" "capability_state_parse (c_status r) = Inr (st_status c)"
    "st_expires_at c = c_expires_at r" "st_policy_revision c = c_policy_revision r"
    "st_subject c = c_subject r" "st_action c = c_action r" "st_resource c = c_resource r"
    "id_parse X (c_session_id r) = Some (st_session_id c)" "id_parse X (c_branch_id r) = Some (st_branch_id c)"
proof -
  obtain r where r: "by_key c_handle_hash h (t_capabilities d) = Some r" "r \<in> set (t_capabilities d)"
    "stored_capability_from_raw X r = Inr c"
    using by_hash_loaded [OF assms] by metis
  from stored_from_raw [OF r(3) cap_invD(3) [OF assms(1) r(2)]] r(1) that show ?thesis by blast
qed

text \<open>C7: attenuation only narrows. A successful \<open>attenuate\<close> appends exactly one capability, delegated
  from the one its parent handle names, which is active and not past its expiry; session, branch,
  subject, action, resource and policy revision are the parent's, uses, budget and expiry are no
  wider than what the parent has left, and the authorizations of the new capability count against
  itself and exactly the parent's ancestors.\<close>

theorem attenuation_only_narrows:
  assumes "uuid_codec X" and "cap_inv X d"
    and "run_tx (attenuate X p clock new_id secret parent request d) d = (Inr issued, d')"
  shows "\<exists>r c. by_key c_handle_hash (handle_digest X parent) (t_capabilities d) = Some r \<and>
    t_capabilities d' = t_capabilities d @ [c] \<and> c_id c = id_to_string X new_id \<and>
    c_delegated_from_id c = Some (c_id r) \<and> c_status r = ''active'' \<and>
    c_handle_hash c = handle_digest X (issued_handle issued) \<and>
    id_parse X (c_session_id c) = (id_parse X (c_session_id r) :: session_id option) \<and>
    id_parse X (c_branch_id c) = (id_parse X (c_branch_id r) :: branch_id option) \<and>
    c_subject c = c_subject r \<and> c_action c = c_action r \<and> c_resource c = c_resource r \<and>
    c_policy_revision c = c_policy_revision r \<and>
    counter_not_increased (c_remaining_uses r) (c_remaining_uses c) \<and>
    counter_not_increased (c_remaining_budget r) (c_remaining_budget c) \<and>
    counter_not_increased (c_expires_at r) (c_expires_at c) \<and>
    null_or (\<lambda>e. clock < e) (c_expires_at r) \<and>
    (\<forall>i. is_ancestor d' (c_id c) i \<longleftrightarrow> i = c_id c \<or> is_ancestor d (c_id r) i)"
proof -
  have att: "attenuate X p clock new_id secret parent request d = Inr (issued, d')"
    using assms(3) by (simp add: run_tx_Inr)
  obtain v and par :: stored_capability and d1 where v: "validated_issue_new X request clock = Inr v"
    and id: "issued_id issued = new_id"
    and par: "load_capability_by_hash X d (handle_digest X parent) = Inr (Some par)"
    and val: "validate_attenuation X par v clock d = Inr d"
    and ok: "capability_insert_ok X d (t_capabilities d) (new_row X v (Some (st_id par)) issued)"
    and anc: "insert_ancestry (inherited_ancestry (id_to_string X new_id) (id_to_string X (st_id par)) d)
       (d\<lparr>t_capabilities := t_capabilities d @ [new_row X v (Some (st_id par)) issued]\<rparr>) = Inr d1"
      "insert_ancestry [self_ancestry (id_to_string X new_id)] d1 = Inr d'"
    by (rule attenuate_Inr [OF att]) blast
  obtain r where r: "by_key c_handle_hash (handle_digest X parent) (t_capabilities d) = Some r"
    "id_to_string X (st_id par) = c_id r" "st_remaining_uses par = c_remaining_uses r"
    "st_remaining_budget par = c_remaining_budget r" "capability_state_parse (c_status r) = Inr (st_status par)"
    "st_expires_at par = c_expires_at r" "st_policy_revision par = c_policy_revision r"
    "st_subject par = c_subject r" "st_action par = c_action r" "st_resource par = c_resource r"
    "id_parse X (c_session_id r) = Some (st_session_id par)" "id_parse X (c_branch_id r) = Some (st_branch_id par)"
    by (rule by_hash_stored [OF assms(2) par]) blast
  let ?c = "new_row X v (Some (st_id par)) issued"
  let ?rs = "inherited_ancestry (id_to_string X new_id) (id_to_string X (st_id par)) d @
      [self_ancestry (id_to_string X new_id)]"
  have d': "d' = admitted d ?c ?rs"
    using new_row_admitted(1) [OF assms(2,1) ok anc [folded id]] by (simp add: id inherited_own)
  have fresh: "c_id ?c \<notin> cap_ids d" using ok by (auto simp: capability_insert_ok_def)
  have "\<not> is_ancestor d (c_id ?c) i" for i
    using fresh cap_invD(6) [OF assms(2)] unfolding is_ancestor_def list_ex_iff by metis
  moreover have "is_ancestor d' (c_id ?c) i \<longleftrightarrow> is_ancestor d (c_id ?c) i \<or>
      (\<exists>a \<in> set ?rs. a_capability_id a = c_id ?c \<and> a_ancestor_id a = i)" for i
    by (auto simp: is_ancestor_def d' admitted_def list_ex_iff)
  moreover have "(\<exists>a \<in> set ?rs. a_capability_id a = c_id ?c \<and> a_ancestor_id a = i) \<longleftrightarrow>
      i = c_id ?c \<or> is_ancestor d (c_id r) i" for i
    by (auto simp: inherited_ancestry_def self_ancestry_def id r(2) is_ancestor_def list_ex_iff)
  ultimately have anc_iff: "\<forall>i. is_ancestor d' (c_id ?c) i \<longleftrightarrow> i = c_id ?c \<or> is_ancestor d (c_id r) i"
    by blast
  note va = validate_attenuation_Inr [OF val]
  have "c_status r = ''active''" using r(5) va(2) by (simp add: status_active_iff)
  moreover have "null_or (\<lambda>e. clock < e) (c_expires_at r)"
    using va(4) r(6) by (auto simp: past_expiry_def null_or_def split: option.splits)
  moreover have "t_capabilities d' = t_capabilities d @ [?c]" by (simp add: d' admitted_def)
  moreover have "counter_not_increased (c_remaining_uses r) (c_remaining_uses ?c)"
    "counter_not_increased (c_remaining_budget r) (c_remaining_budget ?c)"
    "counter_not_increased (c_expires_at r) (c_expires_at ?c)"
    using va(11-13) r by (simp_all add: require_narrower_limit_Inr new_row_def)
  moreover have "id_parse X (c_session_id ?c) = (id_parse X (c_session_id r) :: session_id option)"
    "id_parse X (c_branch_id ?c) = (id_parse X (c_branch_id r) :: branch_id option)"
    using r(11,12) va(5,6) assms(1) by (simp_all add: new_row_def)
  moreover have "c_subject ?c = c_subject r" "c_action ?c = c_action r" "c_resource ?c = c_resource r"
    "c_policy_revision ?c = c_policy_revision r" "c_id ?c = id_to_string X new_id"
    "c_delegated_from_id ?c = Some (c_id r)" "c_handle_hash ?c = handle_digest X (issued_handle issued)"
    using va(7-10) r id by (simp_all add: new_row_def)
  ultimately show ?thesis using r(1) anc_iff by blast
qed

definition example_attenuated :: "issued_capability cap_result \<times> db" where
  "example_attenuated = run_tx (attenuate ex False 50 (DomainId 5) (Some (example_secret (CHR ''r'')))
      (example_handle (CHR ''q'')) (example_request 30) example_delegated) example_delegated"

theorem attenuation_only_narrows_witness:
  "\<exists>c. t_capabilities (snd example_attenuated) = t_capabilities example_delegated @ [c] \<and>
     c_delegated_from_id c = Some ''001'' \<and> counter_not_increased (Some 40) (c_remaining_budget c)"
proof -
  have "\<not> isl (fst example_attenuated)" by code_simp
  then have "run_tx (attenuate ex False 50 (DomainId 5) (Some (example_secret (CHR ''r'')))
      (example_handle (CHR ''q'')) (example_request 30) example_delegated) example_delegated
    = (Inr (projr (fst example_attenuated)), snd example_attenuated)"
    by (simp add: example_attenuated_def prod_eq_iff)
  note run = attenuation_only_narrows [OF example_codec example_delegated_inv this]
  have "by_key c_handle_hash (handle_digest ex (example_handle (CHR ''q''))) (t_capabilities example_delegated)
      = Some (example_row ''001'' (CHR ''q'') (Some ''11'') 40 30)" by code_simp
  moreover have "c_id (example_row ''001'' (CHR ''q'') (Some ''11'') 40 30) = ''001''"
    "c_remaining_budget (example_row ''001'' (CHR ''q'') (Some ''11'') 40 30) = Some 40"
    by (simp_all add: example_row_def)
  ultimately show ?thesis using run by (metis option.inject)
qed

section \<open>Decisions\<close>

lemma run_authorize:
  "run_tx (authorize_and_consume X p clock did handle request d) d = (Inr dec, d') \<longleftrightarrow>
     \<not> p \<and> authorize_and_consume_in_transaction X clock did handle request d = Inr (dec, d')"
  by (simp add: run_tx_Inr authorize_and_consume_Inr)

lemmas run_authorizeD = run_authorize [THEN iffD1, THEN conjunct2]

lemma authorize_allow_effect:
  assumes "cap_inv X d"
    and run: "authorize_and_consume_in_transaction X clock did handle request d = Inr (dec, d')"
    and "dec_outcome dec = Allow"
  shows "\<exists>c ancestors requested z r.
    load_capability_by_hash X d (handle_digest X handle) = Inr (Some c) \<and>
    authority_holds X c request clock d ancestors requested \<and>
    z_capability_id z = id_to_string X (st_id c) \<and> z_request_id z = use_request_id request \<and>
    z_request_hash z = use_request_hash request \<and> z_budget_units z = requested \<and>
    d' = (authorized d (id_to_string X (st_id c)) requested clock z)\<lparr>t_decisions := t_decisions d @ [r]\<rparr> \<and>
    d_outcome r = ''allow'' \<and> d_request_id r = use_request_id request"
  using run
proof (cases rule: authorize_in_tx_cases)
  case unknown
  with assms(3) record_decision_Inr(2) [OF unknown(3)] show ?thesis by simp
next
  case (deny c reason d1)
  with assms(3) record_decision_Inr(2) [OF deny(4)] show ?thesis by simp
next
  case (allow c as b d1 z)
  have z: "z_capability_id z = id_to_string X (st_id c)" "z_budget_units z = b"
    "z_request_id z = use_request_id request" "z_request_hash z = use_request_hash request"
    using allow(5) by simp_all
  note eq = authorize_allow_db(1) [OF assms(1) allow(3,4,6) z(1,2)]
  obtain r where "d' = (authorized d (id_to_string X (st_id c)) b clock z)\<lparr>t_decisions :=
      t_decisions (authorized d (id_to_string X (st_id c)) b clock z) @ [r]\<rparr>"
    "d_request_id r = use_request_id request" "d_outcome r = outcome_str Allow"
    using record_decision_Inr(1) [OF allow(7) [unfolded eq]] by blast
  moreover have "t_decisions (authorized d (id_to_string X (st_id c)) b clock z) = t_decisions d"
    by (simp add: authorized_def)
  ultimately show ?thesis using allow(2,3) z by (auto simp: outcome_str_def)
qed

text \<open>C8: what an allowed use means. When \<open>authorize_and_consume\<close> answers allow, the handle names a
  capability bound to exactly the requested session, branch, subject, action and resource, it and all
  its ancestors are active, unexpired and not exhausted, its policy revision is the current one and
  the requested one, the request was not authorized before and fits every ancestor's budget; and the
  new database differs by exactly one use and the requested units taken from every ancestor, one
  authorization row and one decision row.\<close>

theorem allow_means_authority:
  assumes "cap_inv X d"
    and "run_tx (authorize_and_consume X p clock did handle request d) d = (Inr dec, d')"
    and "dec_outcome dec = Allow"
  shows "\<exists>c ancestors requested z r.
    load_capability_by_hash X d (handle_digest X handle) = Inr (Some c) \<and>
    authority_holds X c request clock d ancestors requested \<and>
    z_capability_id z = id_to_string X (st_id c) \<and> z_request_id z = use_request_id request \<and>
    z_request_hash z = use_request_hash request \<and> z_budget_units z = requested \<and>
    d' = (authorized d (id_to_string X (st_id c)) requested clock z)\<lparr>t_decisions := t_decisions d @ [r]\<rparr> \<and>
    d_outcome r = ''allow'' \<and> d_request_id r = use_request_id request"
  by (rule authorize_allow_effect [OF assms(1) run_authorizeD [OF assms(2)] assms(3)])

definition example_allowed :: "capability_decision cap_result \<times> db" where
  "example_allowed = run_tx (authorize_and_consume ex False 40 7 (example_handle (CHR ''q''))
     (example_use ''r1'' 25) example_delegated) example_delegated"

definition example_allow_decision :: capability_decision where
  "example_allow_decision =
     \<lparr>dec_outcome = Allow, dec_reason = Allowed, dec_capability_id = Some (DomainId 4)\<rparr>"

lemma example_allowed:
  "run_tx (authorize_and_consume ex False 40 7 (example_handle (CHR ''q''))
     (example_use ''r1'' 25) example_delegated) example_delegated
   = (Inr example_allow_decision, snd example_allowed)"
proof -
  have "fst example_allowed = Inr example_allow_decision" by code_simp
  then show ?thesis by (simp add: example_allowed_def prod_eq_iff)
qed

theorem allow_means_authority_witness:
  "\<exists>r. t_decisions (snd example_allowed) = t_decisions example_delegated @ [r] \<and>
     d_outcome r = ''allow'' \<and> d_request_id r = ''r1''"
proof -
  have "dec_outcome example_allow_decision = Allow" by (simp add: example_allow_decision_def)
  from allow_means_authority [OF example_delegated_inv example_allowed this]
  obtain r d0 where "snd example_allowed = d0\<lparr>t_decisions := t_decisions example_delegated @ [r]\<rparr>"
    "d_outcome r = ''allow''" "d_request_id r = use_request_id (example_use ''r1'' 25)" by blast
  then show ?thesis by (simp add: example_use_def)
qed

text \<open>C24: a denied use spends nothing. When \<open>authorize_and_consume\<close> answers deny, every capability
  keeps its scope, remaining uses and remaining budget, and authorizations, ancestry and policies are
  untouched (only an exhausted or expired capability may be marked as such).\<close>

theorem deny_spends_nothing:
  assumes "cap_inv X d"
    and "run_tx (authorize_and_consume X p clock did handle request d) d = (Inr dec, d')"
    and "dec_outcome dec = Deny"
  shows "map (\<lambda>c. (c_id c, c_remaining_uses c, c_remaining_budget c)) (t_capabilities d')
      = map (\<lambda>c. (c_id c, c_remaining_uses c, c_remaining_budget c)) (t_capabilities d) \<and>
    t_authorizations d' = t_authorizations d \<and> t_ancestry d' = t_ancestry d \<and>
    t_policies d' = t_policies d"
proof -
  have run: "authorize_and_consume_in_transaction X clock did handle request d = Inr (dec, d')"
    using assms(2) by (simp add: run_authorize)
  have "\<exists>d1 r. marked X d d1 \<and> d' = d1\<lparr>t_decisions := t_decisions d1 @ [r]\<rparr>"
    using run
  proof (cases rule: authorize_in_tx_cases)
    case unknown
    with record_decision_Inr(1) [OF unknown(3)] show ?thesis by blast
  next
    case (deny c reason d1)
    with record_decision_Inr(1) [OF deny(4)] evaluate_authority_marked [OF deny(3)] show ?thesis by blast
  next
    case (allow c as b d1 z)
    with assms(3) record_decision_Inr(2) [OF allow(7)] show ?thesis by simp
  qed
  then obtain d1 r where m: "marked X d d1" and d': "d' = d1\<lparr>t_decisions := t_decisions d1 @ [r]\<rparr>"
    by blast
  obtain f where f: "rewrites_rows_by X f d" and d1: "d1 = d\<lparr>t_capabilities := map f (t_capabilities d)\<rparr>"
    and keep: "\<And>c. c_remaining_uses (f c) = c_remaining_uses c"
      "\<And>c. c_remaining_budget (f c) = c_remaining_budget c"
    using marked_rewrites [OF assms(1) m] by blast
  have "\<forall>c \<in> set (t_capabilities d). c_id (f c) = c_id c"
    using f by (simp add: rewrites_rows_by_def row_evolves_def same_scope_def)
  then show ?thesis by (simp add: d' d1 keep)
qed

theorem deny_spends_nothing_witness:
  "t_authorizations (snd example_denied) = t_authorizations example_revoked"
proof -
  have inv: "cap_inv ex example_revoked" by code_simp
  let ?dec = "\<lparr>dec_outcome = Deny, dec_reason = AncestorRevoked,
      dec_capability_id = Some (DomainId 4 :: capability_id)\<rparr>"
  have "fst example_denied = Inr ?dec" by code_simp
  then have "run_tx (authorize_and_consume ex False 60 7 (example_handle (CHR ''q''))
      (example_use ''r1'' 25) example_revoked) example_revoked = (Inr ?dec, snd example_denied)"
    by (simp add: example_denied_def prod_eq_iff)
  from deny_spends_nothing [OF inv this] show ?thesis by simp
qed

text \<open>A request is authorized at most once. After an allowed use, and whatever service calls
  follow, a further use of the same handle under the same request identifier is denied, so a retried
  request cannot spend twice.\<close>

theorem request_authorized_once:
  assumes "uuid_codec X" and "cap_inv X d"
    and "run_tx (authorize_and_consume X p clock did handle request d) d = (Inr dec, d1)"
    and "dec_outcome dec = Allow"
    and "run_tx (authorize_and_consume X p' clock' did' handle request' (service_run X ops d1))
           (service_run X ops d1) = (Inr dec', d2)"
    and "use_request_id request' = use_request_id request"
  shows "dec_outcome dec' = Deny"
proof (rule ccontr)
  let ?d = "service_run X ops d1"
  assume "dec_outcome dec' \<noteq> Deny"
  then have allow': "dec_outcome dec' = Allow" by (cases "dec_outcome dec'") auto
  have run: "authorize_and_consume_in_transaction X clock did handle request d = Inr (dec, d1)"
    using assms(3) by (simp add: run_authorize)
  note step = authorize_in_tx_step [OF assms(2) run]
  have inv1: "cap_inv X d1" and ev1: "cap_evolves d d1" using step by simp_all
  have inv: "cap_inv X ?d" by (rule service_run_inv [OF assms(1) inv1])
  have ev: "cap_evolves d1 ?d" by (rule service_run_evolves [OF assms(1) inv1])
  obtain c as b z r d0 where c: "load_capability_by_hash X d (handle_digest X handle) = Inr (Some c)"
    and z: "z_capability_id z = id_to_string X (st_id c)" "z_request_id z = use_request_id request"
    and d1: "d1 = (authorized d (id_to_string X (st_id c)) b clock z)\<lparr>t_decisions := d0\<rparr>"
    using authorize_allow_effect [OF assms(2) run assms(4)] by blast
  obtain c' as' b' where c': "load_capability_by_hash X ?d (handle_digest X handle) = Inr (Some c')"
    and holds: "authority_holds X c' request' clock' ?d as' b'"
    using authorize_allow_effect [OF inv run_authorizeD [OF assms(5)] allow'] by blast
  obtain r0 where r0: "by_key c_handle_hash (handle_digest X handle) (t_capabilities d) = Some r0"
    "id_to_string X (st_id c) = c_id r0" using by_hash_loaded [OF assms(2) c] by metis
  obtain r1 where r1: "by_key c_handle_hash (handle_digest X handle) (t_capabilities ?d) = Some r1"
    "row_evolves r0 r1"
    using by_hash_stays [OF cap_evolves_trans [OF ev1 ev] assms(2) inv r0(1)] .
  obtain r2 where "by_key c_handle_hash (handle_digest X handle) (t_capabilities ?d) = Some r2"
    "id_to_string X (st_id c') = c_id r2" using by_hash_loaded [OF inv c'] by metis
  with r0 r1 have same: "id_to_string X (st_id c') = id_to_string X (st_id c)"
    by (simp add: row_evolves_def same_scope_def)
  have "z \<in> set (t_authorizations d1)" by (simp add: d1 authorized_def)
  then have "z \<in> set (t_authorizations ?d)"
    using cap_evolvesD(3) [OF ev] set_mono_prefix by blast
  then have "already_authorized X ?d (st_id c') (use_request_id request')"
    using z same assms(6) by (auto simp: already_authorized_def list_ex_iff)
  with holds show False by (simp add: authority_holds_checks)
qed

definition example_retry :: "capability_decision cap_result \<times> db" where
  "example_retry = run_tx (authorize_and_consume ex False 60 8 (example_handle (CHR ''q''))
     (example_use ''r1'' 1) (snd example_allowed)) (snd example_allowed)"

theorem request_authorized_once_witness:
  "fst example_retry = Inr \<lparr>dec_outcome = Deny, dec_reason = RequestAlreadyAuthorized,
     dec_capability_id = Some (DomainId 4)\<rparr> \<and>
   dec_outcome \<lparr>dec_outcome = Deny, dec_reason = RequestAlreadyAuthorized,
     dec_capability_id = Some (DomainId 4 :: capability_id)\<rparr> = Deny"
proof -
  let ?dec = "\<lparr>dec_outcome = Deny, dec_reason = RequestAlreadyAuthorized,
     dec_capability_id = Some (DomainId 4 :: capability_id)\<rparr>"
  have fst: "fst example_retry = Inr ?dec" by code_simp
  then have "run_tx (authorize_and_consume ex False 60 8 (example_handle (CHR ''q''))
     (example_use ''r1'' 1) (service_run ex [] (snd example_allowed))) (service_run ex [] (snd example_allowed))
     = (Inr ?dec, snd example_retry)"
    by (simp add: example_retry_def prod_eq_iff)
  moreover have "dec_outcome example_allow_decision = Allow" by (simp add: example_allow_decision_def)
  moreover have "use_request_id (example_use ''r1'' 1) = use_request_id (example_use ''r1'' 25)"
    by (simp add: example_use_def)
  ultimately show ?thesis
    using request_authorized_once [OF example_codec example_delegated_inv example_allowed, where ops = "[]"]
      fst by blast
qed

section \<open>Stored codes\<close>

interpretation denial: code_table denial_as_str denial_from_str
proof
  fix s reason
  show "denial_from_str s = Inr reason \<longleftrightarrow> s = denial_as_str reason"
    by (cases reason) (auto simp: denial_from_str_def split: if_splits)
qed

interpretation outcome: code_table outcome_str outcome_parse
proof
  fix s outcome
  show "outcome_parse s = Inr outcome \<longleftrightarrow> s = outcome_str outcome"
    by (cases outcome) (auto simp: outcome_parse_def outcome_str_def split: if_splits)
qed

text \<open>Every denial reason is stored under its own code and reads back as itself, and no other
  stored text reads back as that reason.\<close>

theorem denial_reason_round_trip:
  "denial_from_str stored = Inr reason \<longleftrightarrow> stored = denial_as_str reason"
  by (rule denial.decode_iff)

section \<open>The audit trail\<close>

lemma zip_sequence_append:
  "zip (map int [1..<Suc (length (rows @ [r]))]) (rows @ [r]) =
     zip (map int [1..<Suc (length rows)]) rows @ [(int (Suc (length rows)), r)]"
  by (simp add: upt_Suc_append zip_append [of "map int [Suc 0..<Suc (length rows)]" rows, simplified] del: upt_Suc)

lemma authorize_decision:
  assumes "cap_inv X d" and "authorize_and_consume_in_transaction X clock did handle request d = Inr (dec, d')"
  shows "\<exists>r. t_decisions d' = t_decisions d @ [r] \<and>
    d_capability_id r = map_option (id_to_string X) (dec_capability_id dec) \<and>
    d_request_id r = use_request_id request \<and> d_outcome r = outcome_str (dec_outcome dec) \<and>
    d_reason r = denial_as_str (dec_reason dec) \<and> d_decided_at r = clock"
  using assms(2)
proof (cases rule: authorize_in_tx_cases)
  case unknown
  from record_decision_Inr [OF unknown(3)] show ?thesis by auto
next
  case (deny c reason d1)
  obtain f where "d1 = d\<lparr>t_capabilities := f\<rparr>"
    using marked_rewrites [OF assms(1) evaluate_authority_marked [OF deny(3)]] by metis
  with record_decision_Inr [OF deny(4)] show ?thesis by auto
next
  case (allow c as b d1 z)
  have z: "z_capability_id z = id_to_string X (st_id c)" "z_budget_units z = b" using allow(5) by simp_all
  have eq: "t_decisions (d1\<lparr>t_authorizations := t_authorizations d1 @ [z]\<rparr>) = t_decisions d"
    unfolding authorize_allow_db(1) [OF assms(1) allow(3,4,6) z] by (simp add: authorized_def)
  from record_decision_Inr [OF allow(7)] eq show ?thesis by auto
qed

text \<open>Every answered use is audited. One call appends exactly one entry to the audit history, at
  the end, and reading the history back gives the decision the caller got (capability, outcome and
  reason), the request identifier and the clock reading; earlier entries are unchanged.\<close>

theorem every_answer_is_audited:
  assumes "uuid_codec X" and "cap_inv X d"
    and "run_tx (authorize_and_consume X p clock did handle request d) d = (Inr dec, d')"
    and "audit_history X False d = Inr entries"
  shows "\<exists>entry. audit_history X False d' = Inr (entries @ [entry]) \<and>
    au_capability_id entry = dec_capability_id dec \<and> au_outcome entry = dec_outcome dec \<and>
    au_reason entry = dec_reason dec \<and> au_request_id entry = use_request_id request \<and>
    au_decided_at entry = clock"
proof -
  have run: "authorize_and_consume_in_transaction X clock did handle request d = Inr (dec, d')"
    using assms(3) by (simp add: run_authorize)
  obtain r where r: "t_decisions d' = t_decisions d @ [r]"
    "d_capability_id r = map_option (id_to_string X) (dec_capability_id dec)"
    "d_request_id r = use_request_id request" "d_outcome r = outcome_str (dec_outcome dec)"
    "d_reason r = denial_as_str (dec_reason dec)" "d_decided_at r = clock"
    using authorize_decision [OF assms(2) run] by blast
  let ?n = "int (Suc (length (t_decisions d)))"
  let ?entry = "\<lparr>au_sequence = word_of_int ?n, au_capability_id = dec_capability_id dec,
      au_outcome = dec_outcome dec, au_reason = dec_reason dec, au_request_id = use_request_id request,
      au_decided_at = clock\<rparr>"
  have "option_try (parse_capability_id X) (d_capability_id r) = Inr (dec_capability_id dec)"
    using assms(1) r(2) by (cases "dec_capability_id dec") (simp_all add: parse_capability_id_def)
  then have "audit_record_of X (?n, r) = Inr ?entry"
    using r(3-6) by (simp add: audit_record_of_def u64_of_i64_def denial.decode_encode outcome.decode_encode)
  moreover have "list_try (audit_record_of X)
      (zip (map int [1..<Suc (length (t_decisions d))]) (t_decisions d)) = Inr entries"
    using assms(4) by (simp add: audit_history_def lock_store_def)
  ultimately have "audit_history X False d' = Inr (entries @ [?entry])"
    unfolding audit_history_def lock_store_def r(1) zip_sequence_append
    by (simp add: list_try_append)
  then show ?thesis by auto
qed

theorem every_answer_is_audited_witness:
  "\<exists>entry. audit_history ex False (snd example_allowed) = Inr [entry] \<and>
     au_outcome entry = Allow \<and> au_request_id entry = ''r1''"
proof -
  have "audit_history ex False example_delegated = Inr []" by code_simp
  from every_answer_is_audited [OF example_codec example_delegated_inv example_allowed this]
  show ?thesis by (auto simp: example_allow_decision_def example_use_def)
qed

section \<open>Sufficiency of authority\<close>

text \<open>The row an ancestor was loaded from can still be spent on.\<close>

definition spendable :: "externals \<Rightarrow> i64 \<Rightarrow> i64 \<Rightarrow> capability_row list \<Rightarrow> stored_capability \<Rightarrow> bool" where
  "spendable X b now rows a \<longleftrightarrow>
     (\<exists>c \<in> set rows. c_id c = id_to_string X (st_id a) \<and> c_remaining_uses c = st_remaining_uses a \<and>
        c_remaining_budget c = st_remaining_budget a \<and> c_status c = ''active'' \<and>
        capability_update_ok X c (spend b now c))"

lemma consume_counter_succeeds:
  assumes dist: "distinct (map c_id (t_capabilities d))" and "spendable X b now (t_capabilities d) a"
  shows "\<exists>d'. consume_counter X b now a d = Inr d'"
proof -
  let ?k = "id_to_string X (st_id a)"
  let ?uses = "map_option (\<lambda>r. r - 1) (st_remaining_uses a)"
  let ?rem = "map_option (\<lambda>r. r - b) (st_remaining_budget a)"
  let ?f = "\<lambda>r. r\<lparr>c_remaining_uses := ?uses, c_remaining_budget := ?rem,
      c_status := (if ?uses = Some 0 \<or> ?rem = Some 0 then ''consumed'' else ''active''),
      c_updated_at := now\<rparr>"
  obtain c where c: "c \<in> set (t_capabilities d)" "c_id c = ?k" "c_remaining_uses c = st_remaining_uses a"
    "c_remaining_budget c = st_remaining_budget a" "c_status c = ''active''"
    "capability_update_ok X c (spend b now c)"
    using assms(2) by (auto simp: spendable_def)
  have "by_key c_id ?k (t_capabilities d) = Some c" using c(1,2) dist by (simp add: by_key_eq_Some)
  then have "filter (\<lambda>r. c_id r = ?k) (t_capabilities d) = [c]" by (simp add: filter_by_key [OF dist])
  then have "filter (\<lambda>r. c_status r = ''active'') (filter (\<lambda>r. c_id r = ?k) (t_capabilities d)) = [c]"
    using c(5) by simp
  then have one: "filter (\<lambda>r. c_id r = ?k \<and> c_status r = ''active'') (t_capabilities d) = [c]"
    by (simp add: conj_commute)
  have ok: "\<forall>r \<in> set (t_capabilities d). c_id r = ?k \<and> c_status r = ''active'' \<longrightarrow>
      capability_update_ok X r (?f r)"
  proof (intro ballI impI)
    fix r assume "r \<in> set (t_capabilities d)" "c_id r = ?k \<and> c_status r = ''active''"
    then have "r = c" using distinct_key_eq [OF dist _ c(1)] c(2) by simp
    moreover have "?f c = spend b now c" using c(3,4) by (simp add: spend_def)
    ultimately show "capability_update_ok X r (?f r)" using c(6) by simp
  qed
  have "update_capabilities X (\<lambda>r. c_id r = ?k \<and> c_status r = ''active'') ?f d =
      Inr (1, d\<lparr>t_capabilities := map (\<lambda>r. if c_id r = ?k \<and> c_status r = ''active'' then ?f r else r)
        (t_capabilities d)\<rparr>)"
    unfolding update_capabilities_Inr one using ok by simp
  then show ?thesis by (simp add: consume_counter_def Let_def)
qed

lemma spendable_loaded: "spendable X b now rows a \<Longrightarrow> loaded_from X rows a"
  by (auto simp: spendable_def loaded_from_def)

lemma consume_all_succeeds:
  assumes "distinct (map c_id (t_capabilities d))"
    and "distinct (map (\<lambda>a. id_to_string X (st_id a)) as)"
    and "\<forall>a \<in> set as. spendable X b now (t_capabilities d) a"
  shows "\<exists>d'. consume_all X b now as d = Inr d'"
  using assms
proof (induction as arbitrary: d)
  case (Cons a as)
  let ?k = "id_to_string X (st_id a)"
  have a: "spendable X b now (t_capabilities d) a" using Cons.prems(3) by simp
  obtain d1 where d1: "consume_counter X b now a d = Inr d1"
    using consume_counter_succeeds [OF Cons.prems(1) a] by blast
  have caps1: "t_capabilities d1 = map (spend_on {?k} b now) (t_capabilities d)"
    using consume_counter_effect(1) [OF d1 Cons.prems(1) spendable_loaded [OF a]] by simp
  have "map c_id (t_capabilities d1) = map c_id (t_capabilities d)" by (simp add: caps1 spend_on_def)
  then have "distinct (map c_id (t_capabilities d1))" using Cons.prems(1) by simp
  moreover have "\<forall>e \<in> set as. spendable X b now (t_capabilities d1) e"
  proof
    fix e assume e: "e \<in> set as"
    then obtain c where c: "c \<in> set (t_capabilities d)" "c_id c = id_to_string X (st_id e)"
      and rest: "c_remaining_uses c = st_remaining_uses e" "c_remaining_budget c = st_remaining_budget e"
        "c_status c = ''active''" "capability_update_ok X c (spend b now c)"
      using Cons.prems(3) by (auto simp: spendable_def)
    have "?k \<notin> (\<lambda>a. id_to_string X (st_id a)) ` set as" using Cons.prems(2) by auto
    then have "c_id c \<noteq> ?k" using c(2) e by (metis image_eqI)
    then have "spend_on {?k} b now c = c" by (simp add: spend_on_def)
    then have "c \<in> set (t_capabilities d1)" using c(1) unfolding caps1 by (metis image_eqI list.set_map)
    with c(2) rest show "spendable X b now (t_capabilities d1) e" unfolding spendable_def by blast
  qed
  moreover have "distinct (map (\<lambda>a. id_to_string X (st_id a)) as)" using Cons.prems(2) by simp
  ultimately obtain d2 where "consume_all X b now as d1 = Inr d2" using Cons.IH by blast
  with d1 show ?case by simp
qed simp

lemma spend_update_ok:
  assumes "capability_check X c" and "c_status c = ''active''" and "c_issued_at c \<le> now" and "1 \<le> b"
    and "c_remaining_uses c \<noteq> Some 0" and "null_or (\<lambda>r. b \<le> r) (c_remaining_budget c)"
  shows "capability_update_ok X c (spend b now c)"
  using assms
  by (cases "c_remaining_uses c"; cases "c_remaining_budget c")
    (auto simp: capability_update_ok_def capability_check_def same_scope_def counter_not_increased_def
      spend_def Let_def)

text \<open>A loaded ancestor under a fulfilled authority is spendable.\<close>

lemma authority_spendable:
  assumes inv: "cap_inv X d" and c: "load_capability_by_hash X d h = Inr (Some c)"
    and holds: "authority_holds X c request now d as b" and b: "1 \<le> b"
    and clock: "\<forall>r \<in> set (t_capabilities d). c_issued_at r \<le> now"
  shows "\<forall>a \<in> set as. spendable X b now (t_capabilities d) a"
proof
  fix a assume a: "a \<in> set as"
  have as: "load_ancestors X d (st_id c) = Inr as" and self: "starts_with_self as (st_id c)"
    and ok: "\<forall>a \<in> set (c # drop 1 as). st_status a = CapActive \<and> \<not> exhausted a \<and> \<not> past_expiry now a"
    and budget: "\<forall>a \<in> set as. \<not> over_budget b a"
    using holds by (auto simp: authority_holds_checks)
  have rows: "list_all2 (\<lambda>r a. stored_capability_from_raw X r = Inr a)
      (ancestor_rows d (id_to_string X (st_id c))) as"
    using as by (simp add: load_ancestors_def list_try_eq_Inr)
  obtain r where "r \<in> set (ancestor_rows d (id_to_string X (st_id c)))"
    and raw: "stored_capability_from_raw X r = Inr a"
    using list_all2_witness [OF rows] a by blast
  then have r: "r \<in> set (t_capabilities d)" "is_ancestor d (id_to_string X (st_id c)) (c_id r)"
    by (simp_all add: set_ancestor_rows [OF inv])
  note st = stored_from_raw [OF raw cap_invD(3) [OF inv r(1)]]
  have active: "c_status r = ''active''" by (rule allowed_ancestors_active [OF inv c holds r])
  have "\<not> exhausted a"
  proof (cases "a \<in> set (drop 1 as)")
    case True
    with ok show ?thesis by simp
  next
    case False
    with a self have "st_id a = st_id c" by (cases as) (auto simp: starts_with_self_def)
    moreover obtain r0 where "r0 \<in> set (t_capabilities d)" "stored_capability_from_raw X r0 = Inr c"
      "id_to_string X (st_id c) = c_id r0" using by_hash_loaded [OF inv c] by metis
    ultimately have "r = r0" using st(1) distinct_key_eq [OF cap_invD(1) [OF inv] r(1)] by simp
    with raw \<open>stored_capability_from_raw X r0 = Inr c\<close> ok show ?thesis by simp
  qed
  then have "c_remaining_uses r \<noteq> Some 0" using st(2) by (simp add: exhausted_def)
  moreover have "null_or (\<lambda>u. b \<le> u) (c_remaining_budget r)"
    using budget a st(3) by (auto simp: over_budget_def null_or_def split: option.splits)
  ultimately have "capability_update_ok X r (spend b now r)"
    using active clock r(1) b cap_invD(2) [OF inv] by (intro spend_update_ok) auto
  with r(1) st(1-3) active show "spendable X b now (t_capabilities d) a"
    unfolding spendable_def by metis
qed

lemma validate_text_length:
  assumes "validate_text field v m = Inr u"
  shows "length_between v 1 m"
proof -
  have v: "v \<noteq> []" "length v \<le> m" "\<not> has_control v"
    using assms by (auto simp: validate_text_def split: if_splits)
  then obtain c cs where vc: "v = c # cs" by (cases v) auto
  have "byte c \<noteq> 0" using v(3) by (auto simp: vc has_control_def)
  then have "1 \<le> sql_length v" by (simp add: sql_length_def vc Suc_le_eq)
  with v(2) sql_length_le [of v] show ?thesis by (simp add: length_between_def)
qed

lemma capability_use_new_checks:
  assumes "capability_use_new session branch subject action resource revision budget request hash = Inr use"
  shows "use = \<lparr>use_session_id = session, use_branch_id = branch, use_subject = subject,
      use_action = action, use_resource = resource, use_policy_revision = revision,
      use_budget_units = budget, use_request_id = request, use_request_hash = hash\<rparr>"
    "length_between subject 1 255" "length_between action 1 255" "length_between resource 1 2048"
    "length_between request 1 255" "is_sha256_hex hash" "budget \<noteq> 0"
  using assms
  by (auto simp: capability_use_new_def rbind_eq_Inr validate_digest_def is_sha256_hex_def
      dest!: validate_text_length split: if_splits)

lemma denial_code_length: "length_between (denial_as_str reason) 1 64"
  by (induct reason; code_simp)

lemma positive_units: "i64_of_u64 v = Some i \<Longrightarrow> v \<noteq> 0 \<Longrightarrow> 1 \<le> i"
  by (metis i64_of_u64_Some_iff int_one_le_iff_zero_less order_le_less uint_0_iff uint_ge_0)

lemma record_decision_succeeds:
  assumes "capability_use_new session branch subject action resource revision budget request hash = Inr use"
    and "i64_of_u64 revision = Some rv" and "i64_of_u64 budget = Some b"
    and "is_sha256_hex h" and "uuid_to_string X did \<notin> set (map d_decision_id (t_decisions d))"
    and "0 \<le> now" and "null_or (\<lambda>c. id_to_string X c \<in> cap_ids d) cid"
  shows "\<exists>d'. record_decision X did cid h use outcome reason now d =
    Inr (\<lparr>dec_outcome = outcome, dec_reason = reason, dec_capability_id = cid\<rparr>, d')"
proof -
  note u = capability_use_new_checks [OF assms(1)]
  have "length_between (denial_as_str reason) 1 64" by (rule denial_code_length)
  moreover have "outcome_str outcome \<in> {''allow'', ''deny''}" by (cases outcome) (simp_all add: outcome_str_def)
  moreover have "0 \<le> rv" "1 \<le> b"
    using i64_of_u64_nonneg [OF assms(2)] positive_units [OF assms(3) u(7)] by simp_all
  ultimately show ?thesis
    using u(2-6) assms(2-7) unfolding u(1)
    by (cases cid) (simp_all add: record_decision_def i64_from_u64_def sql_def sql_insert_def decision_insert_ok_def)
qed


definition example_stored :: stored_capability where
  "example_stored =
     \<lparr>st_id = DomainId 4, st_session_id = example_session, st_branch_id = example_branch,
      st_subject = ''agent'', st_action = ''fs.write'', st_resource = ''repo'',
      st_remaining_uses = Some 5, st_remaining_budget = Some 40, st_policy_revision = 1,
      st_status = CapActive, st_expires_at = Some 1000\<rparr>"

definition example_stored_parent :: stored_capability where
  "example_stored_parent = example_stored\<lparr>st_id := DomainId 3, st_remaining_budget := Some 100\<rparr>"


section \<open>Handles\<close>

text \<open>A generated handle is accepted when it is presented again: with 32 random bytes, parsing the
  exposed text gives back the same handle, and two handles made from different random bytes differ.\<close>

theorem handle_round_trip:
  assumes "handle_generate (Some secret) = Inr h" and "length secret = 32"
  shows "handle_from_str (expose h) = Some h \<and>
    (handle_generate (Some secret') = Inr h \<longleftrightarrow> secret' = secret)"
proof -
  have h: "h = CapabilityHandle (handle_prefix @ encode_hex secret)"
    using assms(1) by (simp add: handle_generate_def)
  have "strip_prefix handle_prefix (handle_prefix @ encode_hex secret) = Some (encode_hex secret)"
    by (simp add: strip_prefix_eq_Some)
  then have "handle_from_str (expose h) = Some h"
    using assms(2) by (simp add: h handle_from_str_def list_all_encode_hex)
  moreover have "handle_generate (Some secret') = Inr h \<longleftrightarrow> secret' = secret"
    by (auto simp: handle_generate_def h dest: encode_hex_inj)
  ultimately show ?thesis by blast
qed

theorem handle_round_trip_witness:
  "handle_from_str (expose (example_handle (CHR ''p''))) = Some (example_handle (CHR ''p''))"
proof -
  have "handle_generate (Some (example_secret (CHR ''p''))) = Inr (example_handle (CHR ''p''))"
    by (simp add: handle_generate_def example_handle_def)
  from handle_round_trip [OF this] show ?thesis by (simp add: example_secret_def)
qed

section \<open>Policy revisions\<close>

definition policy_evolves :: "externals \<Rightarrow> db \<Rightarrow> db \<Rightarrow> bool" where
  "policy_evolves X d d' \<longleftrightarrow>
     (\<forall>s b r. current_policy X d s b = Some r \<longrightarrow> (\<exists>r' \<ge> r. current_policy X d' s b = Some r'))"

lemma policy_evolves_same: "t_policies d' = t_policies d \<Longrightarrow> policy_evolves X d d'"
  by (auto simp: policy_evolves_def current_policy_def)

lemma marked_policies: "marked X d d' \<Longrightarrow> t_policies d' = t_policies d"
  by (auto simp: marked_def)

lemma current_policy_by_key:
  "current_policy X d s b = map_option p_current_revision
     (by_key (\<lambda>p. (p_session_id p, p_branch_id p)) (id_to_string X s, id_to_string X b) (t_policies d))"
  by (simp add: current_policy_def by_key_def)

lemma set_policy_evolves:
  assumes "set_policy_revision X p clock s b revision d = Inr (u, d')"
  shows "policy_evolves X d d'"
proof (cases "current_policy X d s b")
  case None
  with assms obtain r where "t_policies d' = t_policies d @ [r]"
    by (auto simp: set_policy_revision_def rbind_eq_Inr sql_def ok_or_eq_Inr sql_insert_eq_Some)
  then show ?thesis by (auto simp: policy_evolves_def current_policy_by_key by_key_append)
next
  case (Some current)
  from assms obtain rv where rv: "i64_of_u64 revision = Some rv"
    by (auto simp: set_policy_revision_def rbind_eq_Inr i64_from_u64_def ok_or_eq_Inr)
  show ?thesis
  proof (cases "rv = current")
    case True
    with assms Some rv have "d' = d"
      by (auto simp: set_policy_revision_def rbind_eq_Inr i64_from_u64_def)
    then show ?thesis by (simp add: policy_evolves_same)
  next
    case False
    let ?P = "\<lambda>p. p_session_id p = id_to_string X s \<and> p_branch_id p = id_to_string X b"
    let ?f = "\<lambda>p. if ?P p then p\<lparr>p_current_revision := rv, p_updated_at := clock\<rparr> else p"
    from assms Some rv False have "rv > current" and rows: "t_policies d' = map ?f (t_policies d)"
      and ok: "\<forall>p \<in> set (t_policies d). ?P p \<longrightarrow> p_current_revision p \<le> rv"
      by (auto simp: set_policy_revision_def rbind_eq_Inr i64_from_u64_def service_now_def sql_def
          ok_or_eq_Inr sql_update_eq_Some policy_update_ok_def split: if_splits)
    let ?key = "\<lambda>p. (p_session_id p, p_branch_id p)"
    have row: "by_key ?key k (t_policies d') = map_option ?f (by_key ?key k (t_policies d))" for k
      unfolding rows by (rule by_key_map) simp
    show ?thesis
      unfolding policy_evolves_def
    proof (intro allI impI)
      fix s' b' r assume "current_policy X d s' b' = Some r"
      then obtain q where q: "by_key ?key (id_to_string X s', id_to_string X b') (t_policies d) = Some q"
        "p_current_revision q = r" by (auto simp: current_policy_by_key)
      have "q \<in> set (t_policies d)" using by_key_eq_SomeD [OF q(1)] by simp
      with ok q(2) have "r \<le> p_current_revision (?f q)" by auto
      moreover have "current_policy X d' s' b' = Some (p_current_revision (?f q))"
        by (simp only: current_policy_by_key row q(1) option.map)
      ultimately show "\<exists>r' \<ge> r. current_policy X d' s' b' = Some r'" by blast
    qed
  qed
qed

lemma authorize_policies:
  assumes "cap_inv X d" and "authorize_and_consume_in_transaction X clock did handle request d = Inr (dec, d')"
  shows "t_policies d' = t_policies d"
  using assms(2)
proof (cases rule: authorize_in_tx_cases)
  case unknown
  from record_decision_Inr(1) [OF unknown(3)] show ?thesis by auto
next
  case (deny c reason d1)
  with record_decision_Inr(1) [OF deny(4)] marked_policies [OF evaluate_authority_marked [OF deny(3)]]
  show ?thesis by auto
next
  case (allow c as b d1 z)
  have z: "z_capability_id z = id_to_string X (st_id c)" "z_budget_units z = b" using allow(5) by simp_all
  have eq: "t_policies (d1\<lparr>t_authorizations := t_authorizations d1 @ [z]\<rparr>) = t_policies d"
    unfolding authorize_allow_db(1) [OF assms(1) allow(3,4,6) z] by (simp add: authorized_def)
  from record_decision_Inr(1) [OF allow(7)] eq show ?thesis by auto
qed

lemma insert_ancestry_policies: "insert_ancestry rs d = Inr d' \<Longrightarrow> t_policies d' = t_policies d"
  using insert_ancestry_effect(1) by fastforce

lemma service_step_policies:
  assumes "cap_inv X d"
  shows "policy_evolves X d (service_step X a d)"
proof (cases a)
  case (OpSetPolicy p clock s b revision)
  show ?thesis unfolding OpSetPolicy service_step.simps
    by (rule snd_run_tx_step) (blast intro: set_policy_evolves, simp add: policy_evolves_same)
next
  case (OpIssue p clock cid secret request)
  show ?thesis unfolding OpIssue service_step.simps
    by (rule snd_run_tx_step, rule policy_evolves_same, erule issue_Inr, drule insert_ancestry_policies)
      (simp_all add: policy_evolves_same)
next
  case (OpAttenuate p clock cid secret parent request)
  show ?thesis unfolding OpAttenuate service_step.simps
    by (rule snd_run_tx_step, rule policy_evolves_same, erule attenuate_Inr,
        (drule insert_ancestry_policies)+) (simp_all add: policy_evolves_same)
next
  case (OpRevoke p clock handle)
  show ?thesis unfolding OpRevoke service_step.simps
    by (rule snd_run_tx_step) (blast intro: policy_evolves_same marked_policies revoke_marked,
        simp add: policy_evolves_same)
next
  case (OpRevokeById p clock cid)
  show ?thesis unfolding OpRevokeById service_step.simps
    by (rule snd_run_tx_step) (blast intro: policy_evolves_same marked_policies revoke_by_id_marked,
        simp add: policy_evolves_same)
next
  case (OpAuthorize p clock did handle request)
  show ?thesis unfolding OpAuthorize service_step.simps
    by (rule snd_run_tx_step) (use assms authorize_policies in
        \<open>blast intro: policy_evolves_same dest: authorize_and_consume_Inr [THEN iffD1]\<close>,
        simp add: policy_evolves_same)
qed

lemma policy_evolves_trans: "policy_evolves X a b \<Longrightarrow> policy_evolves X b c \<Longrightarrow> policy_evolves X a c"
  unfolding policy_evolves_def by (meson order_trans)

interpretation policy: machine "service_step X" "\<lambda>d. uuid_codec X \<and> cap_inv X d" "policy_evolves X" for X
  by unfold_locales
    (auto intro: policy_evolves_trans policy_evolves_same service_step_policies dest: service_step_keeps)

text \<open>Policy revisions never roll back: whatever is called, the current revision of a branch that
  has one stays defined and never decreases.\<close>

theorem policy_revision_monotone:
  assumes "uuid_codec X" and "cap_inv X d" and "current_policy X d s b = Some r"
  shows "\<exists>r' \<ge> r. current_policy X (service_run X ops d) s b = Some r'"
  using policy.run_evolves [OF conjI [OF assms(1,2)]] assms(3) unfolding policy_evolves_def by blast

theorem policy_revision_monotone_witness:
  "\<exists>r' \<ge> 1. current_policy ex (service_run ex [example_authorize] example_delegated)
     example_session example_branch = Some r'"
proof (rule policy_revision_monotone [OF example_codec example_delegated_inv])
  show "current_policy ex example_delegated example_session example_branch = Some 1" by code_simp
qed

end
