(* ===== verification/Epoch_Blob_Properties.thy ===== *)
theory Epoch_Blob_Properties
  imports Epoch_Blob Epoch_Example
begin

text \<open>
  What the blob store promises to its clients, with witnesses on a small store.
\<close>

section \<open>Properties\<close>

text \<open>C30: stored bytes read back. After a successful \<open>put\<close>, with other processes publishing files in
  between, and after any later growth of the store, reading the returned address gives exactly the
  bytes that were put, as long as no other byte string has their digest.\<close>

theorem blob_put_read_back:
  assumes "polite {temporary_path X (blob_hash_digest X bs) u, temporary_path X (blob_hash_digest X bs) u'} env"
    and "blob_put X st env now u u' bs v t = (Inr m, t')" and "grows t' t''"
    and "\<And>c. blob_hash_digest X c = blob_hash_digest X bs \<Longrightarrow> c = bs"
  shows "blob_read X st (m_hash m) t'' = Inr bs \<and> m_length m = of_nat (length bs) \<and> m_media_type m = v"
proof -
  have "blob_stored X st t bs t'" unfolding blob_stored_def using assms(1,2) by blast
  note read = blobs.read_back [OF this assms(3,4)]
  have "m = \<lparr>m_hash = blob_hash_digest X bs, m_length = of_nat (length bs), m_media_type = v\<rparr>"
    by (rule blob_put_Inr [OF assms(2)])
  with read show ?thesis by simp
qed

definition one_blob_externals :: externals where
  "one_blob_externals = example_externals\<lparr>sha256 :=
     (\<lambda>bs. if bs = ''payload'' then replicate 32 (CHR 0x01) else replicate 32 (CHR 0x00))\<rparr>"

lemma one_blob_no_collision:
  assumes "blob_hash_digest one_blob_externals c = blob_hash_digest one_blob_externals ''payload''"
  shows "c = ''payload''"
proof (rule ccontr)
  assume "c \<noteq> ''payload''"
  then have "blob_hash_digest one_blob_externals c = BlobHash (encode_hex (replicate 32 (CHR 0x00)))"
    by (simp add: blob_hash_digest_def one_blob_externals_def)
  moreover have "blob_hash_digest one_blob_externals ''payload'' = BlobHash (encode_hex (replicate 32 (CHR 0x01)))"
    by (simp add: blob_hash_digest_def one_blob_externals_def)
  ultimately show False using assms by (auto dest: encode_hex_inj)
qed

definition example_put :: "(blob_error, blob_metadata) result \<times> fs" where
  "example_put = blob_put one_blob_externals example_store quiet 5 1 2 ''payload'' ''text/plain'' opened_fs"

lemma example_put_ok:
  "blob_put one_blob_externals example_store quiet 5 1 2 ''payload'' ''text/plain'' opened_fs =
     (Inr (projr (fst example_put)), snd example_put)"
proof -
  have "\<not> isl (fst example_put)" by code_simp
  then show ?thesis by (simp add: example_put_def prod_eq_iff)
qed

theorem blob_put_read_back_witness:
  "blob_read one_blob_externals example_store (m_hash (projr (fst example_put))) (snd example_put)
     = Inr ''payload''"
  using blob_put_read_back [OF quiet_polite example_put_ok grows_refl one_blob_no_collision] by blast

text \<open>C34: a blob is never altered. Whatever a \<open>put\<close> returns, an error included, and however other
  processes publish files meanwhile, every file outside the temporary directory that was there before
  is still there with the same contents.\<close>

theorem blob_put_no_clobber:
  assumes "polite own env" and "blob_put X st env now u u' bs v t = (r, t')"
    and "published p" and "map_of t p = Some n"
  shows "map_of t' p = Some n"
  by (rule growsD [OF preservingD [OF preserving_put [OF assms(1)] assms(2)] assms(3,4)])

theorem blob_put_no_clobber_witness:
  "map_of (snd (blob_put one_blob_externals example_store quiet 6 3 4 ''payload'' ''text/html''
     (snd example_put))) (media_type_path (m_hash (projr (fst example_put))))
   = map_of (snd example_put) (media_type_path (m_hash (projr (fst example_put))))"
proof -
  let ?p = "media_type_path (m_hash (projr (fst example_put)))"
  have "map_of (snd example_put) ?p \<noteq> None" by code_simp
  then obtain n where n: "map_of (snd example_put) ?p = Some n" by blast
  let ?r = "blob_put one_blob_externals example_store quiet 6 3 4 ''payload'' ''text/html'' (snd example_put)"
  have "?r = (fst ?r, snd ?r)" by simp
  from blob_put_no_clobber [OF quiet_polite this paths_published(2) n] n show ?thesis by metis
qed

text \<open>C28: a content hash has one media type for ever. Once bytes were put with a media type, every later
  \<open>put\<close> of the same bytes succeeds with that media type and fails with a conflict that names both
  for every other valid one.\<close>

theorem blob_media_type_pinned:
  assumes "polite {temporary_path X (blob_hash_digest X bs) u, temporary_path X (blob_hash_digest X bs) u'} env"
    and "blob_put X st env now u u' bs v t = (Inr m, t')" and "grows t' t2" and "valid_media_type w"
  shows "fst (blob_put X st env2 now2 u2 u2' bs w t2) =
    (if w = v then Inr m else Inl (BMediaTypeConflict (m_hash m) v w))"
proof -
  let ?h = "blob_hash_digest X bs"
  obtain t1 where len: "length bs \<le> unat (max_blob_bytes st)" and v: "valid_media_type v"
    and mt: "ensure_media_type X env now u' ?h v t1 = (Inr (), t')"
    and m: "m = \<lparr>m_hash = ?h, m_length = of_nat (length bs), m_media_type = v\<rparr>"
    by (rule blob_put_Inr [OF assms(2)]) blast
  obtain c where "blob_read X st ?h t' = Inr c" using blob_put_readable [OF assms(1) _ assms(2)] by blast
  then have c: "blob_read X st ?h t2 = Inr c" by (rule blob_read_grows [OF assms(3)])
  have "read_media_type ?h t' = Inr v" using ensure_media_type_pins [OF assms(1) _ mt v] by simp
  then have mv: "read_media_type ?h t2 = Inr v" by (rule read_media_type_grows [OF assms(3)])
  have ex: "secure_regular_file_exists (blob_path ?h) t2 = Inr True"
    "secure_regular_file_exists (media_type_path ?h) t2 = Inr True"
    using c mv by (auto simp: blob_read_Inr read_media_type_Inr secure_regular_file_exists_def)
  have "store_bytes X st env2 now2 u2 ?h bs t2 = (Inr (), t2)"
    using ex(1) c by (simp add: store_bytes_def fbind_def fpure_def fok_def)
  moreover have "ensure_media_type X env2 now2 u2' ?h w t2 =
      (if w = v then Inr () else Inl (BMediaTypeConflict ?h v w), t2)"
    using ex(2) mv by (simp add: ensure_media_type_def fbind_def fpure_def compare_media_type_def)
  ultimately show ?thesis
    using len assms(4) m
    by (simp add: blob_put_def fbind_def fpure_def validate_media_type_def Let_def fok_def)
qed

theorem blob_media_type_pinned_witness:
  "fst (blob_put one_blob_externals example_store quiet 6 3 4 ''payload'' ''text/html'' (snd example_put))
     = Inl (BMediaTypeConflict (m_hash (projr (fst example_put))) ''text/plain'' ''text/html'')"
proof -
  have "valid_media_type ''text/html''" by code_simp
  from blob_media_type_pinned [OF quiet_polite example_put_ok grows_refl this] show ?thesis by simp
qed

section \<open>Cleaning up\<close>

lemma cleanup_loop_step:
  assumes "cleanup_loop X cutoff ((name, n) # rest) k t = (r, t')"
  obtains (stop) "t' = t" | (skip) "cleanup_loop X cutoff rest k t = (r, t')"
    | (remove) m bs mt where "n = Regular m bs mt" "is_managed_temporary_name X name" "mt \<le> cutoff"
      "cleanup_loop X cutoff rest (k + 1) (fs_remove (temp_directory @ [name]) t) = (r, t')"
  using assms
  by (cases n) (auto simp: ferr_def fbind_def fdo_def split: if_splits)

lemma cleanup_loop_removes:
  assumes "cleanup_loop X cutoff es k t = (r, t')" and "map_of t' p \<noteq> map_of t p"
  shows "\<exists>name m bs mt. (name, Regular m bs mt) \<in> set es \<and> p = temp_directory @ [name] \<and>
    is_managed_temporary_name X name \<and> mt \<le> cutoff"
  using assms
proof (induction es arbitrary: k t)
  case Nil
  then show ?case by (simp add: fok_def)
next
  case (Cons e es)
  obtain name n where e: "e = (name, n)" by (cases e)
  from Cons.prems(1) [unfolded e] show ?case
  proof (cases rule: cleanup_loop_step)
    case stop
    with Cons.prems(2) show ?thesis by simp
  next
    case skip
    from Cons.IH [OF skip Cons.prems(2)] show ?thesis by auto
  next
    case (remove m bs mt)
    show ?thesis
    proof (cases "p = temp_directory @ [name]")
      case True
      with remove e show ?thesis by auto
    next
      case False
      with Cons.prems(2) have "map_of t' p \<noteq> map_of (fs_remove (temp_directory @ [name]) t) p" by simp
      from Cons.IH [OF remove(4) this] show ?thesis by auto
    qed
  qed
qed

text \<open>C38: cleaning up removes only abandoned temporaries. A path whose node differs after
  \<open>cleanup_stale_temporary_files\<close>, even one that ended in an error, is a regular file in the temporary
  directory with the hash-and-UUID name of an interrupted write, last modified no later than the
  cutoff; no published blob is touched.\<close>

theorem cleanup_removes_only_stale_temporaries:
  assumes "distinct (map fst t)"
    and "cleanup_stale_temporary_files X now minimum_age t = (r, t')" and "map_of t' p \<noteq> map_of t p"
  shows "\<exists>name m bs mt. p = temp_directory @ [name] \<and> is_managed_temporary_name X name \<and>
    map_of t p = Some (Regular m bs mt) \<and> mt \<le> now - minimum_age"
proof -
  let ?es = "dir_entries temp_directory t"
  from assms(2,3) have "cleanup_loop X (now - minimum_age) ?es 0 t = (r, t')"
    by (auto simp: cleanup_stale_temporary_files_def fbind_def fpure_def split: sum.splits)
  from cleanup_loop_removes [OF this assms(3)] obtain name m bs mt
    where entry: "(name, Regular m bs mt) \<in> set ?es" and p: "p = temp_directory @ [name]"
      and rest: "is_managed_temporary_name X name" "mt \<le> now - minimum_age" by blast
  from entry obtain q where "(q, Regular m bs mt) \<in> set t" "q \<noteq> []" "butlast q = temp_directory" "last q = name"
    by (auto simp: dir_entries_def)
  then have "(p, Regular m bs mt) \<in> set t" by (metis append_butlast_last_id p)
  then have "map_of t p = Some (Regular m bs mt)" using assms(1) by simp
  with p rest show ?thesis by blast
qed

definition littered_fs :: fs where
  "littered_fs = opened_fs @
     [([''sha256'', ''.tmp'', replicate 64 (CHR ''a'') @ ''.101.tmp''], Regular 384 ''partial'' 10),
      ([''sha256'', ''.tmp'', ''notes''], Regular 384 ''keep'' 10)]"

definition littered_path :: path where
  "littered_path = [''sha256'', ''.tmp'', replicate 64 (CHR ''a'') @ ''.101.tmp'']"

theorem cleanup_removes_only_stale_temporaries_witness:
  "\<exists>name m bs mt. littered_path = temp_directory @ [name] \<and>
     is_managed_temporary_name example_externals name \<and>
     map_of littered_fs littered_path = Some (Regular m bs mt) \<and> mt \<le> 500 - 100"
proof (rule cleanup_removes_only_stale_temporaries)
  let ?r = "cleanup_stale_temporary_files example_externals 500 100 littered_fs"
  show "distinct (map fst littered_fs)" by code_simp
  show "?r = (fst ?r, snd ?r)" by simp
  show "map_of (snd ?r) littered_path \<noteq> map_of littered_fs littered_path" by code_simp
qed

end
