(* ===== verification/Epoch_Intent.thy ===== *)
theory Epoch_Intent
  imports Epoch_Schema Epoch_Blob "HOL-Library.Char_ord" "HOL-Library.List_Lexorder"
begin

text \<open>
  The front half of \<open>epoch-effects\<close>: operation identities, the screening of credential-bearing
  requests, canonicalization, and \<open>CanonicalIntent::new\<close>. A JSON object is the list of its entries
  in the order \<open>serde_json\<close>'s map iterates them.
\<close>

section \<open>Errors and states\<close>

datatype operation_id = OperationId (op_str: string)

datatype effect_state = Requested | EffPrepared | EffDispatched | EffCommitted | EffFailed | EffUnknown

datatype attempt_state = AttStarted | AttCommitted | AttFailed | AttUnknown

datatype fault_point = NoFault | AfterPrepared | AfterDispatchedBeforeInvoke | AfterInvokeBeforeCommit

datatype fault_safety = KnownNotSent | UnknownOutcome

datatype dispatch_failure_code = Rejected | Unavailable | InvalidResponse

datatype gateway_error =
    GAuthorizationDenied operation_id
  | GAuthorizationUnavailable operation_id
  | GOperationInputConflict operation_id blob_hash blob_hash
  | GUnresolvedOperation operation_id effect_state
  | GOperationNotFound operation_id
  | GConcurrentStateChange operation_id
  | GDispatchFailed operation_id dispatch_failure_code
  | GFaultInjected fault_point fault_safety
  | GSensitiveField string
  | GInvalidField string
  | GInvalidStoredValue string
  | GBlobMetadataConflict blob_hash
  | GLockPoisoned
  | GClockBeforeUnixEpoch
  | GClockOverflow
  | GStorage
  | GDatabase
  | GBlob blob_error
  | GInvalidBlobHash string

type_synonym 'a gw_result = "(gateway_error, 'a) result"

section \<open>Operation identity\<close>

definition u64_be_bytes :: "u64 \<Rightarrow> string" where
  "u64_be_bytes w = map (\<lambda>i. char_of (uint w div 2 ^ (8 * i))) [7, 6, 5, 4, 3, 2, 1, 0]"

text \<open>One component of the hashed text: its length, big-endian, then its bytes.\<close>

definition frame :: "string \<Rightarrow> string" where
  "frame component = u64_be_bytes (of_nat (length component)) @ component"

definition operation_preimage :: "externals \<Rightarrow> session_id \<Rightarrow> branch_id \<Rightarrow> string \<Rightarrow> string" where
  "operation_preimage X session branch replay_key =
     concat (map frame
       [''epoch.effect.operation.v1'', id_to_string X session, id_to_string X branch, replay_key])"

definition operation_id_derive :: "externals \<Rightarrow> session_id \<Rightarrow> branch_id \<Rightarrow> string \<Rightarrow> operation_id" where
  "operation_id_derive X session branch replay_key =
     OperationId (''op_'' @ encode_hex (sha256 X (operation_preimage X session branch replay_key)))"

section \<open>Validation\<close>

definition gw_validate_text :: "string \<Rightarrow> string \<Rightarrow> nat \<Rightarrow> unit gw_result" where
  "gw_validate_text field value maximum =
     (if value = [] \<or> maximum < length value \<or> has_control value
      then Inl (GInvalidField field) else Inr ())"

definition gw_validate_media_type :: "string \<Rightarrow> unit gw_result" where
  "gw_validate_media_type value = gw_validate_text ''dispatch_result.media_type'' value 255"

definition sensitive_key :: "string \<Rightarrow> bool" where
  "sensitive_key normalized \<longleftrightarrow>
     normalized \<in> {''authorization'', ''proxy_authorization'', ''api_key'', ''apikey'',
       ''access_token'', ''refresh_token'', ''token'', ''password'', ''secret'', ''credential'',
       ''credentials'', ''client_secret''}
   \<or> ends_with ''_api_key'' normalized \<or> ends_with ''_authorization'' normalized
   \<or> ends_with ''_access_token'' normalized \<or> ends_with ''_refresh_token'' normalized"

definition normalize_key :: "string \<Rightarrow> string" where
  "normalize_key key = replace_byte (CHR ''-'') ''_'' (to_ascii_lowercase key)"

fun reject_sensitive_fields :: "json \<Rightarrow> string \<Rightarrow> unit gw_result"
  and reject_sensitive_entries :: "(string \<times> json) list \<Rightarrow> string \<Rightarrow> unit gw_result"
  and reject_sensitive_items :: "json list \<Rightarrow> nat \<Rightarrow> string \<Rightarrow> unit gw_result" where
  "reject_sensitive_fields (JObject entries) path = reject_sensitive_entries entries path"
| "reject_sensitive_fields (JArray items) path = reject_sensitive_items items 0 path"
| "reject_sensitive_fields JNull path = Inr ()"
| "reject_sensitive_fields (JBool b) path = Inr ()"
| "reject_sensitive_fields (JNumber n) path = Inr ()"
| "reject_sensitive_fields (JString s) path = Inr ()"
| "reject_sensitive_entries [] path = Inr ()"
| "reject_sensitive_entries ((key, nested) # rest) path =
     (if sensitive_key (normalize_key key) then Inl (GSensitiveField (path @ ''.'' @ key))
      else rbind (reject_sensitive_fields nested (path @ ''.'' @ key))
             (\<lambda>_. reject_sensitive_entries rest path))"
| "reject_sensitive_items [] index path = Inr ()"
| "reject_sensitive_items (item # rest) index path =
     rbind (reject_sensitive_fields item (path @ ''['' @ show_nat index @ '']''))
       (\<lambda>_. reject_sensitive_items rest (index + 1) path)"

definition sensitive_markers :: "string list" where
  "sensitive_markers = [''bearer '', ''basic '', ''api_key='', ''api-key='', ''apikey='',
     ''access_token='', ''access-token='', ''refresh_token='', ''client_secret='', ''password='']"

text \<open>\<open>suffix.split(['/', '?', '#']).next()\<close> is the part before the first separator.\<close>

definition has_url_userinfo :: "string \<Rightarrow> bool" where
  "has_url_userinfo normalized =
     (case split_once ''://'' normalized of
        None \<Rightarrow> False
      | Some (_, suffix) \<Rightarrow>
          CHR ''@'' \<in> set (takeWhile (\<lambda>c. c \<notin> {CHR ''/'', CHR ''?'', CHR ''#''}) suffix))"

definition sensitive_text :: "string \<Rightarrow> bool" where
  "sensitive_text value =
     (let normalized = to_ascii_lowercase value in
      list_ex (\<lambda>marker. contains_str marker normalized) sensitive_markers
        \<or> has_url_userinfo normalized)"

definition reject_sensitive_text :: "string \<Rightarrow> string \<Rightarrow> unit gw_result" where
  "reject_sensitive_text value path =
     (if sensitive_text value then Inl (GSensitiveField path) else Inr ())"

section \<open>Canonical form\<close>

fun canonicalize_value :: "json \<Rightarrow> json" where
  "canonicalize_value (JObject entries) =
     JObject (map (\<lambda>(key, value). (key, canonicalize_value value)) (sort_key fst entries))"
| "canonicalize_value (JArray items) = JArray (map canonicalize_value items)"
| "canonicalize_value scalar = scalar"

record canonical_intent =
  ci_session_id :: session_id
  ci_branch_id :: branch_id
  ci_replay_key :: string
  ci_action :: string
  ci_resource :: string
  ci_policy_revision :: u64
  ci_operation_id :: operation_id
  ci_canonical_bytes :: string
  ci_input_hash :: blob_hash

definition canonical_document :: "string \<Rightarrow> string \<Rightarrow> json \<Rightarrow> json" where
  "canonical_document action resource arguments =
     JObject [(''action'', JString action), (''arguments'', canonicalize_value arguments),
       (''resource'', JString resource), (''schema_version'', JNumber (PosInt 1))]"

definition canonical_intent_new ::
  "externals \<Rightarrow> session_id \<Rightarrow> branch_id \<Rightarrow> string \<Rightarrow> string \<Rightarrow> string \<Rightarrow> json \<Rightarrow> u64 \<Rightarrow>
   canonical_intent gw_result" where
  "canonical_intent_new X session branch replay_key action resource arguments policy_revision =
     rbind (gw_validate_text ''replay_key'' replay_key 255) (\<lambda>_.
     rbind (gw_validate_text ''action'' action 255) (\<lambda>_.
     rbind (gw_validate_text ''resource'' resource 2048) (\<lambda>_.
     rbind (reject_sensitive_text action ''action'') (\<lambda>_.
     rbind (reject_sensitive_text resource ''resource'') (\<lambda>_.
     rbind (reject_sensitive_fields arguments ''arguments'') (\<lambda>_.
     let canonical_bytes = json_to_string X (canonical_document action resource arguments) in
     Inr \<lparr>ci_session_id = session, ci_branch_id = branch, ci_replay_key = replay_key,
          ci_action = action, ci_resource = resource, ci_policy_revision = policy_revision,
          ci_operation_id = operation_id_derive X session branch replay_key,
          ci_canonical_bytes = canonical_bytes,
          ci_input_hash = blob_hash_digest X canonical_bytes\<rparr>))))))"

end
