(* ===== verification/Epoch_Intent_Properties.thy ===== *)
theory Epoch_Intent_Properties
  imports Epoch_Intent Epoch_Example "HOL-Library.Multiset"
begin

text \<open>
  Operation identities, canonical forms and credential screening: what the front half of the effect
  gateway guarantees before anything is stored.
\<close>

section \<open>Framing\<close>

lemma length_u64_be_bytes [simp]: "length (u64_be_bytes w) = 8"
  by (simp add: u64_be_bytes_def)

lemma char_of_eq_mod: "char_of (a :: int) = char_of b \<Longrightarrow> a mod 256 = b mod 256"
  by (metis of_char_of)

lemma base256:
  assumes "(0::int) \<le> a" and "a < 256 ^ n" and "0 \<le> b" and "b < 256 ^ n"
    and "\<And>i. i < n \<Longrightarrow> (a div 256 ^ i) mod 256 = (b div 256 ^ i) mod 256"
  shows "a = b"
  using assms
proof (induction n arbitrary: a b)
  case (Suc n)
  have low: "a mod 256 = b mod 256" using Suc.prems(5) [of 0] by simp
  have "a div 256 = b div 256"
  proof (rule Suc.IH)
    show "0 \<le> a div 256" "0 \<le> b div 256" using Suc.prems by (simp_all add: pos_imp_zdiv_nonneg_iff)
    show "a div 256 < 256 ^ n" "b div 256 < 256 ^ n"
      using Suc.prems by (simp_all add: div_less_iff_less_mult mult.commute)
    show "(a div 256) div 256 ^ i mod 256 = (b div 256) div 256 ^ i mod 256" if "i < n" for i
      using Suc.prems(5) [of "Suc i"] that by (simp add: zdiv_zmult2_eq)
  qed
  with low show ?case by (metis div_mult_mod_eq)
qed simp

lemma u64_be_bytes_inj: "u64_be_bytes v = u64_be_bytes w \<Longrightarrow> v = w"
proof -
  assume eq: "u64_be_bytes v = u64_be_bytes w"
  have digit: "(uint v div 256 ^ i) mod 256 = (uint w div 256 ^ i) mod 256" if "i < 8" for i
  proof -
    have i: "i \<in> set [7, 6, 5, 4, 3, 2, 1, 0]" using that by auto
    have "\<forall>i \<in> set [7, 6, 5, 4, 3, 2, 1, 0].
        char_of (uint v div 2 ^ (8 * i)) = char_of (uint w div 2 ^ (8 * i))"
      using eq unfolding u64_be_bytes_def map_eq_conv .
    with i have "(uint v div 2 ^ (8 * i)) mod 256 = (uint w div 2 ^ (8 * i)) mod 256"
      by (blast intro: char_of_eq_mod)
    then show ?thesis by (simp add: power_mult)
  qed
  have "uint x < 256 ^ 8" for x :: u64
    using uint_lt2p [of x] by simp
  note bound = this
  have "uint v = uint w"
    by (rule base256 [OF uint_ge_0 bound uint_ge_0 bound digit])
  then show ?thesis by (simp only: word_uint_eq_iff)
qed

lemma of_nat_u64_inj:
  assumes "(of_nat m :: u64) = of_nat n" and "m < 2 ^ 64" and "n < 2 ^ 64"
  shows "m = n"
proof -
  have "unat (of_nat k :: u64) = k" if "k < 2 ^ 64" for k
    using that by (simp add: unsigned_of_nat take_bit_nat_eq_self)
  with assms show ?thesis by metis
qed

lemma frame_prefix_free:
  assumes "frame a @ x = frame b @ y" and "length a < 2 ^ 64" and "length b < 2 ^ 64"
  shows "a = b \<and> x = y"
proof -
  have "u64_be_bytes (of_nat (length a)) @ a @ x = u64_be_bytes (of_nat (length b)) @ b @ y"
    using assms(1) by (simp add: frame_def)
  then have w: "u64_be_bytes (of_nat (length a)) = u64_be_bytes (of_nat (length b))"
    and rest: "a @ x = b @ y"
    by (simp_all add: append_eq_append_conv)
  have "(of_nat (length a) :: u64) = of_nat (length b)" by (rule u64_be_bytes_inj [OF w])
  then have "length a = length b"
    by (rule of_nat_u64_inj [OF _ assms(2,3)])
  with rest show ?thesis by simp
qed

text \<open>Operation identities are collision-free up to the digest: the hashed texts of two operations
  agree only when session, branch and replay key all agree, because each component is framed by its
  length; in particular no choice of replay key can imitate another branch's operation.\<close>

theorem operation_identity_unambiguous:
  assumes "uuid_codec X"
    and "operation_preimage X session branch key = operation_preimage X session' branch' key'"
    and "length (id_to_string X session) < 2 ^ 64" and "length (id_to_string X session') < 2 ^ 64"
    and "length (id_to_string X branch) < 2 ^ 64" and "length (id_to_string X branch') < 2 ^ 64"
    and "length key < 2 ^ 64" and "length key' < 2 ^ 64"
  shows "session = session' \<and> branch = branch' \<and> key = key'"
proof -
  have "frame ''epoch.effect.operation.v1'' @ frame (id_to_string X session) @
      frame (id_to_string X branch) @ frame key @ [] =
      frame ''epoch.effect.operation.v1'' @ frame (id_to_string X session') @
      frame (id_to_string X branch') @ frame key' @ []"
    using assms(2) by (simp add: operation_preimage_def)
  then have e1: "frame (id_to_string X session) @ frame (id_to_string X branch) @ frame key @ [] =
      frame (id_to_string X session') @ frame (id_to_string X branch') @ frame key' @ []"
    by simp
  note s = frame_prefix_free [OF e1 assms(3,4)]
  note b = frame_prefix_free [OF conjunct2 [OF s] assms(5,6)]
  note k = frame_prefix_free [OF conjunct2 [OF b] assms(7,8)]
  from s b k assms(1) show ?thesis by simp
qed

theorem operation_identity_unambiguous_witness:
  "example_session = example_session \<and> example_branch = example_branch \<and> ''k'' = ''k''"
proof (rule operation_identity_unambiguous [OF example_codec refl])
  have "length (id_to_string example_externals example_session) = 1"
    "length (id_to_string example_externals example_branch) = 2" by code_simp+
  then show "length (id_to_string example_externals example_session) < 2 ^ 64"
    "length (id_to_string example_externals example_session) < 2 ^ 64"
    "length (id_to_string example_externals example_branch) < 2 ^ 64"
    "length (id_to_string example_externals example_branch) < 2 ^ 64" by simp_all
qed simp_all

section \<open>Canonical form\<close>

text \<open>Two JSON values that differ only in the order of object entries, at any depth.\<close>

inductive same_json :: "json \<Rightarrow> json \<Rightarrow> bool" where
  same_object: "list_all2 (\<lambda>x y. fst x = fst y \<and> same_json (snd x) (snd y)) es fs \<Longrightarrow>
     mset fs = mset gs \<Longrightarrow> distinct (map fst es) \<Longrightarrow> same_json (JObject es) (JObject gs)"
| same_array: "list_all2 same_json xs ys \<Longrightarrow> same_json (JArray xs) (JArray ys)"
| same_scalar: "same_json v v"

abbreviation on_value :: "(json \<Rightarrow> json) \<Rightarrow> string \<times> json \<Rightarrow> string \<times> json" where
  "on_value g \<equiv> (\<lambda>(key, value). (key, g value))"

lemma insort_on_value: "insort_key fst (on_value g x) (map (on_value g) es) = map (on_value g) (insort_key fst x es)"
  by (induction es) (auto split: prod.splits)

lemma sort_on_value: "map (on_value g) (sort_key fst es) = sort_key fst (map (on_value g) es)"
  by (induction es) (simp_all add: insort_on_value [symmetric])

lemma keys_on_value: "map fst (map (on_value g) es) = map fst es"
  by (induction es) auto

lemma canonicalize_object:
  "canonicalize_value (JObject es) = JObject (sort_key fst (map (on_value canonicalize_value) es))"
  by (simp add: sort_on_value)

text \<open>The canonical form does not depend on how a caller orders the entries of objects: two argument
  values that differ only in entry order, at any depth, have the same canonical form, so the same
  request always has the same input hash.\<close>

theorem canonical_form_order_insensitive:
  assumes "same_json v w"
  shows "canonicalize_value v = canonicalize_value w"
  using assms
proof (induction rule: same_json.induct)
  case (same_object es fs gs)
  let ?c = "on_value canonicalize_value"
  have eq: "map ?c es = map ?c fs"
    using same_object(1) by (induction rule: list_all2_induct) auto
  have "mset (map ?c fs) = mset (map ?c gs)" using same_object(2) by simp
  moreover have "inj_on fst (set (map ?c es))"
    using same_object(3) keys_on_value [of canonicalize_value es] by (metis distinct_map)
  ultimately have "sort_key fst (map ?c es) = sort_key fst (map ?c gs)"
    by (intro sort_key_eq_sort_key) (simp_all add: eq)
  then show ?case by (simp only: canonicalize_object)
next
  case (same_array xs ys)
  then have "map canonicalize_value xs = map canonicalize_value ys"
    by (induction rule: list_all2_induct) auto
  then show ?case by simp
qed simp

theorem canonical_form_order_insensitive_witness:
  "canonicalize_value (JObject [(''b'', JNull), (''a'', JArray [JBool True])]) =
   canonicalize_value (JObject [(''a'', JArray [JBool True]), (''b'', JNull)])"
proof (rule canonical_form_order_insensitive)
  show "same_json (JObject [(''b'', JNull), (''a'', JArray [JBool True])])
      (JObject [(''a'', JArray [JBool True]), (''b'', JNull)])"
    by (rule same_object [of _ "[(''b'', JNull), (''a'', JArray [JBool True])]"])
      (auto intro: same_scalar simp: add_mset_commute)
qed

lemma canonicalize_idem: "canonicalize_value (canonicalize_value v) = canonicalize_value v"
proof (induction v rule: canonicalize_value.induct)
  case (1 es)
  let ?c = "on_value canonicalize_value"
  have idem: "?c (?c e) = ?c e" if "e \<in> set es" for e
    using 1 [of e "fst e" "snd e"] that by (cases e) auto
  have "map ?c (sort_key fst (map ?c es)) = sort_key fst (map ?c (map ?c es))"
    by (rule sort_on_value)
  also have "map ?c (map ?c es) = map ?c es" using idem by simp
  finally have "sort_key fst (map ?c (sort_key fst (map ?c es))) = sort_key fst (map ?c es)"
    by (simp add: sort_key_id_if_sorted)
  then show ?case by (simp only: canonicalize_object)
qed simp_all

section \<open>Credential screening\<close>

text \<open>All keys of a JSON value, at any depth.\<close>

fun json_keys :: "json \<Rightarrow> string list"
  and entry_keys :: "(string \<times> json) list \<Rightarrow> string list"
  and item_keys :: "json list \<Rightarrow> string list" where
  "json_keys (JObject entries) = entry_keys entries"
| "json_keys (JArray items) = item_keys items"
| "json_keys JNull = []"
| "json_keys (JBool b) = []"
| "json_keys (JNumber n) = []"
| "json_keys (JString s) = []"
| "entry_keys [] = []"
| "entry_keys ((key, nested) # rest) = key # json_keys nested @ entry_keys rest"
| "item_keys [] = []"
| "item_keys (item # rest) = json_keys item @ item_keys rest"

lemma reject_sensitive_iff:
  "reject_sensitive_fields v path = Inr () \<longleftrightarrow>
     (\<forall>k \<in> set (json_keys v). \<not> sensitive_key (normalize_key k))"
  "reject_sensitive_entries es path = Inr () \<longleftrightarrow>
     (\<forall>k \<in> set (entry_keys es). \<not> sensitive_key (normalize_key k))"
  "reject_sensitive_items vs index path = Inr () \<longleftrightarrow>
     (\<forall>k \<in> set (item_keys vs). \<not> sensitive_key (normalize_key k))"
  by (induction v path and es path and vs index path
      rule: reject_sensitive_fields_reject_sensitive_entries_reject_sensitive_items.induct)
    (auto simp: result_simps)

lemma canonical_intent_new_Inr:
  assumes "canonical_intent_new X session branch key action resource arguments revision = Inr ci"
  shows "gw_validate_text ''replay_key'' key 255 = Inr ()"
    "gw_validate_text ''action'' action 255 = Inr ()" "gw_validate_text ''resource'' resource 2048 = Inr ()"
    "\<not> sensitive_text action" "\<not> sensitive_text resource"
    "reject_sensitive_fields arguments ''arguments'' = Inr ()"
    "ci = \<lparr>ci_session_id = session, ci_branch_id = branch, ci_replay_key = key,
          ci_action = action, ci_resource = resource, ci_policy_revision = revision,
          ci_operation_id = operation_id_derive X session branch key,
          ci_canonical_bytes = json_to_string X (canonical_document action resource arguments),
          ci_input_hash = blob_hash_digest X (json_to_string X (canonical_document action resource arguments))\<rparr>"
  using assms
  by (simp_all add: canonical_intent_new_def rbind_eq_Inr Let_def reject_sensitive_text_def split: if_splits)


end
