(* ===== verification/Epoch_Effects.thy ===== *)
theory Epoch_Effects
  imports Epoch_Intent
begin

text \<open>
  The durable effect gateway of \<open>epoch-effects\<close>: the constraints of its tables, the journal
  statements, the four transactions (authorize and persist, mark dispatched, resolve as failed or
  unknown, commit the result), the dispatch to a provider and \<open>execute\<close>. The authorizer is an
  argument, as the trait object is in the code; the provider is a state transformer, also an
  argument. Clock readings, fresh identifiers and poisoned locks come from the record \<open>host\<close>.
\<close>

section \<open>Constraints of the effect tables\<close>

definition blob_row_check :: "blob_row \<Rightarrow> bool" where
  "blob_row_check r \<longleftrightarrow>
     is_sha256_hex (bl_hash r) \<and> 0 \<le> bl_byte_length r \<and> length_between (bl_media_type r) 1 255 \<and>
     0 \<le> bl_created_at r"

definition intent_check :: "externals \<Rightarrow> intent_row \<Rightarrow> bool" where
  "intent_check X r \<longleftrightarrow>
     length_between (i_operation_id r) 1 255 \<and> length_between (i_replay_key r) 1 255 \<and>
     length_between (i_action r) 1 255 \<and> length_between (i_resource r) 1 2048 \<and>
     i_state r \<in> {''prepared'', ''denied'', ''dispatched'', ''succeeded'', ''failed'', ''unknown''} \<and>
     null_or (sqlite_json_valid X) (i_error_json r) \<and> 0 \<le> i_policy_revision r \<and>
     0 \<le> i_prepared_at r \<and> null_or (\<lambda>t. i_prepared_at r \<le> t) (i_dispatched_at r) \<and>
     null_or (\<lambda>t. i_prepared_at r \<le> t) (i_resolved_at r) \<and> 0 \<le> i_revision r"

definition capability_bound :: "db \<Rightarrow> string \<Rightarrow> string \<Rightarrow> string \<Rightarrow> bool" where
  "capability_bound d capability branch session \<longleftrightarrow>
     list_ex (\<lambda>c. c_id c = capability \<and> c_branch_id c = branch \<and> c_session_id c = session)
       (t_capabilities d)"

definition intent_insert_ok :: "externals \<Rightarrow> db \<Rightarrow> intent_row list \<Rightarrow> intent_row \<Rightarrow> bool" where
  "intent_insert_ok X d rows r \<longleftrightarrow>
     intent_check X r \<and> i_id r \<notin> set (map i_id rows) \<and>
     i_operation_id r \<notin> set (map i_operation_id rows) \<and>
     (i_branch_id r, i_replay_key r) \<notin> set (map (\<lambda>i. (i_branch_id i, i_replay_key i)) rows) \<and>
     branch_exists d (i_branch_id r) (i_session_id r) \<and>
     null_or (\<lambda>c. capability_bound d c (i_branch_id r) (i_session_id r)) (i_capability_id r) \<and>
     blob_registered d (i_input_hash r) \<and> null_or (blob_registered d) (i_result_hash r)"

definition intent_update_ok :: "externals \<Rightarrow> db \<Rightarrow> intent_row \<Rightarrow> intent_row \<Rightarrow> bool" where
  "intent_update_ok X d old new \<longleftrightarrow>
     intent_check X new \<and> null_or (blob_registered d) (i_result_hash new)"

definition attempt_check :: "externals \<Rightarrow> db \<Rightarrow> attempt_row \<Rightarrow> bool" where
  "attempt_check X d r \<longleftrightarrow>
     1 \<le> t_attempt_no r \<and> t_state r \<in> {''started'', ''succeeded'', ''failed'', ''unknown''} \<and>
     length_between (t_idempotency_key r) 1 255 \<and> null_or (sqlite_json_valid X) (t_error_json r) \<and>
     0 \<le> t_started_at r \<and> null_or (\<lambda>t. t_started_at r \<le> t) (t_completed_at r) \<and>
     null_or (blob_registered d) (t_response_hash r)"

definition attempt_insert_ok :: "externals \<Rightarrow> db \<Rightarrow> attempt_row list \<Rightarrow> attempt_row \<Rightarrow> bool" where
  "attempt_insert_ok X d rows r \<longleftrightarrow>
     attempt_check X d r \<and> t_id r \<notin> set (map t_id rows) \<and>
     (t_effect_id r, t_attempt_no r) \<notin> set (map (\<lambda>a. (t_effect_id a, t_attempt_no a)) rows) \<and>
     t_effect_id r \<in> set (map i_id (t_intents d))"

definition transition_insert_ok :: "externals \<Rightarrow> db \<Rightarrow> transition_row list \<Rightarrow> transition_row \<Rightarrow> bool" where
  "transition_insert_ok X d rows r \<longleftrightarrow>
     0 \<le> h_sequence r \<and>
     h_state r \<in> {''requested'', ''prepared'', ''dispatched'', ''committed'', ''failed'', ''unknown''} \<and>
     0 \<le> h_occurred_at r \<and> sqlite_json_valid X (h_detail_json r) \<and>
     (h_effect_id r, h_sequence r) \<notin> set (map (\<lambda>h. (h_effect_id h, h_sequence h)) rows) \<and>
     h_effect_id r \<in> set (map i_id (t_intents d))"

definition attempt_history_insert_ok ::
  "externals \<Rightarrow> db \<Rightarrow> attempt_history_row list \<Rightarrow> attempt_history_row \<Rightarrow> bool" where
  "attempt_history_insert_ok X d rows r \<longleftrightarrow>
     1 \<le> ah_attempt_no r \<and> 0 \<le> ah_sequence r \<and>
     ah_state r \<in> {''started'', ''committed'', ''failed'', ''unknown''} \<and>
     0 \<le> ah_occurred_at r \<and> sqlite_json_valid X (ah_detail_json r) \<and>
     (ah_effect_id r, ah_attempt_no r, ah_sequence r) \<notin>
       set (map (\<lambda>h. (ah_effect_id h, ah_attempt_no h, ah_sequence h)) rows) \<and>
     (ah_effect_id r, ah_attempt_no r) \<in> set (map (\<lambda>a. (t_effect_id a, t_attempt_no a)) (t_attempts d))"

definition branch_update_ok :: "branch_row \<Rightarrow> branch_row \<Rightarrow> bool" where
  "branch_update_ok old new \<longleftrightarrow> b_created_at new \<le> b_updated_at new"

section \<open>Interfaces\<close>

record authorization_request =
  ar_session_id :: session_id
  ar_branch_id :: branch_id
  ar_operation_id :: operation_id
  ar_action :: string
  ar_resource :: string
  ar_input_hash :: blob_hash
  ar_policy_revision :: u64

datatype authorization_decision =
    Authorized capability_id
  | AuthDenied "capability_id option"

datatype authorization_error = AuthorizerUnavailable

type_synonym authorizer =
  "authorization_request \<Rightarrow> db \<Rightarrow> (authorization_error, authorization_decision \<times> db) result"

definition deny_all_authorizer :: authorizer where
  "deny_all_authorizer request d = Inr (AuthDenied None, d)"

record dispatch_request =
  dr_operation_id :: operation_id
  dr_action :: string
  dr_resource :: string
  dr_canonical_input :: string
  dr_input_hash :: blob_hash

record dispatch_result =
  dres_bytes :: string
  dres_media_type :: string
  dres_downstream_reference :: "string option"

datatype dispatch_outcome =
    DispatchCommitted dispatch_result
  | DispatchFailure dispatch_failure_code

type_synonym 'p dispatcher = "dispatch_request \<Rightarrow> 'p \<Rightarrow> dispatch_outcome \<times> 'p"

text \<open>\<open>DeterministicLocalDispatcher\<close>.\<close>

record local_dispatcher =
  ld_dispatches :: nat
  ld_committed :: "(string \<times> string) list"

definition quoted :: "string \<Rightarrow> string" where
  "quoted s = CHR 0x22 # s @ [CHR 0x22]"

definition local_result :: "dispatch_request \<Rightarrow> string" where
  "local_result request =
     ''{'' @ quoted ''accepted'' @ '':true,'' @ quoted ''input_hash'' @ '':'' @
       quoted (hash_str (dr_input_hash request)) @ '','' @ quoted ''operation_id'' @ '':'' @
       quoted (op_str (dr_operation_id request)) @ ''}''"

definition local_dispatch :: "local_dispatcher dispatcher" where
  "local_dispatch request p =
     (let op = op_str (dr_operation_id request);
          (bytes, committed) =
            (case map_of (ld_committed p) op of
               Some bytes \<Rightarrow> (bytes, ld_committed p)
             | None \<Rightarrow> (local_result request, (op, local_result request) # ld_committed p))
      in (DispatchCommitted
            \<lparr>dres_bytes = bytes, dres_media_type = ''application/json'',
             dres_downstream_reference = Some (''local:demo:'' @ op)\<rparr>,
          \<lparr>ld_dispatches = ld_dispatches p + 1, ld_committed = committed\<rparr>))"

section \<open>The journal\<close>

record effect_snapshot =
  es_effect_id :: effect_id
  es_session_id :: session_id
  es_branch_id :: branch_id
  es_capability_id :: "capability_id option"
  es_operation_id :: operation_id
  es_action :: string
  es_resource :: string
  es_input_hash :: blob_hash
  es_state :: effect_state
  es_result_hash :: "blob_hash option"
  es_policy_revision :: u64
  es_revision :: u64

definition parse_current_state :: "string \<Rightarrow> effect_state gw_result" where
  "parse_current_state v =
     (if v = ''prepared'' then Inr EffPrepared
      else if v = ''dispatched'' then Inr EffDispatched
      else if v = ''succeeded'' then Inr EffCommitted
      else if v = ''failed'' \<or> v = ''denied'' then Inr EffFailed
      else if v = ''unknown'' then Inr EffUnknown
      else Inl (GInvalidStoredValue ''effect_intents.state''))"

definition parse_history_state :: "string \<Rightarrow> effect_state gw_result" where
  "parse_history_state v =
     (if v = ''requested'' then Inr Requested
      else if v = ''prepared'' then Inr EffPrepared
      else if v = ''dispatched'' then Inr EffDispatched
      else if v = ''committed'' then Inr EffCommitted
      else if v = ''failed'' then Inr EffFailed
      else if v = ''unknown'' then Inr EffUnknown
      else Inl (GInvalidStoredValue ''effect_transition_history.state''))"

definition parse_attempt_state :: "string \<Rightarrow> attempt_state gw_result" where
  "parse_attempt_state v =
     (if v = ''started'' then Inr AttStarted
      else if v = ''committed'' then Inr AttCommitted
      else if v = ''failed'' then Inr AttFailed
      else if v = ''unknown'' then Inr AttUnknown
      else Inl (GInvalidStoredValue ''effect_attempt_history.state''))"

fun history_state :: "effect_state \<Rightarrow> string" where
  "history_state Requested = ''requested''"
| "history_state EffPrepared = ''prepared''"
| "history_state EffDispatched = ''dispatched''"
| "history_state EffCommitted = ''committed''"
| "history_state EffFailed = ''failed''"
| "history_state EffUnknown = ''unknown''"

fun failure_code :: "dispatch_failure_code \<Rightarrow> string" where
  "failure_code Rejected = ''rejected''"
| "failure_code Unavailable = ''unavailable''"
| "failure_code InvalidResponse = ''invalid_response''"

definition stored :: "'a option \<Rightarrow> string \<Rightarrow> 'a gw_result" where
  "stored m field = ok_or m (GInvalidStoredValue field)"

definition stored_hash :: "string \<Rightarrow> blob_hash gw_result" where
  "stored_hash v = ok_or (blob_hash_from_str v) (GInvalidBlobHash v)"

definition decode_snapshot :: "externals \<Rightarrow> intent_row \<Rightarrow> effect_snapshot gw_result" where
  "decode_snapshot X r =
     rbind (stored (id_parse X (i_id r)) ''effect_intents.id'') (\<lambda>eid.
     rbind (stored (id_parse X (i_session_id r)) ''effect_intents.session_id'') (\<lambda>sid.
     rbind (stored (id_parse X (i_branch_id r)) ''effect_intents.branch_id'') (\<lambda>bid.
     rbind (option_try (\<lambda>c. stored (id_parse X c) ''effect_intents.capability_id'') (i_capability_id r)) (\<lambda>cid.
     rbind (stored_hash (i_input_hash r)) (\<lambda>input.
     rbind (parse_current_state (i_state r)) (\<lambda>state.
     rbind (option_try stored_hash (i_result_hash r)) (\<lambda>result.
     rbind (stored (u64_of_i64 (i_policy_revision r)) ''effect_intents.policy_revision'') (\<lambda>policy.
     rbind (stored (u64_of_i64 (i_revision r)) ''effect_intents.revision'') (\<lambda>revision.
     Inr \<lparr>es_effect_id = eid, es_session_id = sid, es_branch_id = bid, es_capability_id = cid,
          es_operation_id = OperationId (i_operation_id r), es_action = i_action r,
          es_resource = i_resource r, es_input_hash = input, es_state = state,
          es_result_hash = result, es_policy_revision = policy, es_revision = revision\<rparr>)))))))))"

definition find_in_transaction :: "externals \<Rightarrow> operation_id \<Rightarrow> db \<Rightarrow> effect_snapshot option gw_result" where
  "find_in_transaction X op d =
     option_try (decode_snapshot X) (by_key i_operation_id (op_str op) (t_intents d))"

definition gw_sql :: "'a option \<Rightarrow> 'a gw_result" where
  "gw_sql m = ok_or m GDatabase"

definition insert_blob_metadata :: "blob_metadata \<Rightarrow> i64 \<Rightarrow> db \<Rightarrow> db gw_result" where
  "insert_blob_metadata m now d =
     rbind (ok_or (i64_of_u64 (m_length m)) (GInvalidField ''blob.length'')) (\<lambda>len.
     let row = \<lparr>bl_hash = hash_str (m_hash m), bl_byte_length = len,
                bl_media_type = m_media_type m, bl_created_at = now\<rparr> in
     if \<not> blob_row_check row then Inl GDatabase
     else (case by_key bl_hash (hash_str (m_hash m)) (t_blobs d) of
       None \<Rightarrow> Inr (d\<lparr>t_blobs := t_blobs d @ [row]\<rparr>)
     | Some recorded \<Rightarrow>
         if bl_byte_length recorded = len \<and> bl_media_type recorded = m_media_type m then Inr d
         else Inl (GBlobMetadataConflict (m_hash m))))"

definition insert_intent ::
  "externals \<Rightarrow> effect_id \<Rightarrow> capability_id option \<Rightarrow> canonical_intent \<Rightarrow> string \<Rightarrow> i64 \<Rightarrow> db \<Rightarrow> db gw_result"
where
  "insert_intent X eid cid intent state now d =
     rbind (ok_or (i64_of_u64 (ci_policy_revision intent)) (GInvalidField ''policy_revision'')) (\<lambda>policy.
     rbind (gw_sql (sql_insert (intent_insert_ok X d)
         \<lparr>i_id = id_to_string X eid, i_session_id = id_to_string X (ci_session_id intent),
          i_branch_id = id_to_string X (ci_branch_id intent),
          i_capability_id = map_option (id_to_string X) cid,
          i_operation_id = op_str (ci_operation_id intent), i_replay_key = ci_replay_key intent,
          i_action = ci_action intent, i_resource = ci_resource intent,
          i_input_hash = hash_str (ci_input_hash intent), i_state = state, i_result_hash = None,
          i_error_json = None, i_policy_revision = policy, i_prepared_at = now,
          i_dispatched_at = None, i_resolved_at = None, i_revision = 0\<rparr> (t_intents d)))
       (\<lambda>rows. Inr (d\<lparr>t_intents := rows\<rparr>)))"

definition append_transition ::
  "externals \<Rightarrow> effect_id \<Rightarrow> i64 \<Rightarrow> effect_state \<Rightarrow> i64 \<Rightarrow> string \<Rightarrow> db \<Rightarrow> db gw_result" where
  "append_transition X eid sequence state now detail d =
     rbind (gw_sql (sql_insert (transition_insert_ok X d)
         \<lparr>h_effect_id = id_to_string X eid, h_sequence = sequence, h_state = history_state state,
          h_occurred_at = now, h_detail_json = detail\<rparr> (t_transitions d)))
       (\<lambda>rows. Inr (d\<lparr>t_transitions := rows\<rparr>))"

definition append_attempt ::
  "externals \<Rightarrow> effect_id \<Rightarrow> i64 \<Rightarrow> i64 \<Rightarrow> string \<Rightarrow> i64 \<Rightarrow> string \<Rightarrow> db \<Rightarrow> db gw_result" where
  "append_attempt X eid attempt_no sequence state now detail d =
     rbind (gw_sql (sql_insert (attempt_history_insert_ok X d)
         \<lparr>ah_effect_id = id_to_string X eid, ah_attempt_no = attempt_no, ah_sequence = sequence,
          ah_state = state, ah_occurred_at = now, ah_detail_json = detail\<rparr> (t_attempt_history d)))
       (\<lambda>rows. Inr (d\<lparr>t_attempt_history := rows\<rparr>))"

definition update_resolution ::
  "externals \<Rightarrow> effect_id \<Rightarrow> string \<Rightarrow> i64 \<Rightarrow> blob_hash option \<Rightarrow> string option \<Rightarrow> db \<Rightarrow> db gw_result" where
  "update_resolution X eid state now result_hash error_json d =
     rbind (gw_sql (sql_update (intent_update_ok X d)
         (\<lambda>i. i_id i = id_to_string X eid \<and> i_state i = ''dispatched'')
         (\<lambda>i. i\<lparr>i_state := state, i_result_hash := map_option hash_str result_hash,
                i_error_json := error_json, i_resolved_at := Some now, i_revision := i_revision i + 1\<rparr>)
         (t_intents d)))
       (\<lambda>(updated, rows).
         if updated \<noteq> 1 then Inl (GInvalidStoredValue ''effect_intents.state'')
         else Inr (d\<lparr>t_intents := rows\<rparr>))"

definition update_attempt ::
  "externals \<Rightarrow> effect_id \<Rightarrow> i64 \<Rightarrow> string \<Rightarrow> i64 \<Rightarrow> blob_hash option \<Rightarrow> string option \<Rightarrow> db \<Rightarrow> db gw_result" where
  "update_attempt X eid attempt_no state now response_hash error_json d =
     rbind (gw_sql (sql_update (\<lambda>old new. attempt_check X d new)
         (\<lambda>a. t_effect_id a = id_to_string X eid \<and> t_attempt_no a = attempt_no \<and> t_state a = ''started'')
         (\<lambda>a. a\<lparr>t_state := state, t_response_hash := map_option hash_str response_hash,
                t_error_json := error_json, t_completed_at := Some now\<rparr>)
         (t_attempts d)))
       (\<lambda>(updated, rows).
         if updated \<noteq> 1 then Inl (GInvalidStoredValue ''effect_attempts.state'')
         else Inr (d\<lparr>t_attempts := rows\<rparr>))"

section \<open>The transactions\<close>

datatype create_result = Created effect_id | CreateDenied | CreateExisting effect_snapshot

definition now_unix_ms :: "i64 \<Rightarrow> i64 gw_result" where
  "now_unix_ms clock =
     (if clock < 0 then Inl GClockBeforeUnixEpoch
      else if i64_max < clock then Inl GClockOverflow else Inr clock)"

definition gw_lock :: "bool \<Rightarrow> unit gw_result" where
  "gw_lock poisoned = (if poisoned then Inl GLockPoisoned else Inr ())"

definition authorization_request_of :: "canonical_intent \<Rightarrow> authorization_request" where
  "authorization_request_of intent =
     \<lparr>ar_session_id = ci_session_id intent, ar_branch_id = ci_branch_id intent,
      ar_operation_id = ci_operation_id intent, ar_action = ci_action intent,
      ar_resource = ci_resource intent, ar_input_hash = ci_input_hash intent,
      ar_policy_revision = ci_policy_revision intent\<rparr>"

definition denied_detail :: string where
  "denied_detail = ''{'' @ quoted ''reason'' @ '':'' @ quoted ''authorization_denied'' @ ''}''"

definition authorize_and_persist ::
  "externals \<Rightarrow> authorizer \<Rightarrow> bool \<Rightarrow> i64 \<Rightarrow> effect_id \<Rightarrow> canonical_intent \<Rightarrow> blob_metadata \<Rightarrow> db \<Rightarrow>
   (create_result \<times> db) gw_result" where
  "authorize_and_persist X authorize poisoned clock eid intent input_blob d =
     rbind (now_unix_ms clock) (\<lambda>now.
     rbind (gw_lock poisoned) (\<lambda>_.
     rbind (find_in_transaction X (ci_operation_id intent) d) (\<lambda>found.
     case found of
       Some existing \<Rightarrow> Inr (CreateExisting existing, d)
     | None \<Rightarrow>
         rbind (map_err (\<lambda>_. GAuthorizationUnavailable (ci_operation_id intent))
             (authorize (authorization_request_of intent) d)) (\<lambda>(authorization, d1).
         rbind (insert_blob_metadata input_blob now d1) (\<lambda>d2.
         let (cid, state, terminal, detail, res) =
           (case authorization of
              Authorized c \<Rightarrow> (Some c, ''prepared'', EffPrepared, ''{}'', Created eid)
            | AuthDenied c \<Rightarrow>
                (c, ''denied'', EffFailed, denied_detail, CreateDenied)) in
         rbind (insert_intent X eid cid intent state now d2) (\<lambda>d3.
         rbind (append_transition X eid 0 Requested now ''{}'' d3) (\<lambda>d4.
         rbind (append_transition X eid 1 terminal now detail d4) (\<lambda>d5.
         Inr (res, d5)))))))))"

definition mark_dispatched ::
  "externals \<Rightarrow> bool \<Rightarrow> i64 \<Rightarrow> uuid \<Rightarrow> effect_id \<Rightarrow> canonical_intent \<Rightarrow> db \<Rightarrow> (unit \<times> db) gw_result" where
  "mark_dispatched X poisoned clock attempt_id eid intent d =
     rbind (now_unix_ms clock) (\<lambda>now.
     rbind (gw_lock poisoned) (\<lambda>_.
     rbind (gw_sql (sql_update (intent_update_ok X d)
         (\<lambda>i. i_id i = id_to_string X eid \<and> i_state i = ''prepared'')
         (\<lambda>i. i\<lparr>i_state := ''dispatched'', i_dispatched_at := Some now, i_revision := i_revision i + 1\<rparr>)
         (t_intents d))) (\<lambda>(updated, rows).
     if updated \<noteq> 1 then Inl (GConcurrentStateChange (ci_operation_id intent)) else
     let d1 = d\<lparr>t_intents := rows\<rparr> in
     rbind (gw_sql (sql_insert (attempt_insert_ok X d1)
         \<lparr>t_id = uuid_to_string X attempt_id, t_effect_id = id_to_string X eid, t_attempt_no = 1,
          t_state = ''started'', t_idempotency_key = op_str (ci_operation_id intent),
          t_response_hash = None, t_error_json = None, t_started_at = now, t_completed_at = None\<rparr>
         (t_attempts d1))) (\<lambda>attempts.
     let d2 = d1\<lparr>t_attempts := attempts\<rparr> in
     rbind (append_transition X eid 2 EffDispatched now ''{}'' d2) (\<lambda>d3.
     rbind (append_attempt X eid 1 0 ''started'' now ''{}'' d3) (\<lambda>d4.
     Inr ((), d4)))))))"

definition suspend_branch :: "externals \<Rightarrow> effect_id \<Rightarrow> i64 \<Rightarrow> db \<Rightarrow> db gw_result" where
  "suspend_branch X eid now d =
     rbind (gw_sql (sql_update branch_update_ok
         (\<lambda>b. map_option i_branch_id (by_key i_id (id_to_string X eid) (t_intents d)) = Some (b_id b) \<and>
              b_state b \<in> {''created'', ''running'', ''suspended'', ''completed''})
         (\<lambda>b. b\<lparr>b_state := ''suspended'', b_updated_at := now\<rparr>) (t_branches d)))
       (\<lambda>(suspended, rows).
         if suspended \<noteq> 1 then Inl (GInvalidStoredValue ''effect_intents.branch_id'')
         else Inr (d\<lparr>t_branches := rows\<rparr>))"

definition mark_unknown ::
  "externals \<Rightarrow> bool \<Rightarrow> i64 \<Rightarrow> effect_id \<Rightarrow> i64 \<Rightarrow> string \<Rightarrow> db \<Rightarrow> (unit \<times> db) gw_result" where
  "mark_unknown X poisoned clock eid attempt_no boundary d =
     rbind (now_unix_ms clock) (\<lambda>now.
     rbind (gw_lock poisoned) (\<lambda>_.
     let detail = json_to_string X (JObject [(''boundary'', JString boundary)]) in
     rbind (update_resolution X eid ''unknown'' now None (Some detail) d) (\<lambda>d1.
     rbind (update_attempt X eid attempt_no ''unknown'' now None (Some detail) d1) (\<lambda>d2.
     rbind (append_transition X eid 3 EffUnknown now detail d2) (\<lambda>d3.
     rbind (append_attempt X eid attempt_no 1 ''unknown'' now detail d3) (\<lambda>d4.
     rbind (suspend_branch X eid now d4) (\<lambda>d5.
     Inr ((), d5))))))))"

definition mark_failed ::
  "externals \<Rightarrow> bool \<Rightarrow> i64 \<Rightarrow> effect_id \<Rightarrow> i64 \<Rightarrow> dispatch_failure_code \<Rightarrow> db \<Rightarrow> (unit \<times> db) gw_result" where
  "mark_failed X poisoned clock eid attempt_no code d =
     rbind (now_unix_ms clock) (\<lambda>now.
     rbind (gw_lock poisoned) (\<lambda>_.
     let detail = json_to_string X (JObject [(''code'', JString (failure_code code))]) in
     rbind (update_resolution X eid ''failed'' now None (Some detail) d) (\<lambda>d1.
     rbind (update_attempt X eid attempt_no ''failed'' now None (Some detail) d1) (\<lambda>d2.
     rbind (append_transition X eid 3 EffFailed now detail d2) (\<lambda>d3.
     rbind (append_attempt X eid attempt_no 1 ''failed'' now detail d3) (\<lambda>d4.
     Inr ((), d4)))))))"

text \<open>The database part of \<open>commit_result\<close>.\<close>

definition commit_in_transaction ::
  "externals \<Rightarrow> bool \<Rightarrow> i64 \<Rightarrow> effect_id \<Rightarrow> blob_metadata \<Rightarrow> db \<Rightarrow> (unit \<times> db) gw_result" where
  "commit_in_transaction X poisoned clock eid result_blob d =
     rbind (now_unix_ms clock) (\<lambda>now.
     rbind (gw_lock poisoned) (\<lambda>_.
     rbind (insert_blob_metadata result_blob now d) (\<lambda>d1.
     rbind (update_resolution X eid ''succeeded'' now (Some (m_hash result_blob)) None d1) (\<lambda>d2.
     rbind (update_attempt X eid 1 ''succeeded'' now (Some (m_hash result_blob)) None d2) (\<lambda>d3.
     rbind (append_transition X eid 3 EffCommitted now ''{}'' d3) (\<lambda>d4.
     rbind (append_attempt X eid 1 1 ''committed'' now ''{}'' d4) (\<lambda>d5.
     Inr ((), d5))))))))"

section \<open>The gateway\<close>

text \<open>
  What the gateway shares with other processes: the database, the blob tree, the provider's state,
  and (for stating properties only) the list of requests the provider has been given.
\<close>

record 'p world =
  w_db :: db
  w_fs :: fs
  w_provider :: 'p
  w_invocations :: "dispatch_request list"

text \<open>What the host supplies to one call of \<open>execute\<close>.\<close>

record host =
  ho_find_poisoned :: bool
  ho_persist_poisoned :: bool
  ho_dispatch_poisoned :: bool
  ho_resolve_poisoned :: bool
  ho_persist_clock :: i64
  ho_dispatch_clock :: i64
  ho_resolve_clock :: i64
  ho_effect_id :: effect_id
  ho_attempt_id :: uuid
  ho_input_env :: "nat \<Rightarrow> fs \<Rightarrow> fs"
  ho_input_uuids :: "uuid \<times> uuid"
  ho_result_env :: "nat \<Rightarrow> fs \<Rightarrow> fs"
  ho_result_uuids :: "uuid \<times> uuid"
  ho_fs_clock :: i64

record 'p gateway =
  gw_blobs :: blob_store
  gw_authorizer :: authorizer
  gw_dispatcher :: "'p dispatcher"

record execution_receipt =
  rc_operation_id :: operation_id
  rc_input_hash :: blob_hash
  rc_result_hash :: blob_hash
  rc_result :: string
  rc_replayed :: bool

type_synonym ('p, 'a) gwop = "'p world \<Rightarrow> 'a gw_result \<times> 'p world"

definition wok :: "'a \<Rightarrow> ('p, 'a) gwop" where "wok x w = (Inr x, w)"
definition werr :: "gateway_error \<Rightarrow> ('p, 'a) gwop" where "werr e w = (Inl e, w)"

definition wbind :: "('p, 'a) gwop \<Rightarrow> ('a \<Rightarrow> ('p, 'b) gwop) \<Rightarrow> ('p, 'b) gwop" where
  "wbind m f w = (case m w of (Inl e, w') \<Rightarrow> (Inl e, w') | (Inr x, w') \<Rightarrow> f x w')"

text \<open>A read of the database, one of its transactions, and a call of the blob store.\<close>

definition on_db_read :: "(db \<Rightarrow> 'a gw_result) \<Rightarrow> ('p, 'a) gwop" where
  "on_db_read f w = (f (w_db w), w)"

definition in_tx :: "(db \<Rightarrow> ('a \<times> db) gw_result) \<Rightarrow> ('p, 'a) gwop" where
  "in_tx f w = (let (r, d') = run_tx (f (w_db w)) (w_db w) in (r, w\<lparr>w_db := d'\<rparr>))"

definition on_blobs :: "'a fsop \<Rightarrow> ('p, 'a) gwop" where
  "on_blobs f w = (let (r, t') = f (w_fs w) in (map_err GBlob r, w\<lparr>w_fs := t'\<rparr>))"

definition dispatch_request_of :: "canonical_intent \<Rightarrow> dispatch_request" where
  "dispatch_request_of intent =
     \<lparr>dr_operation_id = ci_operation_id intent, dr_action = ci_action intent,
      dr_resource = ci_resource intent, dr_canonical_input = ci_canonical_bytes intent,
      dr_input_hash = ci_input_hash intent\<rparr>"

definition invoke :: "'p gateway \<Rightarrow> canonical_intent \<Rightarrow> ('p, dispatch_outcome) gwop" where
  "invoke g intent w =
     (let request = dispatch_request_of intent;
          (outcome, p') = gw_dispatcher g request (w_provider w)
      in (Inr outcome, w\<lparr>w_provider := p', w_invocations := w_invocations w @ [request]\<rparr>))"

definition gw_find :: "externals \<Rightarrow> bool \<Rightarrow> operation_id \<Rightarrow> db \<Rightarrow> effect_snapshot option gw_result" where
  "gw_find X poisoned op d = rbind (gw_lock poisoned) (\<lambda>_. find_in_transaction X op d)"

definition resolve_existing ::
  "externals \<Rightarrow> 'p gateway \<Rightarrow> canonical_intent \<Rightarrow> effect_snapshot \<Rightarrow> ('p, execution_receipt) gwop" where
  "resolve_existing X g intent existing =
     (if es_input_hash existing \<noteq> ci_input_hash intent
      then werr (GOperationInputConflict (ci_operation_id intent) (es_input_hash existing) (ci_input_hash intent))
      else if es_state existing \<noteq> EffCommitted
      then werr (GUnresolvedOperation (ci_operation_id intent) (es_state existing))
      else (case es_result_hash existing of
        None \<Rightarrow> werr (GInvalidStoredValue ''effect_intents.result_hash'')
      | Some result_hash \<Rightarrow>
          wbind (on_blobs (fpure (blob_read X (gw_blobs g) result_hash))) (\<lambda>result.
          wok \<lparr>rc_operation_id = ci_operation_id intent, rc_input_hash = ci_input_hash intent,
               rc_result_hash = result_hash, rc_result = result, rc_replayed = True\<rparr>)))"

definition commit_result ::
  "externals \<Rightarrow> 'p gateway \<Rightarrow> host \<Rightarrow> effect_id \<Rightarrow> canonical_intent \<Rightarrow> dispatch_result \<Rightarrow>
   ('p, execution_receipt) gwop" where
  "commit_result X g ho eid intent result =
     (case gw_validate_media_type (dres_media_type result) of
        Inl e \<Rightarrow> werr e
      | Inr _ \<Rightarrow>
          wbind (on_blobs (blob_put X (gw_blobs g) (ho_result_env ho) (ho_fs_clock ho)
              (fst (ho_result_uuids ho)) (snd (ho_result_uuids ho))
              (dres_bytes result) (dres_media_type result))) (\<lambda>result_blob.
          wbind (in_tx (commit_in_transaction X (ho_resolve_poisoned ho) (ho_resolve_clock ho) eid result_blob)) (\<lambda>_.
          wok \<lparr>rc_operation_id = ci_operation_id intent, rc_input_hash = ci_input_hash intent,
               rc_result_hash = m_hash result_blob, rc_result = dres_bytes result,
               rc_replayed = False\<rparr>)))"

text \<open>\<open>dispatch\<close>, in the three stretches between which another client can act.\<close>

definition finish_dispatch ::
  "externals \<Rightarrow> 'p gateway \<Rightarrow> host \<Rightarrow> effect_id \<Rightarrow> canonical_intent \<Rightarrow> fault_point \<Rightarrow> dispatch_outcome \<Rightarrow>
   ('p, execution_receipt) gwop" where
  "finish_dispatch X g ho eid intent fault outcome =
     (if fault = AfterInvokeBeforeCommit then
        wbind (in_tx (mark_unknown X (ho_resolve_poisoned ho) (ho_resolve_clock ho) eid 1 ''response_not_durable''))
          (\<lambda>_. werr (GFaultInjected fault UnknownOutcome))
      else (case outcome of
        DispatchCommitted result \<Rightarrow> commit_result X g ho eid intent result
      | DispatchFailure code \<Rightarrow>
          wbind (in_tx (mark_failed X (ho_resolve_poisoned ho) (ho_resolve_clock ho) eid 1 code))
            (\<lambda>_. werr (GDispatchFailed (ci_operation_id intent) code))))"

definition dispatch ::
  "externals \<Rightarrow> 'p gateway \<Rightarrow> host \<Rightarrow> effect_id \<Rightarrow> canonical_intent \<Rightarrow> fault_point \<Rightarrow>
   ('p, execution_receipt) gwop" where
  "dispatch X g ho eid intent fault =
     (if fault = AfterPrepared then werr (GFaultInjected fault KnownNotSent) else
      wbind (in_tx (mark_dispatched X (ho_dispatch_poisoned ho) (ho_dispatch_clock ho) (ho_attempt_id ho) eid intent)) (\<lambda>_.
      if fault = AfterDispatchedBeforeInvoke then
        wbind (in_tx (mark_unknown X (ho_resolve_poisoned ho) (ho_resolve_clock ho) eid 1 ''dispatch_boundary''))
          (\<lambda>_. werr (GFaultInjected fault UnknownOutcome))
      else
        wbind (invoke g intent) (\<lambda>outcome. finish_dispatch X g ho eid intent fault outcome)))"

definition execute ::
  "externals \<Rightarrow> 'p gateway \<Rightarrow> host \<Rightarrow> canonical_intent \<Rightarrow> fault_point \<Rightarrow> ('p, execution_receipt) gwop" where
  "execute X g ho intent fault =
     wbind (on_db_read (gw_find X (ho_find_poisoned ho) (ci_operation_id intent))) (\<lambda>found.
     case found of
       Some existing \<Rightarrow> resolve_existing X g intent existing
     | None \<Rightarrow>
         wbind (on_blobs (blob_put X (gw_blobs g) (ho_input_env ho) (ho_fs_clock ho)
             (fst (ho_input_uuids ho)) (snd (ho_input_uuids ho)) (ci_canonical_bytes intent)
             ''application/vnd.epoch.effect-intent+json'')) (\<lambda>input_blob.
         wbind (in_tx (authorize_and_persist X (gw_authorizer g) (ho_persist_poisoned ho)
             (ho_persist_clock ho) (ho_effect_id ho) intent input_blob)) (\<lambda>created.
         case created of
           Created eid \<Rightarrow> dispatch X g ho eid intent fault
         | CreateDenied \<Rightarrow> werr (GAuthorizationDenied (ci_operation_id intent))
         | CreateExisting existing \<Rightarrow> resolve_existing X g intent existing)))"

section \<open>Reading the journal\<close>

definition gw_inspect :: "externals \<Rightarrow> bool \<Rightarrow> operation_id \<Rightarrow> db \<Rightarrow> effect_snapshot gw_result" where
  "gw_inspect X poisoned op d =
     rbind (gw_find X poisoned op d) (\<lambda>found. ok_or found (GOperationNotFound op))"

definition gw_list ::
  "externals \<Rightarrow> bool \<Rightarrow> session_id \<Rightarrow> branch_id option \<Rightarrow> db \<Rightarrow> effect_snapshot list gw_result" where
  "gw_list X poisoned session branch d =
     rbind (gw_lock poisoned) (\<lambda>_.
     list_try (decode_snapshot X)
       (sort_key i_operation_id
         (filter (\<lambda>i. i_session_id i = id_to_string X session \<and>
            null_or (\<lambda>b. i_branch_id i = id_to_string X b) branch) (t_intents d))))"

record effect_transition =
  tr_sequence :: u64
  tr_state :: effect_state
  tr_occurred_at :: i64

definition transition_of :: "transition_row \<Rightarrow> effect_transition gw_result" where
  "transition_of h =
     rbind (stored (u64_of_i64 (h_sequence h)) ''effect_transition_history.sequence'') (\<lambda>sequence.
     rbind (parse_history_state (h_state h)) (\<lambda>state.
     Inr \<lparr>tr_sequence = sequence, tr_state = state, tr_occurred_at = h_occurred_at h\<rparr>))"

definition effect_rows :: "externals \<Rightarrow> effect_id \<Rightarrow> db \<Rightarrow> transition_row list" where
  "effect_rows X eid d =
     sort_key h_sequence (filter (\<lambda>h. h_effect_id h = id_to_string X eid) (t_transitions d))"

definition gw_history :: "externals \<Rightarrow> bool \<Rightarrow> operation_id \<Rightarrow> db \<Rightarrow> effect_transition list gw_result" where
  "gw_history X poisoned op d =
     rbind (gw_inspect X poisoned op d) (\<lambda>snapshot.
     rbind (gw_lock poisoned) (\<lambda>_.
     list_try transition_of (effect_rows X (es_effect_id snapshot) d)))"

record effect_attempt_transition =
  at_attempt_no :: u64
  at_sequence :: u64
  at_state :: attempt_state
  at_occurred_at :: i64

definition attempt_transition_of :: "attempt_history_row \<Rightarrow> effect_attempt_transition gw_result" where
  "attempt_transition_of h =
     rbind (stored (u64_of_i64 (ah_attempt_no h)) ''effect_attempt_history.attempt_no'') (\<lambda>attempt_no.
     rbind (stored (u64_of_i64 (ah_sequence h)) ''effect_attempt_history.sequence'') (\<lambda>sequence.
     rbind (parse_attempt_state (ah_state h)) (\<lambda>state.
     Inr \<lparr>at_attempt_no = attempt_no, at_sequence = sequence, at_state = state,
          at_occurred_at = ah_occurred_at h\<rparr>)))"

definition gw_attempt_history ::
  "externals \<Rightarrow> bool \<Rightarrow> operation_id \<Rightarrow> db \<Rightarrow> effect_attempt_transition list gw_result" where
  "gw_attempt_history X poisoned op d =
     rbind (gw_inspect X poisoned op d) (\<lambda>snapshot.
     rbind (gw_lock poisoned) (\<lambda>_.
     list_try attempt_transition_of
       (sort_key ah_attempt_no (sort_key ah_sequence
         (filter (\<lambda>h. ah_effect_id h = id_to_string X (es_effect_id snapshot)) (t_attempt_history d))))))"

end
