(* ===== verification/Epoch_Effect_Proofs.thy ===== *)
theory Epoch_Effect_Proofs
  imports Epoch_Effects "HOL-Library.Sublist"
begin

text \<open>
  Proof library of the effect gateway: how a row of the intent table may change over time, the
  contract of an authorizer (the locale \<open>authorizer_contract\<close>) and what each transaction does to the
  journal.
\<close>

section \<open>How intents advance\<close>

definition final_states :: "string set" where
  "final_states = {''denied'', ''succeeded'', ''failed'', ''unknown''}"

definition intent_edge :: "string \<Rightarrow> string \<Rightarrow> bool" where
  "intent_edge a b \<longleftrightarrow> (a = ''prepared'' \<and> b = ''dispatched'') \<or>
     (a = ''dispatched'' \<and> b \<in> {''succeeded'', ''failed'', ''unknown''})"

text \<open>One row over time: its identity never changes, and it changes at all only along an edge.\<close>

definition intent_advances :: "intent_row \<Rightarrow> intent_row \<Rightarrow> bool" where
  "intent_advances r r' \<longleftrightarrow> r' = r \<or>
     (intent_edge (i_state r) (i_state r') \<and> i_id r' = i_id r \<and> i_session_id r' = i_session_id r \<and>
      i_branch_id r' = i_branch_id r \<and> i_capability_id r' = i_capability_id r \<and>
      i_operation_id r' = i_operation_id r \<and> i_replay_key r' = i_replay_key r \<and>
      i_action r' = i_action r \<and> i_resource r' = i_resource r \<and> i_input_hash r' = i_input_hash r \<and>
      i_policy_revision r' = i_policy_revision r \<and> i_prepared_at r' = i_prepared_at r)"

lemma intent_advances_refl [simp]: "intent_advances r r"
  by (simp add: intent_advances_def)

lemma intent_advances_keys:
  "intent_advances r r' \<Longrightarrow> i_id r' = i_id r \<and> i_operation_id r' = i_operation_id r"
  by (auto simp: intent_advances_def)

lemma intent_edge_final: "intent_edge a b \<Longrightarrow> a \<notin> final_states"
  by (auto simp: intent_edge_def final_states_def)

section \<open>Effects of the journal statements\<close>

lemma append_transition_Inr:
  "append_transition X eid n st now detail d = Inr d' \<longleftrightarrow>
     (\<exists>h. h = \<lparr>h_effect_id = id_to_string X eid, h_sequence = n, h_state = history_state st,
        h_occurred_at = now, h_detail_json = detail\<rparr> \<and>
      transition_insert_ok X d (t_transitions d) h \<and> d' = d\<lparr>t_transitions := t_transitions d @ [h]\<rparr>)"
  by (auto simp: append_transition_def gw_sql_def result_simps table_simps)

lemma append_attempt_Inr:
  "append_attempt X eid k n st now detail d = Inr d' \<longleftrightarrow>
     (\<exists>h. h = \<lparr>ah_effect_id = id_to_string X eid, ah_attempt_no = k, ah_sequence = n, ah_state = st,
        ah_occurred_at = now, ah_detail_json = detail\<rparr> \<and>
      attempt_history_insert_ok X d (t_attempt_history d) h \<and>
      d' = d\<lparr>t_attempt_history := t_attempt_history d @ [h]\<rparr>)"
  by (auto simp: append_attempt_def gw_sql_def result_simps table_simps)

lemma insert_blob_metadata_Inr:
  assumes "insert_blob_metadata m now d = Inr d'"
  shows "\<exists>rows. d' = d\<lparr>t_blobs := t_blobs d @ rows\<rparr>"
proof -
  have "d = d\<lparr>t_blobs := t_blobs d @ []\<rparr>" by simp
  then have "\<exists>rows. d = d\<lparr>t_blobs := t_blobs d @ rows\<rparr>" by blast
  with assms show ?thesis
    unfolding insert_blob_metadata_def rbind_eq_Inr Let_def
    by (auto split: if_splits option.splits)
qed

lemma insert_intent_Inr:
  assumes "insert_intent X eid cid intent st now d = Inr d'"
  obtains r where "d' = d\<lparr>t_intents := t_intents d @ [r]\<rparr>" "i_id r = id_to_string X eid"
    "i_operation_id r = op_str (ci_operation_id intent)" "i_state r = st"
    "i_capability_id r = map_option (id_to_string X) cid" "i_result_hash r = None"
    "i_input_hash r = hash_str (ci_input_hash intent)"
    "i_branch_id r = id_to_string X (ci_branch_id intent)"
    "i_session_id r = id_to_string X (ci_session_id intent)"
    "i_action r = ci_action intent" "i_resource r = ci_resource intent"
    "intent_insert_ok X d (t_intents d) r"
  using assms
  by (auto simp: insert_intent_def gw_sql_def rbind_eq_Inr ok_or_eq_Inr sql_insert_eq_Some)

text \<open>Exactly one row matches an update that reports one changed row.\<close>

lemma update_one:
  assumes "sql_update ok P f rows = Some (1, rows')"
  obtains r where "r \<in> set rows" "P r" "ok r (f r)" "rows' = map (\<lambda>x. if P x then f x else x) rows"
    "filter P rows = [r]"
proof -
  have u: "\<forall>r \<in> set rows. P r \<longrightarrow> ok r (f r)" "length (filter P rows) = 1"
    "rows' = map (\<lambda>x. if P x then f x else x) rows"
    using assms by (simp_all add: sql_update_eq_Some)
  then obtain r where r: "filter P rows = [r]" by (auto simp only: One_nat_def length_Suc_conv length_0_conv)
  have "r \<in> set (filter P rows)" unfolding r by simp
  then have "r \<in> set rows" "P r" by simp_all
  with u r that show ?thesis by blast
qed

lemma update_resolution_Inr:
  assumes "update_resolution X eid st now rh err d = Inr d'"
  obtains r where "r \<in> set (t_intents d)" "i_id r = id_to_string X eid" "i_state r = ''dispatched''"
    "d' = d\<lparr>t_intents := map (\<lambda>i. if i_id i = id_to_string X eid \<and> i_state i = ''dispatched''
        then i\<lparr>i_state := st, i_result_hash := map_option hash_str rh, i_error_json := err,
               i_resolved_at := Some now, i_revision := i_revision i + 1\<rparr> else i) (t_intents d)\<rparr>"
proof -
  let ?P = "\<lambda>i. i_id i = id_to_string X eid \<and> i_state i = ''dispatched''"
  let ?f = "\<lambda>i. i\<lparr>i_state := st, i_result_hash := map_option hash_str rh, i_error_json := err,
      i_resolved_at := Some now, i_revision := i_revision i + 1\<rparr>"
  obtain rows where upd: "sql_update (intent_update_ok X d) ?P ?f (t_intents d) = Some (1, rows)"
    and d': "d' = d\<lparr>t_intents := rows\<rparr>"
    using assms by (auto simp: update_resolution_def gw_sql_def rbind_eq_Inr ok_or_eq_Inr split: if_splits)
  obtain r where "r \<in> set (t_intents d)" "?P r" "rows = map (\<lambda>x. if ?P x then ?f x else x) (t_intents d)"
    using update_one [OF upd] by blast
  with d' that show ?thesis by blast
qed

lemma update_attempt_Inr:
  assumes "update_attempt X eid k st now rh err d = Inr d'"
  shows "\<exists>rows. d' = d\<lparr>t_attempts := rows\<rparr>"
  using assms by (auto simp: update_attempt_def rbind_eq_Inr split: if_splits)

lemma suspend_branch_Inr:
  assumes "suspend_branch X eid now d = Inr d'"
  shows "\<exists>rows. d' = d\<lparr>t_branches := rows\<rparr>"
  using assms by (auto simp: suspend_branch_def rbind_eq_Inr split: if_splits)

text \<open>The tables of the capability service.\<close>

definition same_capabilities :: "db \<Rightarrow> db \<Rightarrow> bool" where
  "same_capabilities d d' \<longleftrightarrow>
     t_capabilities d' = t_capabilities d \<and> t_authorizations d' = t_authorizations d \<and>
     t_ancestry d' = t_ancestry d \<and> t_decisions d' = t_decisions d \<and> t_policies d' = t_policies d"

section \<open>The authorizer's contract\<close>

text \<open>
  An authorizer may record its own decision through the transaction it is given, but it leaves the
  effect journal, the blob index and the branches alone. This is what the gateway relies on.
\<close>

locale authorizer_contract =
  fixes authorize :: authorizer
  assumes frame: "authorize request d = Inr (decision, d') \<Longrightarrow>
    t_intents d' = t_intents d \<and> t_attempts d' = t_attempts d \<and> t_transitions d' = t_transitions d \<and>
    t_attempt_history d' = t_attempt_history d \<and> t_blobs d' = t_blobs d \<and> t_branches d' = t_branches d"
begin

lemma persist_cases:
  assumes "authorize_and_persist X authorize poisoned clock eid intent blob d = Inr (res, d')"
  obtains
    (existing) snapshot where "res = CreateExisting snapshot" "d' = d"
      "find_in_transaction X (ci_operation_id intent) d = Inr (Some snapshot)"
  | (new) decision d1 cid st r where "find_in_transaction X (ci_operation_id intent) d = Inr None"
      "authorize (authorization_request_of intent) d = Inr (decision, d1)"
      "(decision = Authorized (the cid) \<and> cid \<noteq> None \<and> st = ''prepared'' \<and> res = Created eid) \<or>
       (decision = AuthDenied cid \<and> st = ''denied'' \<and> res = CreateDenied)"
      "t_intents d' = t_intents d @ [r]" "i_id r = id_to_string X eid" "i_id r \<notin> i_id ` set (t_intents d)"
      "i_operation_id r = op_str (ci_operation_id intent)"
      "i_operation_id r \<notin> i_operation_id ` set (t_intents d)"
      "i_state r = st" "i_capability_id r = map_option (id_to_string X) cid" "i_result_hash r = None"
      "i_input_hash r = hash_str (ci_input_hash intent)"
      "i_branch_id r = id_to_string X (ci_branch_id intent)"
      "i_session_id r = id_to_string X (ci_session_id intent)"
      "0 \<le> i_policy_revision r" "0 \<le> i_revision r"
      "t_attempts d' = t_attempts d"
      "same_capabilities d1 d'" "t_branches d' = t_branches d"
proof -
  from assms obtain found where now: "now_unix_ms clock = Inr clock" and lock: "gw_lock poisoned = Inr ()"
    and found: "find_in_transaction X (ci_operation_id intent) d = Inr found"
    by (auto simp: authorize_and_persist_def rbind_eq_Inr now_unix_ms_def split: if_splits)
  note run = assms [unfolded authorize_and_persist_def now lock found rbind.simps]
  show ?thesis
  proof (cases found)
    case (Some snapshot)
    with run have "res = CreateExisting snapshot" "d' = d" by simp_all
    with existing found Some show ?thesis by simp
  next
    case None
    with run obtain decision d1 d2 where
      auth: "authorize (authorization_request_of intent) d = Inr (decision, d1)"
      and blob: "insert_blob_metadata blob clock d1 = Inr d2"
      by (auto simp: rbind_eq_Inr map_err_eq_Inr)
    note run = run [unfolded None option.case auth map_err_simps rbind.simps blob prod.case]
    define cid where "cid = (case decision of Authorized c \<Rightarrow> Some c | AuthDenied c \<Rightarrow> c)"
    define st where "st = (case decision of Authorized c \<Rightarrow> ''prepared'' | AuthDenied c \<Rightarrow> ''denied'')"
    from run obtain d3 d4 terminal detail where
      ins: "insert_intent X eid cid intent st clock d2 = Inr d3"
      and h0: "append_transition X eid 0 Requested clock ''{}'' d3 = Inr d4"
      and h1: "append_transition X eid 1 terminal clock detail d4 = Inr d'"
      and kind: "(decision = Authorized (the cid) \<and> cid \<noteq> None \<and> st = ''prepared'' \<and> res = Created eid) \<or>
       (decision = AuthDenied cid \<and> st = ''denied'' \<and> res = CreateDenied)"
      by (cases decision) (auto simp: rbind_eq_Inr Let_def cid_def st_def)
    obtain rows where d2: "d2 = d1\<lparr>t_blobs := t_blobs d1 @ rows\<rparr>"
      using insert_blob_metadata_Inr [OF blob] by blast
    have d2d: "t_intents d2 = t_intents d" using d2 frame [OF auth] by simp
    obtain r where d3: "d3 = d2\<lparr>t_intents := t_intents d2 @ [r]\<rparr>" and r: "i_id r = id_to_string X eid"
      "i_operation_id r = op_str (ci_operation_id intent)" "i_state r = st"
      "i_capability_id r = map_option (id_to_string X) cid" "i_result_hash r = None"
      "i_input_hash r = hash_str (ci_input_hash intent)"
      "i_branch_id r = id_to_string X (ci_branch_id intent)"
      "i_session_id r = id_to_string X (ci_session_id intent)"
      and ok: "intent_insert_ok X d2 (t_intents d2) r"
      by (rule insert_intent_Inr [OF ins]) blast
    have fresh: "i_id r \<notin> i_id ` set (t_intents d)" "i_operation_id r \<notin> i_operation_id ` set (t_intents d)"
      and revisions: "0 \<le> i_policy_revision r" "0 \<le> i_revision r"
      using ok d2d by (auto simp: intent_insert_ok_def intent_check_def)
    obtain x y where d': "d' = d3\<lparr>t_transitions := t_transitions d3 @ [x] @ [y]\<rparr>"
      using h0 h1 by (auto simp: append_transition_Inr)
    show ?thesis
      using frame [OF auth]
      by (intro new [OF found [unfolded None] auth kind, of r])
        (simp_all add: d' d3 d2d r revisions fresh [unfolded r], simp_all add: d2 same_capabilities_def)
  qed
qed

end

interpretation deny_all: authorizer_contract deny_all_authorizer
  by unfold_locales (simp add: deny_all_authorizer_def)

section \<open>Effects of the other transactions\<close>

lemma mark_dispatched_Inr:
  assumes "mark_dispatched X poisoned clock aid eid intent d = Inr (u, d')"
  obtains r where "r \<in> set (t_intents d)" "i_id r = id_to_string X eid" "i_state r = ''prepared''"
    "t_intents d' = map (\<lambda>i. if i_id i = id_to_string X eid \<and> i_state i = ''prepared''
        then i\<lparr>i_state := ''dispatched'', i_dispatched_at := Some clock, i_revision := i_revision i + 1\<rparr>
        else i) (t_intents d)"
    "same_capabilities d d'" "t_branches d' = t_branches d"
proof -
  let ?P = "\<lambda>i. i_id i = id_to_string X eid \<and> i_state i = ''prepared''"
  let ?f = "\<lambda>i. i\<lparr>i_state := ''dispatched'', i_dispatched_at := Some clock, i_revision := i_revision i + 1\<rparr>"
  from assms obtain rows attempts d3 where
    upd: "sql_update (intent_update_ok X d) ?P ?f (t_intents d) = Some (1, rows)"
    and t: "append_transition X eid 2 EffDispatched clock ''{}''
        (d\<lparr>t_intents := rows, t_attempts := attempts\<rparr>) = Inr d3"
    and a: "append_attempt X eid 1 0 ''started'' clock ''{}'' d3 = Inr d'"
    by (auto simp: mark_dispatched_def now_unix_ms_def gw_lock_def rbind_eq_Inr gw_sql_def ok_or_eq_Inr
        Let_def split: if_splits)
  obtain r where r: "r \<in> set (t_intents d)" "?P r" "rows = map (\<lambda>x. if ?P x then ?f x else x) (t_intents d)"
    using update_one [OF upd] by blast
  from t a obtain h k where "d' = d\<lparr>t_intents := rows, t_attempts := attempts,
      t_transitions := t_transitions d @ [h], t_attempt_history := t_attempt_history d @ [k]\<rparr>"
    by (auto simp: append_transition_Inr append_attempt_Inr)
  with r that show ?thesis by (simp add: same_capabilities_def)
qed

text \<open>The three resolutions share their shape.\<close>

definition resolved :: "externals \<Rightarrow> effect_id \<Rightarrow> string \<Rightarrow> blob_hash option \<Rightarrow> db \<Rightarrow> db \<Rightarrow> bool" where
  "resolved X eid st rh d d' \<longleftrightarrow>
     (\<exists>r \<in> set (t_intents d). i_id r = id_to_string X eid \<and> i_state r = ''dispatched'') \<and>
     (\<exists>now err. t_intents d' = map (\<lambda>i. if i_id i = id_to_string X eid \<and> i_state i = ''dispatched''
        then i\<lparr>i_state := st, i_result_hash := map_option hash_str rh, i_error_json := err,
               i_resolved_at := Some now, i_revision := i_revision i + 1\<rparr> else i) (t_intents d)) \<and>
     same_capabilities d d'"

text \<open>What the statements after \<open>update_resolution\<close> leave alone.\<close>

definition same_authority :: "db \<Rightarrow> db \<Rightarrow> bool" where
  "same_authority d d' \<longleftrightarrow> t_intents d' = t_intents d \<and> same_capabilities d d'"

lemma resolvedI:
  assumes "update_resolution X eid st now rh err d = Inr d1" and "same_authority d1 d'"
  shows "resolved X eid st rh d d'"
  using assms(1)
proof (rule update_resolution_Inr)
  fix r
  let ?f = "\<lambda>i. if i_id i = id_to_string X eid \<and> i_state i = ''dispatched''
        then i\<lparr>i_state := st, i_result_hash := map_option hash_str rh, i_error_json := err,
               i_resolved_at := Some now, i_revision := i_revision i + 1\<rparr> else i"
  assume r: "r \<in> set (t_intents d)" "i_id r = id_to_string X eid" "i_state r = ''dispatched''"
    and d1: "d1 = d\<lparr>t_intents := map ?f (t_intents d)\<rparr>"
  have "t_intents d' = map ?f (t_intents d)" "same_capabilities d d'"
    using assms(2) unfolding same_authority_def same_capabilities_def d1 by simp_all
  with r show ?thesis unfolding resolved_def by blast
qed

lemma resolution_tail:
  assumes "update_attempt X eid k st now rh err d1 = Inr d2"
    and "append_transition X eid 3 es now detail d2 = Inr d3"
    and "append_attempt X eid k 1 ast now detail d3 = Inr d4"
  shows "same_authority d1 d4" "t_branches d4 = t_branches d1"
proof -
  obtain rows where d2: "d2 = d1\<lparr>t_attempts := rows\<rparr>" using update_attempt_Inr [OF assms(1)] by blast
  obtain h where d3: "d3 = d2\<lparr>t_transitions := t_transitions d2 @ [h]\<rparr>"
    using assms(2) unfolding append_transition_Inr by blast
  obtain k where d4: "d4 = d3\<lparr>t_attempt_history := t_attempt_history d3 @ [k]\<rparr>"
    using assms(3) unfolding append_attempt_Inr by blast
  show "same_authority d1 d4" "t_branches d4 = t_branches d1"
    by (simp_all add: same_authority_def same_capabilities_def d4 d3 d2)
qed

lemma mark_failed_resolved:
  assumes "mark_failed X poisoned clock eid k code d = Inr (u, d')"
  shows "resolved X eid ''failed'' None d d'"
proof -
  let ?detail = "json_to_string X (JObject [(''code'', JString (failure_code code))])"
  from assms obtain d1 d2 d3 where
    1: "update_resolution X eid ''failed'' clock None (Some ?detail) d = Inr d1"
    and 2: "update_attempt X eid k ''failed'' clock None (Some ?detail) d1 = Inr d2"
    and 3: "append_transition X eid 3 EffFailed clock ?detail d2 = Inr d3"
    and 4: "append_attempt X eid k 1 ''failed'' clock ?detail d3 = Inr d'"
    by (auto simp: mark_failed_def now_unix_ms_def gw_lock_def rbind_eq_Inr Let_def split: if_splits)
  show ?thesis by (rule resolvedI [OF 1 resolution_tail(1) [OF 2 3 4]])
qed

lemma mark_unknown_Inr:
  assumes "mark_unknown X poisoned clock eid k boundary d = Inr (u, d')"
  obtains d4 where "resolved X eid ''unknown'' None d d4" "t_branches d4 = t_branches d"
    "suspend_branch X eid clock d4 = Inr d'"
proof -
  let ?detail = "json_to_string X (JObject [(''boundary'', JString boundary)])"
  from assms obtain d1 d2 d3 d4 where
    1: "update_resolution X eid ''unknown'' clock None (Some ?detail) d = Inr d1"
    and 2: "update_attempt X eid k ''unknown'' clock None (Some ?detail) d1 = Inr d2"
    and 3: "append_transition X eid 3 EffUnknown clock ?detail d2 = Inr d3"
    and 4: "append_attempt X eid k 1 ''unknown'' clock ?detail d3 = Inr d4"
    and 5: "suspend_branch X eid clock d4 = Inr d'"
    by (auto simp: mark_unknown_def now_unix_ms_def gw_lock_def rbind_eq_Inr Let_def split: if_splits)
  have "t_branches d1 = t_branches d" by (rule update_resolution_Inr [OF 1]) simp
  with that [OF resolvedI [OF 1 resolution_tail(1) [OF 2 3 4]]] resolution_tail(2) [OF 2 3 4] 5
  show ?thesis by simp
qed

lemma mark_unknown_resolved:
  assumes "mark_unknown X poisoned clock eid k boundary d = Inr (u, d')"
  shows "resolved X eid ''unknown'' None d d'"
proof -
  obtain d4 where d4: "resolved X eid ''unknown'' None d d4" "suspend_branch X eid clock d4 = Inr d'"
    using mark_unknown_Inr [OF assms] by metis
  obtain brs where "d' = d4\<lparr>t_branches := brs\<rparr>" using suspend_branch_Inr [OF d4(2)] by blast
  with d4(1) show ?thesis by (simp add: resolved_def same_capabilities_def)
qed

lemma commit_resolved:
  assumes "commit_in_transaction X poisoned clock eid blob d = Inr (u, d')"
  shows "resolved X eid ''succeeded'' (Some (m_hash blob)) d d'"
proof -
  from assms obtain d0 d1 d2 d3 where
    0: "insert_blob_metadata blob clock d = Inr d0"
    and 1: "update_resolution X eid ''succeeded'' clock (Some (m_hash blob)) None d0 = Inr d1"
    and 2: "update_attempt X eid 1 ''succeeded'' clock (Some (m_hash blob)) None d1 = Inr d2"
    and 3: "append_transition X eid 3 EffCommitted clock ''{}'' d2 = Inr d3"
    and 4: "append_attempt X eid 1 1 ''committed'' clock ''{}'' d3 = Inr d'"
    by (auto simp: commit_in_transaction_def now_unix_ms_def gw_lock_def rbind_eq_Inr split: if_splits)
  obtain bl where d0: "d0 = d\<lparr>t_blobs := t_blobs d @ bl\<rparr>" using insert_blob_metadata_Inr [OF 0] by blast
  from resolvedI [OF 1 resolution_tail(1) [OF 2 3 4]] show ?thesis
    by (simp add: resolved_def same_capabilities_def d0)
qed

end
