(* ===== verification/Epoch_Gateway_Clients.thy ===== *)
theory Epoch_Gateway_Clients
  imports Epoch_Effect_Proofs Epoch_Capability_Service
begin

text \<open>
  Concurrent use of the gateway. \<open>CapabilityAuthorizer\<close> connects the capability service to the
  gateway; \<open>client_step\<close> is one call of \<open>execute\<close> cut at the points where it releases the database
  lock, so that other clients, the capability service and other users of the blob tree can act in
  between; \<open>system_step\<close> is the resulting step relation. A process that crashes is a client that
  takes no further step.
\<close>

section \<open>The capability authorizer\<close>

record capability_authorizer =
  ca_handle :: capability_handle
  ca_subject :: string
  ca_budget_units :: u64

definition capability_authorizer_new ::
  "capability_handle \<Rightarrow> string \<Rightarrow> u64 \<Rightarrow> capability_authorizer cap_result" where
  "capability_authorizer_new handle subject budget_units =
     rbind (validate_text ''subject'' subject 255) (\<lambda>_.
     if budget_units = 0 then Inl (CInvalidField ''budget_units'') else
     rbind (i64_from_u64 ''budget_units'' budget_units) (\<lambda>_.
     Inr \<lparr>ca_handle = handle, ca_subject = subject, ca_budget_units = budget_units\<rparr>))"

definition capability_authorize ::
  "externals \<Rightarrow> i64 \<Rightarrow> uuid \<Rightarrow> capability_authorizer \<Rightarrow> authorizer" where
  "capability_authorize X clock decision_id ca request d =
     (case rbind
         (capability_use_new (ar_session_id request) (ar_branch_id request) (ca_subject ca)
            (ar_action request) (ar_resource request) (ar_policy_revision request)
            (ca_budget_units ca) (op_str (ar_operation_id request)) (hash_str (ar_input_hash request)))
         (\<lambda>use. authorize_and_consume_in_transaction X clock decision_id (ca_handle ca) use d) of
        Inl _ \<Rightarrow> Inl AuthorizerUnavailable
      | Inr (decision, d') \<Rightarrow>
          (case (dec_outcome decision, dec_capability_id decision) of
             (Allow, Some cid) \<Rightarrow> Inr (Authorized cid, d')
           | (_, cid) \<Rightarrow> Inr (AuthDenied cid, d')))"

section \<open>Clients\<close>

datatype pc =
    AtFind
  | AtPut
  | AtPersist blob_metadata
  | AtReplay effect_snapshot
  | AtPrepared effect_id
  | AtInvoke effect_id
  | AtResolve effect_id dispatch_outcome
  | Finished "execution_receipt gw_result"

record 'p client =
  cl_gateway :: "'p gateway"
  cl_host :: host
  cl_intent :: canonical_intent
  cl_fault :: fault_point
  cl_pc :: pc

definition goto :: "'p client \<Rightarrow> ('a \<Rightarrow> pc) \<Rightarrow> 'a gw_result \<times> 'p world \<Rightarrow> 'p client \<times> 'p world" where
  "goto c next = (\<lambda>(r, w). (c\<lparr>cl_pc := (case r of Inl e \<Rightarrow> Finished (Inl e) | Inr x \<Rightarrow> next x)\<rparr>, w))"

definition finish :: "'p client \<Rightarrow> execution_receipt gw_result \<times> 'p world \<Rightarrow> 'p client \<times> 'p world" where
  "finish c = (\<lambda>(r, w). (c\<lparr>cl_pc := Finished r\<rparr>, w))"

definition client_step :: "externals \<Rightarrow> 'p client \<Rightarrow> 'p world \<Rightarrow> 'p client \<times> 'p world" where
  "client_step X c w =
     (let g = cl_gateway c; ho = cl_host c; intent = cl_intent c; fault = cl_fault c in
      case cl_pc c of
        AtFind \<Rightarrow>
          goto c (\<lambda>found. case found of Some existing \<Rightarrow> AtReplay existing | None \<Rightarrow> AtPut)
            (on_db_read (gw_find X (ho_find_poisoned ho) (ci_operation_id intent)) w)
      | AtPut \<Rightarrow>
          goto c AtPersist (on_blobs (blob_put X (gw_blobs g) (ho_input_env ho) (ho_fs_clock ho)
             (fst (ho_input_uuids ho)) (snd (ho_input_uuids ho)) (ci_canonical_bytes intent)
             ''application/vnd.epoch.effect-intent+json'') w)
      | AtPersist blob \<Rightarrow>
          goto c (\<lambda>created. case created of
              Created eid \<Rightarrow> AtPrepared eid
            | CreateDenied \<Rightarrow> Finished (Inl (GAuthorizationDenied (ci_operation_id intent)))
            | CreateExisting existing \<Rightarrow> AtReplay existing)
            (in_tx (authorize_and_persist X (gw_authorizer g) (ho_persist_poisoned ho)
               (ho_persist_clock ho) (ho_effect_id ho) intent blob) w)
      | AtReplay existing \<Rightarrow> finish c (resolve_existing X g intent existing w)
      | AtPrepared eid \<Rightarrow>
          if fault = AfterPrepared then finish c (werr (GFaultInjected fault KnownNotSent) w)
          else goto c (\<lambda>_. AtInvoke eid)
            (in_tx (mark_dispatched X (ho_dispatch_poisoned ho) (ho_dispatch_clock ho)
               (ho_attempt_id ho) eid intent) w)
      | AtInvoke eid \<Rightarrow>
          if fault = AfterDispatchedBeforeInvoke then
            finish c (wbind (in_tx (mark_unknown X (ho_resolve_poisoned ho) (ho_resolve_clock ho) eid 1
                ''dispatch_boundary'')) (\<lambda>_. werr (GFaultInjected fault UnknownOutcome)) w)
          else goto c (AtResolve eid) (invoke g intent w)
      | AtResolve eid outcome \<Rightarrow> finish c (finish_dispatch X g ho eid intent fault outcome w)
      | Finished r \<Rightarrow> (c, w))"

fun run_client :: "externals \<Rightarrow> nat \<Rightarrow> 'p client \<Rightarrow> 'p world \<Rightarrow> 'p client \<times> 'p world" where
  "run_client X 0 c w = (c, w)"
| "run_client X (Suc n) c w = (let (c', w') = client_step X c w in run_client X n c' w')"

definition new_client :: "'p gateway \<Rightarrow> host \<Rightarrow> canonical_intent \<Rightarrow> fault_point \<Rightarrow> 'p client" where
  "new_client g ho intent fault =
     \<lparr>cl_gateway = g, cl_host = ho, cl_intent = intent, cl_fault = fault, cl_pc = AtFind\<rparr>"

lemma new_client_fields:
  "cl_gateway (new_client g ho intent fault) = g" "cl_host (new_client g ho intent fault) = ho"
  "cl_intent (new_client g ho intent fault) = intent" "cl_fault (new_client g ho intent fault) = fault"
  "cl_pc (new_client g ho intent fault) = AtFind"
  by (simp_all add: new_client_def)

lemma run_client_finished: "cl_pc c = Finished r \<Longrightarrow> run_client X n c w = (c, w)"
  by (induction n) (simp_all add: client_step_def)

lemma run_finish: "(case finish c x of (c', w') \<Rightarrow> run_client X n c' w') = finish c x"
  by (cases x) (simp add: finish_def run_client_finished)

lemma run_goto:
  assumes "\<And>x w'. run_client X n (c\<lparr>cl_pc := next x\<rparr>) w' = finish c (f x w')"
  shows "(case goto c next p of (c', w') \<Rightarrow> run_client X n c' w') =
    finish c (case p of (Inl e, w') \<Rightarrow> (Inl e, w') | (Inr x, w') \<Rightarrow> f x w')"
  using assms by (cases p; cases "fst p") (auto simp: goto_def finish_def run_client_finished)

lemma goto_pc [simp]: "goto (c\<lparr>cl_pc := p\<rparr>) = goto c" "finish (c\<lparr>cl_pc := p\<rparr>) = finish c"
  by (simp_all add: goto_def finish_def fun_eq_iff)

lemma run_replay:
  "run_client X (Suc n) (c\<lparr>cl_pc := AtReplay existing\<rparr>) w =
     finish c (resolve_existing X (cl_gateway c) (cl_intent c) existing w)"
  by (simp add: client_step_def Let_def run_finish)

lemma run_resolve:
  "run_client X (Suc n) (c\<lparr>cl_pc := AtResolve eid outcome\<rparr>) w =
     finish c (finish_dispatch X (cl_gateway c) (cl_host c) eid (cl_intent c) (cl_fault c) outcome w)"
  by (simp add: client_step_def Let_def run_finish)

lemma run_invoke:
  "run_client X (Suc (Suc n)) (c\<lparr>cl_pc := AtInvoke eid\<rparr>) w =
     finish c ((if cl_fault c = AfterDispatchedBeforeInvoke then
        wbind (in_tx (mark_unknown X (ho_resolve_poisoned (cl_host c)) (ho_resolve_clock (cl_host c)) eid 1
           ''dispatch_boundary'')) (\<lambda>_. werr (GFaultInjected (cl_fault c) UnknownOutcome))
      else wbind (invoke (cl_gateway c) (cl_intent c)) (\<lambda>outcome.
        finish_dispatch X (cl_gateway c) (cl_host c) eid (cl_intent c) (cl_fault c) outcome)) w)"
  by (subst run_client.simps(2), subst client_step_def)
    (simp add: Let_def run_finish run_goto [OF run_resolve] wbind_def del: run_client.simps)

lemma run_prepared:
  "run_client X (Suc (Suc (Suc n))) (c\<lparr>cl_pc := AtPrepared eid\<rparr>) w =
     finish c (dispatch X (cl_gateway c) (cl_host c) eid (cl_intent c) (cl_fault c) w)"
  by (subst run_client.simps(2), subst client_step_def)
    (simp add: Let_def run_finish run_goto [OF run_invoke] dispatch_def wbind_def del: run_client.simps)

lemma run_persist:
  "run_client X (Suc (Suc (Suc (Suc n)))) (c\<lparr>cl_pc := AtPersist blob\<rparr>) w =
     finish c (wbind (in_tx (authorize_and_persist X (gw_authorizer (cl_gateway c))
         (ho_persist_poisoned (cl_host c)) (ho_persist_clock (cl_host c)) (ho_effect_id (cl_host c))
         (cl_intent c) blob)) (\<lambda>created.
       case created of
         Created eid \<Rightarrow> dispatch X (cl_gateway c) (cl_host c) eid (cl_intent c) (cl_fault c)
       | CreateDenied \<Rightarrow> werr (GAuthorizationDenied (ci_operation_id (cl_intent c)))
       | CreateExisting existing \<Rightarrow> resolve_existing X (cl_gateway c) (cl_intent c) existing) w)"
proof -
  let ?next = "\<lambda>created. case created of
              Created eid \<Rightarrow> AtPrepared eid
            | CreateDenied \<Rightarrow> Finished (Inl (GAuthorizationDenied (ci_operation_id (cl_intent c))))
            | CreateExisting existing \<Rightarrow> AtReplay existing"
  have "run_client X (Suc (Suc (Suc n))) (c\<lparr>cl_pc := ?next created\<rparr>) w' =
    finish c ((case created of
         Created eid \<Rightarrow> dispatch X (cl_gateway c) (cl_host c) eid (cl_intent c) (cl_fault c)
       | CreateDenied \<Rightarrow> werr (GAuthorizationDenied (ci_operation_id (cl_intent c)))
       | CreateExisting existing \<Rightarrow> resolve_existing X (cl_gateway c) (cl_intent c) existing) w')" for created w'
    by (cases created)
      (simp_all add: run_prepared run_replay run_client_finished finish_def werr_def del: run_client.simps)
  from run_goto [OF this] show ?thesis
    by (subst run_client.simps(2), subst client_step_def) (simp add: Let_def wbind_def del: run_client.simps)
qed

lemma run_put:
  "run_client X (Suc (Suc (Suc (Suc (Suc n))))) (c\<lparr>cl_pc := AtPut\<rparr>) w =
     finish c (wbind (on_blobs (blob_put X (gw_blobs (cl_gateway c)) (ho_input_env (cl_host c))
         (ho_fs_clock (cl_host c)) (fst (ho_input_uuids (cl_host c))) (snd (ho_input_uuids (cl_host c)))
         (ci_canonical_bytes (cl_intent c)) ''application/vnd.epoch.effect-intent+json'')) (\<lambda>input_blob.
       wbind (in_tx (authorize_and_persist X (gw_authorizer (cl_gateway c))
         (ho_persist_poisoned (cl_host c)) (ho_persist_clock (cl_host c)) (ho_effect_id (cl_host c))
         (cl_intent c) input_blob)) (\<lambda>created.
       case created of
         Created eid \<Rightarrow> dispatch X (cl_gateway c) (cl_host c) eid (cl_intent c) (cl_fault c)
       | CreateDenied \<Rightarrow> werr (GAuthorizationDenied (ci_operation_id (cl_intent c)))
       | CreateExisting existing \<Rightarrow> resolve_existing X (cl_gateway c) (cl_intent c) existing)) w)"
  by (subst run_client.simps(2), subst client_step_def)
    (simp add: Let_def run_goto [OF run_persist] wbind_def del: run_client.simps)

lemma run_client_execute:
  "run_client X (Suc (Suc (Suc (Suc (Suc (Suc n)))))) (new_client g ho intent fault) w =
     finish (new_client g ho intent fault) (execute X g ho intent fault w)"
proof -
  let ?c = "new_client g ho intent fault"
  let ?next = "\<lambda>found. case found of Some existing \<Rightarrow> AtReplay existing | None \<Rightarrow> AtPut"
  have "run_client X (Suc (Suc (Suc (Suc (Suc n))))) (?c\<lparr>cl_pc := ?next found\<rparr>) w' =
    finish ?c ((case found of
       Some existing \<Rightarrow> resolve_existing X g intent existing
     | None \<Rightarrow>
         wbind (on_blobs (blob_put X (gw_blobs g) (ho_input_env ho) (ho_fs_clock ho)
             (fst (ho_input_uuids ho)) (snd (ho_input_uuids ho)) (ci_canonical_bytes intent)
             ''application/vnd.epoch.effect-intent+json'')) (\<lambda>input_blob.
         wbind (in_tx (authorize_and_persist X (gw_authorizer g) (ho_persist_poisoned ho)
             (ho_persist_clock ho) (ho_effect_id ho) intent input_blob)) (\<lambda>created.
         case created of
           Created eid \<Rightarrow> dispatch X g ho eid intent fault
         | CreateDenied \<Rightarrow> werr (GAuthorizationDenied (ci_operation_id intent))
         | CreateExisting existing \<Rightarrow> resolve_existing X g intent existing))) w')" for found w'
    by (cases found) (simp_all only: option.case run_put run_replay new_client_fields)
  note stage = run_goto [OF this]
  show ?thesis
    by (subst run_client.simps(2), subst client_step_def)
      (simp only: Let_def new_client_fields pc.case stage execute_def wbind_def [where m = "on_db_read f" for f])
qed


section \<open>Interleaving\<close>

text \<open>
  \<open>A\<close> is the set of authorizers the clients' gateways are configured with. A client is given an intent
  that \<open>CanonicalIntent::new\<close> made (its fields are private), and other processes leave the files that
  carry the client's fresh identifiers alone.
\<close>

definition well_formed_intent :: "externals \<Rightarrow> canonical_intent \<Rightarrow> bool" where
  "well_formed_intent X intent \<longleftrightarrow>
     (\<exists>session branch replay_key action resource arguments policy_revision.
        canonical_intent_new X session branch replay_key action resource arguments policy_revision = Inr intent)"

definition own_temporaries :: "externals \<Rightarrow> uuid \<times> uuid \<Rightarrow> path set" where
  "own_temporaries X us = {p. \<exists>h u. (u = fst us \<or> u = snd us) \<and> p = temporary_path X h u}"

definition courteous :: "externals \<Rightarrow> host \<Rightarrow> bool" where
  "courteous X ho \<longleftrightarrow>
     polite (own_temporaries X (ho_input_uuids ho)) (ho_input_env ho) \<and>
     polite (own_temporaries X (ho_result_uuids ho)) (ho_result_env ho)"

inductive system_step ::
  "externals \<Rightarrow> authorizer set \<Rightarrow> 'p client list \<times> 'p world \<Rightarrow> 'p client list \<times> 'p world \<Rightarrow> bool"
  for X :: externals and A :: "authorizer set" where
  spawn: "cl_pc c = AtFind \<Longrightarrow> gw_authorizer (cl_gateway c) \<in> A \<Longrightarrow>
    well_formed_intent X (cl_intent c) \<Longrightarrow> courteous X (cl_host c) \<Longrightarrow>
    system_step X A (cs, w) (cs @ [c], w)"
| client: "i < length cs \<Longrightarrow> client_step X (cs ! i) w = (c, w') \<Longrightarrow>
    system_step X A (cs, w) (cs[i := c], w')"
| service: "system_step X A (cs, w) (cs, w\<lparr>w_db := service_step X op (w_db w)\<rparr>)"
| files: "grows (w_fs w) t \<Longrightarrow> system_step X A (cs, w) (cs, w\<lparr>w_fs := t\<rparr>)"

abbreviation system_run ::
  "externals \<Rightarrow> authorizer set \<Rightarrow> 'p client list \<times> 'p world \<Rightarrow> 'p client list \<times> 'p world \<Rightarrow> bool" where
  "system_run X A \<equiv> (system_step X A)\<^sup>*\<^sup>*"

end
