(* ===== verification/Epoch_Gateway_Proofs.thy ===== *)
theory Epoch_Gateway_Proofs
  imports Epoch_Gateway_Clients
begin

text \<open>
  Proof library of the concurrent gateway: the capability service and the capability authorizer
  leave the effect journal alone (so the authorizer meets \<open>authorizer_contract\<close>), what one step of a
  client can do (\<open>client_step_cases\<close>), how the journal evolves, the invariant \<open>system_inv\<close> of the
  whole system and the invariant \<open>authority_inv\<close> that ties intents to authorizations.
\<close>

section \<open>The capability service leaves the journal alone\<close>

definition same_journal :: "db \<Rightarrow> db \<Rightarrow> bool" where
  "same_journal d d' \<longleftrightarrow>
     t_intents d' = t_intents d \<and> t_attempts d' = t_attempts d \<and> t_transitions d' = t_transitions d \<and>
     t_attempt_history d' = t_attempt_history d \<and> t_blobs d' = t_blobs d \<and> t_branches d' = t_branches d"

named_theorems journal_intros

lemma same_journal_refl [simp, journal_intros]: "same_journal d d"
  by (simp add: same_journal_def)

lemma same_journal_trans: "same_journal a b \<Longrightarrow> same_journal b c \<Longrightarrow> same_journal a c"
  by (simp add: same_journal_def)

lemma same_journal_updates [simp]:
  "same_journal d (d'\<lparr>t_capabilities := x\<rparr>) = same_journal d d'"
  "same_journal d (d'\<lparr>t_authorizations := za\<rparr>) = same_journal d d'"
  "same_journal d (d'\<lparr>t_decisions := ds\<rparr>) = same_journal d d'"
  "same_journal d (d'\<lparr>t_policies := ps\<rparr>) = same_journal d d'"
  "same_journal d (d'\<lparr>t_ancestry := an\<rparr>) = same_journal d d'"
  by (simp_all add: same_journal_def)

lemma marked_journal: "marked X d d' \<Longrightarrow> same_journal d d'"
  by (auto simp: marked_def)

lemma update_capabilities_journal: "update_capabilities X P f d = Inr (n, d') \<Longrightarrow> same_journal d d'"
  by (auto simp: update_capabilities_def rbind_eq_Inr)

lemma consume_all_journal: "consume_all X b now as d = Inr d' \<Longrightarrow> same_journal d d'"
proof (induction as arbitrary: d)
  case (Cons a as)
  from Cons.prems obtain d1 where d1: "consume_counter X b now a d = Inr d1" and rest: "consume_all X b now as d1 = Inr d'"
    by (auto simp: rbind_eq_Inr)
  from d1 have "same_journal d d1"
    by (auto simp: consume_counter_def Let_def rbind_eq_Inr dest: update_capabilities_journal split: if_splits)
  with Cons.IH [OF rest] show ?case by (blast intro: same_journal_trans)
qed simp

lemma record_decision_journal:
  assumes "record_decision X did cid h request outcome reason now d = Inr (dec, d')"
  shows "same_journal d d'"
  using record_decision_Inr(1) [OF assms] by auto

lemma authorize_journal:
  assumes "authorize_and_consume_in_transaction X clock did handle request d = Inr (dec, d')"
  shows "same_journal d d'"
  using assms
proof (cases rule: authorize_in_tx_cases)
  case unknown
  then show ?thesis by (blast intro: record_decision_journal)
next
  case (deny c reason d1)
  then show ?thesis
    by (blast intro: same_journal_trans marked_journal evaluate_authority_marked record_decision_journal)
next
  case (allow c as b d1 z)
  have "same_journal d (d1\<lparr>t_authorizations := t_authorizations d1 @ [z]\<rparr>)"
    using consume_all_journal [OF allow(4)] by simp
  with record_decision_journal [OF allow(7)] show ?thesis by (blast intro: same_journal_trans)
qed

lemma insert_ancestry_journal:
  assumes "insert_ancestry rs d = Inr d'"
  shows "same_journal d d'"
  using insert_ancestry_effect(1) [OF assms] by simp

lemma service_step_journal: "same_journal d (service_step X op d)"
proof (cases op)
  case (OpSetPolicy p clock s b revision)
  show ?thesis unfolding OpSetPolicy service_step.simps
    by (rule snd_run_tx_step) (auto dest: set_policy_revision_caps)
next
  case (OpIssue p clock cid secret request)
  show ?thesis unfolding OpIssue service_step.simps
    by (rule snd_run_tx_step, erule issue_Inr, drule insert_ancestry_journal) (simp_all add: same_journal_def)
next
  case (OpAttenuate p clock cid secret parent request)
  show ?thesis unfolding OpAttenuate service_step.simps
    by (rule snd_run_tx_step, erule attenuate_Inr, (drule insert_ancestry_journal)+)
      (simp_all add: same_journal_def)
next
  case (OpRevoke p clock handle)
  show ?thesis unfolding OpRevoke service_step.simps
    by (rule snd_run_tx_step) (blast intro: marked_journal revoke_marked, simp)
next
  case (OpRevokeById p clock cid)
  show ?thesis unfolding OpRevokeById service_step.simps
    by (rule snd_run_tx_step) (blast intro: marked_journal revoke_by_id_marked, simp)
next
  case (OpAuthorize p clock did handle request)
  show ?thesis unfolding OpAuthorize service_step.simps
    by (rule snd_run_tx_step) (blast intro: authorize_journal dest: authorize_and_consume_Inr [THEN iffD1], simp)
qed

text \<open>What an answer of the capability authorizer means.\<close>

lemma capability_authorize_Inr:
  assumes "capability_authorize X clock did ca request d = Inr (decision, d')"
  obtains use dec where
    "capability_use_new (ar_session_id request) (ar_branch_id request) (ca_subject ca)
       (ar_action request) (ar_resource request) (ar_policy_revision request)
       (ca_budget_units ca) (op_str (ar_operation_id request)) (hash_str (ar_input_hash request)) = Inr use"
    "authorize_and_consume_in_transaction X clock did (ca_handle ca) use d = Inr (dec, d')"
    "decision = (case (dec_outcome dec, dec_capability_id dec) of
       (Allow, Some cid) \<Rightarrow> Authorized cid | (_, cid) \<Rightarrow> AuthDenied cid)"
  using assms
  by (auto simp: capability_authorize_def rbind_eq_Inr rbind_eq_Inl
      split: sum.splits prod.splits decision_outcome.splits option.splits)

interpretation capability: authorizer_contract "capability_authorize X clock did ca" for X clock did ca
proof
  fix request d decision d'
  assume "capability_authorize X clock did ca request d = Inr (decision, d')"
  then have "same_journal d d'" by (rule capability_authorize_Inr) (rule authorize_journal)
  then show "t_intents d' = t_intents d \<and> t_attempts d' = t_attempts d \<and> t_transitions d' = t_transitions d \<and>
    t_attempt_history d' = t_attempt_history d \<and> t_blobs d' = t_blobs d \<and> t_branches d' = t_branches d"
    by (simp add: same_journal_def)
qed

section \<open>One client step\<close>

definition sending :: "pc \<Rightarrow> bool" where
  "sending p \<longleftrightarrow> (case p of AtPrepared _ \<Rightarrow> True | AtInvoke _ \<Rightarrow> True | _ \<Rightarrow> False)"

lemma sending_simps [simp]:
  "sending (AtPrepared eid)" "sending (AtInvoke eid)" "\<not> sending AtFind" "\<not> sending AtPut"
  "\<not> sending (AtPersist m)" "\<not> sending (AtReplay s)" "\<not> sending (AtResolve eid outcome)" "\<not> sending (Finished r)"
  by (simp_all add: sending_def)

lemma in_tx_cases:
  assumes "in_tx f w = (r, w')"
  obtains (ok) x d' where "f (w_db w) = Inr (x, d')" "r = Inr x" "w' = w\<lparr>w_db := d'\<rparr>"
    | (error) e where "f (w_db w) = Inl e" "r = Inl e" "w' = w"
  using assms by (cases "f (w_db w)") (auto simp: in_tx_def run_tx_def)

lemma on_blobs_world:
  assumes "on_blobs f w = (r, w')"
  shows "w_db w' = w_db w" "w_invocations w' = w_invocations w" "w_provider w' = w_provider w"
    "w_fs w' = snd (f (w_fs w))" "r = map_err GBlob (fst (f (w_fs w)))"
  using assms by (auto simp: on_blobs_def split: prod.splits)

text \<open>What a resolving step does: nothing to the intents, or one resolution.\<close>

definition digest_or_none :: "externals \<Rightarrow> blob_hash option \<Rightarrow> bool" where
  "digest_or_none X rh \<longleftrightarrow> rh = None \<or> (\<exists>bs. rh = Some (blob_hash_digest X bs))"

definition settles :: "externals \<Rightarrow> effect_id \<Rightarrow> 'p world \<Rightarrow> 'p world \<Rightarrow> bool" where
  "settles X eid w w' \<longleftrightarrow> w_invocations w' = w_invocations w \<and> w_provider w' = w_provider w \<and>
     (w_db w' = w_db w \<or>
      (\<exists>st rh. st \<in> {''succeeded'', ''failed'', ''unknown''} \<and> digest_or_none X rh \<and>
         resolved X eid st rh (w_db w) (w_db w')))"

lemma settles_tx:
  assumes "in_tx f w = (r, w')"
    and "\<And>x d'. f (w_db w) = Inr (x, d') \<Longrightarrow>
      \<exists>st rh. st \<in> {''succeeded'', ''failed'', ''unknown''} \<and> digest_or_none X rh \<and>
        resolved X eid st rh (w_db w) d'"
  shows "settles X eid w w'"
  using assms(1)
proof (cases rule: in_tx_cases)
  case (ok x d')
  with assms(2) [OF ok(1)] show ?thesis by (simp add: settles_def)
qed (simp add: settles_def)

lemma digest_or_none_None [simp]: "digest_or_none X None"
  by (simp add: digest_or_none_def)

lemma settles_unknown:
  "in_tx (mark_unknown X p clock eid k boundary) w = (r, w') \<Longrightarrow> settles X eid w w'"
  by (erule settles_tx) (blast dest: mark_unknown_resolved intro: digest_or_none_None)

lemma settles_failed:
  "in_tx (mark_failed X p clock eid k code) w = (r, w') \<Longrightarrow> settles X eid w w'"
  by (erule settles_tx) (blast dest: mark_failed_resolved intro: digest_or_none_None)

lemma settles_bind:
  assumes "wbind m f w = (r, w')" and "\<And>r1 w1. m w = (r1, w1) \<Longrightarrow> settles X eid w w1"
    and "\<And>x w1. f x w1 = (fst (f x w1), w1)"
  shows "settles X eid w w'"
proof -
  obtain r1 w1 where m: "m w = (r1, w1)" by (cases "m w")
  from assms(2) [OF m] assms(3) [of _ w1] assms(1) m show ?thesis
    by (cases r1) (auto simp: wbind_def, metis prod.inject)
qed

lemma blob_put_hash:
  assumes "fst (blob_put X st env now u u' bs v t) = Inr m"
  shows "m_hash m = blob_hash_digest X bs"
proof -
  obtain t' where "blob_put X st env now u u' bs v t = (Inr m, t')"
    using assms by (cases "blob_put X st env now u u' bs v t") simp
  then show ?thesis by (rule blob_put_Inr) simp
qed

lemma finish_dispatch_settles:
  assumes "finish_dispatch X g ho eid intent fault outcome w = (r, w')"
  shows "settles X eid w w'"
proof (cases "fault = AfterInvokeBeforeCommit")
  case True
  with assms show ?thesis
    by (auto simp: finish_dispatch_def werr_def intro: settles_bind settles_unknown)
next
  case False
  show ?thesis
  proof (cases outcome)
    case (DispatchFailure code)
    with assms False show ?thesis
      by (auto simp: finish_dispatch_def werr_def intro: settles_bind settles_failed)
  next
    case (DispatchCommitted res)
    show ?thesis
    proof (cases "gw_validate_media_type (dres_media_type res)")
      case (Inl e)
      with assms False DispatchCommitted show ?thesis
        by (auto simp: finish_dispatch_def commit_result_def werr_def settles_def)
    next
      case (Inr u)
      let ?put = "on_blobs (blob_put X (gw_blobs g) (ho_result_env ho) (ho_fs_clock ho)
          (fst (ho_result_uuids ho)) (snd (ho_result_uuids ho)) (dres_bytes res) (dres_media_type res)) w"
      obtain r1 w1 where put: "?put = (r1, w1)" by (cases ?put)
      note w1 = on_blobs_world [OF put]
      show ?thesis
      proof (cases r1)
        case (Inl e)
        with assms False DispatchCommitted Inr put have "w' = w1"
          by (simp add: finish_dispatch_def commit_result_def wbind_def)
        with w1(1-3) show ?thesis by (simp add: settles_def)
      next
        case (Inr blob)
        with assms False DispatchCommitted \<open>gw_validate_media_type (dres_media_type res) = Inr u\<close> put
        obtain r2 where tx: "in_tx (commit_in_transaction X (ho_resolve_poisoned ho) (ho_resolve_clock ho) eid blob) w1
            = (r2, w')"
          by (auto simp: finish_dispatch_def commit_result_def wbind_def wok_def split: prod.splits sum.splits)
        have "m_hash blob = blob_hash_digest X (dres_bytes res)"
          by (rule blob_put_hash) (use w1(5) [symmetric] Inr in \<open>simp add: map_err_eq_Inr\<close>)
        then have "digest_or_none X (Some (m_hash blob))" by (auto simp: digest_or_none_def)
        then have "settles X eid w1 w'" by (intro settles_tx [OF tx]) (blast dest: commit_resolved)
        with w1 show ?thesis by (simp add: settles_def)
      qed
    qed
  qed
qed

lemma resolve_existing_world:
  assumes "resolve_existing X g intent existing w = (r, w')"
  shows "w' = w"
  using assms
  by (auto simp: resolve_existing_def werr_def wok_def wbind_def on_blobs_def fpure_def
      split: if_splits option.splits prod.splits sum.splits)

definition row_of :: "externals \<Rightarrow> effect_id \<Rightarrow> canonical_intent \<Rightarrow> intent_row \<Rightarrow> bool" where
  "row_of X eid intent r \<longleftrightarrow>
     i_id r = id_to_string X eid \<and> i_operation_id r = op_str (ci_operation_id intent)"

definition fresh_row :: "externals \<Rightarrow> capability_id option \<Rightarrow> canonical_intent \<Rightarrow> intent_row \<Rightarrow> bool" where
  "fresh_row X cid intent r \<longleftrightarrow>
     i_session_id r = id_to_string X (ci_session_id intent) \<and>
     i_branch_id r = id_to_string X (ci_branch_id intent) \<and>
     i_capability_id r = map_option (id_to_string X) cid \<and>
     i_input_hash r = hash_str (ci_input_hash intent) \<and> i_result_hash r = None \<and>
     0 \<le> i_policy_revision r \<and> 0 \<le> i_revision r"

text \<open>The five things a step of one client can do.\<close>

lemma client_step_cases:
  assumes step: "client_step X c w = (c', w')"
    and auth: "authorizer_contract (gw_authorizer (cl_gateway c))"
  obtains
    (idle) "w_db w' = w_db w" "w_invocations w' = w_invocations w" "\<not> sending (cl_pc c')"
  | (persist) r d1 decision cid blob where "cl_pc c = AtPersist blob"
      "t_intents (w_db w') = t_intents (w_db w) @ [r]"
      "i_id r \<notin> i_id ` set (t_intents (w_db w))"
      "i_operation_id r \<notin> i_operation_id ` set (t_intents (w_db w))"
      "row_of X (ho_effect_id (cl_host c)) (cl_intent c) r"
      "w_invocations w' = w_invocations w"
      "gw_authorizer (cl_gateway c) (authorization_request_of (cl_intent c)) (w_db w) = Inr (decision, d1)"
      "same_capabilities d1 (w_db w')" "i_input_hash r = hash_str (ci_input_hash (cl_intent c))"
      "i_capability_id r = map_option (id_to_string X) cid"
      "(decision = Authorized (the cid) \<and> cid \<noteq> None \<and> i_state r = ''prepared'' \<and>
          cl_pc c' = AtPrepared (ho_effect_id (cl_host c))) \<or>
       (i_state r = ''denied'' \<and> (\<exists>e. cl_pc c' = Finished (Inl e)))"
      "fresh_row X cid (cl_intent c) r"
  | (dispatched) eid r where "cl_pc c = AtPrepared eid" "cl_pc c' = AtInvoke eid"
      "r \<in> set (t_intents (w_db w))" "i_id r = id_to_string X eid" "i_state r = ''prepared''"
      "t_intents (w_db w') = map (\<lambda>i. if i_id i = id_to_string X eid \<and> i_state i = ''prepared''
        then i\<lparr>i_state := ''dispatched'', i_dispatched_at := Some (ho_dispatch_clock (cl_host c)),
               i_revision := i_revision i + 1\<rparr> else i) (t_intents (w_db w))"
      "w_invocations w' = w_invocations w" "same_capabilities (w_db w) (w_db w')"
  | (invoked) eid where "cl_pc c = AtInvoke eid" "\<not> sending (cl_pc c')" "w_db w' = w_db w"
      "w_invocations w' = w_invocations w @ [dispatch_request_of (cl_intent c)]"
  | (settled) eid where "settles X eid w w'" "\<not> sending (cl_pc c')"
proof (cases "cl_pc c")
  case AtFind
  with step have "w' = w" "\<not> sending (cl_pc c')"
    by (auto simp: client_step_def Let_def goto_def on_db_read_def split: sum.splits option.splits)
  with idle show ?thesis by simp
next
  case AtPut
  with step obtain r where "on_blobs (blob_put X (gw_blobs (cl_gateway c)) (ho_input_env (cl_host c))
      (ho_fs_clock (cl_host c)) (fst (ho_input_uuids (cl_host c))) (snd (ho_input_uuids (cl_host c)))
      (ci_canonical_bytes (cl_intent c)) ''application/vnd.epoch.effect-intent+json'') w = (r, w')"
      "\<not> sending (cl_pc c')"
    by (auto simp: client_step_def Let_def goto_def split: prod.splits sum.splits)
  with idle show ?thesis by (simp add: on_blobs_world)
next
  case (AtPersist blob)
  let ?f = "authorize_and_persist X (gw_authorizer (cl_gateway c)) (ho_persist_poisoned (cl_host c))
      (ho_persist_clock (cl_host c)) (ho_effect_id (cl_host c)) (cl_intent c) blob"
  let ?next = "\<lambda>created. case created of
              Created eid \<Rightarrow> AtPrepared eid
            | CreateDenied \<Rightarrow> Finished (Inl (GAuthorizationDenied (ci_operation_id (cl_intent c))))
            | CreateExisting existing \<Rightarrow> AtReplay existing"
  from step AtPersist obtain r where tx: "in_tx ?f w = (r, w')"
    and c': "c' = c\<lparr>cl_pc := (case r of Inl e \<Rightarrow> Finished (Inl e) | Inr x \<Rightarrow> ?next x)\<rparr>"
    by (auto simp: client_step_def Let_def goto_def split: prod.splits)
  from tx show ?thesis
  proof (cases rule: in_tx_cases)
    case (error e)
    with c' idle show ?thesis by simp
  next
    case (ok res d')
    show ?thesis
    proof (rule authorizer_contract.persist_cases [OF auth ok(1)], goal_cases existing new)
      case (existing snapshot)
      with ok c' idle show ?thesis by simp
    next
      case (new decision d1 cid st row)
      show ?thesis
        by (rule persist [OF AtPersist]) (use new ok c' in \<open>auto simp: row_of_def fresh_row_def\<close>)
    qed
  qed
next
  case (AtReplay existing)
  with step obtain r where "resolve_existing X (cl_gateway c) (cl_intent c) existing w = (r, w')"
    "\<not> sending (cl_pc c')"
    by (auto simp: client_step_def Let_def finish_def split: prod.splits)
  with idle show ?thesis by (auto dest: resolve_existing_world)
next
  case (AtPrepared eid)
  let ?f = "mark_dispatched X (ho_dispatch_poisoned (cl_host c)) (ho_dispatch_clock (cl_host c))
      (ho_attempt_id (cl_host c)) eid (cl_intent c)"
  show ?thesis
  proof (cases "cl_fault c = AfterPrepared")
    case True
    with step AtPrepared idle show ?thesis
      by (auto simp: client_step_def Let_def finish_def werr_def)
  next
    case False
    with step AtPrepared obtain r where tx: "in_tx ?f w = (r, w')"
      and c': "c' = c\<lparr>cl_pc := (case r of Inl e \<Rightarrow> Finished (Inl e) | Inr x \<Rightarrow> AtInvoke eid)\<rparr>"
      by (auto simp: client_step_def Let_def goto_def split: prod.splits)
    from tx show ?thesis
    proof (cases rule: in_tx_cases)
      case (error e)
      with c' idle show ?thesis by simp
    next
      case (ok x d')
      from ok(1) show ?thesis
        by (rule mark_dispatched_Inr) (rule dispatched [OF AtPrepared]; use ok c' in simp)
    qed
  qed
next
  case (AtInvoke eid)
  show ?thesis
  proof (cases "cl_fault c = AfterDispatchedBeforeInvoke")
    case True
    with step AtInvoke obtain r :: "execution_receipt gw_result" where "wbind (in_tx (mark_unknown X (ho_resolve_poisoned (cl_host c))
        (ho_resolve_clock (cl_host c)) eid 1 ''dispatch_boundary''))
        (\<lambda>_. werr (GFaultInjected (cl_fault c) UnknownOutcome)) w = (r, w')" and "\<not> sending (cl_pc c')"
      by (auto simp: client_step_def Let_def finish_def split: prod.splits)
    with settles_bind [OF this(1) settles_unknown] settled [of eid] show ?thesis
      by (simp add: werr_def)
  next
    case False
    with step AtInvoke show ?thesis
      by (intro invoked [OF AtInvoke])
        (auto simp: client_step_def Let_def goto_def invoke_def split: prod.splits)
  qed
next
  case (AtResolve eid outcome)
  with step obtain r where "finish_dispatch X (cl_gateway c) (cl_host c) eid (cl_intent c) (cl_fault c) outcome w
      = (r, w')" "\<not> sending (cl_pc c')"
    by (auto simp: client_step_def Let_def finish_def split: prod.splits)
  with settled show ?thesis by (blast intro: finish_dispatch_settles)
next
  case (Finished r)
  with step have "c' = c" "w' = w" by (simp_all add: client_step_def Let_def)
  with Finished idle show ?thesis by simp
qed

section \<open>The journal over time\<close>

definition journal_inv :: "db \<Rightarrow> bool" where
  "journal_inv d \<longleftrightarrow> distinct (map i_id (t_intents d)) \<and> distinct (map i_operation_id (t_intents d))"

definition journal_step :: "db \<Rightarrow> db \<Rightarrow> bool" where
  "journal_step d d' \<longleftrightarrow>
     (\<exists>old new. t_intents d' = old @ new \<and> list_all2 intent_advances (t_intents d) old)"

lemma journal_step_same: "t_intents d' = t_intents d \<Longrightarrow> journal_step d d'"
  unfolding journal_step_def by (rule exI [of _ "t_intents d"]) (simp add: list_all2_same)

lemma journal_step_row:
  assumes "journal_step d d'" and "r \<in> set (t_intents d)"
  obtains r' where "r' \<in> set (t_intents d')" "intent_advances r r'"
proof -
  obtain old new where d': "t_intents d' = old @ new" and old: "list_all2 intent_advances (t_intents d) old"
    using assms(1) unfolding journal_step_def by blast
  obtain i where i: "i < length (t_intents d)" "r = t_intents d ! i"
    using assms(2) by (auto simp: in_set_conv_nth)
  with old have "intent_advances r (old ! i)" "old ! i \<in> set old"
    by (auto simp: list_all2_conv_all_nth)
  with d' show ?thesis by (intro that [of "old ! i"]) simp_all
qed

lemma advances_map:
  assumes "\<And>r. r \<in> set rs \<Longrightarrow> intent_advances r (f r)"
  shows "list_all2 intent_advances rs (map f rs)" "map i_id (map f rs) = map i_id rs"
    "map i_operation_id (map f rs) = map i_operation_id rs"
  using assms by (auto simp: list_all2_map2 list_all2_same dest: intent_advances_keys)

lemma journal_map:
  assumes "t_intents d' = map f (t_intents d)" and "\<And>r. r \<in> set (t_intents d) \<Longrightarrow> intent_advances r (f r)"
  shows "journal_step d d'" "journal_inv d' = journal_inv d"
proof -
  note m = advances_map [of "t_intents d" f, OF assms(2)]
  show "journal_step d d'" using m(1) assms(1) unfolding journal_step_def by (metis append_Nil2)
  show "journal_inv d' = journal_inv d" by (simp only: journal_inv_def assms(1) m(2,3))
qed

definition sent :: "intent_row \<Rightarrow> bool" where
  "sent r \<longleftrightarrow> i_state r \<notin> {''prepared'', ''denied''}"

lemma sent_stays: "intent_advances r r' \<Longrightarrow> sent r \<Longrightarrow> sent r'"
  by (auto simp: intent_advances_def intent_edge_def sent_def)

lemma row_of_stays: "intent_advances r r' \<Longrightarrow> row_of X eid intent r \<Longrightarrow> row_of X eid intent r'"
  by (auto simp: row_of_def dest: intent_advances_keys)

lemma resolved_journal:
  assumes "resolved X eid st rh d d'" and "st \<in> {''succeeded'', ''failed'', ''unknown''}"
  shows "journal_step d d'" "journal_inv d' = journal_inv d"
proof -
  obtain now err where rows: "t_intents d' = map (\<lambda>i. if i_id i = id_to_string X eid \<and> i_state i = ''dispatched''
        then i\<lparr>i_state := st, i_result_hash := map_option hash_str rh, i_error_json := err,
               i_resolved_at := Some now, i_revision := i_revision i + 1\<rparr> else i) (t_intents d)"
    using assms(1) unfolding resolved_def by blast
  show "journal_step d d'" "journal_inv d' = journal_inv d"
    using assms(2) by (intro journal_map [OF rows]; auto simp: intent_advances_def intent_edge_def)+
qed

lemma client_step_fields:
  assumes "client_step X c w = (c', w')"
  shows "cl_gateway c' = cl_gateway c" "cl_intent c' = cl_intent c" "cl_host c' = cl_host c" "cl_fault c' = cl_fault c"
proof -
  have "\<exists>p. c' = c\<lparr>cl_pc := p\<rparr>"
  proof (cases "cl_pc c")
    case (Finished r)
    with assms have "c' = c\<lparr>cl_pc := cl_pc c\<rparr>" by (simp add: client_step_def)
    then show ?thesis by blast
  qed (use assms in \<open>auto simp: client_step_def Let_def goto_def finish_def split: if_splits prod.splits\<close>)
  then show "cl_gateway c' = cl_gateway c" "cl_intent c' = cl_intent c" "cl_host c' = cl_host c"
    "cl_fault c' = cl_fault c" by auto
qed

lemma settles_journal:
  assumes "settles X eid w w'"
  shows "journal_step (w_db w) (w_db w')" "journal_inv (w_db w') = journal_inv (w_db w)"
    "w_invocations w' = w_invocations w"
  using assms resolved_journal unfolding settles_def by (metis journal_step_same)+

lemma client_step_journal:
  assumes "client_step X c w = (c', w')" and "authorizer_contract (gw_authorizer (cl_gateway c))"
    and "journal_inv (w_db w)"
  shows "journal_step (w_db w) (w_db w') \<and> journal_inv (w_db w')"
  using assms(1,2)
proof (cases rule: client_step_cases)
  case idle
  with assms(3) show ?thesis by (simp add: journal_step_same)
next
  case (persist r d1 decision cid blob)
  then have "journal_step (w_db w) (w_db w')"
    unfolding journal_step_def by (intro exI [of _ "t_intents (w_db w)"] exI [of _ "[r]"]) (simp add: list_all2_same)
  with persist(2-4) assms(3) show ?thesis by (simp add: journal_inv_def)
next
  case (dispatched eid r)
  have "intent_advances i (if i_id i = id_to_string X eid \<and> i_state i = ''prepared''
        then i\<lparr>i_state := ''dispatched'', i_dispatched_at := Some (ho_dispatch_clock (cl_host c)),
               i_revision := i_revision i + 1\<rparr> else i)" for i
    by (simp add: intent_advances_def intent_edge_def)
  with journal_map [OF dispatched(6)] assms(3) show ?thesis by blast
next
  case (invoked eid)
  with assms(3) show ?thesis by (simp add: journal_step_same)
next
  case (settled eid)
  with assms(3) settles_journal show ?thesis by blast
qed

section \<open>The system invariant\<close>

definition client_ok :: "externals \<Rightarrow> authorizer set \<Rightarrow> 'p world \<Rightarrow> 'p client \<Rightarrow> bool" where
  "client_ok X A w c \<longleftrightarrow> gw_authorizer (cl_gateway c) \<in> A \<and>
     (\<forall>eid. cl_pc c = AtPrepared eid \<longrightarrow> (\<exists>r \<in> set (t_intents (w_db w)). row_of X eid (cl_intent c) r)) \<and>
     (\<forall>eid. cl_pc c = AtInvoke eid \<longrightarrow>
        (\<exists>r \<in> set (t_intents (w_db w)). row_of X eid (cl_intent c) r \<and> sent r) \<and>
        ci_operation_id (cl_intent c) \<notin> dr_operation_id ` set (w_invocations w))"

definition at_invoke :: "'p client \<Rightarrow> bool" where
  "at_invoke c \<longleftrightarrow> (\<exists>eid. cl_pc c = AtInvoke eid)"

definition exclusive :: "'p client list \<Rightarrow> bool" where
  "exclusive cs \<longleftrightarrow> (\<forall>i < length cs. \<forall>j < length cs. i \<noteq> j \<longrightarrow> at_invoke (cs ! i) \<longrightarrow> at_invoke (cs ! j) \<longrightarrow>
     ci_operation_id (cl_intent (cs ! i)) \<noteq> ci_operation_id (cl_intent (cs ! j)))"

definition delivered :: "'p world \<Rightarrow> bool" where
  "delivered w \<longleftrightarrow> distinct (map dr_operation_id (w_invocations w)) \<and>
     (\<forall>q \<in> set (w_invocations w). \<exists>r \<in> set (t_intents (w_db w)).
        i_operation_id r = op_str (dr_operation_id q) \<and> sent r)"

fun system_inv :: "externals \<Rightarrow> authorizer set \<Rightarrow> 'p client list \<times> 'p world \<Rightarrow> bool" where
  "system_inv X A (cs, w) \<longleftrightarrow> journal_inv (w_db w) \<and> delivered w \<and>
     (\<forall>c \<in> set cs. client_ok X A w c) \<and> exclusive cs"

lemma op_str_eq [simp]: "op_str a = op_str b \<longleftrightarrow> a = b"
  by (cases a; cases b) simp

lemma client_ok_step:
  assumes "client_ok X A w c" and "journal_step (w_db w) (w_db w')"
    and "at_invoke c \<Longrightarrow> ci_operation_id (cl_intent c) \<notin> dr_operation_id ` set (w_invocations w')"
  shows "client_ok X A w' c"
  unfolding client_ok_def
proof (intro conjI allI impI)
  show "gw_authorizer (cl_gateway c) \<in> A" using assms(1) by (simp add: client_ok_def)
next
  fix eid assume "cl_pc c = AtPrepared eid"
  with assms(1) obtain r where "r \<in> set (t_intents (w_db w))" "row_of X eid (cl_intent c) r"
    by (auto simp: client_ok_def)
  with journal_step_row [OF assms(2)] row_of_stays
  show "\<exists>r \<in> set (t_intents (w_db w')). row_of X eid (cl_intent c) r" by metis
next
  fix eid assume "cl_pc c = AtInvoke eid"
  with assms(1) obtain r where "r \<in> set (t_intents (w_db w))" "row_of X eid (cl_intent c) r" "sent r"
    by (auto simp: client_ok_def)
  with journal_step_row [OF assms(2)] row_of_stays sent_stays
  show "\<exists>r \<in> set (t_intents (w_db w')). row_of X eid (cl_intent c) r \<and> sent r" by metis
next
  fix eid assume "cl_pc c = AtInvoke eid"
  with assms(3) show "ci_operation_id (cl_intent c) \<notin> dr_operation_id ` set (w_invocations w')"
    by (auto simp: at_invoke_def)
qed

lemma delivered_step:
  assumes "delivered w" and "journal_step (w_db w) (w_db w')" and "w_invocations w' = w_invocations w"
  shows "delivered w'"
proof -
  have "\<exists>r' \<in> set (t_intents (w_db w')). i_operation_id r' = op_str (dr_operation_id q) \<and> sent r'"
    if "q \<in> set (w_invocations w)" for q
  proof -
    from that assms(1) obtain r where "r \<in> set (t_intents (w_db w))"
      "i_operation_id r = op_str (dr_operation_id q)" "sent r" by (auto simp: delivered_def)
    with journal_step_row [OF assms(2)] intent_advances_keys sent_stays show ?thesis by metis
  qed
  with assms(1,3) show ?thesis by (simp add: delivered_def)
qed

lemma exclusive_update:
  assumes "exclusive cs"
    and "\<And>j. j < length cs \<Longrightarrow> j \<noteq> i \<Longrightarrow> at_invoke c \<Longrightarrow> at_invoke (cs ! j) \<Longrightarrow>
      ci_operation_id (cl_intent (cs ! j)) \<noteq> ci_operation_id (cl_intent c)"
  shows "exclusive (cs[i := c])"
  unfolding exclusive_def
proof (intro allI impI)
  fix j k assume "j < length (cs[i := c])" "k < length (cs[i := c])" "j \<noteq> k"
    "at_invoke (cs[i := c] ! j)" "at_invoke (cs[i := c] ! k)"
  then show "ci_operation_id (cl_intent (cs[i := c] ! j)) \<noteq> ci_operation_id (cl_intent (cs[i := c] ! k))"
    using assms(1) [unfolded exclusive_def] assms(2) [of j] assms(2) [of k]
    by (cases "j = i"; cases "k = i") auto
qed

lemma clients_ok_step:
  assumes "\<forall>x \<in> set cs. client_ok X A w x" and "journal_step (w_db w) (w_db w')"
    and "w_invocations w' = w_invocations w" and "client_ok X A w' c"
  shows "\<forall>x \<in> set (cs[i := c]). client_ok X A w' x"
proof -
  have "client_ok X A w' x" if "x \<in> set cs" for x
    by (rule client_ok_step [OF _ assms(2)]) (use assms(1,3) that in \<open>auto simp: client_ok_def at_invoke_def\<close>)
  with assms(4) show ?thesis using set_update_subset_insert [of cs i c] by auto
qed

text \<open>A step that invokes nothing and puts nobody in front of the provider.\<close>

lemma system_inv_quiet:
  assumes "system_inv X A (cs, w)" and "i < length cs" and "client_step X (cs ! i) w = (c, w')"
    and "journal_step (w_db w) (w_db w')" "journal_inv (w_db w')" "w_invocations w' = w_invocations w"
    and "\<not> at_invoke c" and "client_ok X A w' c"
  shows "system_inv X A (cs[i := c], w')"
proof -
  have "\<forall>x \<in> set (cs[i := c]). client_ok X A w' x"
    using assms(1) by (intro clients_ok_step [OF _ assms(4,6,8)]) simp
  moreover have "exclusive (cs[i := c])"
    using assms(1,7) by (intro exclusive_update) simp_all
  ultimately show ?thesis
    using assms(1) delivered_step [OF _ assms(4,6)] assms(5) by simp
qed

lemma client_ok_idle:
  assumes "client_ok X A w c" and "client_step X c w = (c', w')" and "\<not> sending (cl_pc c')"
  shows "client_ok X A w' c'" "\<not> at_invoke c'"
  using assms client_step_fields [OF assms(2)]
  by (auto simp: client_ok_def at_invoke_def split: pc.splits)

text \<open>The step that marks the intent dispatched lets one client through, and only one.\<close>

lemma system_inv_dispatched:
  assumes inv: "system_inv X A (cs, w)" and i: "i < length cs" and step: "client_step X (cs ! i) w = (c', w')"
    and js: "journal_step (w_db w) (w_db w')" "journal_inv (w_db w')"
    and dispatched: "cl_pc (cs ! i) = AtPrepared eid" "cl_pc c' = AtInvoke eid"
      "r \<in> set (t_intents (w_db w))" "i_id r = id_to_string X eid" "i_state r = ''prepared''"
      "t_intents (w_db w') = map (\<lambda>x. if i_id x = id_to_string X eid \<and> i_state x = ''prepared''
        then x\<lparr>i_state := ''dispatched'', i_dispatched_at := Some (ho_dispatch_clock (cl_host (cs ! i))),
               i_revision := i_revision x + 1\<rparr> else x) (t_intents (w_db w))"
      "w_invocations w' = w_invocations w"
  shows "system_inv X A (cs[i := c'], w')"
proof -
  have ok: "client_ok X A w (cs ! i)" and j: "journal_inv (w_db w)" using inv i by simp_all
  note fields = client_step_fields [OF step]
  let ?op = "ci_operation_id (cl_intent c')"
  obtain r0 where r0: "r0 \<in> set (t_intents (w_db w))" "row_of X eid (cl_intent (cs ! i)) r0"
    using ok dispatched(1) by (auto simp: client_ok_def)
  with dispatched(3,4) j have "r0 = r"
    by (auto simp: row_of_def journal_inv_def intro: distinct_key_eq)
  then have r: "row_of X eid (cl_intent c') r" using r0 fields by simp
  have fresh: "\<not> sent x" if "x \<in> set (t_intents (w_db w))" "i_operation_id x = op_str ?op" for x
  proof -
    have "x = r" using that dispatched(3) r j
      by (auto simp: row_of_def journal_inv_def intro: distinct_key_eq)
    then show ?thesis using dispatched(5) by (simp add: sent_def)
  qed
  have unsent: "?op \<notin> dr_operation_id ` set (w_invocations w)"
    using inv fresh by (auto simp: delivered_def)
  define r' where "r' = r\<lparr>i_state := ''dispatched'',
      i_dispatched_at := Some (ho_dispatch_clock (cl_host (cs ! i))), i_revision := i_revision r + 1\<rparr>"
  have "r' \<in> set (t_intents (w_db w'))"
    using dispatched(3-5) unfolding dispatched(6) r'_def by force
  moreover have "row_of X eid (cl_intent c') r'" "sent r'"
    using r by (simp_all add: r'_def row_of_def sent_def)
  ultimately have ok': "client_ok X A w' c'"
    using ok fields dispatched(2,7) unsent by (auto simp: client_ok_def)
  have "exclusive (cs[i := c'])"
  proof (rule exclusive_update)
    show "exclusive cs" using inv by simp
    fix k assume k: "k < length cs" "at_invoke (cs ! k)"
    then have "client_ok X A w (cs ! k)" using inv by simp
    with k fresh show "ci_operation_id (cl_intent (cs ! k)) \<noteq> ?op"
      by (auto simp: client_ok_def at_invoke_def row_of_def)
  qed
  moreover have "\<forall>x \<in> set (cs[i := c']). client_ok X A w' x"
    using inv by (intro clients_ok_step [OF _ js(1) dispatched(7) ok']) simp
  ultimately show ?thesis
    using inv js delivered_step [OF _ js(1) dispatched(7)] by simp
qed

lemma system_inv_invoked:
  assumes inv: "system_inv X A (cs, w)" and i: "i < length cs" and step: "client_step X (cs ! i) w = (c', w')"
    and js: "journal_step (w_db w) (w_db w')" "journal_inv (w_db w')"
    and invoked: "cl_pc (cs ! i) = AtInvoke eid" "\<not> sending (cl_pc c')" "w_db w' = w_db w"
      "w_invocations w' = w_invocations w @ [dispatch_request_of (cl_intent (cs ! i))]"
  shows "system_inv X A (cs[i := c'], w')"
proof -
  have ok: "client_ok X A w (cs ! i)" and j: "journal_inv (w_db w)" using inv i by simp_all
  let ?q = "dispatch_request_of (cl_intent (cs ! i))"
  have q: "dr_operation_id ?q = ci_operation_id (cl_intent (cs ! i))" by (simp add: dispatch_request_of_def)
  obtain r where r: "r \<in> set (t_intents (w_db w))" "row_of X eid (cl_intent (cs ! i)) r" "sent r"
    and new: "ci_operation_id (cl_intent (cs ! i)) \<notin> dr_operation_id ` set (w_invocations w)"
    using ok invoked(1) by (auto simp: client_ok_def)
  have "delivered w" using inv by simp
  then have "delivered w'"
    using r new unfolding delivered_def invoked(3,4) by (auto simp: q row_of_def)
  moreover have c': "client_ok X A w' c'" "\<not> at_invoke c'" using client_ok_idle [OF ok step invoked(2)] .
  have other: "client_ok X A w' (cs ! k)" if "k < length cs" "k \<noteq> i" for k
  proof (rule client_ok_step [OF _ js(1)])
    show okk: "client_ok X A w (cs ! k)" using inv that(1) by simp
    assume "at_invoke (cs ! k)"
    moreover have "at_invoke (cs ! i)" using invoked(1) by (simp add: at_invoke_def)
    ultimately have "ci_operation_id (cl_intent (cs ! k)) \<noteq> ci_operation_id (cl_intent (cs ! i))"
      using inv that i by (auto simp: exclusive_def)
    moreover have "ci_operation_id (cl_intent (cs ! k)) \<notin> dr_operation_id ` set (w_invocations w)"
      using okk \<open>at_invoke (cs ! k)\<close> by (auto simp: client_ok_def at_invoke_def)
    ultimately show "ci_operation_id (cl_intent (cs ! k)) \<notin> dr_operation_id ` set (w_invocations w')"
      unfolding invoked(4) by (simp add: q)
  qed
  have "\<forall>x \<in> set (cs[i := c']). client_ok X A w' x"
  proof
    fix x assume "x \<in> set (cs[i := c'])"
    then obtain k where "k < length cs" "x = cs[i := c'] ! k" by (auto simp: in_set_conv_nth)
    with c'(1) other show "client_ok X A w' x" by (cases "k = i") auto
  qed
  moreover have "exclusive (cs[i := c'])" using inv c'(2) by (intro exclusive_update) simp_all
  ultimately show ?thesis using js by simp
qed

lemma system_inv_client:
  assumes A: "\<And>a. a \<in> A \<Longrightarrow> authorizer_contract a" and inv: "system_inv X A (cs, w)"
    and i: "i < length cs" and step: "client_step X (cs ! i) w = (c', w')"
  shows "system_inv X A (cs[i := c'], w')"
proof -
  have ok: "client_ok X A w (cs ! i)" and j: "journal_inv (w_db w)" using inv i by simp_all
  have auth: "authorizer_contract (gw_authorizer (cl_gateway (cs ! i)))"
    using ok by (intro A) (simp add: client_ok_def)
  note fields = client_step_fields [OF step]
  have js: "journal_step (w_db w) (w_db w')" "journal_inv (w_db w')"
    using client_step_journal [OF step auth j] by blast+
  note quiet = system_inv_quiet [OF inv i step js]
  from step auth show ?thesis
  proof (cases rule: client_step_cases)
    case idle
    with client_ok_idle [OF ok step] show ?thesis by (intro quiet) simp_all
  next
    case (persist r d1 decision cid blob)
    show ?thesis
    proof (cases "sending (cl_pc c')")
      case False
      with persist client_ok_idle [OF ok step] show ?thesis by (intro quiet) simp_all
    next
      case True
      with persist(11) have pc: "cl_pc c' = AtPrepared (ho_effect_id (cl_host (cs ! i)))" by auto
      have "r \<in> set (t_intents (w_db w'))" using persist(2) by simp
      with persist(5) pc fields ok have "client_ok X A w' c'" "\<not> at_invoke c'"
        by (auto simp: client_ok_def at_invoke_def)
      with persist show ?thesis by (intro quiet) simp_all
    qed
  next
    case (dispatched eid r)
    then show ?thesis by (intro system_inv_dispatched [OF inv i step js])
  next
    case (invoked eid)
    then show ?thesis by (intro system_inv_invoked [OF inv i step js])
  next
    case (settled eid)
    with client_ok_idle [OF ok step] settles_journal(3) [OF settled(1)] show ?thesis
      by (intro quiet) simp_all
  qed
qed

lemma system_inv_step:
  assumes A: "\<And>a. a \<in> A \<Longrightarrow> authorizer_contract a" and step: "system_step X A s s'" and inv: "system_inv X A s"
  shows "system_inv X A s'"
  using step inv
proof cases
  case (spawn c cs w)
  then have "exclusive (cs @ [c])"
    using inv by (auto simp: exclusive_def nth_append at_invoke_def less_Suc_eq)
  with spawn inv show ?thesis by (auto simp: client_ok_def)
next
  case (client i cs w c w')
  show ?thesis unfolding client(2) by (rule system_inv_client [OF A _ client(3,4)]) (use inv client(1) in simp_all)
next
  case (service cs w op)
  have same: "t_intents (service_step X op (w_db w)) = t_intents (w_db w)"
    using service_step_journal [of "w_db w" X op] by (simp add: same_journal_def)
  from inv have "\<forall>c \<in> set cs. client_ok X A (w\<lparr>w_db := service_step X op (w_db w)\<rparr>) c"
    by (auto simp: client_ok_def same service)
  with inv show ?thesis by (simp add: service delivered_def journal_inv_def same)
next
  case (files w t cs)
  then show ?thesis using inv by (simp add: delivered_def client_ok_def)
qed

lemma system_inv_run:
  assumes A: "\<And>a. a \<in> A \<Longrightarrow> authorizer_contract a" and run: "system_run X A s s'" and inv: "system_inv X A s"
  shows "system_inv X A s'"
  using run inv by induction (blast intro: system_inv_step [OF A])+

section \<open>The capability tables under the whole system\<close>

lemma same_capabilities_step:
  assumes "same_capabilities d d'"
  shows "cap_inv X d' = cap_inv X d" "cap_evolves d0 d' = cap_evolves d0 d" "cap_evolves d' d1 = cap_evolves d d1"
proof -
  have t: "t_capabilities d' = t_capabilities d" "t_authorizations d' = t_authorizations d"
    "t_ancestry d' = t_ancestry d" "t_decisions d' = t_decisions d"
    using assms by (simp_all add: same_capabilities_def)
  have anc: "is_ancestor d' = is_ancestor d" by (simp add: fun_eq_iff is_ancestor_def t)
  note defs = cap_evolves_def same_accounts_def budget_account_def uses_account_def spent_budget_def
    spent_uses_def anc t
  show "cap_inv X d' = cap_inv X d" unfolding cap_inv_def anc t ..
  show "cap_evolves d0 d' = cap_evolves d0 d" "cap_evolves d' d1 = cap_evolves d d1" unfolding defs by (rule refl)+
qed

definition capability_authorizers :: "externals \<Rightarrow> authorizer set" where
  "capability_authorizers X = {a. \<exists>clock did ca. a = capability_authorize X clock did ca}"

lemma capability_authorizers_contract: "a \<in> capability_authorizers X \<Longrightarrow> authorizer_contract a"
  by (auto simp: capability_authorizers_def intro: capability.authorizer_contract_axioms)

text \<open>An intent that was not denied holds an authorization for its own operation and input.\<close>

definition covered :: "db \<Rightarrow> intent_row \<Rightarrow> bool" where
  "covered d r \<longleftrightarrow> list_ex (\<lambda>z. Some (z_capability_id z) = i_capability_id r \<and>
     z_request_id z = i_operation_id r \<and> z_request_hash z = i_input_hash r) (t_authorizations d)"

definition authority_inv :: "externals \<Rightarrow> db \<Rightarrow> bool" where
  "authority_inv X d \<longleftrightarrow> cap_inv X d \<and> (\<forall>r \<in> set (t_intents d). i_state r \<noteq> ''denied'' \<longrightarrow> covered d r)"

lemma covered_stays:
  assumes "cap_evolves d d'" and "covered d r"
  shows "covered d' r"
proof -
  have "prefix (t_authorizations d) (t_authorizations d')" using assms(1) by (simp add: cap_evolves_def)
  then show ?thesis using assms(2) by (auto simp: covered_def list_ex_iff prefix_def)
qed

lemma covered_advances:
  "intent_advances r r' \<Longrightarrow> covered d r' = covered d r"
  "intent_advances r r' \<Longrightarrow> (i_state r' = ''denied'') = (i_state r = ''denied'')"
  by (auto simp: intent_advances_def covered_def intent_edge_def)

lemma authority_inv_rows:
  assumes inv: "authority_inv X d" and caps: "cap_inv X d'" "cap_evolves d d'"
    and rows: "t_intents d' = map f (t_intents d)" "\<And>r. r \<in> set (t_intents d) \<Longrightarrow> intent_advances r (f r)"
  shows "authority_inv X d'"
proof -
  have "covered d' (f r)" if "r \<in> set (t_intents d)" "i_state (f r) \<noteq> ''denied''" for r
    using that inv covered_stays [OF caps(2), of r] covered_advances [OF rows(2) [OF that(1)]]
    by (auto simp: authority_inv_def)
  with caps(1) show ?thesis by (auto simp: authority_inv_def rows(1))
qed

text \<open>An allowing answer leaves the authorization it announces.\<close>

lemma capability_authorized:
  assumes "capability_authorize X clock did ca request d = Inr (Authorized cid, d')"
  shows "\<exists>z \<in> set (t_authorizations d'). z_capability_id z = id_to_string X cid \<and>
     z_request_id z = op_str (ar_operation_id request) \<and> z_request_hash z = hash_str (ar_input_hash request)"
  using assms
proof (rule capability_authorize_Inr)
  fix use dec
  assume use: "capability_use_new (ar_session_id request) (ar_branch_id request) (ca_subject ca)
       (ar_action request) (ar_resource request) (ar_policy_revision request)
       (ca_budget_units ca) (op_str (ar_operation_id request)) (hash_str (ar_input_hash request)) = Inr use"
    and run: "authorize_and_consume_in_transaction X clock did (ca_handle ca) use d = Inr (dec, d')"
    and "Authorized cid = (case (dec_outcome dec, dec_capability_id dec) of
       (Allow, Some cid) \<Rightarrow> Authorized cid | (_, cid) \<Rightarrow> AuthDenied cid)"
  then have dec: "dec_outcome dec = Allow" "dec_capability_id dec = Some cid"
    by (auto split: decision_outcome.splits option.splits)
  have fields: "use_request_id use = op_str (ar_operation_id request)"
    "use_request_hash use = hash_str (ar_input_hash request)"
    using use by (auto simp: capability_use_new_def rbind_eq_Inr split: if_splits)
  from run show ?thesis
  proof (cases rule: authorize_in_tx_cases)
    case unknown
    with dec show ?thesis by (simp add: record_decision_Inr(2) [OF unknown(3)])
  next
    case (deny c reason d1)
    with dec show ?thesis by (simp add: record_decision_Inr(2) [OF deny(4)])
  next
    case (allow c as b d1 z)
    have "z \<in> set (t_authorizations d')" using record_decision_Inr(1) [OF allow(7)] by auto
    moreover have "st_id c = cid" using record_decision_Inr(2) [OF allow(7)] dec(2) by simp
    ultimately show ?thesis using allow(5) fields by (intro bexI [of _ z]) simp_all
  qed
qed


lemma capability_authorize_step:
  assumes "capability_authorize X clock did ca request d = Inr (decision, d')" and "cap_inv X d"
  shows "cap_inv X d'" "cap_evolves d d'" "t_intents d' = t_intents d"
proof -
  obtain use dec where "authorize_and_consume_in_transaction X clock did (ca_handle ca) use d = Inr (dec, d')"
    using assms(1) by (rule capability_authorize_Inr)
  then show "cap_inv X d'" "cap_evolves d d'" using authorize_in_tx_step [OF assms(2)] by blast+
  show "t_intents d' = t_intents d" using capability.frame [OF assms(1)] by blast
qed

lemma authority_inv_client:
  assumes inv: "authority_inv X (w_db w)" and "gw_authorizer (cl_gateway c) \<in> capability_authorizers X"
    and step: "client_step X c w = (c', w')"
  shows "authority_inv X (w_db w') \<and> cap_evolves (w_db w) (w_db w')"
proof -
  note auth = capability_authorizers_contract [OF assms(2)]
  have caps: "cap_inv X (w_db w)" using inv by (simp add: authority_inv_def)
  note same = same_capabilities_step [of "w_db w" "w_db w'"]
  from step auth show ?thesis
  proof (cases rule: client_step_cases)
    case idle
    with inv show ?thesis by simp
  next
    case (persist r d1 decision cid blob)
    obtain clock did ca where a: "gw_authorizer (cl_gateway c) = capability_authorize X clock did ca"
      using assms(2) by (auto simp: capability_authorizers_def)
    note run = persist(7) [unfolded a]
    note d1 = capability_authorize_step [OF run caps]
    have ev: "cap_inv X (w_db w')" "cap_evolves (w_db w) (w_db w')"
      using d1 same_capabilities_step [OF persist(8)] by simp_all
    have z: "t_authorizations (w_db w') = t_authorizations d1" using persist(8) by (simp add: same_capabilities_def)
    have "covered (w_db w') r" if "i_state r \<noteq> ''denied''"
    proof -
      have dec: "decision = Authorized (the cid)" "cid \<noteq> None" using that persist(11) by auto
      from capability_authorized [OF run [unfolded dec(1)]] persist(5,9,10) dec(2) show ?thesis
        by (auto simp: covered_def list_ex_iff z authorization_request_of_def row_of_def)
    qed
    moreover have "covered (w_db w') x" if "x \<in> set (t_intents (w_db w))" "i_state x \<noteq> ''denied''" for x
      using that inv by (intro covered_stays [OF ev(2)]) (simp add: authority_inv_def)
    ultimately show ?thesis using ev persist(2) by (auto simp: authority_inv_def)
  next
    case (dispatched eid r)
    have ev: "cap_inv X (w_db w')" "cap_evolves (w_db w) (w_db w')"
      using same [OF dispatched(8)] caps by simp_all
    have "authority_inv X (w_db w')"
      by (rule authority_inv_rows [OF inv ev dispatched(6)]) (simp add: intent_advances_def intent_edge_def)
    with ev show ?thesis by simp
  next
    case (invoked eid)
    with inv show ?thesis by simp
  next
    case (settled eid)
    show ?thesis
    proof (cases "w_db w' = w_db w")
      case False
      with settled obtain st rh where st: "st \<in> {''succeeded'', ''failed'', ''unknown''}"
        and res: "resolved X eid st rh (w_db w) (w_db w')" unfolding settles_def by blast
      have ev: "cap_inv X (w_db w')" "cap_evolves (w_db w) (w_db w')"
        using same res caps by (simp_all add: resolved_def)
      obtain now err where rows: "t_intents (w_db w') =
          map (\<lambda>i. if i_id i = id_to_string X eid \<and> i_state i = ''dispatched''
            then i\<lparr>i_state := st, i_result_hash := map_option hash_str rh, i_error_json := err,
                   i_resolved_at := Some now, i_revision := i_revision i + 1\<rparr> else i) (t_intents (w_db w))"
        using res unfolding resolved_def by blast
      have "authority_inv X (w_db w')"
        by (rule authority_inv_rows [OF inv ev rows]) (use st in \<open>auto simp: intent_advances_def intent_edge_def\<close>)
      with ev show ?thesis by simp
    qed (simp add: inv)
  qed
qed

lemma authority_inv_step:
  assumes "uuid_codec X" and step: "system_step X (capability_authorizers X) s s'"
    and sys: "system_inv X (capability_authorizers X) s" and inv: "authority_inv X (w_db (snd s))"
  shows "authority_inv X (w_db (snd s')) \<and> cap_evolves (w_db (snd s)) (w_db (snd s'))"
  using step
proof cases
  case (spawn c cs w)
  with inv show ?thesis by simp
next
  case (client i cs w c w')
  with sys have "gw_authorizer (cl_gateway (cs ! i)) \<in> capability_authorizers X" by (simp add: client_ok_def)
  from authority_inv_client [OF _ this client(4)] inv show ?thesis unfolding client(1,2) by simp
next
  case (service cs w op)
  let ?d' = "service_step X op (w_db w)"
  have caps: "cap_inv X ?d'" "cap_evolves (w_db w) ?d'"
    using service_step_keeps [OF assms(1)] inv service by (simp_all add: authority_inv_def)
  have rows: "t_intents ?d' = map id (t_intents (w_db w))"
    using service_step_journal [of "w_db w" X op] by (simp add: same_journal_def)
  have "authority_inv X (w_db w)" using inv service by simp
  then have "authority_inv X ?d'" by (rule authority_inv_rows [OF _ caps rows]) simp
  with caps service show ?thesis by simp
next
  case (files w t cs)
  with inv show ?thesis by simp
qed

lemma authority_inv_run:
  assumes "uuid_codec X" and run: "system_run X (capability_authorizers X) s s'"
    and sys: "system_inv X (capability_authorizers X) s" and inv: "authority_inv X (w_db (snd s))"
  shows "system_inv X (capability_authorizers X) s' \<and> authority_inv X (w_db (snd s')) \<and>
    cap_evolves (w_db (snd s)) (w_db (snd s'))"
  using run sys inv
proof induction
  case base
  then show ?case by simp
next
  case (step y z)
  then have y: "system_inv X (capability_authorizers X) y" "authority_inv X (w_db (snd y))"
    "cap_evolves (w_db (snd s)) (w_db (snd y))" by simp_all
  have "system_inv X (capability_authorizers X) z"
    by (rule system_inv_step [OF capability_authorizers_contract step(2) y(1)])
  with authority_inv_step [OF assms(1) step(2) y(1,2)] y(3) cap_evolves_trans show ?case by blast
qed

end
