(* ===== verification/Epoch_Durability.thy ===== *)
theory Epoch_Durability
  imports Epoch_Gateway_Proofs
begin

text \<open>
  Durability of the gateway's results: every stored intent can be decoded again, a committed
  operation is found unchanged for ever, and a receipt that was handed out can be honoured in every
  later state of the system (\<open>durable_inv\<close>).
\<close>

section \<open>Rows that can be read\<close>

definition readable :: "externals \<Rightarrow> intent_row \<Rightarrow> bool" where
  "readable X r \<longleftrightarrow> (\<exists>s. decode_snapshot X r = Inr s)"

definition hash_text :: "string \<Rightarrow> bool" where
  "hash_text v \<longleftrightarrow> blob_hash_from_str v \<noteq> None"

lemma blob_hash_from_str_Some: "blob_hash_from_str v = Some h \<longleftrightarrow> hash_text v \<and> h = BlobHash v"
  by (auto simp: hash_text_def blob_hash_from_str_def)

lemma digest_text: "sha256_sized X \<Longrightarrow> hash_text (hash_str (blob_hash_digest X bs))"
  by (simp add: hash_text_def blob_hash_from_str_def blob_hash_digest_def sha256_sized_def list_all_encode_hex)

lemma hash_str_eq: "BlobHash v = h \<longleftrightarrow> hash_str h = v"
  by (cases h) auto

lemma parse_current_state_Inr:
  "parse_current_state v = Inr st \<longleftrightarrow>
     (v = ''prepared'' \<and> st = EffPrepared) \<or> (v = ''dispatched'' \<and> st = EffDispatched) \<or>
     (v = ''succeeded'' \<and> st = EffCommitted) \<or> (v \<in> {''failed'', ''denied''} \<and> st = EffFailed) \<or>
     (v = ''unknown'' \<and> st = EffUnknown)"
  by (cases "v = ''prepared''"; cases "v = ''dispatched''"; cases "v = ''succeeded''"; cases "v = ''failed''";
      cases "v = ''denied''"; cases "v = ''unknown''")
    (simp_all add: parse_current_state_def eq_commute [of _ st])

lemma stored_Inr: "stored m f = Inr x \<longleftrightarrow> m = Some x"
  by (simp add: stored_def ok_or_eq_Inr)

lemma stored_hash_Inr: "stored_hash v = Inr h \<longleftrightarrow> hash_text v \<and> h = BlobHash v"
  by (auto simp: stored_hash_def ok_or_eq_Inr blob_hash_from_str_Some)

lemma u64_of_i64_exists: "(\<exists>v. u64_of_i64 i = Some v) \<longleftrightarrow> 0 \<le> i"
  by (auto simp: u64_of_i64_def)

lemma id_parse_exists: "(\<exists>i :: 'k domain_id. id_parse X s = Some i) \<longleftrightarrow> uuid_parse X s \<noteq> None"
  by (auto simp: id_parse_def)

lemma decode_snapshot_fields:
  assumes "decode_snapshot X r = Inr s"
  shows "id_parse X (i_id r) = Some (es_effect_id s)"
    "parse_current_state (i_state r) = Inr (es_state s)"
    "hash_text (i_input_hash r)" "es_input_hash s = BlobHash (i_input_hash r)"
    "es_result_hash s = map_option BlobHash (i_result_hash r)"
  using assms
  by (auto simp: decode_snapshot_def rbind_eq_Inr stored_Inr stored_hash_Inr option_try_eq_Inr
      split: option.splits)

lemma option_try_exists: "(\<exists>y. option_try f m = Inr y) \<longleftrightarrow> (\<forall>x. m = Some x \<longrightarrow> (\<exists>y. f x = Inr y))"
  by (cases m) (auto simp: result_simps)

lemma readable_iff:
  "readable X r \<longleftrightarrow> uuid_parse X (i_id r) \<noteq> None \<and> uuid_parse X (i_session_id r) \<noteq> None \<and>
     uuid_parse X (i_branch_id r) \<noteq> None \<and> (\<forall>c. i_capability_id r = Some c \<longrightarrow> uuid_parse X c \<noteq> None) \<and>
     hash_text (i_input_hash r) \<and>
     i_state r \<in> {''prepared'', ''dispatched'', ''succeeded'', ''failed'', ''denied'', ''unknown''} \<and>
     (\<forall>h. i_result_hash r = Some h \<longrightarrow> hash_text h) \<and> 0 \<le> i_policy_revision r \<and> 0 \<le> i_revision r"
proof -
  have st: "(\<exists>st. parse_current_state v = Inr st) \<longleftrightarrow>
      v \<in> {''prepared'', ''dispatched'', ''succeeded'', ''failed'', ''denied'', ''unknown''}" for v
    by (simp add: parse_current_state_Inr ex_disj_distrib)
  have "readable X r \<longleftrightarrow> (\<exists>e :: effect_id. id_parse X (i_id r) = Some e) \<and>
     (\<exists>e :: session_id. id_parse X (i_session_id r) = Some e) \<and>
     (\<exists>e :: branch_id. id_parse X (i_branch_id r) = Some e) \<and>
     (\<exists>c. option_try (\<lambda>c. stored (id_parse X c) ''effect_intents.capability_id'') (i_capability_id r)
        = Inr (c :: capability_id option)) \<and>
     (\<exists>h. stored_hash (i_input_hash r) = Inr h) \<and> (\<exists>st. parse_current_state (i_state r) = Inr st) \<and>
     (\<exists>h. option_try stored_hash (i_result_hash r) = Inr h) \<and>
     (\<exists>v. u64_of_i64 (i_policy_revision r) = Some v) \<and> (\<exists>v. u64_of_i64 (i_revision r) = Some v)"
    unfolding readable_def decode_snapshot_def rbind_eq_Inr stored_Inr by blast
  then show ?thesis
    unfolding id_parse_exists option_try_exists stored_Inr stored_hash_Inr u64_of_i64_exists st by simp
qed

lemma readable_advance:
  assumes "readable X r" and "0 \<le> i_revision r + 1"
    and "st \<in> {''dispatched'', ''succeeded'', ''failed'', ''unknown''}"
  shows "readable X (r\<lparr>i_state := st, i_dispatched_at := t, i_revision := i_revision r + 1\<rparr>)"
  using assms unfolding readable_iff by (elim insertE; simp)

definition rows_readable :: "externals \<Rightarrow> db \<Rightarrow> bool" where
  "rows_readable X d \<longleftrightarrow> (\<forall>r \<in> set (t_intents d). readable X r)"

lemma resolved_readable:
  assumes "resolved X eid st rh d d'" and "st \<in> {''succeeded'', ''failed'', ''unknown''}"
    and "digest_or_none X rh" and "sha256_sized X" and "rows_readable X d"
  shows "rows_readable X d'"
proof -
  obtain now err where rows: "t_intents d' = map (\<lambda>i. if i_id i = id_to_string X eid \<and> i_state i = ''dispatched''
        then i\<lparr>i_state := st, i_result_hash := map_option hash_str rh, i_error_json := err,
               i_resolved_at := Some now, i_revision := i_revision i + 1\<rparr> else i) (t_intents d)"
    using assms(1) unfolding resolved_def by blast
  have "hash_text h" if "map_option hash_str rh = Some h" for h
    using that assms(3,4) by (auto simp: digest_or_none_def digest_text)
  then have "readable X (i\<lparr>i_state := st, i_result_hash := map_option hash_str rh, i_error_json := err,
               i_resolved_at := Some now, i_revision := i_revision i + 1\<rparr>)" if "readable X i" for i
    using that assms(2) unfolding readable_iff by (elim insertE; simp)
  then show ?thesis using assms(5) unfolding rows_readable_def rows set_map by (intro ballI) (elim imageE, simp)
qed

text \<open>A committed operation is found unchanged for ever.\<close>

lemma find_Some:
  "find_in_transaction X op d = Inr (Some s) \<longleftrightarrow>
     (\<exists>r. by_key i_operation_id (op_str op) (t_intents d) = Some r \<and> decode_snapshot X r = Inr s)"
  by (auto simp: find_in_transaction_def option_try_eq_Inr split: option.splits)

lemma final_row_stays:
  assumes "journal_step d d'" and "r \<in> set (t_intents d)" and "i_state r \<in> final_states"
  shows "r \<in> set (t_intents d')"
proof -
  obtain r' where "r' \<in> set (t_intents d')" "intent_advances r r'" using journal_step_row [OF assms(1,2)] .
  with assms(3) show ?thesis using intent_edge_final by (auto simp: intent_advances_def)
qed

lemma committed_stays:
  assumes "journal_step d d'" and "journal_inv d'"
    and "find_in_transaction X op d = Inr (Some s)" and "es_state s = EffCommitted"
  shows "find_in_transaction X op d' = Inr (Some s)"
proof -
  obtain r where r: "by_key i_operation_id (op_str op) (t_intents d) = Some r" "decode_snapshot X r = Inr s"
    using assms(3) by (auto simp: find_Some)
  have "i_state r = ''succeeded''"
    using decode_snapshot_fields(2) [OF r(2)] unfolding assms(4) parse_current_state_Inr by simp
  then have "i_state r \<in> final_states" unfolding final_states_def by simp
  then have "r \<in> set (t_intents d')"
    using assms(1) by_key_eq_SomeD [OF r(1)] by (blast intro: final_row_stays)
  then have "by_key i_operation_id (op_str op) (t_intents d') = Some r"
    using assms(2) by_key_eq_SomeD [OF r(1)] by (simp add: by_key_eq_Some journal_inv_def)
  with r(2) show ?thesis by (auto simp: find_Some)
qed

section \<open>The blob tree under the gateway\<close>

lemma wbind_Inr [result_simps]:
  "wbind m f w = (Inr y, w') \<longleftrightarrow> (\<exists>x w1. m w = (Inr x, w1) \<and> f x w1 = (Inr y, w'))"
  by (auto simp: wbind_def split: prod.splits sum.splits)

lemma wok_Inr [result_simps]: "wok x w = (Inr y, w') \<longleftrightarrow> y = x \<and> w' = w"
  by (auto simp: wok_def)

lemma werr_Inr [result_simps]: "werr e w \<noteq> (Inr y, w')"
  by (simp add: werr_def)

lemma in_tx_fs: "in_tx f w = (r, w') \<Longrightarrow> w_fs w' = w_fs w"
  by (auto elim: in_tx_cases)

lemma wbind_grows:
  assumes "wbind m f w = (r, w')" and "\<And>r1 w1. m w = (r1, w1) \<Longrightarrow> grows (w_fs w) (w_fs w1)"
    and "\<And>x w1 r2 w2. f x w1 = (r2, w2) \<Longrightarrow> grows (w_fs w1) (w_fs w2)"
  shows "grows (w_fs w) (w_fs w')"
proof -
  obtain r1 w1 where m: "m w = (r1, w1)" by (cases "m w")
  show ?thesis
  proof (cases r1)
    case (Inl e)
    with m assms(1) have "w' = w1" by (simp add: wbind_def)
    with assms(2) [OF m] show ?thesis by simp
  next
    case (Inr x)
    with m assms(1) have "f x w1 = (r, w')" by (simp add: wbind_def)
    from assms(3) [OF this] assms(2) [OF m] show ?thesis by (rule grows_trans [rotated])
  qed
qed

lemma put_grows:
  assumes "polite own env" and "on_blobs (blob_put X st env now u u' bs v) w = (r, w')"
  shows "grows (w_fs w) (w_fs w')"
proof -
  let ?p = "blob_put X st env now u u' bs v (w_fs w)"
  have "?p = (fst ?p, snd ?p)" by simp
  from preservingD [OF preserving_put [OF assms(1)] this] show ?thesis
    using on_blobs_world(4) [OF assms(2)] by simp
qed

lemma finish_dispatch_grows:
  assumes "courteous X ho" and "finish_dispatch X g ho eid intent fault outcome w = (r, w')"
  shows "grows (w_fs w) (w_fs w')"
proof -
  have tx: "grows (w_fs a) (w_fs b)" if "in_tx f a = (q, b)" for f :: "db \<Rightarrow> (unit \<times> db) gw_result" and a q b
    using in_tx_fs [OF that] by simp
  have idle: "grows (w_fs a) (w_fs b)" if "werr e a = (q :: execution_receipt gw_result, b)" for e a q b
    using that by (simp add: werr_def)
  have polite: "polite (own_temporaries X (ho_result_uuids ho)) (ho_result_env ho)"
    using assms(1) by (simp add: courteous_def)
  show ?thesis
  proof (cases "fault = AfterInvokeBeforeCommit")
    case True
    with assms(2) show ?thesis
      unfolding finish_dispatch_def by (auto elim!: wbind_grows dest: tx idle)
  next
    case False
    show ?thesis
    proof (cases outcome)
      case (DispatchFailure code)
      with assms(2) False show ?thesis
        unfolding finish_dispatch_def by (auto elim!: wbind_grows dest: tx idle)
    next
      case (DispatchCommitted res)
      with assms(2) False have "commit_result X g ho eid intent res w = (r, w')"
        by (simp add: finish_dispatch_def)
      then show ?thesis
        unfolding commit_result_def
        by (auto split: sum.splits dest: idle elim!: wbind_grows intro: put_grows [OF polite])
          (auto simp: wok_def dest: tx elim!: wbind_grows)
    qed
  qed
qed

lemma finish_dispatch_receipt:
  assumes "finish_dispatch X g ho eid intent fault outcome w = (Inr rc, w')"
  obtains m v where "resolved X eid ''succeeded'' (Some (rc_result_hash rc)) (w_db w) (w_db w')"
    "blob_put X (gw_blobs g) (ho_result_env ho) (ho_fs_clock ho) (fst (ho_result_uuids ho))
       (snd (ho_result_uuids ho)) (rc_result rc) v (w_fs w) = (Inr m, w_fs w')"
    "rc_result_hash rc = blob_hash_digest X (rc_result rc)"
    "rc_operation_id rc = ci_operation_id intent" "rc_input_hash rc = ci_input_hash intent"
proof -
  from assms obtain res where out: "outcome = DispatchCommitted res"
    and run: "commit_result X g ho eid intent res w = (Inr rc, w')"
    by (cases outcome) (auto simp: finish_dispatch_def result_simps split: if_splits)
  let ?put = "blob_put X (gw_blobs g) (ho_result_env ho) (ho_fs_clock ho) (fst (ho_result_uuids ho))
       (snd (ho_result_uuids ho)) (dres_bytes res) (dres_media_type res)"
  from run obtain m w1 x where put: "on_blobs ?put w = (Inr m, w1)"
    and tx: "in_tx (commit_in_transaction X (ho_resolve_poisoned ho) (ho_resolve_clock ho) eid m) w1 = (Inr x, w')"
    and rc: "rc = \<lparr>rc_operation_id = ci_operation_id intent, rc_input_hash = ci_input_hash intent,
               rc_result_hash = m_hash m, rc_result = dres_bytes res, rc_replayed = False\<rparr>"
    by (auto simp: commit_result_def result_simps split: sum.splits)
  note w1 = on_blobs_world [OF put]
  have m: "?put (w_fs w) = (Inr m, w_fs w1)"
    using w1(4,5) by (cases "?put (w_fs w)") (auto simp: map_err_eq_Inr eq_commute [of "Inr m"])
  obtain d' where d': "commit_in_transaction X (ho_resolve_poisoned ho) (ho_resolve_clock ho) eid m (w_db w1) = Inr (x, d')"
    "w' = w1\<lparr>w_db := d'\<rparr>"
    using tx by (rule in_tx_cases) auto
  have h: "m_hash m = blob_hash_digest X (dres_bytes res)" by (rule blob_put_Inr [OF m]) simp
  show ?thesis
    by (rule that [where m = m and v = "dres_media_type res"])
      (use commit_resolved [OF d'(1)] d'(2) m w1(1) h in \<open>simp_all add: rc\<close>)
qed

lemma client_step_grows:
  assumes "courteous X (cl_host c)" and "client_step X c w = (c', w')"
  shows "grows (w_fs w) (w_fs w')"
proof (cases "cl_pc c")
  case AtFind
  with assms(2) show ?thesis
    by (auto simp: client_step_def Let_def goto_def on_db_read_def)
next
  case AtPut
  with assms(2) obtain r where "on_blobs (blob_put X (gw_blobs (cl_gateway c)) (ho_input_env (cl_host c))
      (ho_fs_clock (cl_host c)) (fst (ho_input_uuids (cl_host c))) (snd (ho_input_uuids (cl_host c)))
      (ci_canonical_bytes (cl_intent c)) ''application/vnd.epoch.effect-intent+json'') w = (r, w')"
    by (auto simp: client_step_def Let_def goto_def split: prod.splits)
  with assms(1) show ?thesis by (auto simp: courteous_def intro: put_grows)
next
  case (AtPersist blob)
  with assms(2) show ?thesis
    by (auto simp: client_step_def Let_def goto_def dest: in_tx_fs split: prod.splits)
next
  case (AtReplay s)
  with assms(2) show ?thesis
    by (auto simp: client_step_def Let_def finish_def dest: resolve_existing_world split: prod.splits)
next
  case (AtPrepared eid)
  with assms(2) show ?thesis
    by (auto simp: client_step_def Let_def finish_def goto_def werr_def dest: in_tx_fs split: prod.splits if_splits)
next
  case (AtInvoke eid)
  show ?thesis
  proof (cases "cl_fault c = AfterDispatchedBeforeInvoke")
    case True
    with AtInvoke assms(2) obtain r :: "execution_receipt gw_result"
      where "wbind (in_tx (mark_unknown X (ho_resolve_poisoned (cl_host c))
        (ho_resolve_clock (cl_host c)) eid 1 ''dispatch_boundary''))
        (\<lambda>_. werr (GFaultInjected (cl_fault c) UnknownOutcome)) w = (r, w')"
      by (auto simp: client_step_def Let_def finish_def split: prod.splits)
    then show ?thesis by (rule wbind_grows) (auto simp: werr_def dest: in_tx_fs)
  next
    case False
    with AtInvoke assms(2) show ?thesis
      by (auto simp: client_step_def Let_def goto_def invoke_def split: prod.splits)
  qed
next
  case (AtResolve eid outcome)
  with assms(2) obtain r where "finish_dispatch X (cl_gateway c) (cl_host c) eid (cl_intent c) (cl_fault c) outcome w
      = (r, w')"
    by (auto simp: client_step_def Let_def finish_def split: prod.splits)
  with assms(1) show ?thesis by (rule finish_dispatch_grows)
next
  case (Finished r)
  with assms(2) show ?thesis by (simp add: client_step_def Let_def)
qed

section \<open>Receipts are durable\<close>

definition receipt_ok :: "externals \<Rightarrow> 'p world \<Rightarrow> 'p client \<Rightarrow> execution_receipt \<Rightarrow> bool" where
  "receipt_ok X w c rc \<longleftrightarrow>
     rc_operation_id rc = ci_operation_id (cl_intent c) \<and> rc_input_hash rc = ci_input_hash (cl_intent c) \<and>
     (\<exists>s. find_in_transaction X (ci_operation_id (cl_intent c)) (w_db w) = Inr (Some s) \<and>
        es_input_hash s = ci_input_hash (cl_intent c) \<and> es_state s = EffCommitted \<and>
        es_result_hash s = Some (rc_result_hash rc)) \<and>
     rc_result_hash rc = blob_hash_digest X (rc_result rc) \<and>
     (\<exists>bs. blob_read X (gw_blobs (cl_gateway c)) (rc_result_hash rc) (w_fs w) = Inr bs)"

definition has_row :: "externals \<Rightarrow> 'p world \<Rightarrow> effect_id \<Rightarrow> canonical_intent \<Rightarrow> bool" where
  "has_row X w eid intent \<longleftrightarrow> (\<exists>r \<in> set (t_intents (w_db w)). row_of X eid intent r \<and>
     i_input_hash r = hash_str (ci_input_hash intent))"

fun pc_durable :: "externals \<Rightarrow> 'p world \<Rightarrow> 'p client \<Rightarrow> pc \<Rightarrow> bool" where
  "pc_durable X w c (AtReplay s) \<longleftrightarrow>
     (es_state s = EffCommitted \<longrightarrow> find_in_transaction X (ci_operation_id (cl_intent c)) (w_db w) = Inr (Some s))"
| "pc_durable X w c (AtPrepared eid) \<longleftrightarrow> has_row X w eid (cl_intent c)"
| "pc_durable X w c (AtInvoke eid) \<longleftrightarrow> has_row X w eid (cl_intent c)"
| "pc_durable X w c (AtResolve eid outcome) \<longleftrightarrow> has_row X w eid (cl_intent c)"
| "pc_durable X w c (Finished r) \<longleftrightarrow> (case r of Inl e \<Rightarrow> True | Inr rc \<Rightarrow> receipt_ok X w c rc)"
| "pc_durable X w c _ \<longleftrightarrow> True"

definition client_durable :: "externals \<Rightarrow> 'p world \<Rightarrow> 'p client \<Rightarrow> bool" where
  "client_durable X w c \<longleftrightarrow> well_formed_intent X (cl_intent c) \<and> courteous X (cl_host c) \<and>
     pc_durable X w c (cl_pc c)"

lemma has_row_stays:
  assumes "journal_step (w_db w) (w_db w')" and "has_row X w eid intent"
  shows "has_row X w' eid intent"
proof -
  obtain r where r: "r \<in> set (t_intents (w_db w))" "row_of X eid intent r"
    "i_input_hash r = hash_str (ci_input_hash intent)"
    using assms(2) unfolding has_row_def by blast
  obtain r' where r': "r' \<in> set (t_intents (w_db w'))" "intent_advances r r'"
    using journal_step_row [OF assms(1) r(1)] .
  have "i_input_hash r' = i_input_hash r" using r'(2) by (auto simp: intent_advances_def)
  with r r' row_of_stays show ?thesis unfolding has_row_def by metis
qed

lemma receipt_stays:
  assumes "journal_step (w_db w) (w_db w')" and "journal_inv (w_db w')" and "grows (w_fs w) (w_fs w')"
    and "receipt_ok X w c rc"
  shows "receipt_ok X w' c rc"
  using assms(4) committed_stays [OF assms(1,2)] blob_read_grows [OF assms(3)]
  unfolding receipt_ok_def by metis

lemma client_durable_stays:
  assumes "journal_step (w_db w) (w_db w')" and "journal_inv (w_db w')" and "grows (w_fs w) (w_fs w')"
    and "client_durable X w c"
  shows "client_durable X w' c"
proof -
  have "pc_durable X w c p \<Longrightarrow> pc_durable X w' c p" for p
    using committed_stays [OF assms(1,2)] has_row_stays [OF assms(1)] receipt_stays [OF assms(1-3)]
    by (cases p) (auto split: sum.splits)
  with assms(4) show ?thesis by (simp add: client_durable_def)
qed

lemma well_formed_hash:
  assumes "well_formed_intent X intent"
  shows "\<exists>bs. ci_input_hash intent = blob_hash_digest X bs"
  using assms by (auto simp: well_formed_intent_def canonical_intent_new_def rbind_eq_Inr Let_def)

text \<open>A committing step leaves a row that is found again and a receipt that can be honoured.\<close>

lemma committed_found:
  assumes inv: "journal_inv d" and rows: "rows_readable X d" and X: "sha256_sized X"
    and res: "resolved X eid ''succeeded'' (Some (blob_hash_digest X bs)) d d'"
    and r: "r \<in> set (t_intents d)" "row_of X eid intent r" "i_input_hash r = hash_str (ci_input_hash intent)"
  obtains s where "find_in_transaction X (ci_operation_id intent) d' = Inr (Some s)"
    "es_state s = EffCommitted" "es_input_hash s = ci_input_hash intent"
    "es_result_hash s = Some (blob_hash_digest X bs)"
proof -
  let ?f = "\<lambda>now err i. i\<lparr>i_state := ''succeeded'', i_result_hash := map_option hash_str (Some (blob_hash_digest X bs)),
      i_error_json := err, i_resolved_at := Some now, i_revision := i_revision i + 1\<rparr>"
  obtain now err r1 where rows': "t_intents d' =
      map (\<lambda>i. if i_id i = id_to_string X eid \<and> i_state i = ''dispatched'' then ?f now err i else i) (t_intents d)"
    and r1: "r1 \<in> set (t_intents d)" "i_id r1 = id_to_string X eid" "i_state r1 = ''dispatched''"
    using res unfolding resolved_def by blast
  have "distinct (map i_id (t_intents d))" using inv by (simp add: journal_inv_def)
  then have "r1 = r" using r1(1) r(1) by (rule distinct_key_eq) (use r(2) r1(2) in \<open>simp add: row_of_def\<close>)
  with r1 have rd: "i_id r = id_to_string X eid" "i_state r = ''dispatched''" by simp_all
  define r' where "r' = ?f now err r"
  have r'_in: "r' \<in> set (t_intents d')"
    unfolding rows' set_map by (rule image_eqI [OF _ r(1)]) (simp add: rd r'_def)
  have "journal_inv d'" using resolved_journal(2) [OF res] inv by simp
  then have "by_key i_operation_id (op_str (ci_operation_id intent)) (t_intents d') = Some r'"
    using r'_in r(2) by (simp add: by_key_eq_Some journal_inv_def r'_def row_of_def)
  moreover have "rows_readable X d'"
    by (rule resolved_readable [OF res _ _ X rows]) (simp, auto simp: digest_or_none_def)
  then obtain s where s: "decode_snapshot X r' = Inr s"
    using r'_in unfolding rows_readable_def readable_def by blast
  ultimately have "find_in_transaction X (ci_operation_id intent) d' = Inr (Some s)" by (auto simp: find_Some)
  with that decode_snapshot_fields [OF s] r(3) show ?thesis
    unfolding parse_current_state_Inr by (simp add: r'_def hash_str_eq)
qed

lemma finish_receipt:
  assumes inv: "journal_inv (w_db w)" and rows: "rows_readable X (w_db w)" and X: "sha256_sized X"
    and dur: "client_durable X w c" and pc: "cl_pc c = AtResolve eid outcome"
    and run: "finish_dispatch X (cl_gateway c) (cl_host c) eid (cl_intent c) fault outcome w = (Inr rc, w')"
  shows "receipt_ok X w' c rc"
proof -
  let ?i = "cl_intent c"
  obtain m v where res: "resolved X eid ''succeeded'' (Some (rc_result_hash rc)) (w_db w) (w_db w')"
    and put: "blob_put X (gw_blobs (cl_gateway c)) (ho_result_env (cl_host c)) (ho_fs_clock (cl_host c))
       (fst (ho_result_uuids (cl_host c))) (snd (ho_result_uuids (cl_host c))) (rc_result rc) v (w_fs w)
       = (Inr m, w_fs w')"
    and h: "rc_result_hash rc = blob_hash_digest X (rc_result rc)"
    and ids: "rc_operation_id rc = ci_operation_id ?i" "rc_input_hash rc = ci_input_hash ?i"
    by (rule finish_dispatch_receipt [OF run]) blast
  have "has_row X w eid ?i" using dur pc by (simp add: client_durable_def)
  then obtain r where r: "r \<in> set (t_intents (w_db w))" "row_of X eid ?i r"
    "i_input_hash r = hash_str (ci_input_hash ?i)" unfolding has_row_def by blast
  obtain s where "find_in_transaction X (ci_operation_id ?i) (w_db w') = Inr (Some s)"
    "es_state s = EffCommitted" "es_input_hash s = ci_input_hash ?i" "es_result_hash s = Some (rc_result_hash rc)"
    using committed_found [OF inv rows X res [unfolded h] r] unfolding h by blast
  moreover have "\<exists>bs. blob_read X (gw_blobs (cl_gateway c)) (rc_result_hash rc) (w_fs w') = Inr bs"
    unfolding h
  proof (rule blob_put_readable [OF _ _ put])
    show "polite (own_temporaries X (ho_result_uuids (cl_host c))) (ho_result_env (cl_host c))"
      using dur by (simp add: client_durable_def courteous_def)
  qed (auto simp: own_temporaries_def)
  ultimately show ?thesis using ids h unfolding receipt_ok_def by blast
qed

lemma replay_receipt:
  assumes "pc_durable X w c (AtReplay s)" and "resolve_existing X (cl_gateway c) (cl_intent c) s w = (Inr rc, w')"
  shows "receipt_ok X w c rc"
proof -
  from assms(2) have s: "es_input_hash s = ci_input_hash (cl_intent c)" "es_state s = EffCommitted"
    by (auto simp: resolve_existing_def result_simps split: if_splits)
  from assms(2) s obtain h bs where h: "es_result_hash s = Some h"
    and bs: "blob_read X (gw_blobs (cl_gateway c)) h (w_fs w) = Inr bs"
    and rc: "rc = \<lparr>rc_operation_id = ci_operation_id (cl_intent c), rc_input_hash = ci_input_hash (cl_intent c),
               rc_result_hash = h, rc_result = bs, rc_replayed = True\<rparr>"
    by (auto simp: resolve_existing_def result_simps on_blobs_def fpure_def split: option.splits)
  have "blob_hash_digest X bs = h" by (rule blobs.read_verified [OF bs])
  with assms(1) s h bs show ?thesis by (auto simp: receipt_ok_def rc)
qed

lemma fresh_readable:
  assumes "uuid_codec X" and "sha256_sized X" and "well_formed_intent X intent"
    and "fresh_row X cid intent r" and "row_of X eid intent r"
    and "i_state r \<in> {''prepared'', ''denied''}"
  shows "readable X r"
proof -
  obtain bs where h: "ci_input_hash intent = blob_hash_digest X bs" using well_formed_hash [OF assms(3)] by blast
  show ?thesis
    using assms(1,4-6) digest_text [OF assms(2), of bs]
    unfolding readable_iff fresh_row_def row_of_def by (auto simp: h id_to_string_def)
qed

lemma dispatched_readable:
  assumes "t_intents d' = map (\<lambda>i. if P i then i\<lparr>i_state := ''dispatched'', i_dispatched_at := t,
      i_revision := i_revision i + 1\<rparr> else i) (t_intents d)" and "rows_readable X d"
  shows "rows_readable X d'"
proof -
  have "readable X (i\<lparr>i_state := ''dispatched'', i_dispatched_at := t, i_revision := i_revision i + 1\<rparr>)"
    if "readable X i" for i using that by (intro readable_advance) (auto simp: readable_iff)
  with assms(2) show ?thesis
    unfolding rows_readable_def assms(1) set_map by (intro ballI) (elim imageE, simp)
qed

lemma client_step_readable:
  assumes X: "uuid_codec X" "sha256_sized X" and wf: "well_formed_intent X (cl_intent c)"
    and rows: "rows_readable X (w_db w)"
    and step: "client_step X c w = (c', w')" and auth: "authorizer_contract (gw_authorizer (cl_gateway c))"
  shows "rows_readable X (w_db w')"
  using step auth
proof (cases rule: client_step_cases)
  case idle
  with rows show ?thesis by simp
next
  case (persist r d1 decision cid blob)
  then have "i_state r \<in> {''prepared'', ''denied''}" by blast
  then have "readable X r" by (rule fresh_readable [OF X wf persist(12,5)])
  with rows show ?thesis by (auto simp: rows_readable_def persist(2))
next
  case (dispatched eid r)
  from dispatched_readable [OF dispatched(6) rows] show ?thesis .
next
  case (invoked eid)
  with rows show ?thesis by simp
next
  case (settled eid)
  show ?thesis
  proof (cases "w_db w' = w_db w")
    case False
    with settled obtain st rh where "resolved X eid st rh (w_db w) (w_db w')"
      "st \<in> {''succeeded'', ''failed'', ''unknown''}" "digest_or_none X rh" unfolding settles_def by blast
    then show ?thesis by (rule resolved_readable [OF _ _ _ X(2) rows])
  qed (simp add: rows)
qed

text \<open>One step of a client keeps that client's promises.\<close>

lemma pc_durable_cong: "cl_gateway c' = cl_gateway c \<Longrightarrow> cl_intent c' = cl_intent c \<Longrightarrow>
    pc_durable X w c' p = pc_durable X w c p"
  by (cases p) (auto simp: receipt_ok_def split: sum.splits)

lemma client_step_durable:
  assumes X: "sha256_sized X" and dur: "client_durable X w c" and rows: "rows_readable X (w_db w)"
    and inv: "journal_inv (w_db w)" and step: "client_step X c w = (c', w')"
    and auth: "authorizer_contract (gw_authorizer (cl_gateway c))"
  shows "client_durable X w' c'"
proof -
  note fields = client_step_fields [OF step]
  have js: "journal_step (w_db w) (w_db w')" "journal_inv (w_db w')"
    using client_step_journal [OF step auth inv] by blast+
  have old: "pc_durable X w c (cl_pc c)" and hosts: "well_formed_intent X (cl_intent c)" "courteous X (cl_host c)"
    using dur by (simp_all add: client_durable_def)
  have "pc_durable X w' c (cl_pc c')"
  proof (cases "cl_pc c")
    case AtFind
    with step show ?thesis
      by (auto simp: client_step_def Let_def goto_def on_db_read_def gw_find_def rbind_eq_Inr
          split: sum.splits option.splits)
  next
    case AtPut
    with step show ?thesis by (auto simp: client_step_def Let_def goto_def split: prod.splits sum.splits)
  next
    case (AtPersist blob)
    let ?f = "authorize_and_persist X (gw_authorizer (cl_gateway c)) (ho_persist_poisoned (cl_host c))
        (ho_persist_clock (cl_host c)) (ho_effect_id (cl_host c)) (cl_intent c) blob"
    from step AtPersist obtain r where tx: "in_tx ?f w = (r, w')"
      and c': "cl_pc c' = (case r of Inl e \<Rightarrow> Finished (Inl e) | Inr created \<Rightarrow> (case created of
              Created eid \<Rightarrow> AtPrepared eid
            | CreateDenied \<Rightarrow> Finished (Inl (GAuthorizationDenied (ci_operation_id (cl_intent c))))
            | CreateExisting existing \<Rightarrow> AtReplay existing))"
      by (auto simp: client_step_def Let_def goto_def split: prod.splits)
    from tx show ?thesis
    proof (cases rule: in_tx_cases)
      case (error e)
      with c' show ?thesis by simp
    next
      case (ok res d')
      show ?thesis
      proof (rule authorizer_contract.persist_cases [OF auth ok(1)], goal_cases existing new)
        case (existing snapshot)
        with ok c' show ?thesis by simp
      next
        case (new decision d1 cid st row)
        have "row \<in> set (t_intents (w_db w'))" using new(4) ok(3) by simp
        with new(5,7,12) have "has_row X w' (ho_effect_id (cl_host c)) (cl_intent c)"
          unfolding has_row_def row_of_def by blast
        with new(3) ok(2) c' show ?thesis by auto
      qed
    qed
  next
    case (AtReplay s)
    then obtain r where r: "resolve_existing X (cl_gateway c) (cl_intent c) s w = (r, w')" "cl_pc c' = Finished r"
      using step by (auto simp: client_step_def Let_def finish_def split: prod.splits)
    with replay_receipt [of X w c s] old AtReplay resolve_existing_world [OF r(1)] show ?thesis
      by (cases r) auto
  next
    case (AtPrepared eid)
    then have "has_row X w' eid (cl_intent c)" using old has_row_stays [OF js(1)] by simp
    with AtPrepared step show ?thesis
      by (auto simp: client_step_def Let_def goto_def finish_def werr_def split: prod.splits sum.splits if_splits)
  next
    case (AtInvoke eid)
    then have "has_row X w' eid (cl_intent c)" using old has_row_stays [OF js(1)] by simp
    with AtInvoke step show ?thesis
      by (auto simp: client_step_def Let_def goto_def finish_def wbind_def werr_def
          split: prod.splits sum.splits if_splits)
  next
    case (AtResolve eid outcome)
    then obtain r where r: "finish_dispatch X (cl_gateway c) (cl_host c) eid (cl_intent c) (cl_fault c) outcome w
        = (r, w')" "cl_pc c' = Finished r"
      using step by (auto simp: client_step_def Let_def finish_def split: prod.splits)
    with finish_receipt [OF inv rows X dur AtResolve] show ?thesis by (cases r) auto
  next
    case (Finished r)
    with step have "c' = c" "w' = w" by (simp_all add: client_step_def Let_def)
    with old show ?thesis by simp
  qed
  then have "pc_durable X w' c' (cl_pc c')" using pc_durable_cong [OF fields(1,2)] by blast
  with hosts show ?thesis unfolding client_durable_def fields by blast
qed

section \<open>The durable system\<close>

fun durable_inv :: "externals \<Rightarrow> 'p client list \<times> 'p world \<Rightarrow> bool" where
  "durable_inv X (cs, w) \<longleftrightarrow> rows_readable X (w_db w) \<and> (\<forall>c \<in> set cs. client_durable X w c)"

lemma durable_inv_step:
  assumes A: "\<And>a. a \<in> A \<Longrightarrow> authorizer_contract a" and X: "uuid_codec X" "sha256_sized X"
    and step: "system_step X A s s'" and sys: "system_inv X A s" and dur: "durable_inv X s"
  shows "durable_inv X s'"
  using step
proof cases
  case (spawn c cs w)
  with dur show ?thesis by (auto simp: client_durable_def)
next
  case (client i cs w c w')
  have ok: "client_ok X A w (cs ! i)" and j: "journal_inv (w_db w)" and d: "client_durable X w (cs ! i)"
    and rows: "rows_readable X (w_db w)"
    using sys dur client(1,3) by simp_all
  have auth: "authorizer_contract (gw_authorizer (cl_gateway (cs ! i)))"
    using ok by (intro A) (simp add: client_ok_def)
  have js: "journal_step (w_db w) (w_db w')" "journal_inv (w_db w')"
    using client_step_journal [OF client(4) auth j] by blast+
  have g: "grows (w_fs w) (w_fs w')" using d by (intro client_step_grows [OF _ client(4)]) (simp add: client_durable_def)
  have "rows_readable X (w_db w')"
    using d by (intro client_step_readable [OF X _ rows client(4) auth]) (simp add: client_durable_def)
  moreover have "client_durable X w' c" by (rule client_step_durable [OF X(2) d rows j client(4) auth])
  moreover have "\<forall>x \<in> set cs. client_durable X w' x"
    using dur client(1) client_durable_stays [OF js g] by simp
  ultimately show ?thesis
    using client(2) set_update_subset_insert [of cs i c] by auto
next
  case (service cs w op)
  let ?w = "w\<lparr>w_db := service_step X op (w_db w)\<rparr>"
  have same: "t_intents (service_step X op (w_db w)) = t_intents (w_db w)"
    using service_step_journal [of "w_db w" X op] by (simp add: same_journal_def)
  have "journal_inv (w_db ?w)" using sys service(1) by (simp add: journal_inv_def same)
  moreover have "journal_step (w_db w) (w_db ?w)" by (rule journal_step_same) (simp add: same)
  moreover have "\<forall>c \<in> set cs. client_durable X w c" "rows_readable X (w_db w)" using dur service(1) by simp_all
  ultimately have "\<forall>c \<in> set cs. client_durable X ?w c" "rows_readable X (w_db ?w)"
    using client_durable_stays [of w ?w] by (simp_all add: rows_readable_def same)
  then show ?thesis unfolding service(2) durable_inv.simps by blast
next
  case (files w t cs)
  let ?w = "w\<lparr>w_fs := t\<rparr>"
  have "\<forall>c \<in> set cs. client_durable X w c" "rows_readable X (w_db w)" "journal_inv (w_db w)"
    using dur sys files(1) by simp_all
  moreover have "journal_step (w_db w) (w_db ?w)" by (rule journal_step_same) simp
  ultimately have "\<forall>c \<in> set cs. client_durable X ?w c" "rows_readable X (w_db ?w)"
    using client_durable_stays [of w ?w] files(3) by simp_all
  then show ?thesis unfolding files(2) durable_inv.simps by blast
qed

lemma durable_run:
  assumes A: "\<And>a. a \<in> A \<Longrightarrow> authorizer_contract a" and X: "uuid_codec X" "sha256_sized X"
    and run: "system_run X A s s'" and sys: "system_inv X A s" and dur: "durable_inv X s"
  shows "system_inv X A s' \<and> durable_inv X s'"
  using run sys dur
proof induction
  case base
  then show ?case by simp
next
  case (step y z)
  then have "system_inv X A y" "durable_inv X y" by simp_all
  with step(2) show ?case using durable_inv_step [OF A X] system_inv_step [OF A] by blast
qed

end
