(* ===== verification/Epoch_Gateway_Example.thy ===== *)
theory Epoch_Gateway_Example
  imports Epoch_Durability Epoch_Example
begin

text \<open>
  A concrete gateway for the witnesses: the local dispatcher behind the delegated capability of
  \<open>example_delegated\<close>, and one complete call of \<open>execute\<close> as a run of the system.
\<close>

definition example_intent :: canonical_intent where
  "example_intent = projr (canonical_intent_new example_externals example_session example_branch
     ''k1'' ''fs.write'' ''repo'' (JObject []) 1)"

definition example_ca :: capability_authorizer where
  "example_ca = \<lparr>ca_handle = example_handle (CHR ''q''), ca_subject = ''agent'', ca_budget_units = 25\<rparr>"

definition example_gateway :: "local_dispatcher gateway" where
  "example_gateway = \<lparr>gw_blobs = example_store,
     gw_authorizer = capability_authorize example_externals 40 7 example_ca, gw_dispatcher = local_dispatch\<rparr>"

definition example_host :: host where
  "example_host = \<lparr>ho_find_poisoned = False, ho_persist_poisoned = False, ho_dispatch_poisoned = False,
     ho_resolve_poisoned = False, ho_persist_clock = 40, ho_dispatch_clock = 41, ho_resolve_clock = 42,
     ho_effect_id = DomainId 9, ho_attempt_id = 10, ho_input_env = quiet, ho_input_uuids = (11, 12),
     ho_result_env = quiet, ho_result_uuids = (13, 14), ho_fs_clock = 40\<rparr>"

definition example_world :: "local_dispatcher world" where
  "example_world = \<lparr>w_db = example_delegated, w_fs = opened_fs,
     w_provider = \<lparr>ld_dispatches = 0, ld_committed = []\<rparr>, w_invocations = []\<rparr>"

definition example_run :: "fault_point \<Rightarrow> execution_receipt gw_result \<times> local_dispatcher world" where
  "example_run fault = execute example_externals example_gateway example_host example_intent fault example_world"

definition example_client :: "fault_point \<Rightarrow> local_dispatcher client" where
  "example_client fault = new_client example_gateway example_host example_intent fault"

text \<open>A client running alone is a run of the system.\<close>

lemma run_client_system:
  assumes "run_client X n c w = (c', w')"
  shows "system_run X A ([c], w) ([c'], w')"
  using assms
proof (induction n arbitrary: c w)
  case 0
  then show ?case by simp
next
  case (Suc n)
  obtain c1 w1 where step: "client_step X c w = (c1, w1)" by (cases "client_step X c w")
  have "system_step X A ([c], w) ([c][0 := c1], w1)" by (rule system_step.client) (use step in simp_all)
  then have "system_step X A ([c], w) ([c1], w1)" by simp
  moreover have "system_run X A ([c1], w1) ([c'], w')" by (rule Suc.IH) (use Suc.prems step in simp)
  ultimately show ?case by (rule converse_rtranclp_into_rtranclp)
qed

lemma example_intent_well_formed: "well_formed_intent example_externals example_intent"
proof -
  let ?i = "canonical_intent_new example_externals example_session example_branch ''k1'' ''fs.write'' ''repo''
     (JObject []) 1"
  have "\<not> isl ?i" by code_simp
  then have "?i = Inr example_intent" by (simp add: example_intent_def)
  then show ?thesis unfolding well_formed_intent_def by blast
qed

lemma example_system_run:
  assumes "gw_authorizer example_gateway \<in> A"
  shows "system_run example_externals A ([], example_world)
    ([(example_client fault)\<lparr>cl_pc := Finished (fst (example_run fault))\<rparr>], snd (example_run fault))"
proof -
  let ?c = "example_client fault"
  have "system_step example_externals A ([], example_world) ([] @ [?c], example_world)"
  proof (rule system_step.spawn)
    show "courteous example_externals (cl_host ?c)"
      by (simp add: example_client_def new_client_def example_host_def courteous_def quiet_polite)
    show "well_formed_intent example_externals (cl_intent ?c)"
      using example_intent_well_formed by (simp add: example_client_def new_client_def)
  qed (use assms in \<open>simp_all add: example_client_def new_client_def\<close>)
  moreover have "finish ?c (example_run fault) = (?c\<lparr>cl_pc := Finished (fst (example_run fault))\<rparr>, snd (example_run fault))"
    by (simp add: finish_def split_beta)
  then have "run_client example_externals 6 ?c example_world =
      (?c\<lparr>cl_pc := Finished (fst (example_run fault))\<rparr>, snd (example_run fault))"
    using run_client_execute [of example_externals 0 example_gateway example_host example_intent fault example_world]
    by (simp add: example_client_def example_run_def eval_nat_numeral del: run_client.simps)
  from run_client_system [OF this]
  have "system_run example_externals A ([?c], example_world)
      ([?c\<lparr>cl_pc := Finished (fst (example_run fault))\<rparr>], snd (example_run fault))" .
  ultimately show ?thesis by (simp add: converse_rtranclp_into_rtranclp)
qed

lemma example_authorizer: "gw_authorizer example_gateway \<in> capability_authorizers example_externals"
  by (auto simp: example_gateway_def capability_authorizers_def)

text \<open>What the call does, evaluated once.\<close>

lemma example_committed:
  "case example_run NoFault of (r, w) \<Rightarrow>
     \<not> isl r \<and> length (w_invocations w) = 1 \<and> map i_state (t_intents (w_db w)) = [''succeeded''] \<and>
     length (t_authorizations (w_db w)) = 1 \<and> length (t_transitions (w_db w)) = 4"
  by code_simp

end
