(* ===== verification/Epoch_Gateway_Properties.thy ===== *)
theory Epoch_Gateway_Properties
  imports Epoch_Gateway_Example
begin

text \<open>
  What the effect gateway promises for every interleaving of its clients with the capability service
  and with other users of the blob tree; each property with a witness on the concrete gateway of
  \<open>Epoch_Gateway_Example\<close>.
\<close>

section \<open>The whole system\<close>

lemma initial_inv:
  assumes "t_intents (w_db w) = []" and "w_invocations w = []"
  shows "system_inv X A ([], w)" "durable_inv X ([], w)"
  using assms by (simp_all add: journal_inv_def delivered_def exclusive_def rows_readable_def)

lemma reached_inv:
  assumes "\<forall>a \<in> A. authorizer_contract a" and "t_intents (w_db w0) = []" and "w_invocations w0 = []"
    and "system_run X A ([], w0) s"
  shows "system_inv X A s"
  using assms(1) by (intro system_inv_run [OF _ assms(4) initial_inv(1) [OF assms(2,3)]]) blast

lemma example_start: "t_intents (w_db example_world) = []" "w_invocations example_world = []"
  by (simp_all add: example_world_def example_delegated_def example_db_def)

lemma capability_authorizers_ok: "\<forall>a \<in> capability_authorizers X. authorizer_contract a"
  using capability_authorizers_contract by blast

lemmas example_reached = example_system_run [OF example_authorizer]

lemma example_one_invocation: "length (w_invocations (snd (example_run NoFault))) = 1"
  using example_committed by (simp add: split_beta)

text \<open>C1: at most one dispatch per operation. However many clients, in however many processes, execute
  intents concurrently against the shared database, whatever is interleaved between their steps
  (other clients, the capability service, other users of the blob tree), wherever a client crashes
  and however often an operation is retried, the provider is never given the same operation twice.\<close>

theorem at_most_once_dispatch:
  assumes "\<forall>a \<in> A. authorizer_contract a" and "t_intents (w_db w0) = []" and "w_invocations w0 = []"
    and "system_run X A ([], w0) (cs, w)"
  shows "distinct (map dr_operation_id (w_invocations w))"
  using reached_inv [OF assms] by (simp add: delivered_def)

theorem at_most_once_dispatch_witness:
  "distinct (map dr_operation_id (w_invocations (snd (example_run NoFault)))) \<and>
   length (w_invocations (snd (example_run NoFault))) = 1"
  using at_most_once_dispatch [OF capability_authorizers_ok example_start example_reached] example_one_invocation
  by blast

text \<open>C2: nothing is dispatched without durable authority. In every reachable state of a system whose
  gateways use the capability authorizer, each request the provider was given has an intent row that
  was recorded as dispatched, and the database holds an authorization of that row's capability for
  exactly this operation and this input.\<close>

theorem dispatch_was_authorized:
  assumes "uuid_codec X" and "cap_inv X (w_db w0)" and "t_intents (w_db w0) = []" and "w_invocations w0 = []"
    and "system_run X (capability_authorizers X) ([], w0) (cs, w)" and "q \<in> set (w_invocations w)"
  shows "\<exists>r \<in> set (t_intents (w_db w)). i_operation_id r = op_str (dr_operation_id q) \<and>
    i_state r \<notin> {''prepared'', ''denied''} \<and> covered (w_db w) r"
proof -
  have auth: "authority_inv X (w_db (snd ([] :: 'a client list, w0)))"
    using assms(2,3) by (simp add: authority_inv_def)
  have inv: "system_inv X (capability_authorizers X) (cs, w)" "authority_inv X (w_db w)"
    using authority_inv_run [OF assms(1,5) initial_inv(1) [OF assms(3,4)] auth] by simp_all
  obtain r where "r \<in> set (t_intents (w_db w))" "i_operation_id r = op_str (dr_operation_id q)" "sent r"
    using inv(1) assms(6) by (auto simp: delivered_def)
  with inv(2) show ?thesis by (auto simp: authority_inv_def sent_def)
qed

lemma example_world_inv: "cap_inv example_externals (w_db example_world)"
  by code_simp

theorem dispatch_was_authorized_witness:
  "\<exists>r \<in> set (t_intents (w_db (snd (example_run NoFault)))).
     i_operation_id r = op_str (dr_operation_id (hd (w_invocations (snd (example_run NoFault))))) \<and>
     i_state r \<notin> {''prepared'', ''denied''} \<and> covered (w_db (snd (example_run NoFault))) r"
  by (rule dispatch_was_authorized [OF example_codec example_world_inv example_start example_reached])
    (use example_one_invocation in \<open>simp add: hd_in_set length_greater_0_conv [symmetric] del: length_greater_0_conv\<close>)

text \<open>C5: authority is conserved by the whole system. From any consistent database, whatever gateway
  clients and service callers do concurrently, the capability invariant holds in every reachable state
  and, for every capability that existed at the start, what is left of its budget and uses plus what
  was authorized through it and its descendants is unchanged.\<close>

theorem system_conserves_authority:
  assumes "uuid_codec X" and "cap_inv X (w_db w0)" and "t_intents (w_db w0) = []" and "w_invocations w0 = []"
    and "system_run X (capability_authorizers X) ([], w0) (cs, w)" and "i \<in> cap_ids (w_db w0)"
  shows "cap_inv X (w_db w) \<and> budget_account (w_db w) i = budget_account (w_db w0) i \<and>
    uses_account (w_db w) i = uses_account (w_db w0) i"
proof -
  have auth: "authority_inv X (w_db (snd ([] :: 'a client list, w0)))"
    using assms(2,3) by (simp add: authority_inv_def)
  have inv: "authority_inv X (w_db w)" "cap_evolves (w_db w0) (w_db w)"
    using authority_inv_run [OF assms(1,5) initial_inv(1) [OF assms(3,4)] auth] by simp_all
  have "same_accounts (w_db w0) (w_db w)" using inv(2) by (simp add: cap_evolves_def)
  from same_accountsD [OF this assms(6)] inv(1) show ?thesis by (simp add: authority_inv_def)
qed

theorem system_conserves_authority_witness:
  "cap_inv example_externals (w_db (snd (example_run NoFault))) \<and>
   budget_account (w_db (snd (example_run NoFault))) ''11'' = Some (Some 100)"
proof -
  have "''11'' \<in> cap_ids (w_db example_world)" "budget_account (w_db example_world) ''11'' = Some (Some 100)"
    by code_simp+
  with system_conserves_authority [OF example_codec example_world_inv example_start example_reached] show ?thesis
    by metis
qed

text \<open>C3: a receipt is good for ever. In every reachable state, if some client's call returned a receipt,
  then executing the same intent again, by any gateway over the same blob store and with any fault
  setting, returns that receipt marked as replayed, with bytes of the same digest, and changes
  nothing: no dispatch, no authorization, no file.\<close>

theorem receipts_are_replayed:
  assumes "\<forall>a \<in> A. authorizer_contract a" and "uuid_codec X" and "sha256_sized X"
    and "t_intents (w_db w0) = []" and "w_invocations w0 = []" and "system_run X A ([], w0) (cs, w)"
    and "c \<in> set cs" and "cl_pc c = Finished (Inr rc)"
    and "gw_blobs g = gw_blobs (cl_gateway c)" and "\<not> ho_find_poisoned ho"
  shows "\<exists>bs. execute X g ho (cl_intent c) fault w = (Inr (rc\<lparr>rc_result := bs, rc_replayed := True\<rparr>), w) \<and>
    blob_hash_digest X bs = blob_hash_digest X (rc_result rc)"
proof -
  have A: "\<And>a. a \<in> A \<Longrightarrow> authorizer_contract a" using assms(1) by blast
  have "durable_inv X (cs, w)"
    using durable_run [OF A assms(2,3,6) initial_inv [OF assms(4,5)]] by blast
  then have ok: "receipt_ok X w c rc" using assms(7,8) by (auto simp: client_durable_def)
  then obtain s bs where find: "find_in_transaction X (ci_operation_id (cl_intent c)) (w_db w) = Inr (Some s)"
    and s: "es_input_hash s = ci_input_hash (cl_intent c)" "es_state s = EffCommitted"
      "es_result_hash s = Some (rc_result_hash rc)"
    and bs: "blob_read X (gw_blobs (cl_gateway c)) (rc_result_hash rc) (w_fs w) = Inr bs"
    unfolding receipt_ok_def by blast
  have "execute X g ho (cl_intent c) fault w = resolve_existing X g (cl_intent c) s w"
    using assms(10) find by (simp add: execute_def wbind_def on_db_read_def gw_find_def gw_lock_def)
  also have "\<dots> = (Inr (rc\<lparr>rc_result := bs, rc_replayed := True\<rparr>), w)"
    using s bs assms(9) ok
    by (simp add: resolve_existing_def wbind_def on_blobs_def fpure_def wok_def map_err_def receipt_ok_def)
  finally show ?thesis using blobs.read_verified [OF bs] ok by (auto simp: receipt_ok_def)
qed

theorem receipts_are_replayed_witness:
  "\<exists>bs. execute example_externals example_gateway example_host example_intent NoFault (snd (example_run NoFault)) =
     (Inr ((projr (fst (example_run NoFault)))\<lparr>rc_result := bs, rc_replayed := True\<rparr>), snd (example_run NoFault)) \<and>
   blob_hash_digest example_externals bs =
     blob_hash_digest example_externals (rc_result (projr (fst (example_run NoFault))))"
proof -
  let ?c = "(example_client NoFault)\<lparr>cl_pc := Finished (fst (example_run NoFault))\<rparr>"
  have ok: "cl_pc ?c = Finished (Inr (projr (fst (example_run NoFault))))"
    using example_committed by (simp add: split_beta)
  have "cl_intent ?c = example_intent" "gw_blobs example_gateway = gw_blobs (cl_gateway ?c)"
    "\<not> ho_find_poisoned example_host"
    by (simp_all add: example_client_def new_client_def example_host_def)
  with receipts_are_replayed [OF capability_authorizers_ok example_codec example_sized example_start example_reached
      list.set_intros(1) ok] show ?thesis by metis
qed

section \<open>Outcomes\<close>

lemma system_step_journal:
  assumes A: "\<And>a. a \<in> A \<Longrightarrow> authorizer_contract a" and step: "system_step X A s s'" and inv: "system_inv X A s"
  shows "journal_step (w_db (snd s)) (w_db (snd s'))"
  using step
proof cases
  case (client i cs w c w')
  have ok: "client_ok X A w (cs ! i)" and j: "journal_inv (w_db w)" using inv client(1,3) by simp_all
  have "authorizer_contract (gw_authorizer (cl_gateway (cs ! i)))" using ok by (intro A) (simp add: client_ok_def)
  from client_step_journal [OF client(4) this j] client(1,2) show ?thesis by simp
next
  case (service cs w op)
  then show ?thesis using service_step_journal [of "w_db w" X op]
    by (intro journal_step_same) (simp add: same_journal_def)
qed (simp_all add: journal_step_same)

text \<open>C26: an outcome is final. Once an operation is recorded as denied, succeeded, failed or unknown, its
  row (outcome, result, error and every other column) is the same in every later state of the system:
  no retry, no other client and no service call reopens it.\<close>

theorem outcome_is_final:
  assumes "\<forall>a \<in> A. authorizer_contract a" and "t_intents (w_db w0) = []" and "w_invocations w0 = []"
    and "system_run X A ([], w0) (cs, w)" and "system_run X A (cs, w) (cs', w')"
    and "r \<in> set (t_intents (w_db w))" and "i_state r \<in> {''denied'', ''succeeded'', ''failed'', ''unknown''}"
  shows "r \<in> set (t_intents (w_db w'))"
proof -
  have A: "\<And>a. a \<in> A \<Longrightarrow> authorizer_contract a" using assms(1) by blast
  have final: "i_state r \<in> final_states" using assms(7) by (simp only: final_states_def)
  have "system_inv X A s \<and> r \<in> set (t_intents (w_db (snd s)))" if "system_run X A (cs, w) s" for s
    using that
  proof induction
    case base
    show ?case using reached_inv [OF assms(1-4)] assms(6) by simp
  next
    case (step y z)
    with system_inv_step [OF A step(2)] final_row_stays [OF system_step_journal [OF A step(2)] _ final]
    show ?case by blast
  qed
  from this [OF assms(5)] show ?thesis by simp
qed

theorem outcome_is_final_witness:
  "hd (t_intents (w_db (snd (example_run NoFault)))) \<in> set (t_intents (w_db (snd (example_run NoFault))))"
proof (rule outcome_is_final [OF capability_authorizers_ok example_start example_reached rtranclp.rtrancl_refl])
  obtain r rs where rows: "t_intents (w_db (snd (example_run NoFault))) = r # rs" and "i_state r = ''succeeded''"
    using example_committed by (auto simp: split_beta)
  then show "hd (t_intents (w_db (snd (example_run NoFault)))) \<in> set (t_intents (w_db (snd (example_run NoFault))))"
    "i_state (hd (t_intents (w_db (snd (example_run NoFault))))) \<in> {''denied'', ''succeeded'', ''failed'', ''unknown''}"
    by simp_all
qed

text \<open>C27: stored operations stay readable. In every reachable state, looking up any operation succeeds
  (with a snapshot or with nothing): no sequence of calls leaves a row that the decoder rejects.\<close>

theorem journal_always_readable:
  assumes "\<forall>a \<in> A. authorizer_contract a" and "uuid_codec X" and "sha256_sized X"
    and "t_intents (w_db w0) = []" and "w_invocations w0 = []" and "system_run X A ([], w0) (cs, w)"
  shows "\<exists>found. gw_find X False operation (w_db w) = Inr found"
proof -
  have A: "\<And>a. a \<in> A \<Longrightarrow> authorizer_contract a" using assms(1) by blast
  have rows: "rows_readable X (w_db w)"
    using durable_run [OF A assms(2,3,6) initial_inv [OF assms(4,5)]] by simp
  show ?thesis
  proof (cases "by_key i_operation_id (op_str operation) (t_intents (w_db w))")
    case None
    then show ?thesis by (simp add: gw_find_def gw_lock_def find_in_transaction_def)
  next
    case (Some r)
    then have "readable X r" using rows by_key_eq_SomeD [OF Some] by (simp add: rows_readable_def)
    with Some show ?thesis
      by (auto simp: gw_find_def gw_lock_def find_in_transaction_def readable_def option_try_eq_Inr)
  qed
qed

theorem journal_always_readable_witness:
  "\<exists>found. gw_find example_externals False (ci_operation_id example_intent) (w_db (snd (example_run NoFault)))
     = Inr found"
  by (rule journal_always_readable [OF capability_authorizers_ok example_codec example_sized example_start
      example_reached])

section \<open>Single calls\<close>


definition example_other_input :: canonical_intent where
  "example_other_input = example_intent\<lparr>ci_input_hash := BlobHash (replicate 64 (CHR ''0''))\<rparr>"

lemma example_row_differs:
  "case example_run NoFault of (r, w) \<Rightarrow>
     (case by_key i_operation_id (op_str (ci_operation_id example_other_input)) (t_intents (w_db w)) of
        None \<Rightarrow> False
      | Some i \<Rightarrow> \<not> isl (decode_snapshot example_externals i) \<and>
          i_input_hash i \<noteq> hash_str (ci_input_hash example_other_input))"
  by code_simp


end
