(* ===== verification/Epoch_Gateway_Call_Properties.thy ===== *)
theory Epoch_Gateway_Call_Properties
  imports Epoch_Gateway_Properties
begin

text \<open>
  What single calls and transactions of the effect gateway do: an unknown outcome, the joint commit of
  authorization and intent, the recorded history of an operation, and two places where the code does
  less than it means to.
\<close>

section \<open>Unknown outcomes\<close>

text \<open>C30: an outcome that is not known suspends the branch. When \<open>mark_unknown\<close> succeeds, the intent is
  recorded as unknown, the branch it belongs to is suspended, no capability table changes, and every
  other intent is as it was.\<close>

theorem unknown_outcome_suspends_branch:
  assumes "journal_inv d" and "mark_unknown X poisoned clock eid k boundary d = Inr (u, d')"
  shows "\<exists>r \<in> set (t_intents d'). i_id r = id_to_string X eid \<and> i_state r = ''unknown'' \<and>
     (\<exists>b \<in> set (t_branches d'). b_id b = i_branch_id r \<and> b_state b = ''suspended'') \<and>
     same_capabilities d d' \<and> (\<forall>x \<in> set (t_intents d). i_id x \<noteq> id_to_string X eid \<longrightarrow> x \<in> set (t_intents d'))"
proof -
  obtain d4 where d4: "resolved X eid ''unknown'' None d d4" "suspend_branch X eid clock d4 = Inr d'"
    by (rule mark_unknown_Inr [OF assms(2)]) blast
  have res: "resolved X eid ''unknown'' None d d'" by (rule mark_unknown_resolved [OF assms(2)])
  obtain now err r0 where rows: "t_intents d' =
      map (\<lambda>i. if i_id i = id_to_string X eid \<and> i_state i = ''dispatched''
        then i\<lparr>i_state := ''unknown'', i_result_hash := map_option hash_str None, i_error_json := err,
               i_resolved_at := Some now, i_revision := i_revision i + 1\<rparr> else i) (t_intents d)"
    and r0: "r0 \<in> set (t_intents d)" "i_id r0 = id_to_string X eid" "i_state r0 = ''dispatched''"
    and caps: "same_capabilities d d'"
    using res unfolding resolved_def by blast
  define r where "r = r0\<lparr>i_state := ''unknown'', i_result_hash := map_option hash_str None, i_error_json := err,
      i_resolved_at := Some now, i_revision := i_revision r0 + 1\<rparr>"
  have r: "r \<in> set (t_intents d')" "i_id r = id_to_string X eid" "i_state r = ''unknown''"
    unfolding rows set_map by (rule image_eqI [OF _ r0(1)]) (simp_all add: r0 r_def)
  obtain brs where d': "d' = d4\<lparr>t_branches := brs\<rparr>" using suspend_branch_Inr [OF d4(2)] by blast
  have "journal_inv d'" using resolved_journal(2) [OF res] assms(1) by simp
  then have key: "by_key i_id (id_to_string X eid) (t_intents d4) = Some r"
    using r d' by (simp add: by_key_eq_Some journal_inv_def)
  from d4(2) obtain rows' where upd: "sql_update branch_update_ok
      (\<lambda>b. Some (i_branch_id r) = Some (b_id b) \<and> b_state b \<in> {''created'', ''running'', ''suspended'', ''completed''})
      (\<lambda>b. b\<lparr>b_state := ''suspended'', b_updated_at := clock\<rparr>) (t_branches d4) = Some (1, rows')"
    and br: "t_branches d' = rows'"
    unfolding suspend_branch_def key by (auto simp: rbind_eq_Inr gw_sql_def ok_or_eq_Inr split: if_splits)
  obtain b0 where b0: "b0 \<in> set (t_branches d4)" "b_id b0 = i_branch_id r"
    and b: "b0\<lparr>b_state := ''suspended'', b_updated_at := clock\<rparr> \<in> set rows'"
    by (rule update_one [OF upd]) force
  have others: "x \<in> set (t_intents d')" if "x \<in> set (t_intents d)" "i_id x \<noteq> id_to_string X eid" for x
    unfolding rows set_map by (rule image_eqI [OF _ that(1)]) (simp add: that(2))
  have "\<exists>b \<in> set (t_branches d'). b_id b = i_branch_id r \<and> b_state b = ''suspended''"
    unfolding br by (rule bexI [OF _ b]) (simp add: b0)
  with r caps others show ?thesis by blast
qed

definition example_dispatched :: db where
  "example_dispatched = example_db
     \<lparr>t_intents := [\<lparr>i_id = ''1001'', i_session_id = ''1'', i_branch_id = ''01'', i_capability_id = None,
        i_operation_id = ''op'', i_replay_key = ''k1'', i_action = ''fs.write'', i_resource = ''repo'',
        i_input_hash = replicate 64 (CHR ''a''), i_state = ''dispatched'', i_result_hash = None, i_error_json = None,
        i_policy_revision = 1, i_prepared_at = 40, i_dispatched_at = Some 41, i_resolved_at = None,
        i_revision = 1\<rparr>],
      t_attempts := [\<lparr>t_id = ''0101'', t_effect_id = ''1001'', t_attempt_no = 1, t_state = ''started'',
        t_idempotency_key = ''op'', t_response_hash = None, t_error_json = None, t_started_at = 41,
        t_completed_at = None\<rparr>]\<rparr>"

lemma example_mark_unknown:
  "journal_inv example_dispatched \<and>
   \<not> isl (mark_unknown example_externals False 50 (DomainId 9) 1 ''response_not_durable'' example_dispatched)"
  by code_simp

theorem unknown_outcome_suspends_branch_witness:
  "\<exists>d'. mark_unknown example_externals False 50 (DomainId 9) 1 ''response_not_durable'' example_dispatched = Inr ((), d') \<and>
     (\<exists>r \<in> set (t_intents d'). i_state r = ''unknown'' \<and>
       (\<exists>b \<in> set (t_branches d'). b_id b = i_branch_id r \<and> b_state b = ''suspended''))"
proof -
  obtain d' where d': "mark_unknown example_externals False 50 (DomainId 9) 1 ''response_not_durable''
      example_dispatched = Inr ((), d')"
    using example_mark_unknown
    by (cases "mark_unknown example_externals False 50 (DomainId 9) 1 ''response_not_durable'' example_dispatched") auto
  from unknown_outcome_suspends_branch [OF conjunct1 [OF example_mark_unknown] d'] d' show ?thesis by blast
qed

section \<open>Authorization and intent together\<close>

lemma capability_authorize_ledger:
  assumes inv: "cap_inv X d" and run: "capability_authorize X clock did ca request d = Inr (decision, d')"
  shows "(\<exists>cid z. decision = Authorized cid \<and> t_authorizations d' = t_authorizations d @ [z] \<and>
        z_capability_id z = id_to_string X cid \<and> z_request_id z = op_str (ar_operation_id request) \<and>
        z_budget_units z = uint (ca_budget_units ca)) \<or>
     (\<exists>cid. decision = AuthDenied cid \<and> t_authorizations d' = t_authorizations d)"
  using run
proof (rule capability_authorize_Inr)
  fix use dec
  assume use: "capability_use_new (ar_session_id request) (ar_branch_id request) (ca_subject ca)
       (ar_action request) (ar_resource request) (ar_policy_revision request)
       (ca_budget_units ca) (op_str (ar_operation_id request)) (hash_str (ar_input_hash request)) = Inr use"
    and auth: "authorize_and_consume_in_transaction X clock did (ca_handle ca) use d = Inr (dec, d')"
    and decision: "decision = (case (dec_outcome dec, dec_capability_id dec) of
       (Allow, Some cid) \<Rightarrow> Authorized cid | (_, cid) \<Rightarrow> AuthDenied cid)"
  have fields: "use_request_id use = op_str (ar_operation_id request)" "use_budget_units use = ca_budget_units ca"
    using use by (auto simp: capability_use_new_def rbind_eq_Inr split: if_splits)
  from auth show ?thesis
  proof (cases rule: authorize_in_tx_cases)
    case unknown
    then show ?thesis using record_decision_Inr [OF unknown(3)] decision by auto
  next
    case (deny c reason d1)
    have "t_authorizations d1 = t_authorizations d" using evaluate_authority_marked [OF deny(3)] by (auto simp: marked_def)
    then show ?thesis using record_decision_Inr [OF deny(4)] decision by auto
  next
    case (allow c as b d1 z)
    have z: "z_capability_id z = id_to_string X (st_id c)" "z_budget_units z = b" using allow(5) by simp_all
    have "t_authorizations (d1\<lparr>t_authorizations := t_authorizations d1 @ [z]\<rparr>) = t_authorizations d @ [z]"
      unfolding authorize_allow_db(1) [OF inv allow(3,4,6) z] by (simp add: authorized_def)
    moreover have "b = uint (ca_budget_units ca)"
      using allow(3) fields(2) by (auto simp: authority_holds_checks i64_of_u64_Some_iff)
    ultimately show ?thesis using record_decision_Inr [OF allow(7)] decision allow(5) fields(1) by auto
  qed
qed


definition example_blob :: blob_metadata where
  "example_blob = \<lparr>m_hash = ci_input_hash example_intent, m_length = 2,
     m_media_type = ''application/vnd.epoch.effect-intent+json''\<rparr>"

definition example_persist :: "(create_result \<times> db) gw_result" where
  "example_persist = authorize_and_persist example_externals (gw_authorizer example_gateway) False 40 (DomainId 9)
     example_intent example_blob example_delegated"

lemma example_persisted:
  "case example_persist of Inl e \<Rightarrow> False
   | Inr (res, d') \<Rightarrow> length (t_authorizations d') = 1 \<and> length (t_intents d') = 1"
  by code_simp


section \<open>The history of an operation\<close>

lemma execute_chain:
  assumes run: "execute X g ho intent fault w = (Inr rc, w')" and new: "\<not> rc_replayed rc"
    and auth: "authorizer_contract (gw_authorizer g)"
  obtains blob d1 d2 w2 outcome where
    "authorize_and_persist X (gw_authorizer g) (ho_persist_poisoned ho) (ho_persist_clock ho) (ho_effect_id ho)
       intent blob (w_db w) = Inr (Created (ho_effect_id ho), d1)"
    "mark_dispatched X (ho_dispatch_poisoned ho) (ho_dispatch_clock ho) (ho_attempt_id ho) (ho_effect_id ho) intent d1
       = Inr ((), d2)"
    "w_db w2 = d2" "finish_dispatch X g ho (ho_effect_id ho) intent fault outcome w2 = (Inr rc, w')"
proof -
  have no_replay: "\<not> resolve_existing X g intent s v = (Inr rc, w')" for s v
    using new by (auto simp: resolve_existing_def result_simps split: if_splits option.splits)
  let ?f = "\<lambda>blob. authorize_and_persist X (gw_authorizer g) (ho_persist_poisoned ho) (ho_persist_clock ho)
      (ho_effect_id ho) intent blob"
  from run obtain w1 blob created v where put: "w_db w1 = w_db w"
    and tx: "in_tx (?f blob) w1 = (Inr created, v)"
    and rest: "(case created of Created eid \<Rightarrow> dispatch X g ho eid intent fault
       | CreateDenied \<Rightarrow> werr (GAuthorizationDenied (ci_operation_id intent))
       | CreateExisting existing \<Rightarrow> resolve_existing X g intent existing) v = (Inr rc, w')"
    unfolding execute_def
    by (auto simp: result_simps on_db_read_def no_replay split: option.splits) (metis on_blobs_world(1))
  obtain d1 where d1: "?f blob (w_db w) = Inr (created, d1)" "v = w1\<lparr>w_db := d1\<rparr>"
    using tx by (rule in_tx_cases) (auto simp: put)
  have created: "created = Created (ho_effect_id ho)"
    by (rule authorizer_contract.persist_cases [OF auth d1(1)])
      (use rest in \<open>auto simp: no_replay result_simps\<close>)
  from rest [unfolded created] obtain u w2 w3 outcome where
    md: "in_tx (mark_dispatched X (ho_dispatch_poisoned ho) (ho_dispatch_clock ho) (ho_attempt_id ho) (ho_effect_id ho)
       intent) v = (Inr u, w2)"
    and inv: "invoke g intent w2 = (Inr outcome, w3)"
    and fin: "finish_dispatch X g ho (ho_effect_id ho) intent fault outcome w3 = (Inr rc, w')"
    by (auto simp: dispatch_def result_simps split: if_splits)
  obtain d2 where d2: "mark_dispatched X (ho_dispatch_poisoned ho) (ho_dispatch_clock ho) (ho_attempt_id ho)
      (ho_effect_id ho) intent d1 = Inr (u, d2)" "w2 = v\<lparr>w_db := d2\<rparr>"
    using md by (rule in_tx_cases) (auto simp: d1(2))
  have "w_db w3 = d2" using inv d2(2) by (auto simp: invoke_def Let_def split: prod.splits)
  with that d1(1) created d2(1) fin show ?thesis by simp
qed

definition transition_at :: "externals \<Rightarrow> effect_id \<Rightarrow> i64 \<Rightarrow> effect_state \<Rightarrow> i64 \<Rightarrow> transition_row \<Rightarrow> bool" where
  "transition_at X eid n st now h \<longleftrightarrow>
     h_effect_id h = id_to_string X eid \<and> h_sequence h = n \<and> h_state h = history_state st \<and> h_occurred_at h = now"

lemma append_transition_at:
  assumes "append_transition X eid n st now detail d = Inr d'"
  obtains h where "transition_at X eid n st now h" "d' = d\<lparr>t_transitions := t_transitions d @ [h]\<rparr>"
proof -
  from assms obtain h where h: "h = \<lparr>h_effect_id = id_to_string X eid, h_sequence = n, h_state = history_state st,
        h_occurred_at = now, h_detail_json = detail\<rparr>"
    and d': "d' = d\<lparr>t_transitions := t_transitions d @ [h]\<rparr>"
    unfolding append_transition_Inr by blast
  show ?thesis by (rule that [OF _ d']) (simp add: h transition_at_def)
qed

lemma persist_transitions:
  assumes "authorizer_contract a"
    and "authorize_and_persist X a poisoned clock eid intent blob d = Inr (Created eid', d')"
  obtains h0 h1 where "t_transitions d' = t_transitions d @ [h0, h1]"
    "transition_at X eid 0 Requested clock h0" "transition_at X eid 1 EffPrepared clock h1"
proof -
  have frame: "t_transitions d1 = t_transitions d" if "a request d = Inr (decision, d1)" for request decision d1
    using authorizer_contract.frame [OF assms(1) that] by blast
  from assms(2) obtain decision d1 d2 where
    auth: "a (authorization_request_of intent) d = Inr (decision, d1)"
    and blob: "insert_blob_metadata blob clock d1 = Inr d2"
    and rest: "(let (cid, state, terminal, detail, res) =
           (case decision of
              Authorized c \<Rightarrow> (Some c, ''prepared'', EffPrepared, ''{}'', Created eid)
            | AuthDenied c \<Rightarrow> (c, ''denied'', EffFailed, denied_detail, CreateDenied)) in
         rbind (insert_intent X eid cid intent state clock d2) (\<lambda>d3.
         rbind (append_transition X eid 0 Requested clock ''{}'' d3) (\<lambda>d4.
         rbind (append_transition X eid 1 terminal clock detail d4) (\<lambda>d5.
         Inr (res, d5))))) = Inr (Created eid', d')"
    by (auto simp: authorize_and_persist_def now_unix_ms_def gw_lock_def rbind_eq_Inr map_err_eq_Inr
        split: if_splits option.splits)
  then obtain cid st d3 d4 where
    ins: "insert_intent X eid cid intent st clock d2 = Inr d3"
    and h0: "append_transition X eid 0 Requested clock ''{}'' d3 = Inr d4"
    and h1: "append_transition X eid 1 EffPrepared clock ''{}'' d4 = Inr d'"
    by (cases decision) (auto simp: rbind_eq_Inr)
  have "t_transitions d3 = t_transitions d"
  proof -
    obtain bl where "d2 = d1\<lparr>t_blobs := bl\<rparr>" using insert_blob_metadata_Inr [OF blob] by blast
    moreover obtain rows where "d3 = d2\<lparr>t_intents := rows\<rparr>" by (rule insert_intent_Inr [OF ins]) blast
    ultimately show ?thesis using frame [OF auth] by simp
  qed
  moreover obtain r0 where r0: "transition_at X eid 0 Requested clock r0" "d4 = d3\<lparr>t_transitions := t_transitions d3 @ [r0]\<rparr>"
    by (rule append_transition_at [OF h0])
  moreover obtain r1 where r1: "transition_at X eid 1 EffPrepared clock r1" "d' = d4\<lparr>t_transitions := t_transitions d4 @ [r1]\<rparr>"
    by (rule append_transition_at [OF h1])
  ultimately show ?thesis by (intro that [of r0 r1]) simp_all
qed

lemma dispatched_transitions:
  assumes "mark_dispatched X poisoned clock aid eid intent d = Inr (u, d')"
  obtains h where "t_transitions d' = t_transitions d @ [h]" "transition_at X eid 2 EffDispatched clock h"
proof -
  from assms obtain rows attempts d3 where
    t: "append_transition X eid 2 EffDispatched clock ''{}''
        (d\<lparr>t_intents := rows, t_attempts := attempts\<rparr>) = Inr d3"
    and a: "append_attempt X eid 1 0 ''started'' clock ''{}'' d3 = Inr d'"
    by (auto simp: mark_dispatched_def now_unix_ms_def gw_lock_def rbind_eq_Inr gw_sql_def ok_or_eq_Inr
        Let_def split: if_splits)
  obtain h where "transition_at X eid 2 EffDispatched clock h" "d3 = d\<lparr>t_intents := rows, t_attempts := attempts,
      t_transitions := t_transitions d @ [h]\<rparr>"
    by (rule append_transition_at [OF t]) simp
  with a that show ?thesis by (auto simp: append_attempt_Inr)
qed

lemma committed_transitions:
  assumes "commit_in_transaction X poisoned clock eid blob d = Inr (u, d')"
  obtains h where "t_transitions d' = t_transitions d @ [h]" "transition_at X eid 3 EffCommitted clock h"
proof -
  from assms obtain d0 d1 d2 d3 where
    0: "insert_blob_metadata blob clock d = Inr d0"
    and 1: "update_resolution X eid ''succeeded'' clock (Some (m_hash blob)) None d0 = Inr d1"
    and 2: "update_attempt X eid 1 ''succeeded'' clock (Some (m_hash blob)) None d1 = Inr d2"
    and 3: "append_transition X eid 3 EffCommitted clock ''{}'' d2 = Inr d3"
    and 4: "append_attempt X eid 1 1 ''committed'' clock ''{}'' d3 = Inr d'"
    by (auto simp: commit_in_transaction_def now_unix_ms_def gw_lock_def rbind_eq_Inr split: if_splits)
  obtain bl where d0: "d0 = d\<lparr>t_blobs := t_blobs d @ bl\<rparr>" using insert_blob_metadata_Inr [OF 0] by blast
  obtain rows where d1: "d1 = d0\<lparr>t_intents := rows\<rparr>" by (rule update_resolution_Inr [OF 1]) blast
  obtain atts where d2: "d2 = d1\<lparr>t_attempts := atts\<rparr>" using update_attempt_Inr [OF 2] by blast
  obtain h where h: "transition_at X eid 3 EffCommitted clock h" "d3 = d2\<lparr>t_transitions := t_transitions d2 @ [h]\<rparr>"
    by (rule append_transition_at [OF 3])
  from 4 obtain k where "d' = d3\<lparr>t_attempt_history := t_attempt_history d3 @ [k]\<rparr>" unfolding append_attempt_Inr by blast
  with h that [of h] show ?thesis by (simp add: d0 d1 d2)
qed

interpretation history: code_table history_state parse_history_state
proof
  fix s st
  show "parse_history_state s = Inr st \<longleftrightarrow> s = history_state st"
    by (cases st) (auto simp: parse_history_state_def split: if_splits)
qed

lemma transition_of_at:
  assumes "transition_at X eid n st now h" and "0 \<le> n"
  shows "transition_of h = Inr \<lparr>tr_sequence = word_of_int n, tr_state = st, tr_occurred_at = now\<rparr>"
  using assms
  by (simp add: transition_of_def transition_at_def stored_def ok_or_def u64_of_i64_def history.decode_encode)

lemma finish_transitions:
  assumes "finish_dispatch X g ho eid intent fault outcome w = (Inr rc, w')"
  obtains h where "t_transitions (w_db w') = t_transitions (w_db w) @ [h]"
    "transition_at X eid 3 EffCommitted (ho_resolve_clock ho) h"
proof -
  from assms obtain res where "commit_result X g ho eid intent res w = (Inr rc, w')"
    by (cases outcome) (auto simp: finish_dispatch_def result_simps split: if_splits)
  then obtain m w1 x where w1: "w_db w1 = w_db w"
    and tx: "in_tx (commit_in_transaction X (ho_resolve_poisoned ho) (ho_resolve_clock ho) eid m) w1 = (Inr x, w')"
    by (auto simp: commit_result_def result_simps split: sum.splits) (metis on_blobs_world(1))
  obtain d' where d': "commit_in_transaction X (ho_resolve_poisoned ho) (ho_resolve_clock ho) eid m (w_db w) = Inr (x, d')"
    "w' = w1\<lparr>w_db := d'\<rparr>"
    using tx by (rule in_tx_cases) (auto simp: w1)
  show ?thesis by (rule committed_transitions [OF d'(1)]) (use d'(2) that in simp)
qed

text \<open>C27: the history of a committed operation. After a call of \<open>execute\<close> that dispatched and committed,
  the journal of its effect, read in sequence order, is exactly requested, prepared, dispatched and
  committed, numbered from zero, with the clock readings of the transactions that wrote them.\<close>

theorem committed_history:
  assumes "authorizer_contract (gw_authorizer g)" and "execute X g ho intent fault w = (Inr rc, w')"
    and "\<not> rc_replayed rc"
    and "\<forall>h \<in> set (t_transitions (w_db w)). h_effect_id h \<noteq> id_to_string X (ho_effect_id ho)"
  shows "list_try transition_of (effect_rows X (ho_effect_id ho) (w_db w')) =
    Inr [\<lparr>tr_sequence = 0, tr_state = Requested, tr_occurred_at = ho_persist_clock ho\<rparr>,
         \<lparr>tr_sequence = 1, tr_state = EffPrepared, tr_occurred_at = ho_persist_clock ho\<rparr>,
         \<lparr>tr_sequence = 2, tr_state = EffDispatched, tr_occurred_at = ho_dispatch_clock ho\<rparr>,
         \<lparr>tr_sequence = 3, tr_state = EffCommitted, tr_occurred_at = ho_resolve_clock ho\<rparr>]"
proof -
  let ?eid = "ho_effect_id ho"
  obtain blob d1 d2 w2 outcome where
    p: "authorize_and_persist X (gw_authorizer g) (ho_persist_poisoned ho) (ho_persist_clock ho) ?eid
       intent blob (w_db w) = Inr (Created ?eid, d1)"
    and m: "mark_dispatched X (ho_dispatch_poisoned ho) (ho_dispatch_clock ho) (ho_attempt_id ho) ?eid intent d1
       = Inr ((), d2)"
    and w2: "w_db w2 = d2" and f: "finish_dispatch X g ho ?eid intent fault outcome w2 = (Inr rc, w')"
    by (rule execute_chain [OF assms(2,3,1)]) blast
  obtain h0 h1 where h01: "t_transitions d1 = t_transitions (w_db w) @ [h0, h1]"
    "transition_at X ?eid 0 Requested (ho_persist_clock ho) h0" "transition_at X ?eid 1 EffPrepared (ho_persist_clock ho) h1"
    by (rule persist_transitions [OF assms(1) p])
  obtain h2 where h2: "t_transitions d2 = t_transitions d1 @ [h2]"
    "transition_at X ?eid 2 EffDispatched (ho_dispatch_clock ho) h2" by (rule dispatched_transitions [OF m])
  obtain h3 where h3: "t_transitions (w_db w') = t_transitions (w_db w2) @ [h3]"
    "transition_at X ?eid 3 EffCommitted (ho_resolve_clock ho) h3" by (rule finish_transitions [OF f])
  have "t_transitions (w_db w') = t_transitions (w_db w) @ [h0, h1, h2, h3]" using h01 h2 h3 w2 by simp
  moreover have "filter (\<lambda>h. h_effect_id h = id_to_string X ?eid) (t_transitions (w_db w)) = []"
    using assms(4) by (auto simp: filter_empty_conv)
  ultimately have "effect_rows X ?eid (w_db w') = [h0, h1, h2, h3]"
    using h01 h2 h3 by (simp add: effect_rows_def transition_at_def)
  with transition_of_at [OF h01(2)] transition_of_at [OF h01(3)] transition_of_at [OF h2(2)] transition_of_at [OF h3(2)]
  show ?thesis by (simp add: list_try_eq_Inr)
qed

theorem committed_history_witness:
  "\<exists>hs. list_try transition_of (effect_rows example_externals (DomainId 9) (w_db (snd (example_run NoFault)))) = Inr hs \<and>
     map tr_state hs = [Requested, EffPrepared, EffDispatched, EffCommitted]"
proof -
  have auth: "authorizer_contract (gw_authorizer example_gateway)"
    by (rule capability_authorizers_contract [OF example_authorizer])
  have none: "\<forall>h \<in> set (t_transitions (w_db example_world)).
      h_effect_id h \<noteq> id_to_string example_externals (ho_effect_id example_host)"
    by (simp add: example_world_def example_delegated_def example_db_def)
  have run: "execute example_externals example_gateway example_host example_intent NoFault example_world =
      (Inr (projr (fst (example_run NoFault))), snd (example_run NoFault))"
    using example_committed by (simp add: split_beta example_run_def prod_eq_iff)
  have "\<not> rc_replayed (projr (fst (example_run NoFault)))" by code_simp
  from committed_history [OF auth run this none] show ?thesis by (simp add: example_host_def)
qed

section \<open>Where the code falls short\<close>

text \<open>C40: the audit of a denial can be lost. When the authorizer denies a use of a capability that is
  bound to another branch or session than the intent, the intent cannot be recorded with that
  capability (the foreign key of \<open>effect_intents\<close> refuses the row), so the call reports a database
  error instead of the denial and the whole transaction, with the decision row the authorizer wrote
  into it, is rolled back.\<close>

theorem foreign_denial_is_not_recorded:
  assumes "find_in_transaction X (ci_operation_id intent) (w_db w) = Inr None"
    and "gw_authorizer g (authorization_request_of intent) (w_db w) = Inr (AuthDenied (Some cid), d1)"
    and "\<not> capability_bound d1 (id_to_string X cid) (id_to_string X (ci_branch_id intent))
      (id_to_string X (ci_session_id intent))"
    and "0 \<le> clock" and "clock \<le> i64_max" and "uint (ci_policy_revision intent) \<le> i64_max"
    and "insert_blob_metadata blob clock d1 = Inr d2"
  shows "in_tx (authorize_and_persist X (gw_authorizer g) False clock eid intent blob) w = (Inl GDatabase, w)"
proof -
  obtain bl where "d2 = d1\<lparr>t_blobs := t_blobs d1 @ bl\<rparr>" using insert_blob_metadata_Inr [OF assms(7)] by blast
  then have "t_capabilities d2 = t_capabilities d1" by simp
  with assms(3) have "\<not> capability_bound d2 (id_to_string X cid) (id_to_string X (ci_branch_id intent))
      (id_to_string X (ci_session_id intent))" by (simp add: capability_bound_def)
  then have "insert_intent X eid (Some cid) intent ''denied'' clock d2 = Inl GDatabase"
    using assms(6) by (simp add: insert_intent_def i64_of_u64_def ok_or_def gw_sql_def sql_insert_def
        intent_insert_ok_def null_or_def)
  then have "authorize_and_persist X (gw_authorizer g) False clock eid intent blob (w_db w) = Inl GDatabase"
    using assms by (simp add: authorize_and_persist_def now_unix_ms_def gw_lock_def map_err_def)
  then show ?thesis by (simp add: in_tx_def run_tx_def)
qed

definition example_foreign_intent :: canonical_intent where
  "example_foreign_intent = projr (canonical_intent_new example_externals example_session (DomainId 3)
     ''k1'' ''fs.write'' ''repo'' (JObject []) 1)"

definition example_two_branches :: db where
  "example_two_branches = example_delegated
     \<lparr>t_branches := t_branches example_delegated @ [(hd (t_branches example_delegated))\<lparr>b_id := ''11''\<rparr>]\<rparr>"

definition example_foreign_answer :: "(authorization_error, authorization_decision \<times> db) result" where
  "example_foreign_answer = gw_authorizer example_gateway (authorization_request_of example_foreign_intent)
     example_two_branches"

definition example_foreign_blob :: blob_metadata where
  "example_foreign_blob = \<lparr>m_hash = ci_input_hash example_foreign_intent, m_length = 2,
     m_media_type = ''application/vnd.epoch.effect-intent+json''\<rparr>"

lemma example_foreign:
  "find_in_transaction example_externals (ci_operation_id example_foreign_intent) example_two_branches = Inr None"
  "case example_foreign_answer of Inl e \<Rightarrow> False
   | Inr (decision, d1) \<Rightarrow> decision = AuthDenied (Some (DomainId 4)) \<and> length (t_decisions d1) = 1 \<and>
       \<not> capability_bound d1 (id_to_string example_externals (DomainId 4 :: capability_id))
          (id_to_string example_externals (ci_branch_id example_foreign_intent))
          (id_to_string example_externals (ci_session_id example_foreign_intent)) \<and>
       \<not> isl (insert_blob_metadata example_foreign_blob 40 d1)"
  "uint (ci_policy_revision example_foreign_intent) \<le> i64_max"
  by code_simp+

theorem foreign_denial_is_not_recorded_witness:
  "in_tx (authorize_and_persist example_externals (gw_authorizer example_gateway) False 40 (DomainId 9)
     example_foreign_intent example_foreign_blob) (example_world\<lparr>w_db := example_two_branches\<rparr>) =
   (Inl GDatabase, example_world\<lparr>w_db := example_two_branches\<rparr>)"
proof -
  let ?w = "example_world\<lparr>w_db := example_two_branches\<rparr>"
  obtain d1 where auth: "gw_authorizer example_gateway (authorization_request_of example_foreign_intent) (w_db ?w)
      = Inr (AuthDenied (Some (DomainId 4)), d1)"
    and unbound: "\<not> capability_bound d1 (id_to_string example_externals (DomainId 4 :: capability_id))
          (id_to_string example_externals (ci_branch_id example_foreign_intent))
          (id_to_string example_externals (ci_session_id example_foreign_intent))"
    and blob: "\<not> isl (insert_blob_metadata example_foreign_blob 40 d1)"
    using example_foreign(2) by (auto simp: example_foreign_answer_def split: sum.splits prod.splits)
  obtain d2 where d2: "insert_blob_metadata example_foreign_blob 40 d1 = Inr d2"
    using blob by (cases "insert_blob_metadata example_foreign_blob 40 d1") auto
  show ?thesis
    by (rule foreign_denial_is_not_recorded [OF _ auth unbound _ _ example_foreign(3) d2])
      (simp_all add: example_foreign(1) i64_max_def)
qed

text \<open>A branch that has completed is suspended by \<open>mark_unknown\<close>, a step that the branch lifecycle forbids.\<close>

definition example_completed :: db where
  "example_completed = example_dispatched
     \<lparr>t_branches := map (\<lambda>b. b\<lparr>b_state := ''completed''\<rparr>) (t_branches example_dispatched)\<rparr>"

lemma completed_branch_is_suspended:
  "case mark_unknown example_externals False 50 (DomainId 9) 1 ''response_not_durable'' example_completed of
     Inl e \<Rightarrow> False
   | Inr (u, d') \<Rightarrow> map b_state (t_branches example_completed) = [''completed''] \<and>
       map b_state (t_branches d') = [''suspended''] \<and>
       \<not> branch_can_transition_to BCompleted BSuspended"
  by code_simp

end
