(* ===== verification/Epoch_Events.thy ===== *)
theory Epoch_Events
  imports Epoch_Effects
begin

text \<open>
  The append-only event journal of \<open>epoch-events\<close>: appending an event (payload externalization, the
  checks of its references, the allocation of its sequence number and the insertion, in one
  transaction), querying, paging, and reading payloads back. The journal works on the blob tree and
  on the database; clock-free, it takes its fresh identifier, the interference of other processes
  with the blob tree and a poisoned lock from the record \<open>journal_host\<close>.
\<close>

section \<open>Data\<close>

record new_event =
  ne_session_id :: session_id
  ne_branch_id :: branch_id
  ne_epoch_id :: "epoch_id option"
  ne_causal_parent :: "event_id option"
  ne_monotonic_ns :: u64
  ne_occurred_at :: i64
  ne_actor :: event_actor
  ne_kind :: event_kind
  ne_input_hash :: "blob_hash option"
  ne_output_hash :: "blob_hash option"
  ne_status :: event_status
  ne_payload :: json

record event =
  event_id :: event_id
  event_sequence :: u64
  event_session_id :: session_id
  event_branch_id :: branch_id
  event_epoch_id :: "epoch_id option"
  event_causal_parent :: "event_id option"
  event_monotonic_ns :: u64
  event_occurred_at :: i64
  event_actor_of :: event_actor
  event_kind_of :: event_kind
  event_input_hash :: "string option"
  event_output_hash :: "string option"
  event_status_of :: event_status
  event_payload_json :: string
  event_payload_blob_hash :: "string option"

record event_query =
  eq_session_id :: session_id
  eq_branch_id :: "branch_id option"
  eq_kind :: "event_kind option"
  eq_sequence :: "(u64 \<times> u64) option"

record event_page =
  page_events :: "event list"
  page_has_more :: bool

definition query_for_session :: "session_id \<Rightarrow> event_query" where
  "query_for_session session =
     \<lparr>eq_session_id = session, eq_branch_id = None, eq_kind = None, eq_sequence = None\<rparr>"

datatype append_fault = NoAppendFault | AfterSequenceAllocation

datatype journal_error =
    JLockPoisoned
  | JSessionNotFound session_id
  | JBranchNotFound branch_id
  | JBranchSessionMismatch branch_id session_id session_id
  | JCausalParentNotFound event_id
  | JCausalParentScopeMismatch event_id
  | JEpochNotFound epoch_id
  | JEpochScopeMismatch epoch_id
  | JReferencedBlobNotFound string blob_hash
  | JBlobMetadataMismatch blob_hash
  | JInvalidSequenceRange u64 u64
  | JInvalidPageLimit nat nat
  | JNumericOutOfRange string u64
  | JInvalidWallTime i64
  | JInvalidStoredValue string string
  | JFaultInjected string
  | JBlob blob_error
  | JStorage
  | JSqlite
  | JJson

type_synonym 'a journal_result = "(journal_error, 'a) result"

definition inline_payload_limit :: nat where "inline_payload_limit = 16 * 1024"
definition max_event_page_size :: nat where "max_event_page_size = 1000"

fun actor_name :: "event_actor \<Rightarrow> string" where
  "actor_name Agent = ''agent''"
| "actor_name Supervisor = ''supervisor''"
| "actor_name Tool = ''tool''"
| "actor_name Gateway = ''gateway''"
| "actor_name Operator = ''operator''"

definition parse_actor :: "string \<Rightarrow> event_actor journal_result" where
  "parse_actor v =
     (if v = ''agent'' then Inr Agent
      else if v = ''supervisor'' then Inr Supervisor
      else if v = ''tool'' then Inr Tool
      else if v = ''gateway'' then Inr Gateway
      else if v = ''operator'' then Inr Operator
      else Inl (JInvalidStoredValue ''actor'' v))"

fun status_name :: "event_status \<Rightarrow> string" where
  "status_name Started = ''started''"
| "status_name Succeeded = ''succeeded''"
| "status_name Failed = ''failed''"
| "status_name Denied = ''denied''"
| "status_name Unknown = ''unknown''"

definition parse_status :: "string \<Rightarrow> event_status journal_result" where
  "parse_status v =
     (if v = ''started'' then Inr Started
      else if v = ''succeeded'' then Inr Succeeded
      else if v = ''failed'' then Inr Failed
      else if v = ''denied'' then Inr Denied
      else if v = ''unknown'' then Inr Unknown
      else Inl (JInvalidStoredValue ''status'' v))"

definition to_sql_integer :: "string \<Rightarrow> u64 \<Rightarrow> i64 journal_result" where
  "to_sql_integer field value = ok_or (i64_of_u64 value) (JNumericOutOfRange field value)"

definition journal_lock :: "bool \<Rightarrow> unit journal_result" where
  "journal_lock poisoned = (if poisoned then Inl JLockPoisoned else Inr ())"

section \<open>References\<close>

definition parse_stored_id :: "externals \<Rightarrow> string \<Rightarrow> string \<Rightarrow> 'k domain_id journal_result" where
  "parse_stored_id X field value = ok_or (id_parse X value) (JInvalidStoredValue field value)"

definition ensure_session_exists :: "externals \<Rightarrow> session_id \<Rightarrow> db \<Rightarrow> unit journal_result" where
  "ensure_session_exists X session d =
     (if list_ex (\<lambda>s. s_id s = id_to_string X session) (t_sessions d) then Inr ()
      else Inl (JSessionNotFound session))"

definition ensure_branch_scope :: "externals \<Rightarrow> session_id \<Rightarrow> branch_id \<Rightarrow> db \<Rightarrow> unit journal_result" where
  "ensure_branch_scope X session branch d =
     (case by_key b_id (id_to_string X branch) (t_branches d) of
        None \<Rightarrow> Inl (JBranchNotFound branch)
      | Some b \<Rightarrow>
          if b_session_id b = id_to_string X session then Inr ()
          else rbind (parse_stored_id X ''branches.session_id'' (b_session_id b))
                 (\<lambda>actual. Inl (JBranchSessionMismatch branch session actual)))"

definition ensure_causal_parent_scope ::
  "externals \<Rightarrow> event_id \<Rightarrow> session_id \<Rightarrow> branch_id \<Rightarrow> db \<Rightarrow> unit journal_result" where
  "ensure_causal_parent_scope X parent session branch d =
     (case by_key ev_id (id_to_string X parent) (t_events d) of
        None \<Rightarrow> Inl (JCausalParentNotFound parent)
      | Some e \<Rightarrow>
          if ev_session_id e = id_to_string X session \<and> ev_branch_id e = id_to_string X branch then Inr ()
          else Inl (JCausalParentScopeMismatch parent))"

definition ensure_epoch_scope ::
  "externals \<Rightarrow> epoch_id \<Rightarrow> session_id \<Rightarrow> branch_id \<Rightarrow> db \<Rightarrow> unit journal_result" where
  "ensure_epoch_scope X epoch session branch d =
     (case by_key e_id (id_to_string X epoch) (t_epochs d) of
        None \<Rightarrow> Inl (JEpochNotFound epoch)
      | Some e \<Rightarrow>
          if e_session_id e = id_to_string X session \<and> e_branch_id e = id_to_string X branch then Inr ()
          else Inl (JEpochScopeMismatch epoch))"

definition ensure_blob_reference :: "string \<Rightarrow> blob_hash \<Rightarrow> db \<Rightarrow> unit journal_result" where
  "ensure_blob_reference role h d =
     (if blob_registered d (hash_str h) then Inr () else Inl (JReferencedBlobNotFound role h))"

definition verify_referenced_blob ::
  "externals \<Rightarrow> blob_store \<Rightarrow> string \<Rightarrow> blob_hash \<Rightarrow> fs \<Rightarrow> unit journal_result" where
  "verify_referenced_blob X st role h t =
     (case blob_read X st h t of
        Inr _ \<Rightarrow> Inr ()
      | Inl (BNotFound _) \<Rightarrow> Inl (JReferencedBlobNotFound role h)
      | Inl e \<Rightarrow> Inl (JBlob e))"

definition register_blob :: "blob_metadata \<Rightarrow> i64 \<Rightarrow> db \<Rightarrow> db journal_result" where
  "register_blob m now d =
     rbind (ok_or (i64_of_u64 (m_length m)) (JNumericOutOfRange ''blob.byte_length'' (m_length m))) (\<lambda>len.
     let row = \<lparr>bl_hash = hash_str (m_hash m), bl_byte_length = len,
                bl_media_type = m_media_type m, bl_created_at = now\<rparr> in
     if \<not> blob_row_check row then Inl JSqlite
     else (case by_key bl_hash (hash_str (m_hash m)) (t_blobs d) of
       None \<Rightarrow> Inr (d\<lparr>t_blobs := t_blobs d @ [row]\<rparr>)
     | Some recorded \<Rightarrow>
         if bl_byte_length recorded = len \<and> bl_media_type recorded = m_media_type m then Inr d
         else Inl (JBlobMetadataMismatch (m_hash m))))"

section \<open>Appending\<close>

record prepared_payload =
  pp_inline_json :: string
  pp_external :: "blob_metadata option"

record journal_host =
  jh_poisoned :: bool
  jh_event_id :: event_id
  jh_env :: "nat \<Rightarrow> fs \<Rightarrow> fs"
  jh_uuids :: "uuid \<times> uuid"
  jh_fs_clock :: i64

definition prepare_payload ::
  "externals \<Rightarrow> blob_store \<Rightarrow> journal_host \<Rightarrow> json \<Rightarrow> fs \<Rightarrow> prepared_payload journal_result \<times> fs" where
  "prepare_payload X st ho payload t =
     (let encoded = json_to_string X payload in
      if inline_payload_limit < length encoded then
        (case blob_put X st (jh_env ho) (jh_fs_clock ho) (fst (jh_uuids ho)) (snd (jh_uuids ho))
                encoded ''application/json'' t of
           (Inl e, t') \<Rightarrow> (Inl (JBlob e), t')
         | (Inr external, t') \<Rightarrow> (Inr \<lparr>pp_inline_json = ''{}'', pp_external = Some external\<rparr>, t'))
      else (Inr \<lparr>pp_inline_json = encoded, pp_external = None\<rparr>, t))"

text \<open>\<open>if let Some(x) = field { check(x)?; }\<close>.\<close>

definition when_some :: "'a option \<Rightarrow> ('a \<Rightarrow> unit journal_result) \<Rightarrow> unit journal_result" where
  "when_some m f = (case m of None \<Rightarrow> Inr () | Some x \<Rightarrow> f x)"

definition validate_append_references ::
  "externals \<Rightarrow> new_event \<Rightarrow> blob_metadata option \<Rightarrow> db \<Rightarrow> db journal_result" where
  "validate_append_references X ne external d =
     rbind (ensure_branch_scope X (ne_session_id ne) (ne_branch_id ne) d) (\<lambda>_.
     rbind (when_some (ne_causal_parent ne)
       (\<lambda>parent. ensure_causal_parent_scope X parent (ne_session_id ne) (ne_branch_id ne) d)) (\<lambda>_.
     rbind (when_some (ne_epoch_id ne)
       (\<lambda>epoch. ensure_epoch_scope X epoch (ne_session_id ne) (ne_branch_id ne) d)) (\<lambda>_.
     rbind (when_some (ne_input_hash ne) (\<lambda>h. ensure_blob_reference ''input'' h d)) (\<lambda>_.
     rbind (when_some (ne_output_hash ne) (\<lambda>h. ensure_blob_reference ''output'' h d)) (\<lambda>_.
     case external of None \<Rightarrow> Inr d | Some m \<Rightarrow> register_blob m (ne_occurred_at ne) d)))))"

text \<open>
  A counter is an INTEGER column of a STRICT table with a nonnegative CHECK: a value past the largest
  64-bit integer becomes a REAL, which the column refuses.
\<close>

definition counter_ok :: "branch_row \<Rightarrow> branch_row \<Rightarrow> bool" where
  "counter_ok old new \<longleftrightarrow> 0 \<le> b_next_event_sequence new \<and> b_next_event_sequence new \<le> i64_max"

text \<open>\<open>COALESCE((SELECT MAX(sequence) + 1 FROM events WHERE branch_id = ?1), 0)\<close>.\<close>

definition past_last_sequence :: "string \<Rightarrow> event_row list \<Rightarrow> i64" where
  "past_last_sequence branch es =
     (case map ev_sequence (filter (\<lambda>e. ev_branch_id e = branch) es) of
        [] \<Rightarrow> 0
      | s # ss \<Rightarrow> fold max ss s + 1)"

definition journal_sql :: "'a option \<Rightarrow> 'a journal_result" where
  "journal_sql m = ok_or m JSqlite"

definition allocate_sequence ::
  "externals \<Rightarrow> session_id \<Rightarrow> branch_id \<Rightarrow> db \<Rightarrow> (u64 \<times> db) journal_result" where
  "allocate_sequence X session branch d =
     (let this = (\<lambda>b. b_id b = id_to_string X branch \<and> b_session_id b = id_to_string X session);
          past = past_last_sequence (id_to_string X branch) (t_events d) in
      rbind (journal_sql (sql_update counter_ok this
          (\<lambda>b. b\<lparr>b_next_event_sequence := max (b_next_event_sequence b) past\<rparr>) (t_branches d))) (\<lambda>(_, repaired).
      rbind (journal_sql (sql_update counter_ok this
          (\<lambda>b. b\<lparr>b_next_event_sequence := b_next_event_sequence b + 1\<rparr>) repaired)) (\<lambda>(_, rows).
      case find this rows of
        None \<Rightarrow> Inl JSqlite
      | Some b \<Rightarrow>
          let sequence = b_next_event_sequence b - 1 in
          rbind (ok_or (u64_of_i64 sequence) (JInvalidStoredValue ''sequence'' (show_int sequence)))
            (\<lambda>s. Inr (s, d\<lparr>t_branches := rows\<rparr>)))))"

definition epoch_in :: "db \<Rightarrow> string \<Rightarrow> string \<Rightarrow> string \<Rightarrow> bool" where
  "epoch_in d epoch branch session \<longleftrightarrow>
     list_ex (\<lambda>e. e_id e = epoch \<and> e_branch_id e = branch \<and> e_session_id e = session) (t_epochs d)"

definition event_in :: "event_row list \<Rightarrow> string \<Rightarrow> string \<Rightarrow> string \<Rightarrow> bool" where
  "event_in rows parent branch session \<longleftrightarrow>
     list_ex (\<lambda>e. ev_id e = parent \<and> ev_branch_id e = branch \<and> ev_session_id e = session) rows"

definition event_insert_ok :: "externals \<Rightarrow> db \<Rightarrow> event_row list \<Rightarrow> event_row \<Rightarrow> bool" where
  "event_insert_ok X d rows r \<longleftrightarrow>
     0 \<le> ev_sequence r \<and> 0 \<le> ev_monotonic_ns r \<and> 0 \<le> ev_occurred_at r \<and>
     ev_actor r \<in> {''agent'', ''supervisor'', ''tool'', ''gateway'', ''operator''} \<and>
     length_between (ev_kind r) 1 128 \<and>
     ev_status r \<in> {''started'', ''succeeded'', ''failed'', ''denied'', ''unknown''} \<and>
     sqlite_json_valid X (ev_payload_json r) \<and>
     ev_id r \<notin> set (map ev_id rows) \<and>
     (ev_branch_id r, ev_sequence r) \<notin> set (map (\<lambda>e. (ev_branch_id e, ev_sequence e)) rows) \<and>
     branch_exists d (ev_branch_id r) (ev_session_id r) \<and>
     null_or (\<lambda>e. epoch_in d e (ev_branch_id r) (ev_session_id r)) (ev_epoch_id r) \<and>
     null_or (\<lambda>p. event_in (rows @ [r]) p (ev_branch_id r) (ev_session_id r)) (ev_causal_parent_id r) \<and>
     null_or (blob_registered d) (ev_input_hash r) \<and> null_or (blob_registered d) (ev_output_hash r) \<and>
     null_or (blob_registered d) (ev_payload_blob_hash r)"

definition insert_event ::
  "externals \<Rightarrow> event_id \<Rightarrow> new_event \<Rightarrow> u64 \<Rightarrow> i64 \<Rightarrow> prepared_payload \<Rightarrow> db \<Rightarrow> (event \<times> db) journal_result" where
  "insert_event X eid ne sequence monotonic_ns payload d =
     (let payload_blob_hash = map_option (\<lambda>m. hash_str (m_hash m)) (pp_external payload) in
      rbind (to_sql_integer ''sequence'' sequence) (\<lambda>seq.
      rbind (journal_sql (sql_insert (event_insert_ok X d)
          \<lparr>ev_id = id_to_string X eid, ev_session_id = id_to_string X (ne_session_id ne),
           ev_branch_id = id_to_string X (ne_branch_id ne), ev_sequence = seq,
           ev_epoch_id = map_option (id_to_string X) (ne_epoch_id ne),
           ev_causal_parent_id = map_option (id_to_string X) (ne_causal_parent ne),
           ev_monotonic_ns = monotonic_ns, ev_occurred_at = ne_occurred_at ne,
           ev_actor = actor_name (ne_actor ne), ev_kind = kind_as_str (ne_kind ne),
           ev_input_hash = map_option hash_str (ne_input_hash ne),
           ev_output_hash = map_option hash_str (ne_output_hash ne),
           ev_status = status_name (ne_status ne), ev_payload_json = pp_inline_json payload,
           ev_payload_blob_hash = payload_blob_hash\<rparr> (t_events d))) (\<lambda>rows.
      Inr (\<lparr>event_id = eid, event_sequence = sequence, event_session_id = ne_session_id ne,
            event_branch_id = ne_branch_id ne, event_epoch_id = ne_epoch_id ne,
            event_causal_parent = ne_causal_parent ne, event_monotonic_ns = ne_monotonic_ns ne,
            event_occurred_at = ne_occurred_at ne, event_actor_of = ne_actor ne,
            event_kind_of = ne_kind ne, event_input_hash = map_option hash_str (ne_input_hash ne),
            event_output_hash = map_option hash_str (ne_output_hash ne),
            event_status_of = ne_status ne, event_payload_json = pp_inline_json payload,
            event_payload_blob_hash = payload_blob_hash\<rparr>,
           d\<lparr>t_events := rows\<rparr>))))"

text \<open>The database part of \<open>append_inner\<close>, and the whole call.\<close>

definition append_in_transaction ::
  "externals \<Rightarrow> journal_host \<Rightarrow> new_event \<Rightarrow> append_fault \<Rightarrow> i64 \<Rightarrow> prepared_payload \<Rightarrow> db \<Rightarrow>
   (event \<times> db) journal_result" where
  "append_in_transaction X ho ne fault monotonic_ns payload d =
     rbind (journal_lock (jh_poisoned ho)) (\<lambda>_.
     rbind (validate_append_references X ne (pp_external payload) d) (\<lambda>d1.
     rbind (allocate_sequence X (ne_session_id ne) (ne_branch_id ne) d1) (\<lambda>(sequence, d2).
     if fault = AfterSequenceAllocation then Inl (JFaultInjected ''event.after_sequence_allocation'')
     else insert_event X (jh_event_id ho) ne sequence monotonic_ns payload d2)))"

definition append_inner ::
  "externals \<Rightarrow> blob_store \<Rightarrow> journal_host \<Rightarrow> new_event \<Rightarrow> append_fault \<Rightarrow> fs \<times> db \<Rightarrow>
   event journal_result \<times> (fs \<times> db)" where
  "append_inner X st ho ne fault = (\<lambda>(t, d).
     case rbind (if ne_occurred_at ne < 0 then Inl (JInvalidWallTime (ne_occurred_at ne)) else Inr ()) (\<lambda>_.
          rbind (to_sql_integer ''monotonic_ns'' (ne_monotonic_ns ne)) (\<lambda>monotonic_ns.
          rbind (when_some (ne_input_hash ne) (\<lambda>h. verify_referenced_blob X st ''input'' h t)) (\<lambda>_.
          rbind (when_some (ne_output_hash ne) (\<lambda>h. verify_referenced_blob X st ''output'' h t)) (\<lambda>_.
          Inr monotonic_ns)))) of
       Inl e \<Rightarrow> (Inl e, (t, d))
     | Inr monotonic_ns \<Rightarrow>
         (case prepare_payload X st ho (ne_payload ne) t of
            (Inl e, t') \<Rightarrow> (Inl e, (t', d))
          | (Inr payload, t') \<Rightarrow>
              (let (r, d') = run_tx (append_in_transaction X ho ne fault monotonic_ns payload d) d
               in (r, (t', d')))))"

definition append_event ::
  "externals \<Rightarrow> blob_store \<Rightarrow> journal_host \<Rightarrow> new_event \<Rightarrow> fs \<times> db \<Rightarrow> event journal_result \<times> (fs \<times> db)" where
  "append_event X st ho ne = append_inner X st ho ne NoAppendFault"

section \<open>Reading\<close>

definition decode_event :: "externals \<Rightarrow> event_row \<Rightarrow> event journal_result" where
  "decode_event X r =
     rbind (ok_or (u64_of_i64 (ev_sequence r)) (JInvalidStoredValue ''sequence'' (show_int (ev_sequence r)))) (\<lambda>sequence.
     rbind (ok_or (u64_of_i64 (ev_monotonic_ns r)) (JInvalidStoredValue ''monotonic_ns'' (show_int (ev_monotonic_ns r)))) (\<lambda>monotonic_ns.
     rbind (parse_stored_id X ''id'' (ev_id r)) (\<lambda>eid.
     rbind (parse_stored_id X ''session_id'' (ev_session_id r)) (\<lambda>session.
     rbind (parse_stored_id X ''branch_id'' (ev_branch_id r)) (\<lambda>branch.
     rbind (option_try (parse_stored_id X ''epoch_id'') (ev_epoch_id r)) (\<lambda>epoch.
     rbind (option_try (parse_stored_id X ''causal_parent_id'') (ev_causal_parent_id r)) (\<lambda>parent.
     rbind (parse_actor (ev_actor r)) (\<lambda>actor.
     rbind (map_err (\<lambda>_. JInvalidStoredValue ''kind'' (ev_kind r)) (event_kind_new (ev_kind r))) (\<lambda>kind.
     rbind (parse_status (ev_status r)) (\<lambda>status.
     Inr \<lparr>event_id = eid, event_sequence = sequence, event_session_id = session, event_branch_id = branch,
          event_epoch_id = epoch, event_causal_parent = parent, event_monotonic_ns = monotonic_ns,
          event_occurred_at = ev_occurred_at r, event_actor_of = actor, event_kind_of = kind,
          event_input_hash = ev_input_hash r, event_output_hash = ev_output_hash r,
          event_status_of = status, event_payload_json = ev_payload_json r,
          event_payload_blob_hash = ev_payload_blob_hash r\<rparr>))))))))))"

definition sequence_bounds :: "event_query \<Rightarrow> (i64 \<times> i64) journal_result" where
  "sequence_bounds q =
     (case eq_sequence q of
        Some (start, end) \<Rightarrow>
          if end < start then Inl (JInvalidSequenceRange start end)
          else rbind (to_sql_integer ''sequence_start'' start) (\<lambda>lo.
               rbind (to_sql_integer ''sequence_end'' end) (\<lambda>hi. Inr (lo, hi)))
      | None \<Rightarrow> Inr (0, i64_max))"

definition query_scope :: "externals \<Rightarrow> bool \<Rightarrow> event_query \<Rightarrow> db \<Rightarrow> unit journal_result" where
  "query_scope X poisoned q d =
     rbind (journal_lock poisoned) (\<lambda>_.
     rbind (ensure_session_exists X (eq_session_id q) d) (\<lambda>_.
     when_some (eq_branch_id q) (\<lambda>branch. ensure_branch_scope X (eq_session_id q) branch d)))"

text \<open>The rows of the SELECT: its WHERE clause, then ORDER BY branch, sequence and identifier.\<close>

definition event_matches :: "externals \<Rightarrow> event_query \<Rightarrow> i64 \<Rightarrow> i64 \<Rightarrow> event_row \<Rightarrow> bool" where
  "event_matches X q lo hi e \<longleftrightarrow>
     ev_session_id e = id_to_string X (eq_session_id q) \<and>
     null_or (\<lambda>b. ev_branch_id e = id_to_string X b) (eq_branch_id q) \<and>
     null_or (\<lambda>k. ev_kind e = kind_as_str k) (eq_kind q) \<and>
     lo \<le> ev_sequence e \<and> ev_sequence e \<le> hi"

definition query_rows :: "externals \<Rightarrow> event_query \<Rightarrow> i64 \<Rightarrow> i64 \<Rightarrow> db \<Rightarrow> event_row list" where
  "query_rows X q lo hi d =
     sort_key ev_branch_id (sort_key ev_sequence (sort_key ev_id
       (filter (event_matches X q lo hi) (t_events d))))"

definition query_events :: "externals \<Rightarrow> bool \<Rightarrow> event_query \<Rightarrow> db \<Rightarrow> event list journal_result" where
  "query_events X poisoned q d =
     rbind (sequence_bounds q) (\<lambda>(lo, hi).
     rbind (query_scope X poisoned q d) (\<lambda>_.
     list_try (decode_event X) (query_rows X q lo hi d)))"

definition query_page ::
  "externals \<Rightarrow> bool \<Rightarrow> event_query \<Rightarrow> u64 \<Rightarrow> nat \<Rightarrow> db \<Rightarrow> event_page journal_result" where
  "query_page X poisoned q offset limit d =
     (if \<not> (1 \<le> limit \<and> limit \<le> max_event_page_size) then Inl (JInvalidPageLimit limit max_event_page_size)
      else
        rbind (sequence_bounds q) (\<lambda>(lo, hi).
        rbind (to_sql_integer ''event_offset'' offset) (\<lambda>off.
        rbind (query_scope X poisoned q d) (\<lambda>_.
        rbind (list_try (decode_event X) (take (limit + 1) (drop (nat off) (query_rows X q lo hi d)))) (\<lambda>events.
        Inr \<lparr>page_events = take limit events, page_has_more = limit < length events\<rparr>)))))"

definition read_payload :: "externals \<Rightarrow> blob_store \<Rightarrow> event \<Rightarrow> fs \<Rightarrow> json journal_result" where
  "read_payload X st e t =
     (case event_payload_blob_hash e of
        Some text \<Rightarrow>
          rbind (ok_or (blob_hash_from_str text) (JInvalidStoredValue ''payload_blob_hash'' text)) (\<lambda>h.
          rbind (map_err JBlob (blob_read X st h t)) (\<lambda>bytes.
          ok_or (json_from_slice X bytes) JJson))
      | None \<Rightarrow> ok_or (json_from_slice X (event_payload_json e)) JJson)"

end
