(* ===== verification/Epoch_Event_Proofs.thy ===== *)
theory Epoch_Event_Proofs
  imports Epoch_Events Epoch_Durability "HOL-Library.Sublist" "HOL-Library.Multiset"
begin

text \<open>
  What an append to the journal does to the database, the invariants every append keeps (ordered,
  causally closed, numbered without gaps), and the rows a branch query reads.
\<close>

section \<open>What an append does\<close>

lemma past_last_sequence_bound:
  assumes "e \<in> set es" and "ev_branch_id e = branch"
  shows "ev_sequence e < past_last_sequence branch es"
proof -
  let ?ss = "map ev_sequence (filter (\<lambda>e. ev_branch_id e = branch) es)"
  have e: "ev_sequence e \<in> set ?ss" using assms by auto
  then obtain s ss where ss: "?ss = s # ss" by (cases ?ss) auto
  have "ev_sequence e \<le> Max (set ?ss)" using e by simp
  then show ?thesis unfolding ss by (simp add: past_last_sequence_def ss Max.set_eq_fold [symmetric])
qed

lemma past_last_sequence_count:
  assumes "map ev_sequence (filter (\<lambda>e. ev_branch_id e = branch) es) = map int [0..<n]"
  shows "past_last_sequence branch es = int n"
proof (cases n)
  case (Suc m)
  have "0 # map int [1..<Suc m] = map int [0..<Suc m]" by (simp add: upt_conv_Cons del: upt_Suc)
  then have ss: "map ev_sequence (filter (\<lambda>e. ev_branch_id e = branch) es) = 0 # map int [1..<Suc m]"
    using assms Suc by simp
  have "fold max (map int [1..<Suc m]) 0 = Max (set (0 # map int [1..<Suc m]))" by (simp only: Max.set_eq_fold)
  also have "set (0 # map int [1..<Suc m]) = {0..int m}"
  proof -
    have "set (map int [0..<Suc m]) = int ` {0..<Suc m}" by (simp del: upt_Suc)
    also have "\<dots> = {0..<int (Suc m)}" by (simp add: image_int_atLeastLessThan)
    finally show ?thesis using \<open>0 # map int [1..<Suc m] = map int [0..<Suc m]\<close> by auto
  qed
  also have "Max {0..int m} = int m" by (rule Max_eqI) simp_all
  finally show ?thesis using Suc by (simp add: past_last_sequence_def ss del: upt_Suc)
qed (use assms in \<open>simp add: past_last_sequence_def\<close>)

definition bumped :: "externals \<Rightarrow> session_id \<Rightarrow> branch_id \<Rightarrow> db \<Rightarrow> branch_row \<Rightarrow> branch_row" where
  "bumped X session branch d b =
     (if b_id b = id_to_string X branch \<and> b_session_id b = id_to_string X session
      then b\<lparr>b_next_event_sequence :=
             max (b_next_event_sequence b) (past_last_sequence (id_to_string X branch) (t_events d)) + 1\<rparr>
      else b)"

lemma allocate_sequence_Inr:
  assumes "allocate_sequence X session branch d = Inr (sequence, d')"
  shows "d' = d\<lparr>t_branches := map (bumped X session branch d) (t_branches d)\<rparr>"
    and "\<exists>b \<in> set (t_branches d). b_id b = id_to_string X branch \<and> b_session_id b = id_to_string X session \<and>
      uint sequence = max (b_next_event_sequence b) (past_last_sequence (id_to_string X branch) (t_events d))"
proof -
  let ?here = "\<lambda>b. b_id b = id_to_string X branch \<and> b_session_id b = id_to_string X session"
  let ?past = "past_last_sequence (id_to_string X branch) (t_events d)"
  let ?f = "\<lambda>b. b\<lparr>b_next_event_sequence := max (b_next_event_sequence b) ?past\<rparr>"
  let ?g = "\<lambda>b. b\<lparr>b_next_event_sequence := b_next_event_sequence b + 1\<rparr>"
  obtain n1 n2 repaired rows b where
    u1: "sql_update counter_ok ?here ?f (t_branches d) = Some (n1, repaired)"
    and u2: "sql_update counter_ok ?here ?g repaired = Some (n2, rows)"
    and b: "find ?here rows = Some b" and s: "u64_of_i64 (b_next_event_sequence b - 1) = Some sequence"
    and d': "d' = d\<lparr>t_branches := rows\<rparr>"
    using assms unfolding allocate_sequence_def Let_def
    by (auto simp: rbind_eq_Inr journal_sql_def ok_or_eq_Inr split: option.splits)
  have r1: "repaired = map (\<lambda>b. if ?here b then ?f b else b) (t_branches d)"
    and r2: "rows = map (\<lambda>b. if ?here b then ?g b else b) repaired"
    and ok2: "\<forall>b \<in> set repaired. ?here b \<longrightarrow> counter_ok b (?g b)"
    using u1 u2 unfolding sql_update_eq_Some by blast+
  have rows: "rows = map (bumped X session branch d) (t_branches d)"
    unfolding r1 r2 by (simp add: bumped_def)
  show "d' = d\<lparr>t_branches := map (bumped X session branch d) (t_branches d)\<rparr>" using d' rows by simp
  have "b \<in> set rows" "?here b" using b by (auto simp: find_Some_iff)
  then obtain b0 where b0: "b0 \<in> set (t_branches d)" "b = bumped X session branch d b0" unfolding rows by auto
  have this0: "?here b0" using \<open>?here b\<close> b0(2) by (auto simp: bumped_def split: if_splits)
  have next_b: "b_next_event_sequence b = max (b_next_event_sequence b0) ?past + 1" using b0(2) this0 by (simp add: bumped_def)
  have "?f b0 \<in> set repaired" unfolding r1 using b0(1) this0 by force
  with ok2 this0 have "max (b_next_event_sequence b0) ?past + 1 \<le> i64_max" "0 \<le> max (b_next_event_sequence b0) ?past + 1"
    by (auto simp: counter_ok_def)
  moreover have "0 \<le> b_next_event_sequence b - 1" using s by (auto simp: u64_of_i64_def split: if_splits)
  ultimately have "uint sequence = max (b_next_event_sequence b0) ?past"
    using s next_b by (auto simp: u64_of_i64_def uint_word_of_int i64_max_def split: if_splits)
  with b0(1) this0 show "\<exists>b \<in> set (t_branches d). b_id b = id_to_string X branch \<and>
      b_session_id b = id_to_string X session \<and> uint sequence = max (b_next_event_sequence b) ?past"
    by blast
qed

lemma register_blob_Inr:
  assumes "register_blob m now d = Inr d'"
  shows "\<exists>rows. d' = d\<lparr>t_blobs := rows\<rparr>" "blob_registered d' (hash_str (m_hash m))"
proof -
  have "d = d\<lparr>t_blobs := t_blobs d\<rparr>" by simp
  then have "\<exists>rows. d = d\<lparr>t_blobs := rows\<rparr>" by blast
  with assms show "\<exists>rows. d' = d\<lparr>t_blobs := rows\<rparr>"
    by (auto simp: register_blob_def rbind_eq_Inr Let_def split: if_splits option.splits)
  show "blob_registered d' (hash_str (m_hash m))"
    using assms
    by (auto simp: register_blob_def rbind_eq_Inr Let_def blob_registered_def list_ex_iff
        dest!: by_key_eq_SomeD split: if_splits option.splits)
qed

definition event_row_of ::
  "externals \<Rightarrow> event_id \<Rightarrow> new_event \<Rightarrow> i64 \<Rightarrow> prepared_payload \<Rightarrow> event_row" where
  "event_row_of X eid ne seq payload =
     \<lparr>ev_id = id_to_string X eid, ev_session_id = id_to_string X (ne_session_id ne),
      ev_branch_id = id_to_string X (ne_branch_id ne), ev_sequence = seq,
      ev_epoch_id = map_option (id_to_string X) (ne_epoch_id ne),
      ev_causal_parent_id = map_option (id_to_string X) (ne_causal_parent ne),
      ev_monotonic_ns = uint (ne_monotonic_ns ne), ev_occurred_at = ne_occurred_at ne,
      ev_actor = actor_name (ne_actor ne), ev_kind = kind_as_str (ne_kind ne),
      ev_input_hash = map_option hash_str (ne_input_hash ne),
      ev_output_hash = map_option hash_str (ne_output_hash ne),
      ev_status = status_name (ne_status ne), ev_payload_json = pp_inline_json payload,
      ev_payload_blob_hash = map_option (\<lambda>m. hash_str (m_hash m)) (pp_external payload)\<rparr>"

definition event_of :: "event_id \<Rightarrow> new_event \<Rightarrow> u64 \<Rightarrow> prepared_payload \<Rightarrow> event" where
  "event_of eid ne sequence payload =
     \<lparr>event_id = eid, event_sequence = sequence, event_session_id = ne_session_id ne,
      event_branch_id = ne_branch_id ne, event_epoch_id = ne_epoch_id ne,
      event_causal_parent = ne_causal_parent ne, event_monotonic_ns = ne_monotonic_ns ne,
      event_occurred_at = ne_occurred_at ne, event_actor_of = ne_actor ne,
      event_kind_of = ne_kind ne, event_input_hash = map_option hash_str (ne_input_hash ne),
      event_output_hash = map_option hash_str (ne_output_hash ne),
      event_status_of = ne_status ne, event_payload_json = pp_inline_json payload,
      event_payload_blob_hash = map_option (\<lambda>m. hash_str (m_hash m)) (pp_external payload)\<rparr>"

text \<open>A successful append, in one lemma.\<close>

lemma append_Inr:
  assumes "append_inner X st ho ne fault (t, d) = (Inr ev, (t', d'))"
  obtains payload sequence row where
    "prepare_payload X st ho (ne_payload ne) t = (Inr payload, t')"
    "row = event_row_of X (jh_event_id ho) ne (uint sequence) payload"
    "ev = event_of (jh_event_id ho) ne sequence payload"
    "uint sequence \<le> i64_max" "uint (ne_monotonic_ns ne) \<le> i64_max"
    "t_events d' = t_events d @ [row]"
    "t_branches d' = map (bumped X (ne_session_id ne) (ne_branch_id ne) d) (t_branches d)"
    "t_sessions d' = t_sessions d"
    "\<exists>b \<in> set (t_branches d). b_id b = id_to_string X (ne_branch_id ne) \<and>
       b_session_id b = id_to_string X (ne_session_id ne) \<and>
       uint sequence = max (b_next_event_sequence b)
         (past_last_sequence (id_to_string X (ne_branch_id ne)) (t_events d))"
    "ev_id row \<notin> ev_id ` set (t_events d)"
    "(ev_branch_id row, ev_sequence row) \<notin> (\<lambda>e. (ev_branch_id e, ev_sequence e)) ` set (t_events d)"
    "ensure_branch_scope X (ne_session_id ne) (ne_branch_id ne) d = Inr ()"
    "when_some (ne_causal_parent ne)
       (\<lambda>p. ensure_causal_parent_scope X p (ne_session_id ne) (ne_branch_id ne) d) = Inr ()"
proof -
  from assms obtain mono payload where
    mono: "to_sql_integer ''monotonic_ns'' (ne_monotonic_ns ne) = Inr mono"
    and pay: "prepare_payload X st ho (ne_payload ne) t = (Inr payload, t')"
    and tx: "append_in_transaction X ho ne fault mono payload d = Inr (ev, d')"
    by (auto simp: append_inner_def rbind_eq_Inr rbind_eq_Inl run_tx_eq split: sum.splits prod.splits if_splits)
  from tx obtain d1 sequence d2 where
    refs: "validate_append_references X ne (pp_external payload) d = Inr d1"
    and alloc: "allocate_sequence X (ne_session_id ne) (ne_branch_id ne) d1 = Inr (sequence, d2)"
    and ins: "insert_event X (jh_event_id ho) ne sequence mono payload d2 = Inr (ev, d')"
    by (auto simp: append_in_transaction_def rbind_eq_Inr split: if_splits)
  have scope: "ensure_branch_scope X (ne_session_id ne) (ne_branch_id ne) d = Inr ()"
    using refs by (auto simp: validate_append_references_def rbind_eq_Inr)
  have parents: "when_some (ne_causal_parent ne)
      (\<lambda>p. ensure_causal_parent_scope X p (ne_session_id ne) (ne_branch_id ne) d) = Inr ()"
    using refs by (auto simp: validate_append_references_def rbind_eq_Inr)
  have "\<exists>rows. d1 = d\<lparr>t_blobs := rows\<rparr>"
  proof (cases "pp_external payload")
    case None
    then have "d1 = d\<lparr>t_blobs := t_blobs d\<rparr>" using refs by (auto simp: validate_append_references_def rbind_eq_Inr)
    then show ?thesis by blast
  next
    case (Some m)
    then have "register_blob m (ne_occurred_at ne) d = Inr d1"
      using refs by (auto simp: validate_append_references_def rbind_eq_Inr)
    then show ?thesis by (rule register_blob_Inr)
  qed
  then obtain bl where d1: "d1 = d\<lparr>t_blobs := bl\<rparr>" by blast
  note alloc' = allocate_sequence_Inr [OF alloc]
  have d2: "d2 = d1\<lparr>t_branches := map (bumped X (ne_session_id ne) (ne_branch_id ne) d) (t_branches d)\<rparr>"
    using alloc'(1) by (simp add: d1 bumped_def cong: map_cong)
  have m: "mono = uint (ne_monotonic_ns ne)" "uint (ne_monotonic_ns ne) \<le> i64_max"
    using mono by (auto simp: to_sql_integer_def ok_or_eq_Inr i64_of_u64_Some_iff)
  from ins obtain seq where seq: "to_sql_integer ''sequence'' sequence = Inr seq"
    and ok: "event_insert_ok X d2 (t_events d2) (event_row_of X (jh_event_id ho) ne seq payload)"
    and d': "d' = d2\<lparr>t_events := t_events d2 @ [event_row_of X (jh_event_id ho) ne seq payload]\<rparr>"
    and ev: "ev = event_of (jh_event_id ho) ne sequence payload"
    unfolding insert_event_def Let_def event_row_of_def event_of_def
    by (auto simp: rbind_eq_Inr journal_sql_def ok_or_eq_Inr sql_insert_eq_Some m(1))
  have s: "seq = uint sequence" "uint sequence \<le> i64_max"
    using seq by (auto simp: to_sql_integer_def ok_or_eq_Inr i64_of_u64_Some_iff)
  show ?thesis
    by (rule that [OF pay refl ev s(2) m(2) _ _ _ _ _ _ scope parents])
      (use d' ok alloc'(2) in \<open>simp_all add: d2 d1 s(1) event_insert_ok_def\<close>)
qed

lemma append_Inl:
  assumes "append_inner X st ho ne fault (t, d) = (Inl e, (t', d'))"
  shows "d' = d"
  using assms by (auto simp: append_inner_def run_tx_eq split: sum.splits prod.splits)

section \<open>The journal as a machine\<close>

record append_op =
  ao_host :: journal_host
  ao_event :: new_event
  ao_fault :: append_fault

definition append_step :: "externals \<Rightarrow> blob_store \<Rightarrow> append_op \<Rightarrow> fs \<times> db \<Rightarrow> fs \<times> db" where
  "append_step X st a s = snd (append_inner X st (ao_host a) (ao_event a) (ao_fault a) s)"

definition precedes :: "event_row \<Rightarrow> event_row \<Rightarrow> bool" where
  "precedes a b \<longleftrightarrow> (ev_branch_id a = ev_branch_id b \<longrightarrow> ev_sequence a < ev_sequence b)"

definition caused_within :: "event_row list \<Rightarrow> event_row \<Rightarrow> bool" where
  "caused_within earlier e \<longleftrightarrow> null_or (\<lambda>p. event_in earlier p (ev_branch_id e) (ev_session_id e)) (ev_causal_parent_id e)"

fun causal :: "event_row list \<Rightarrow> event_row list \<Rightarrow> bool" where
  "causal earlier [] \<longleftrightarrow> True"
| "causal earlier (e # es) \<longleftrightarrow> caused_within earlier e \<and> causal (earlier @ [e]) es"

lemma causal_append: "causal earlier (xs @ [e]) \<longleftrightarrow> causal earlier xs \<and> caused_within (earlier @ xs) e"
  by (induction xs arbitrary: earlier) simp_all

definition event_inv :: "db \<Rightarrow> bool" where
  "event_inv d \<longleftrightarrow> distinct (map ev_id (t_events d)) \<and> sorted_wrt precedes (t_events d) \<and> causal [] (t_events d)"

definition keeps_events :: "fs \<times> db \<Rightarrow> fs \<times> db \<Rightarrow> bool" where
  "keeps_events s s' \<longleftrightarrow> prefix (t_events (snd s)) (t_events (snd s'))"

lemma append_step_cases:
  obtains (failed) "snd (append_step X st a s) = snd s"
  | (recorded) ev where "append_inner X st (ao_host a) (ao_event a) (ao_fault a) (fst s, snd s) =
      (Inr ev, (fst (append_step X st a s), snd (append_step X st a s)))"
proof -
  obtain r t' d' where run: "append_inner X st (ao_host a) (ao_event a) (ao_fault a) (fst s, snd s) = (r, (t', d'))"
    by (metis prod.collapse)
  then have step: "append_step X st a s = (t', d')" by (simp add: append_step_def)
  show ?thesis
  proof (cases r)
    case (Inl e)
    have "d' = snd s" by (rule append_Inl [OF run [unfolded Inl]])
    with step failed show ?thesis by simp
  next
    case (Inr ev)
    with run step recorded show ?thesis by simp
  qed
qed

lemma append_step_inv:
  assumes "event_inv (snd s)"
  shows "event_inv (snd (append_step X st a s)) \<and> keeps_events s (append_step X st a s)"
proof (cases rule: append_step_cases [of X st a s])
  case failed
  with assms show ?thesis by (simp add: keeps_events_def)
next
  case (recorded ev)
  let ?ne = "ao_event a" and ?d = "snd s" and ?d' = "snd (append_step X st a s)"
  obtain payload and sequence :: u64 and row where row: "row = event_row_of X (jh_event_id (ao_host a)) ?ne (uint sequence) payload"
    and events: "t_events ?d' = t_events ?d @ [row]"
    and seq: "\<exists>b \<in> set (t_branches ?d). b_id b = id_to_string X (ne_branch_id ?ne) \<and>
       b_session_id b = id_to_string X (ne_session_id ?ne) \<and>
       uint sequence = max (b_next_event_sequence b)
         (past_last_sequence (id_to_string X (ne_branch_id ?ne)) (t_events ?d))"
    and fresh: "ev_id row \<notin> ev_id ` set (t_events ?d)"
    and parent: "when_some (ne_causal_parent ?ne)
       (\<lambda>p. ensure_causal_parent_scope X p (ne_session_id ?ne) (ne_branch_id ?ne) ?d) = Inr ()"
    by (rule append_Inr [OF recorded], rule that, assumption+)
  have "precedes e row" if "e \<in> set (t_events ?d)" for e
    unfolding precedes_def
  proof
    assume "ev_branch_id e = ev_branch_id row"
    then have "ev_sequence e < past_last_sequence (id_to_string X (ne_branch_id ?ne)) (t_events ?d)"
      using that by (intro past_last_sequence_bound) (simp_all add: row event_row_of_def)
    with seq show "ev_sequence e < ev_sequence row" by (auto simp: row event_row_of_def)
  qed
  moreover have "caused_within (t_events ?d) row"
  proof (cases "ne_causal_parent ?ne")
    case None
    then show ?thesis by (simp add: caused_within_def row event_row_of_def)
  next
    case (Some p)
    from parent this obtain e where e: "by_key ev_id (id_to_string X p) (t_events ?d) = Some e"
      "ev_session_id e = id_to_string X (ne_session_id ?ne)" "ev_branch_id e = id_to_string X (ne_branch_id ?ne)"
      by (auto simp: when_some_def ensure_causal_parent_scope_def split: option.splits if_splits)
    with by_key_eq_SomeD [OF e(1)] Some show ?thesis
      by (auto simp: caused_within_def row event_row_of_def event_in_def list_ex_iff)
  qed
  ultimately show ?thesis
    using assms fresh by (simp add: event_inv_def keeps_events_def events sorted_wrt_append causal_append)
qed

interpretation journal: machine "append_step X st" "\<lambda>s. event_inv (snd s)" keeps_events for X st
  using append_step_inv by unfold_locales (auto simp: keeps_events_def)

abbreviation journal_run :: "externals \<Rightarrow> blob_store \<Rightarrow> append_op list \<Rightarrow> fs \<times> db \<Rightarrow> fs \<times> db" where
  "journal_run X st ops s \<equiv> run_ops (append_step X st) ops s"

section \<open>Numbering without gaps\<close>

definition branch_events :: "string \<Rightarrow> db \<Rightarrow> event_row list" where
  "branch_events br d = filter (\<lambda>e. ev_branch_id e = br) (t_events d)"

definition gapless :: "string \<Rightarrow> db \<Rightarrow> bool" where
  "gapless br d \<longleftrightarrow>
     map ev_sequence (branch_events br d) = map int [0..<length (branch_events br d)] \<and>
     (\<forall>b \<in> set (t_branches d). b_id b = br \<longrightarrow> b_next_event_sequence b \<le> int (length (branch_events br d)))"

lemma append_step_gapless:
  assumes "gapless br (snd s)"
  shows "gapless br (snd (append_step X st a s))"
proof (cases rule: append_step_cases [of X st a s])
  case failed
  with assms show ?thesis by simp
next
  case (recorded ev)
  let ?ne = "ao_event a" and ?d = "snd s" and ?d' = "snd (append_step X st a s)"
  let ?n = "length (branch_events br ?d)"
  obtain payload and sequence :: u64 and row
    where row: "row = event_row_of X (jh_event_id (ao_host a)) ?ne (uint sequence) payload"
    and events: "t_events ?d' = t_events ?d @ [row]"
    and branches: "t_branches ?d' = map (bumped X (ne_session_id ?ne) (ne_branch_id ?ne) ?d) (t_branches ?d)"
    and seq: "\<exists>b \<in> set (t_branches ?d). b_id b = id_to_string X (ne_branch_id ?ne) \<and>
       b_session_id b = id_to_string X (ne_session_id ?ne) \<and>
       uint sequence = max (b_next_event_sequence b)
         (past_last_sequence (id_to_string X (ne_branch_id ?ne)) (t_events ?d))"
    by (rule append_Inr [OF recorded], rule that, assumption+)
  have ss: "map ev_sequence (branch_events br ?d) = map int [0..<?n]"
    and counters: "\<And>b. b \<in> set (t_branches ?d) \<Longrightarrow> b_id b = br \<Longrightarrow> b_next_event_sequence b \<le> int ?n"
    using assms by (auto simp: gapless_def)
  have past: "past_last_sequence br (t_events ?d) = int ?n"
    by (rule past_last_sequence_count) (use ss in \<open>simp add: branch_events_def\<close>)
  show ?thesis
  proof (cases "id_to_string X (ne_branch_id ?ne) = br")
    case True
    obtain b where b: "b \<in> set (t_branches ?d)" "b_id b = br"
      "uint sequence = max (b_next_event_sequence b) (past_last_sequence br (t_events ?d))"
      using seq True by auto
    then have "uint sequence = int ?n" using counters [OF b(1,2)] past by simp
    then have "branch_events br ?d' = branch_events br ?d @ [row]" "ev_sequence row = int ?n"
      by (simp_all add: branch_events_def events row event_row_of_def True)
    moreover have "b_next_event_sequence b \<le> int (Suc ?n)"
      if "b \<in> set (t_branches ?d')" "b_id b = br" for b
    proof -
      from that(1) obtain b0 where b0: "b0 \<in> set (t_branches ?d)"
        "b = bumped X (ne_session_id ?ne) (ne_branch_id ?ne) ?d b0" unfolding branches by auto
      then have "b_next_event_sequence b0 \<le> int ?n"
        using that(2) by (intro counters) (simp_all add: bumped_def split: if_splits)
      with b0(2) past show ?thesis by (simp add: bumped_def True)
    qed
    ultimately show ?thesis unfolding gapless_def using ss by simp
  next
    case False
    then have same: "branch_events br ?d' = branch_events br ?d"
      by (simp add: branch_events_def events row event_row_of_def)
    have "b \<in> set (t_branches ?d)" if "b \<in> set (t_branches ?d')" "b_id b = br" for b
      using that False unfolding branches by (auto simp: bumped_def split: if_splits)
    with counters ss show ?thesis unfolding gapless_def same by blast
  qed
qed

interpretation numbering: machine "append_step X st" "\<lambda>s. gapless br (snd s)" "\<lambda>_ _. True" for X st br
  by unfold_locales (simp_all add: append_step_gapless)

section \<open>Queries\<close>

interpretation actor: code_table actor_name parse_actor
proof
  show "parse_actor s = Inr x \<longleftrightarrow> s = actor_name x" for s x
    by (cases x) (auto simp: parse_actor_def)
qed

interpretation status: code_table status_name parse_status
proof
  show "parse_status s = Inr x \<longleftrightarrow> s = status_name x" for s x
    by (cases x) (auto simp: parse_status_def)
qed

lemma parse_stored_ids:
  "uuid_codec X \<Longrightarrow> option_try (parse_stored_id X field) (map_option (id_to_string X) i) = Inr i"
  by (cases i) (simp_all add: parse_stored_id_def)

lemma decode_appended:
  assumes "uuid_codec X" and "uint sequence \<le> i64_max" and "uint (ne_monotonic_ns ne) \<le> i64_max"
    and "event_kind_new (kind_as_str (ne_kind ne)) = Inr (ne_kind ne)"
  shows "decode_event X (event_row_of X eid ne (uint sequence) payload) = Inr (event_of eid ne sequence payload)"
proof -
  have "u64_of_i64 (uint w) = Some w" for w :: u64 by (simp add: u64_of_i64_def)
  then show ?thesis
    unfolding decode_event_def event_row_of_def event_of_def
    by (simp add: parse_stored_id_def parse_stored_ids assms(1,4) actor.decode_encode status.decode_encode)
qed

lemma sort_key_strict:
  assumes "sorted_wrt (\<lambda>a b. f a < f b) xs"
  shows "sort_key f (sort_key g xs) = xs"
proof (rule sort_key_inj_key_eq)
  have strict: "sorted_wrt (<) (map f xs)" using assms by (simp add: sorted_wrt_map)
  then have "distinct (map f xs)" by (simp add: strict_sorted_iff)
  then show "inj_on f (set (sort_key g xs))" by (simp add: distinct_map)
  show "mset (sort_key g xs) = mset xs" by simp
  show "sorted (map f xs)" using strict by (simp add: strict_sorted_iff)
qed

lemma branch_query_rows:
  assumes "sorted_wrt precedes (t_events d)" and "eq_branch_id q = Some br"
  shows "query_rows X q lo hi d = filter (event_matches X q lo hi) (t_events d)"
proof -
  let ?es = "filter (event_matches X q lo hi) (t_events d)"
  have br: "ev_branch_id e = id_to_string X br" if "e \<in> set ?es" for e
    using that assms(2) by (simp add: event_matches_def)
  have "sorted_wrt precedes ?es" by (rule sorted_wrt_filter [OF assms(1)])
  then have "sorted_wrt (\<lambda>a b. ev_sequence a < ev_sequence b) ?es"
    by (rule sorted_wrt_mono_rel [rotated]) (use br in \<open>auto simp: precedes_def\<close>)
  then have "sort_key ev_sequence (sort_key ev_id ?es) = ?es" by (rule sort_key_strict)
  moreover have "sort_key ev_branch_id ?es = ?es"
  proof (rule sort_key_id_if_sorted)
    have "map ev_branch_id ?es = replicate (length ?es) (id_to_string X br)"
      using br by (simp add: map_replicate_const [symmetric] cong: map_cong)
    then show "sorted (map ev_branch_id ?es)" by simp
  qed
  ultimately show ?thesis by (simp only: query_rows_def)
qed

definition query_branch :: "session_id \<Rightarrow> branch_id \<Rightarrow> event_query" where
  "query_branch session branch = (query_for_session session)\<lparr>eq_branch_id := Some branch\<rparr>"

end
