(* ===== verification/Epoch_Event_Properties.thy ===== *)
theory Epoch_Event_Properties
  imports Epoch_Event_Proofs Epoch_Example
begin

text \<open>
  What the event journal promises: order and causality, immutable history, numbering without gaps,
  queries that return what was appended, pages that are slices of queries, payloads that read back.
\<close>

section \<open>Properties\<close>


text \<open>C11: the journal is ordered and causal. Starting from a consistent event table, whatever appends are
  attempted (failing ones and injected faults included), sequence numbers of a branch strictly
  increase in the order the events were recorded, identifiers are unique, and the causal parent of
  every event was recorded before it in the same session and branch.\<close>

theorem journal_stays_ordered:
  assumes "event_inv (snd s)"
  shows "event_inv (snd (journal_run X st ops s))"
  using assms by (rule journal.run_inv)

text \<open>History is never rewritten. Whatever appends are attempted, the events recorded so far stay
  recorded, unchanged and in the same order.\<close>

theorem journal_is_append_only:
  assumes "event_inv (snd s)"
  shows "prefix (t_events (snd s)) (t_events (snd (journal_run X st ops s)))"
  using journal.run_evolves [OF assms] by (simp add: keeps_events_def)

definition example_event :: "event_id option \<Rightarrow> new_event" where
  "example_event parent =
     \<lparr>ne_session_id = example_session, ne_branch_id = example_branch, ne_epoch_id = None, ne_causal_parent = parent,
      ne_monotonic_ns = 7, ne_occurred_at = 50, ne_actor = Agent, ne_kind = EventKind ''tool.call'',
      ne_input_hash = None, ne_output_hash = None, ne_status = Started, ne_payload = JNull\<rparr>"

definition example_journal_host :: "event_id \<Rightarrow> journal_host" where
  "example_journal_host i =
     \<lparr>jh_poisoned = False, jh_event_id = i, jh_env = quiet, jh_uuids = (21, 22), jh_fs_clock = 50\<rparr>"

definition example_appends :: "append_op list" where
  "example_appends =
     [\<lparr>ao_host = example_journal_host (DomainId 5), ao_event = example_event None, ao_fault = NoAppendFault\<rparr>,
      \<lparr>ao_host = example_journal_host (DomainId 6), ao_event = example_event (Some (DomainId 5)),
       ao_fault = NoAppendFault\<rparr>]"

definition example_journal :: "fs \<times> db" where
  "example_journal = journal_run example_externals example_store example_appends (opened_fs, example_db)"

lemma example_journal_events: "map ev_sequence (t_events (snd example_journal)) = [0, 1]"
  by code_simp

lemma example_start_inv: "event_inv (snd (opened_fs, example_db))"
  by (simp add: event_inv_def example_db_def)

theorem journal_stays_ordered_witness: "event_inv (snd example_journal)"
  unfolding example_journal_def by (rule journal_stays_ordered [OF example_start_inv])

theorem journal_is_append_only_witness:
  "prefix (t_events (snd example_journal))
     (t_events (snd (journal_run example_externals example_store example_appends example_journal)))"
  by (rule journal_is_append_only)
    (use journal.run_inv [OF example_start_inv] in \<open>simp add: example_journal_def\<close>)

text \<open>Sequence numbers have no gaps. On a branch that starts without events and with its counter at
  zero, whatever appends are attempted on any branch, the branch's events carry the sequence numbers
  0, 1, 2, .. in the order of their recording: appends that fail after the allocation of a number do
  not use it up.\<close>

theorem journal_numbers_without_gaps:
  assumes "\<forall>b \<in> set (t_branches (snd s)). b_id b = br \<longrightarrow> b_next_event_sequence b = 0"
    and "\<forall>e \<in> set (t_events (snd s)). ev_branch_id e \<noteq> br"
  shows "map ev_sequence (branch_events br (snd (journal_run X st ops s))) =
    map int [0..<length (branch_events br (snd (journal_run X st ops s)))]"
proof -
  have "branch_events br (snd s) = []" using assms(2) by (simp add: branch_events_def filter_empty_conv)
  then have "gapless br (snd s)" using assms(1) by (simp add: gapless_def)
  then have "gapless br (snd (journal_run X st ops s))" by (rule numbering.run_inv)
  then show ?thesis by (simp add: gapless_def)
qed

theorem journal_numbers_without_gaps_witness:
  "map ev_sequence (branch_events ''01'' (snd example_journal)) =
     map int [0..<length (branch_events ''01'' (snd example_journal))]"
  unfolding example_journal_def by (rule journal_numbers_without_gaps) (simp_all add: example_db_def)

section \<open>Reading what was appended\<close>

lemma query_scope_append:
  assumes "append_inner X st ho ne fault (t, d) = (Inr ev, (t', d'))"
  shows "query_scope X poisoned q d' = query_scope X poisoned q d"
proof -
  have b: "t_branches d' = map (bumped X (ne_session_id ne) (ne_branch_id ne) d) (t_branches d)"
    and s: "t_sessions d' = t_sessions d"
    by (rule append_Inr [OF assms], assumption)+
  have key: "b_id (bumped X a c d r) = b_id r" "b_session_id (bumped X a c d r) = b_session_id r" for a c r
    by (simp_all add: bumped_def)
  have "ensure_branch_scope X session branch d' = ensure_branch_scope X session branch d" for session branch
    by (simp add: ensure_branch_scope_def b by_key_map key split: option.split)
  then show ?thesis by (simp add: query_scope_def ensure_session_exists_def s)
qed

text \<open>C15: a query returns what was appended. When the history of a branch reads back as \<open>evs\<close>, then
  after a successful append it reads back as \<open>evs\<close> with exactly the returned event added at its end
  if the append was to this branch, and as \<open>evs\<close> otherwise.\<close>

theorem query_after_append:
  assumes "uuid_codec X" and "event_inv d"
    and "event_kind_new (kind_as_str (ne_kind ne)) = Inr (ne_kind ne)"
    and "query_events X False (query_branch session branch) d = Inr evs"
    and "append_event X st ho ne (t, d) = (Inr ev, (t', d'))"
  shows "query_events X False (query_branch session branch) d' =
    Inr (if ne_session_id ne = session \<and> ne_branch_id ne = branch then evs @ [ev] else evs)"
proof -
  let ?q = "query_branch session branch"
  let ?m = "event_matches X ?q 0 i64_max"
  have run: "append_inner X st ho ne NoAppendFault (t, d) = (Inr ev, (t', d'))"
    using assms(5) by (simp add: append_event_def)
  obtain payload and sequence :: u64 and row
    where row: "row = event_row_of X (jh_event_id ho) ne (uint sequence) payload"
      and ev: "ev = event_of (jh_event_id ho) ne sequence payload"
      and bounds: "uint sequence \<le> i64_max" "uint (ne_monotonic_ns ne) \<le> i64_max"
      and events: "t_events d' = t_events d @ [row]"
    by (rule append_Inr [OF run], rule that, assumption+)
  have "event_inv d'" using append_step_inv [of "(t, d)" X st "\<lparr>ao_host = ho, ao_event = ne, ao_fault = NoAppendFault\<rparr>"]
      assms(2) run by (simp add: append_step_def)
  have rows: "query_rows X ?q 0 i64_max x = filter ?m (t_events x)" if "event_inv x" for x
    by (rule branch_query_rows) (use that in \<open>simp_all add: event_inv_def query_branch_def\<close>)
  have all: "eq_sequence ?q = None" by (simp add: query_branch_def query_for_session_def)
  have query: "query_events X False ?q x =
      rbind (query_scope X False ?q x) (\<lambda>_. list_try (decode_event X) (filter ?m (t_events x)))" if "event_inv x" for x
    by (simp add: query_events_def sequence_bounds_def all rows [OF that])
  have scope: "query_scope X False ?q d = Inr ()" "list_try (decode_event X) (filter ?m (t_events d)) = Inr evs"
    using assms(4) unfolding query [OF assms(2)] by (auto simp: rbind_eq_Inr)
  have "?m row \<longleftrightarrow> ne_session_id ne = session \<and> ne_branch_id ne = branch"
    using bounds assms(1) by (simp add: event_matches_def row event_row_of_def query_branch_def query_for_session_def)
  moreover have "decode_event X row = Inr ev"
    unfolding row ev by (rule decode_appended [OF assms(1) bounds assms(3)])
  ultimately show ?thesis
    unfolding query [OF \<open>event_inv d'\<close>] query_scope_append [OF run] scope(1) events
    using scope(2) by (simp add: list_try_append)
qed

definition example_append :: "event journal_result \<times> (fs \<times> db)" where
  "example_append = append_event example_externals example_store (example_journal_host (DomainId 5))
     (example_event None) (opened_fs, example_db)"

lemma example_append_ok:
  "append_event example_externals example_store (example_journal_host (DomainId 5)) (example_event None)
     (opened_fs, example_db) =
   (Inr (projr (fst example_append)), (fst (snd example_append), snd (snd example_append)))"
proof -
  have "\<not> isl (fst example_append)" by code_simp
  then show ?thesis by (simp add: example_append_def prod_eq_iff)
qed

abbreviation example_branch_query :: event_query where
  "example_branch_query \<equiv> query_branch example_session example_branch"

lemma example_query_before: "query_events example_externals False example_branch_query example_db = Inr []"
  by code_simp

lemma example_kind_valid:
  "event_kind_new (kind_as_str (ne_kind (example_event None))) = Inr (ne_kind (example_event None))"
  by code_simp

theorem query_after_append_witness:
  "query_events example_externals False example_branch_query (snd (snd example_append)) =
     Inr [projr (fst example_append)]"
  using query_after_append [OF example_codec _ example_kind_valid example_query_before example_append_ok]
    example_start_inv by (simp add: example_event_def)

text \<open>C39: a page is a slice of the query. For every valid limit and offset a page holds the events of the
  unpaged query from the offset on, at most \<open>limit\<close> of them, and says truthfully whether there are
  more.\<close>

theorem page_is_a_slice:
  assumes "query_events X poisoned q d = Inr evs" and "1 \<le> limit" and "limit \<le> max_event_page_size"
    and "uint offset \<le> i64_max"
  shows "query_page X poisoned q offset limit d =
    Inr \<lparr>page_events = take limit (drop (unat offset) evs), page_has_more = unat offset + limit < length evs\<rparr>"
proof -
  from assms(1) obtain lo hi where bounds: "sequence_bounds q = Inr (lo, hi)" "query_scope X poisoned q d = Inr ()"
    and rows: "list_all2 (\<lambda>r e. decode_event X r = Inr e) (query_rows X q lo hi d) evs"
    by (auto simp: query_events_def rbind_eq_Inr list_try_eq_Inr)
  have "nat (uint offset) = unat offset" by simp
  then have "list_try (decode_event X) (take (limit + 1) (drop (nat (uint offset)) (query_rows X q lo hi d))) =
      Inr (take (limit + 1) (drop (unat offset) evs))"
    using rows by (simp add: list_try_eq_Inr list_all2_takeI list_all2_dropI)
  moreover have "to_sql_integer ''event_offset'' offset = Inr (uint offset)"
    using assms(4) by (simp add: to_sql_integer_def i64_of_u64_def)
  ultimately show ?thesis using assms(2,3) bounds by (auto simp: query_page_def min_def)
qed

definition two_events :: "event list" where
  "two_events = map (\<lambda>(i, sequence). event_of i (example_event None) sequence
     \<lparr>pp_inline_json = ''{}'', pp_external = None\<rparr>) [(DomainId 5, 0), (DomainId 6, 1)]"

definition two_event_db :: db where
  "two_event_db = example_db\<lparr>t_events := map (\<lambda>(i, sequence). event_row_of example_externals i (example_event None)
     sequence \<lparr>pp_inline_json = ''{}'', pp_external = None\<rparr>) [(DomainId 5, 0), (DomainId 6, 1)]\<rparr>"

lemma two_event_query: "query_events example_externals False example_branch_query two_event_db = Inr two_events"
  by code_simp

theorem page_is_a_slice_witness:
  "query_page example_externals False example_branch_query 0 1 two_event_db =
     Inr \<lparr>page_events = [hd two_events], page_has_more = True\<rparr>"
  using page_is_a_slice [OF two_event_query, of 1 0]
  by (simp add: max_event_page_size_def i64_max_def two_events_def)

text \<open>Payloads read back. After a successful append, and after any later growth of the blob store,
  the payload of the returned event is the value that was appended, whether it was stored inline or,
  past the inline limit, as a blob: as long as JSON text parses back to the value it was printed from
  and no other byte string has the digest of the externalized text.\<close>

theorem payload_reads_back:
  assumes "sha256_sized X"
    and "json_from_slice X (json_to_string X (ne_payload ne)) = Some (ne_payload ne)"
    and "polite {temporary_path X (blob_hash_digest X (json_to_string X (ne_payload ne))) (fst (jh_uuids ho)),
      temporary_path X (blob_hash_digest X (json_to_string X (ne_payload ne))) (snd (jh_uuids ho))} (jh_env ho)"
    and "\<And>c. inline_payload_limit < length (json_to_string X (ne_payload ne)) \<Longrightarrow>
      blob_hash_digest X c = blob_hash_digest X (json_to_string X (ne_payload ne)) \<Longrightarrow>
      c = json_to_string X (ne_payload ne)"
    and "append_event X st ho ne (t, d) = (Inr ev, (t', d'))" and "grows t' t''"
  shows "read_payload X st ev t'' = Inr (ne_payload ne)"
proof -
  let ?text = "json_to_string X (ne_payload ne)"
  have run: "append_inner X st ho ne NoAppendFault (t, d) = (Inr ev, (t', d'))"
    using assms(5) by (simp add: append_event_def)
  obtain payload and sequence :: u64
    where prepared: "prepare_payload X st ho (ne_payload ne) t = (Inr payload, t')"
      and ev: "ev = event_of (jh_event_id ho) ne sequence payload"
    by (rule append_Inr [OF run], rule that, assumption+)
  show ?thesis
  proof (cases "inline_payload_limit < length ?text")
    case False
    then have "payload = \<lparr>pp_inline_json = ?text, pp_external = None\<rparr>"
      using prepared by (simp add: prepare_payload_def)
    then show ?thesis using assms(2) by (simp add: read_payload_def ev event_of_def)
  next
    case True
    then obtain m where put: "blob_put X st (jh_env ho) (jh_fs_clock ho) (fst (jh_uuids ho)) (snd (jh_uuids ho))
          ?text ''application/json'' t = (Inr m, t')"
      and payload: "payload = \<lparr>pp_inline_json = ''{}'', pp_external = Some m\<rparr>"
      using prepared by (auto simp: prepare_payload_def Let_def split: prod.splits sum.splits)
    have "blob_stored X st t ?text t'" unfolding blob_stored_def using assms(3) put by blast
    then have "blob_read X st (blob_hash_digest X ?text) t'' = Inr ?text"
      by (rule blobs.read_back [OF _ assms(6) assms(4) [OF True]])
    moreover have "m_hash m = blob_hash_digest X ?text" by (rule blob_put_Inr [OF put]) simp
    ultimately show ?thesis
      using assms(2) digest_text [OF assms(1), of ?text]
      by (simp add: read_payload_def ev event_of_def payload blob_hash_from_str_Some [THEN iffD2])
  qed
qed

theorem payload_reads_back_witness:
  "read_payload example_externals example_store (projr (fst example_append)) (fst (snd example_append)) = Inr JNull"
proof -
  have "json_from_slice example_externals (json_to_string example_externals (ne_payload (example_event None))) =
      Some (ne_payload (example_event None))"
    by (simp add: example_externals_def example_event_def)
  moreover have "polite own (jh_env (example_journal_host i))" for own i
    by (simp add: example_journal_host_def quiet_polite)
  ultimately have "read_payload example_externals example_store (projr (fst example_append)) (fst (snd example_append)) =
      Inr (ne_payload (example_event None))"
    by (rule payload_reads_back [OF example_sized _ _ _ example_append_ok grows_refl])
      (simp add: example_externals_def inline_payload_limit_def)
  then show ?thesis by (simp add: example_event_def)
qed

end
