(* ===== verification/Epoch_Protocol.thy ===== *)
theory Epoch_Protocol
  imports Epoch_Blob "HOL-Library.Char_ord" "HOL-Library.List_Lexorder"
begin

text \<open>
  The crate \<open>epoch-protocol\<close>: the versioned JSONL records an agent sends to its supervisor, their
  validation, encoding and decoding, and the validator of the stream of records.

  The text parser and the derived (de)serializers of \<open>serde\<close> are not part of the repository: they
  are the members of the record \<open>wire\<close>. What the parser feeds to the visitor of \<open>unique_json\<close> is a
  \<open>raw\<close> tree, in which an object may repeat a key and every container may end in a syntax error.
\<close>

section \<open>JSON objects as maps\<close>

text \<open>\<open>serde_json::Map\<close> is a \<open>BTreeMap\<close>: its entries in ascending order of their keys.\<close>

type_synonym extensions = "(string \<times> json) list"

fun map_insert :: "string \<Rightarrow> json \<Rightarrow> extensions \<Rightarrow> extensions" where
  "map_insert k v [] = [(k, v)]"
| "map_insert k v ((k', v') # m) =
     (if k < k' then (k, v) # (k', v') # m
      else if k = k' then (k, v) # m
      else (k', v') # map_insert k v m)"

definition contains_key :: "extensions \<Rightarrow> string \<Rightarrow> bool" where
  "contains_key m k \<longleftrightarrow> map_of m k \<noteq> None"

definition map_remove :: "string \<Rightarrow> extensions \<Rightarrow> json option \<times> extensions" where
  "map_remove k m = (map_of m k, filter (\<lambda>e. fst e \<noteq> k) m)"

section \<open>Messages\<close>

record agent_start =
  as_agent_id :: string
  as_session_id :: string
  as_branch_id :: string
  as_extensions :: extensions

record context_update =
  cu_revision :: u64
  cu_context_hash :: blob_hash
  cu_extensions :: extensions

record model_request =
  mq_request_id :: string
  mq_model :: string
  mq_input_hash :: blob_hash
  mq_extensions :: extensions

record model_response =
  mp_request_id :: string
  mp_output_hash :: blob_hash
  mp_extensions :: extensions

record tool_call =
  tc_call_id :: string
  tc_tool :: string
  tc_input_hash :: blob_hash
  tc_extensions :: extensions

datatype tool_outcome = ToolSucceeded | ToolFailed | ToolDenied

record tool_result =
  tr_call_id :: string
  tr_outcome :: tool_outcome
  tr_output_hash :: "blob_hash option"
  tr_extensions :: extensions

record safe_point =
  sp_safe_point_id :: string
  sp_context_hash :: blob_hash
  sp_extensions :: extensions

datatype completion_outcome = CompletionSucceeded | CompletionFailed | CompletionCancelled

record completion =
  co_outcome :: completion_outcome
  co_output_hash :: "blob_hash option"
  co_extensions :: extensions

datatype message =
    AgentStart agent_start
  | ContextUpdate context_update
  | ModelRequest model_request
  | ModelResponse model_response
  | ToolCall tool_call
  | ToolResult tool_result
  | SafePoint safe_point
  | Completion completion

fun message_kind :: "message \<Rightarrow> string" where
  "message_kind (AgentStart _) = ''agent.start''"
| "message_kind (ContextUpdate _) = ''context.update''"
| "message_kind (ModelRequest _) = ''model.request''"
| "message_kind (ModelResponse _) = ''model.response''"
| "message_kind (ToolCall _) = ''tool.call''"
| "message_kind (ToolResult _) = ''tool.result''"
| "message_kind (SafePoint _) = ''safe_point''"
| "message_kind (Completion _) = ''agent.completion''"

record envelope =
  protocol_version :: u16
  env_sequence :: u64
  env_message :: message
  env_extensions :: extensions

definition current_protocol_version :: u16 where "current_protocol_version = 1"
definition max_jsonl_bytes :: nat where "max_jsonl_bytes = 1024 * 1024"
definition max_sequence :: u64 where "max_sequence = 9223372036854775807"
definition max_context_revision :: u64 where "max_context_revision = 9223372036854775807"
definition max_identifier_bytes :: nat where "max_identifier_bytes = 255"
definition max_name_bytes :: nat where "max_name_bytes = 128"

definition envelope_new :: "u64 \<Rightarrow> message \<Rightarrow> envelope" where
  "envelope_new sequence message =
     \<lparr>protocol_version = current_protocol_version, env_sequence = sequence, env_message = message,
      env_extensions = []\<rparr>"

fun message_hashes :: "message \<Rightarrow> blob_hash list" where
  "message_hashes (AgentStart _) = []"
| "message_hashes (ContextUpdate p) = [cu_context_hash p]"
| "message_hashes (ModelRequest p) = [mq_input_hash p]"
| "message_hashes (ModelResponse p) = [mp_output_hash p]"
| "message_hashes (ToolCall p) = [tc_input_hash p]"
| "message_hashes (ToolResult p) = (case tr_output_hash p of None \<Rightarrow> [] | Some h \<Rightarrow> [h])"
| "message_hashes (SafePoint p) = [sp_context_hash p]"
| "message_hashes (Completion p) = (case co_output_hash p of None \<Rightarrow> [] | Some h \<Rightarrow> [h])"

definition referenced_hashes :: "envelope \<Rightarrow> blob_hash list" where
  "referenced_hashes e = message_hashes (env_message e)"

section \<open>Blob references\<close>

datatype blob_reference_status = RefMissing | RefUnverified | RefVerified

type_synonym resolver = "blob_hash \<Rightarrow> blob_reference_status"

definition blob_store_status :: "externals \<Rightarrow> blob_store \<Rightarrow> fs \<Rightarrow> resolver" where
  "blob_store_status X st t h =
     (case blob_read X st h t of
        Inr _ \<Rightarrow> RefVerified
      | Inl (BNotFound _) \<Rightarrow> RefMissing
      | Inl _ \<Rightarrow> RefUnverified)"

datatype reference_error = MissingReference blob_hash | UnverifiedReference blob_hash

fun validate_hashes :: "resolver \<Rightarrow> blob_hash list \<Rightarrow> (reference_error, unit) result" where
  "validate_hashes status [] = Inr ()"
| "validate_hashes status (h # hs) =
     (case status h of
        RefMissing \<Rightarrow> Inl (MissingReference h)
      | RefUnverified \<Rightarrow> Inl (UnverifiedReference h)
      | RefVerified \<Rightarrow> validate_hashes status hs)"

definition validate_referenced_blobs :: "envelope \<Rightarrow> resolver \<Rightarrow> (reference_error, unit) result" where
  "validate_referenced_blobs e status = validate_hashes status (referenced_hashes e)"

section \<open>Validation\<close>

datatype protocol_error =
    EmptyLine
  | LineTooLarge nat nat
  | MultipleRecords
  | BareCarriageReturn
  | DuplicateKey string
  | MalformedJson nat nat string
  | MissingField string
  | InvalidField string string
  | UnsupportedVersion u16 u16
  | UnknownMessageType string
  | EncodingError string

type_synonym 'a protocol_result = "(protocol_error, 'a) result"

definition bounded_string :: "string \<Rightarrow> string \<Rightarrow> nat \<Rightarrow> unit protocol_result" where
  "bounded_string field value maximum =
     (if trim value = [] then Inl (InvalidField field ''must not be empty'')
      else if maximum < length value
      then Inl (InvalidField field (''must be at most '' @ show_nat maximum @ '' bytes''))
      else Inr ())"

definition bounded_integer :: "string \<Rightarrow> u64 \<Rightarrow> u64 \<Rightarrow> unit protocol_result" where
  "bounded_integer field value maximum =
     (if maximum < value then Inl (InvalidField field (''must be at most '' @ show_nat (unat maximum)))
      else Inr ())"

definition reject_reserved :: "extensions \<Rightarrow> string list \<Rightarrow> string \<Rightarrow> unit protocol_result" where
  "reject_reserved exts reserved scope =
     (case find (contains_key exts) reserved of
        Some field \<Rightarrow> Inl (InvalidField (scope @ ''.'' @ field) ''extension collides with a protocol field'')
      | None \<Rightarrow> Inr ())"

fun validate_message :: "message \<Rightarrow> unit protocol_result" where
  "validate_message (AgentStart p) =
     rbind (bounded_string ''payload.agent_id'' (as_agent_id p) max_identifier_bytes) (\<lambda>_.
     rbind (bounded_string ''payload.session_id'' (as_session_id p) max_identifier_bytes) (\<lambda>_.
     rbind (bounded_string ''payload.branch_id'' (as_branch_id p) max_identifier_bytes) (\<lambda>_.
     reject_reserved (as_extensions p) [''agent_id'', ''session_id'', ''branch_id''] ''payload'')))"
| "validate_message (ContextUpdate p) =
     rbind (bounded_integer ''payload.revision'' (cu_revision p) max_context_revision) (\<lambda>_.
     reject_reserved (cu_extensions p) [''revision'', ''context_hash''] ''payload'')"
| "validate_message (ModelRequest p) =
     rbind (bounded_string ''payload.request_id'' (mq_request_id p) max_identifier_bytes) (\<lambda>_.
     rbind (bounded_string ''payload.model'' (mq_model p) max_name_bytes) (\<lambda>_.
     reject_reserved (mq_extensions p) [''request_id'', ''model'', ''input_hash''] ''payload''))"
| "validate_message (ModelResponse p) =
     rbind (bounded_string ''payload.request_id'' (mp_request_id p) max_identifier_bytes) (\<lambda>_.
     reject_reserved (mp_extensions p) [''request_id'', ''output_hash''] ''payload'')"
| "validate_message (ToolCall p) =
     rbind (bounded_string ''payload.call_id'' (tc_call_id p) max_identifier_bytes) (\<lambda>_.
     rbind (bounded_string ''payload.tool'' (tc_tool p) max_name_bytes) (\<lambda>_.
     reject_reserved (tc_extensions p) [''call_id'', ''tool'', ''input_hash''] ''payload''))"
| "validate_message (ToolResult p) =
     rbind (bounded_string ''payload.call_id'' (tr_call_id p) max_identifier_bytes) (\<lambda>_.
     reject_reserved (tr_extensions p) [''call_id'', ''outcome'', ''output_hash''] ''payload'')"
| "validate_message (SafePoint p) =
     rbind (bounded_string ''payload.safe_point_id'' (sp_safe_point_id p) max_identifier_bytes) (\<lambda>_.
     reject_reserved (sp_extensions p) [''safe_point_id'', ''context_hash''] ''payload'')"
| "validate_message (Completion p) =
     reject_reserved (co_extensions p) [''outcome'', ''output_hash''] ''payload''"

definition envelope_fields :: "string list" where
  "envelope_fields = [''protocol_version'', ''sequence'', ''type'', ''payload'']"

definition validate :: "envelope \<Rightarrow> unit protocol_result" where
  "validate e =
     (if protocol_version e \<noteq> current_protocol_version
      then Inl (UnsupportedVersion (protocol_version e) current_protocol_version)
      else
        rbind (bounded_integer ''sequence'' (env_sequence e) max_sequence) (\<lambda>_.
        rbind (reject_reserved (env_extensions e) envelope_fields ''$'') (\<lambda>_.
        validate_message (env_message e))))"

section \<open>Streams\<close>

record supervisor_binding =
  sb_session_id :: string
  sb_branch_id :: string

definition supervisor_binding_new :: "string \<Rightarrow> string \<Rightarrow> supervisor_binding protocol_result" where
  "supervisor_binding_new session branch =
     rbind (bounded_string ''binding.session_id'' session max_identifier_bytes) (\<lambda>_.
     rbind (bounded_string ''binding.branch_id'' branch max_identifier_bytes) (\<lambda>_.
     Inr \<lparr>sb_session_id = session, sb_branch_id = branch\<rparr>))"

datatype stream_error =
    StartRequired string
  | DuplicateStart
  | SessionBindingMismatch string string
  | BranchBindingMismatch string string
  | NonMonotonicSequence u64 u64
  | NonMonotonicContextRevision u64 u64
  | DuplicateModelRequest string
  | ModelResponseWithoutRequest string
  | DuplicateToolCall string
  | ToolResultWithoutCall string
  | SafePointWithoutContext
  | SafePointContextMismatch blob_hash blob_hash
  | SafePointWithOutstanding nat nat
  | CompletionWithOutstanding nat nat
  | MessageAfterCompletion string

datatype ingest_error =
    IngestProtocol protocol_error
  | IngestReference reference_error
  | IngestStream stream_error

record stream_validator =
  sv_binding :: supervisor_binding
  sv_started :: bool
  sv_completed :: bool
  sv_last_sequence :: "u64 option"
  sv_last_context_revision :: "u64 option"
  sv_current_context_hash :: "blob_hash option"
  sv_seen_model_requests :: "string set"
  sv_pending_model_requests :: "string set"
  sv_seen_tool_calls :: "string set"
  sv_pending_tool_calls :: "string set"

definition stream_validator_new :: "supervisor_binding \<Rightarrow> stream_validator" where
  "stream_validator_new binding =
     \<lparr>sv_binding = binding, sv_started = False, sv_completed = False, sv_last_sequence = None,
      sv_last_context_revision = None, sv_current_context_hash = None, sv_seen_model_requests = {},
      sv_pending_model_requests = {}, sv_seen_tool_calls = {}, sv_pending_tool_calls = {}\<rparr>"

definition validate_binding :: "stream_validator \<Rightarrow> agent_start \<Rightarrow> (stream_error, unit) result" where
  "validate_binding v start =
     (if as_session_id start \<noteq> sb_session_id (sv_binding v)
      then Inl (SessionBindingMismatch (sb_session_id (sv_binding v)) (as_session_id start))
      else if as_branch_id start \<noteq> sb_branch_id (sv_binding v)
      then Inl (BranchBindingMismatch (sb_branch_id (sv_binding v)) (as_branch_id start))
      else Inr ())"

text \<open>
  A handler returns the validator it leaves; on an error it leaves a candidate that every caller
  drops, so only the error is returned.
\<close>

type_synonym handler = "stream_validator \<Rightarrow> (stream_error, stream_validator) result"

definition accept_context :: "context_update \<Rightarrow> handler" where
  "accept_context update v =
     (case sv_last_context_revision v of
        Some previous \<Rightarrow>
          if cu_revision update \<le> previous
          then Inl (NonMonotonicContextRevision previous (cu_revision update))
          else Inr (v\<lparr>sv_last_context_revision := Some (cu_revision update),
                      sv_current_context_hash := Some (cu_context_hash update)\<rparr>)
      | None \<Rightarrow> Inr (v\<lparr>sv_last_context_revision := Some (cu_revision update),
                      sv_current_context_hash := Some (cu_context_hash update)\<rparr>))"

definition accept_model_request :: "model_request \<Rightarrow> handler" where
  "accept_model_request request v =
     (if mq_request_id request \<in> sv_seen_model_requests v
      then Inl (DuplicateModelRequest (mq_request_id request))
      else Inr (v\<lparr>sv_seen_model_requests := insert (mq_request_id request) (sv_seen_model_requests v),
                  sv_pending_model_requests := insert (mq_request_id request) (sv_pending_model_requests v)\<rparr>))"

definition accept_model_response :: "model_response \<Rightarrow> handler" where
  "accept_model_response response v =
     (if mp_request_id response \<notin> sv_pending_model_requests v
      then Inl (ModelResponseWithoutRequest (mp_request_id response))
      else Inr (v\<lparr>sv_pending_model_requests := sv_pending_model_requests v - {mp_request_id response}\<rparr>))"

definition accept_tool_call :: "tool_call \<Rightarrow> handler" where
  "accept_tool_call call v =
     (if tc_call_id call \<in> sv_seen_tool_calls v then Inl (DuplicateToolCall (tc_call_id call))
      else Inr (v\<lparr>sv_seen_tool_calls := insert (tc_call_id call) (sv_seen_tool_calls v),
                  sv_pending_tool_calls := insert (tc_call_id call) (sv_pending_tool_calls v)\<rparr>))"

definition accept_tool_result :: "tool_result \<Rightarrow> handler" where
  "accept_tool_result res v =
     (if tr_call_id res \<notin> sv_pending_tool_calls v then Inl (ToolResultWithoutCall (tr_call_id res))
      else Inr (v\<lparr>sv_pending_tool_calls := sv_pending_tool_calls v - {tr_call_id res}\<rparr>))"

definition accept_safe_point :: "safe_point \<Rightarrow> handler" where
  "accept_safe_point point v =
     (case sv_current_context_hash v of
        None \<Rightarrow> Inl SafePointWithoutContext
      | Some current \<Rightarrow>
          if sp_context_hash point \<noteq> current
          then Inl (SafePointContextMismatch current (sp_context_hash point))
          else if sv_pending_model_requests v \<noteq> {} \<or> sv_pending_tool_calls v \<noteq> {}
          then Inl (SafePointWithOutstanding (card (sv_pending_model_requests v)) (card (sv_pending_tool_calls v)))
          else Inr v)"

definition accept_completion :: handler where
  "accept_completion v =
     (if sv_pending_model_requests v \<noteq> {} \<or> sv_pending_tool_calls v \<noteq> {}
      then Inl (CompletionWithOutstanding (card (sv_pending_model_requests v)) (card (sv_pending_tool_calls v)))
      else Inr (v\<lparr>sv_completed := True\<rparr>))"

fun accept_message :: "message \<Rightarrow> handler" where
  "accept_message (AgentStart _) v = Inl DuplicateStart"
| "accept_message (ContextUpdate p) v = accept_context p v"
| "accept_message (ModelRequest p) v = accept_model_request p v"
| "accept_message (ModelResponse p) v = accept_model_response p v"
| "accept_message (ToolCall p) v = accept_tool_call p v"
| "accept_message (ToolResult p) v = accept_tool_result p v"
| "accept_message (SafePoint p) v = accept_safe_point p v"
| "accept_message (Completion _) v = accept_completion v"

definition accept_stream :: "envelope \<Rightarrow> handler" where
  "accept_stream e v =
     (if sv_completed v then Inl (MessageAfterCompletion (message_kind (env_message e)))
      else if \<not> sv_started v then
        (case env_message e of
           AgentStart start \<Rightarrow>
             rbind (validate_binding v start) (\<lambda>_.
             Inr (v\<lparr>sv_started := True, sv_last_sequence := Some (env_sequence e)\<rparr>))
         | m \<Rightarrow> Inl (StartRequired (message_kind m)))
      else
        (case (env_message e, sv_last_sequence v) of
           (AgentStart _, _) \<Rightarrow> Inl DuplicateStart
         | (m, Some previous) \<Rightarrow>
             if env_sequence e \<le> previous then Inl (NonMonotonicSequence previous (env_sequence e))
             else rbind (accept_message m v) (\<lambda>v'. Inr (v'\<lparr>sv_last_sequence := Some (env_sequence e)\<rparr>))
         | (m, None) \<Rightarrow>
             rbind (accept_message m v) (\<lambda>v'. Inr (v'\<lparr>sv_last_sequence := Some (env_sequence e)\<rparr>))))"

text \<open>\<open>accept_claims\<close> and \<open>accept\<close> work on a clone and replace the validator only on success.\<close>

definition accept_claims :: "envelope \<Rightarrow> stream_validator \<Rightarrow> (ingest_error, unit) result \<times> stream_validator" where
  "accept_claims e v =
     (case rbind (map_err IngestProtocol (validate e)) (\<lambda>_. map_err IngestStream (accept_stream e v)) of
        Inl err \<Rightarrow> (Inl err, v)
      | Inr candidate \<Rightarrow> (Inr (), candidate))"

definition accept ::
  "resolver \<Rightarrow> envelope \<Rightarrow> stream_validator \<Rightarrow> (ingest_error, unit) result \<times> stream_validator" where
  "accept status e v =
     (case accept_claims e v of
        (Inl err, _) \<Rightarrow> (Inl err, v)
      | (Inr _, candidate) \<Rightarrow>
          (case map_err IngestReference (validate_referenced_blobs e status) of
             Inl err \<Rightarrow> (Inl err, v)
           | Inr _ \<Rightarrow> (Inr (), candidate)))"

section \<open>Reading and writing records\<close>

record serde_error =
  se_line :: nat
  se_column :: nat
  se_text :: string

text \<open>
  What \<open>serde_json\<close>'s deserializer feeds to a visitor: scalars, sequences and objects in the order of
  the text. A container carries the error the parser reports instead of its next element, if any.
\<close>

datatype raw =
    RNull
  | RBool bool
  | RI64 i64
  | RU64 u64
  | RF64 u64
  | RStr string
  | RSeq "raw list" "serde_error option"
  | RMap "(string \<times> raw) list" "serde_error option"
  | RError serde_error

record 'p serde =
  to_value :: "'p \<Rightarrow> (serde_error, json) result"
  from_value :: "json \<Rightarrow> (serde_error, 'p) result"

record wire =
  wire_events :: "string \<Rightarrow> raw"
  wire_end :: "string \<Rightarrow> serde_error option"
  wire_custom :: "string \<Rightarrow> string \<Rightarrow> serde_error"
  wire_agent_start :: "agent_start serde"
  wire_context_update :: "context_update serde"
  wire_model_request :: "model_request serde"
  wire_model_response :: "model_response serde"
  wire_tool_call :: "tool_call serde"
  wire_tool_result :: "tool_result serde"
  wire_safe_point :: "safe_point serde"
  wire_completion :: "completion serde"

definition duplicate_key_prefix :: string where
  "duplicate_key_prefix = ''duplicate JSON key `''"

text \<open>An \<open>f64\<close> by its bits is finite unless its exponent is all ones.\<close>

definition is_finite_f64 :: "u64 \<Rightarrow> bool" where
  "is_finite_f64 bits \<longleftrightarrow> unat bits div 2 ^ 52 mod 2 ^ 11 \<noteq> 2047"

text \<open>\<open>UniqueValueVisitor\<close>; \<open>custom\<close> makes the error of a message.\<close>

fun visit :: "(string \<Rightarrow> serde_error) \<Rightarrow> raw \<Rightarrow> (serde_error, json) result"
  and visit_seq :: "(string \<Rightarrow> serde_error) \<Rightarrow> raw list \<Rightarrow> serde_error option \<Rightarrow> json list \<Rightarrow> (serde_error, json) result"
  and visit_map :: "(string \<Rightarrow> serde_error) \<Rightarrow> (string \<times> raw) list \<Rightarrow> serde_error option \<Rightarrow> extensions \<Rightarrow> (serde_error, json) result"
where
  "visit custom RNull = Inr JNull"
| "visit custom (RBool b) = Inr (JBool b)"
| "visit custom (RI64 i) = Inr (JNumber (if i < 0 then NegInt i else PosInt (word_of_int i)))"
| "visit custom (RU64 n) = Inr (JNumber (PosInt n))"
| "visit custom (RF64 bits) =
     (if is_finite_f64 bits then Inr (JNumber (Float bits)) else Inl (custom ''JSON number is not finite''))"
| "visit custom (RStr s) = Inr (JString s)"
| "visit custom (RSeq xs stop) = visit_seq custom xs stop []"
| "visit custom (RMap es stop) = visit_map custom es stop []"
| "visit custom (RError e) = Inl e"
| "visit_seq custom [] stop values =
     (case stop of Some e \<Rightarrow> Inl e | None \<Rightarrow> Inr (JArray values))"
| "visit_seq custom (x # xs) stop values =
     rbind (visit custom x) (\<lambda>v. visit_seq custom xs stop (values @ [v]))"
| "visit_map custom [] stop values =
     (case stop of Some e \<Rightarrow> Inl e | None \<Rightarrow> Inr (JObject values))"
| "visit_map custom ((k, x) # es) stop values =
     (if contains_key values k then Inl (custom (duplicate_key_prefix @ k @ ''`''))
      else rbind (visit custom x) (\<lambda>v. visit_map custom es stop (map_insert k v values)))"

definition unique_from_slice :: "wire \<Rightarrow> string \<Rightarrow> (serde_error, json) result" where
  "unique_from_slice W input =
     rbind (visit (wire_custom W input) (wire_events W input)) (\<lambda>value.
     case wire_end W input of Some e \<Rightarrow> Inl e | None \<Rightarrow> Inr value)"

definition json_error :: "serde_error \<Rightarrow> protocol_error" where
  "json_error e =
     (let malformed = MalformedJson (se_line e) (se_column e) (se_text e) in
      case split_once duplicate_key_prefix (se_text e) of
        None \<Rightarrow> malformed
      | Some (_, remainder) \<Rightarrow>
          (case split_once ''`'' remainder of
             None \<Rightarrow> malformed
           | Some (key, _) \<Rightarrow> DuplicateKey key))"

definition payload_error :: "serde_error \<Rightarrow> protocol_error" where
  "payload_error e =
     (let invalid = InvalidField ''payload'' (se_text e) in
      case strip_prefix ''missing field `'' (se_text e) of
        None \<Rightarrow> invalid
      | Some remainder \<Rightarrow>
          (case split_once ''`'' remainder of
             None \<Rightarrow> invalid
           | Some (field, _) \<Rightarrow> MissingField (''payload.'' @ field)))"

definition strip_record_terminator :: "string \<Rightarrow> string" where
  "strip_record_terminator input =
     (case strip_suffix [CHR 0x0D, CHR 0x0A] input of
        Some record \<Rightarrow> record
      | None \<Rightarrow> (case strip_suffix [CHR 0x0A] input of Some record \<Rightarrow> record | None \<Rightarrow> input))"

definition required_value :: "extensions \<Rightarrow> string \<Rightarrow> (json \<times> extensions) protocol_result" where
  "required_value members field =
     (case map_remove field members of
        (None, _) \<Rightarrow> Inl (MissingField field)
      | (Some value, rest) \<Rightarrow> Inr (value, rest))"

fun as_u64 :: "json \<Rightarrow> u64 option" where
  "as_u64 (JNumber (PosInt n)) = Some n"
| "as_u64 _ = None"

fun as_str :: "json \<Rightarrow> string option" where
  "as_str (JString s) = Some s"
| "as_str _ = None"

definition u16_of_u64 :: "u64 \<Rightarrow> u16 option" where
  "u16_of_u64 n = (if unat n < 2 ^ 16 then Some (ucast n) else None)"

definition required_u16 :: "extensions \<Rightarrow> string \<Rightarrow> (u16 \<times> extensions) protocol_result" where
  "required_u16 members field =
     rbind (required_value members field) (\<lambda>(value, rest).
     rbind (ok_or (Option.bind (as_u64 value) u16_of_u64)
       (InvalidField field ''must be an unsigned 16-bit integer'')) (\<lambda>n.
     Inr (n, rest)))"

definition required_u64 :: "extensions \<Rightarrow> string \<Rightarrow> (u64 \<times> extensions) protocol_result" where
  "required_u64 members field =
     rbind (required_value members field) (\<lambda>(value, rest).
     rbind (ok_or (as_u64 value) (InvalidField field ''must be an unsigned integer'')) (\<lambda>n.
     Inr (n, rest)))"

definition required_string :: "extensions \<Rightarrow> string \<Rightarrow> (string \<times> extensions) protocol_result" where
  "required_string members field =
     rbind (required_value members field) (\<lambda>(value, rest).
     rbind (ok_or (as_str value) (InvalidField field ''must be a string'')) (\<lambda>s.
     Inr (s, rest)))"

definition decode_payload :: "'p serde \<Rightarrow> json \<Rightarrow> 'p protocol_result" where
  "decode_payload codec payload = map_err payload_error (from_value codec payload)"

definition map_ok :: "('a \<Rightarrow> 'b) \<Rightarrow> ('e, 'a) result \<Rightarrow> ('e, 'b) result" where
  "map_ok f r = rbind r (\<lambda>x. Inr (f x))"

definition decode_message :: "wire \<Rightarrow> string \<Rightarrow> json \<Rightarrow> message protocol_result" where
  "decode_message W message_type payload =
     (if message_type = ''agent.start'' then map_ok AgentStart (decode_payload (wire_agent_start W) payload)
      else if message_type = ''context.update'' then map_ok ContextUpdate (decode_payload (wire_context_update W) payload)
      else if message_type = ''model.request'' then map_ok ModelRequest (decode_payload (wire_model_request W) payload)
      else if message_type = ''model.response'' then map_ok ModelResponse (decode_payload (wire_model_response W) payload)
      else if message_type = ''tool.call'' then map_ok ToolCall (decode_payload (wire_tool_call W) payload)
      else if message_type = ''tool.result'' then map_ok ToolResult (decode_payload (wire_tool_result W) payload)
      else if message_type = ''safe_point'' then map_ok SafePoint (decode_payload (wire_safe_point W) payload)
      else if message_type = ''agent.completion'' then map_ok Completion (decode_payload (wire_completion W) payload)
      else Inl (UnknownMessageType message_type))"

fun is_object :: "json \<Rightarrow> bool" where
  "is_object (JObject _) \<longleftrightarrow> True"
| "is_object _ \<longleftrightarrow> False"

definition decode_fields :: "wire \<Rightarrow> extensions \<Rightarrow> envelope protocol_result" where
  "decode_fields W members =
     rbind (required_u16 members ''protocol_version'') (\<lambda>(version, members1).
     if version \<noteq> current_protocol_version then Inl (UnsupportedVersion version current_protocol_version) else
     rbind (required_u64 members1 ''sequence'') (\<lambda>(sequence, members2).
     rbind (required_string members2 ''type'') (\<lambda>(message_type, members3).
     rbind (required_value members3 ''payload'') (\<lambda>(payload, members4).
     if \<not> is_object payload then Inl (InvalidField ''payload'' ''must be a JSON object'') else
     rbind (decode_message W message_type payload) (\<lambda>message.
     let e = \<lparr>protocol_version = version, env_sequence = sequence, env_message = message, env_extensions = members4\<rparr> in
     rbind (validate e) (\<lambda>_. Inr e))))))"

definition decode_line :: "wire \<Rightarrow> string \<Rightarrow> envelope protocol_result" where
  "decode_line W input =
     (if max_jsonl_bytes < length input then Inl (LineTooLarge (length input) max_jsonl_bytes) else
      let record = strip_record_terminator input in
      if list_all is_ascii_whitespace record then Inl EmptyLine
      else if CHR 0x0D \<in> set record then Inl BareCarriageReturn
      else if CHR 0x0A \<in> set record then Inl MultipleRecords
      else rbind (map_err json_error (unique_from_slice W record)) (\<lambda>value.
        case value of
          JObject members \<Rightarrow> decode_fields W members
        | _ \<Rightarrow> Inl (InvalidField ''$'' ''envelope must be a JSON object'')))"

fun encode_message :: "wire \<Rightarrow> message \<Rightarrow> (serde_error, json) result" where
  "encode_message W (AgentStart p) = to_value (wire_agent_start W) p"
| "encode_message W (ContextUpdate p) = to_value (wire_context_update W) p"
| "encode_message W (ModelRequest p) = to_value (wire_model_request W) p"
| "encode_message W (ModelResponse p) = to_value (wire_model_response W) p"
| "encode_message W (ToolCall p) = to_value (wire_tool_call W) p"
| "encode_message W (ToolResult p) = to_value (wire_tool_result W) p"
| "encode_message W (SafePoint p) = to_value (wire_safe_point W) p"
| "encode_message W (Completion p) = to_value (wire_completion W) p"

definition encode_payload :: "wire \<Rightarrow> message \<Rightarrow> json protocol_result" where
  "encode_payload W m = map_err (\<lambda>e. EncodingError (se_text e)) (encode_message W m)"

definition encoded_fields :: "envelope \<Rightarrow> json \<Rightarrow> extensions" where
  "encoded_fields e payload =
     map_insert ''payload'' payload
       (map_insert ''type'' (JString (message_kind (env_message e)))
         (map_insert ''sequence'' (JNumber (PosInt (env_sequence e)))
           (map_insert ''protocol_version'' (JNumber (PosInt (ucast (protocol_version e)))) (env_extensions e))))"

definition encode_line :: "externals \<Rightarrow> wire \<Rightarrow> envelope \<Rightarrow> string protocol_result" where
  "encode_line X W e =
     rbind (validate e) (\<lambda>_.
     rbind (encode_payload W (env_message e)) (\<lambda>payload.
     let encoded = json_to_string X (JObject (encoded_fields e payload)) @ [CHR 0x0A] in
     if max_jsonl_bytes < length encoded then Inl (LineTooLarge (length encoded) max_jsonl_bytes)
     else Inr encoded))"

end
