(* ===== verification/Epoch_Protocol_Proofs.thy ===== *)
theory Epoch_Protocol_Proofs
  imports Epoch_Protocol "HOL-Library.Sublist"
begin

text \<open>
  The stream validator as an automaton that keeps a summary of the records it accepted, the object
  maps behind the contract of a field map, and the reader and writer of records.
\<close>

section \<open>Automata and their histories\<close>

fun run_steps :: "('e \<Rightarrow> 's \<Rightarrow> ('x, 's) result) \<Rightarrow> 'e list \<Rightarrow> 's \<Rightarrow> ('x, 's) result" where
  "run_steps step [] s = Inr s"
| "run_steps step (e # es) s = rbind (step e s) (run_steps step es)"

lemma run_steps_append: "run_steps step (xs @ ys) s = rbind (run_steps step xs s) (run_steps step ys)"
proof (induction xs arbitrary: s)
  case (Cons x xs)
  show ?case by (cases "step x s") (simp_all add: Cons.IH)
qed simp

text \<open>A history is legal when every event was admissible after the ones before it.\<close>

definition legal :: "('e list \<Rightarrow> 'e \<Rightarrow> bool) \<Rightarrow> 'e list \<Rightarrow> bool" where
  "legal admissible h \<longleftrightarrow> (\<forall>i < length h. admissible (take i h) (h ! i))"

lemma legal_Nil [simp]: "legal admissible []"
  by (simp add: legal_def)

lemma legal_snoc [simp]: "legal admissible (h @ [e]) \<longleftrightarrow> legal admissible h \<and> admissible h e"
  by (auto simp: legal_def nth_append less_Suc_eq)

text \<open>
  The contract of an automaton that keeps a summary of its history: it accepts an event exactly when
  the event is admissible after the history, and then holds the summary of the longer history.
\<close>

locale history_automaton =
  fixes step :: "'e \<Rightarrow> 's \<Rightarrow> ('x, 's) result"
    and start :: 's
    and summary :: "'e list \<Rightarrow> 's"
    and admissible :: "'e list \<Rightarrow> 'e \<Rightarrow> bool"
  assumes summary_Nil: "summary [] = start"
    and step_iff: "legal admissible h \<Longrightarrow>
      step e (summary h) = Inr s \<longleftrightarrow> admissible h e \<and> s = summary (h @ [e])"
begin

lemma run_iff: "run_steps step es start = Inr s \<longleftrightarrow> legal admissible es \<and> s = summary es"
proof (induction es arbitrary: s rule: rev_induct)
  case Nil
  show ?case by (auto simp: summary_Nil)
next
  case (snoc e es)
  have one: "run_steps step [e] t = step e t" for t by (cases "step e t") simp_all
  have "run_steps step (es @ [e]) start = Inr s \<longleftrightarrow>
      (\<exists>t. run_steps step es start = Inr t \<and> step e t = Inr s)"
    by (simp add: run_steps_append rbind_eq_Inr one del: run_steps.simps)
  also have "\<dots> \<longleftrightarrow> legal admissible es \<and> step e (summary es) = Inr s"
    by (auto simp: snoc.IH)
  also have "\<dots> \<longleftrightarrow> legal admissible (es @ [e]) \<and> s = summary (es @ [e])"
    using step_iff by auto
  finally show ?case .
qed

text \<open>Events that are refused change nothing: what was accepted is itself a legal history.\<close>

lemma refused_leave_no_trace:
  assumes "\<And>e s. snd (offer e s) = (case step e s of Inr s' \<Rightarrow> s' | Inl _ \<Rightarrow> s)"
  shows "\<exists>acc. subseq acc es \<and> legal admissible acc \<and> fold (\<lambda>e s. snd (offer e s)) es start = summary acc"
proof (induction es rule: rev_induct)
  case Nil
  show ?case by (intro exI [of _ "[]"]) (simp add: summary_Nil)
next
  case (snoc e es)
  then obtain acc where acc: "subseq acc es" "legal admissible acc"
    "fold (\<lambda>e s. snd (offer e s)) es start = summary acc" by blast
  show ?case
  proof (cases "step e (summary acc)")
    case (Inl x)
    with acc assms show ?thesis by (auto intro!: exI [of _ acc])
  next
    case (Inr s)
    then have "admissible acc e" "s = summary (acc @ [e])" using step_iff [OF acc(2)] by auto
    with acc assms Inr show ?thesis by (auto intro!: exI [of _ "acc @ [e]"] simp: subseq_append')
  qed
qed

end

section \<open>What a stream of records may say\<close>

definition contexts :: "envelope list \<Rightarrow> context_update list" where
  "contexts h = List.map_filter (\<lambda>e. case env_message e of ContextUpdate p \<Rightarrow> Some p | _ \<Rightarrow> None) h"

definition requested_models :: "envelope list \<Rightarrow> string list" where
  "requested_models h = List.map_filter (\<lambda>e. case env_message e of ModelRequest p \<Rightarrow> Some (mq_request_id p) | _ \<Rightarrow> None) h"

definition answered_models :: "envelope list \<Rightarrow> string list" where
  "answered_models h = List.map_filter (\<lambda>e. case env_message e of ModelResponse p \<Rightarrow> Some (mp_request_id p) | _ \<Rightarrow> None) h"

definition called_tools :: "envelope list \<Rightarrow> string list" where
  "called_tools h = List.map_filter (\<lambda>e. case env_message e of ToolCall p \<Rightarrow> Some (tc_call_id p) | _ \<Rightarrow> None) h"

definition answered_tools :: "envelope list \<Rightarrow> string list" where
  "answered_tools h = List.map_filter (\<lambda>e. case env_message e of ToolResult p \<Rightarrow> Some (tr_call_id p) | _ \<Rightarrow> None) h"

definition finished :: "envelope list \<Rightarrow> bool" where
  "finished h \<longleftrightarrow> list_ex (\<lambda>e. case env_message e of Completion _ \<Rightarrow> True | _ \<Rightarrow> False) h"

text \<open>Every request and every call has been answered.\<close>

definition quiescent :: "envelope list \<Rightarrow> bool" where
  "quiescent h \<longleftrightarrow> set (requested_models h) \<subseteq> set (answered_models h) \<and> set (called_tools h) \<subseteq> set (answered_tools h)"

fun may_say :: "envelope list \<Rightarrow> message \<Rightarrow> bool" where
  "may_say h (AgentStart _) \<longleftrightarrow> False"
| "may_say h (ContextUpdate p) \<longleftrightarrow> (\<forall>q \<in> set (contexts h). cu_revision q < cu_revision p)"
| "may_say h (ModelRequest p) \<longleftrightarrow> mq_request_id p \<notin> set (requested_models h)"
| "may_say h (ModelResponse p) \<longleftrightarrow> mp_request_id p \<in> set (requested_models h) - set (answered_models h)"
| "may_say h (ToolCall p) \<longleftrightarrow> tc_call_id p \<notin> set (called_tools h)"
| "may_say h (ToolResult p) \<longleftrightarrow> tr_call_id p \<in> set (called_tools h) - set (answered_tools h)"
| "may_say h (SafePoint p) \<longleftrightarrow> contexts h \<noteq> [] \<and> sp_context_hash p = cu_context_hash (last (contexts h)) \<and> quiescent h"
| "may_say h (Completion _) \<longleftrightarrow> quiescent h"

definition may_follow :: "supervisor_binding \<Rightarrow> envelope list \<Rightarrow> envelope \<Rightarrow> bool" where
  "may_follow b h e \<longleftrightarrow>
     (if h = [] then
        (case env_message e of
           AgentStart s \<Rightarrow> as_session_id s = sb_session_id b \<and> as_branch_id s = sb_branch_id b
         | _ \<Rightarrow> False)
      else \<not> finished h \<and> (\<forall>p \<in> set h. env_sequence p < env_sequence e) \<and> may_say h (env_message e))"

definition well_formed_stream :: "supervisor_binding \<Rightarrow> envelope list \<Rightarrow> bool" where
  "well_formed_stream b es \<longleftrightarrow> legal (may_follow b) es"

definition last_of :: "('a \<Rightarrow> 'b) \<Rightarrow> 'a list \<Rightarrow> 'b option" where
  "last_of f xs = (if xs = [] then None else Some (f (last xs)))"

definition summary_of :: "supervisor_binding \<Rightarrow> envelope list \<Rightarrow> stream_validator" where
  "summary_of b h =
     \<lparr>sv_binding = b, sv_started = (h \<noteq> []), sv_completed = finished h,
      sv_last_sequence = last_of env_sequence h,
      sv_last_context_revision = last_of cu_revision (contexts h),
      sv_current_context_hash = last_of cu_context_hash (contexts h),
      sv_seen_model_requests = set (requested_models h),
      sv_pending_model_requests = set (requested_models h) - set (answered_models h),
      sv_seen_tool_calls = set (called_tools h),
      sv_pending_tool_calls = set (called_tools h) - set (answered_tools h)\<rparr>"

lemmas history_defs = contexts_def requested_models_def answered_models_def called_tools_def
  answered_tools_def finished_def

lemma history_Nil [simp]:
  "contexts [] = []" "requested_models [] = []" "answered_models [] = []" "called_tools [] = []"
  "answered_tools [] = []" "\<not> finished []"
  by (simp_all add: history_defs map_filter_simps)

lemma map_filter_snoc:
  "List.map_filter f (xs @ [x]) = List.map_filter f xs @ (case f x of None \<Rightarrow> [] | Some y \<Rightarrow> [y])"
  by (simp add: List.map_filter_def split: option.split)

lemma history_snoc:
  "contexts (h @ [e]) = contexts h @ (case env_message e of ContextUpdate p \<Rightarrow> [p] | _ \<Rightarrow> [])"
  "requested_models (h @ [e]) = requested_models h @ (case env_message e of ModelRequest p \<Rightarrow> [mq_request_id p] | _ \<Rightarrow> [])"
  "answered_models (h @ [e]) = answered_models h @ (case env_message e of ModelResponse p \<Rightarrow> [mp_request_id p] | _ \<Rightarrow> [])"
  "called_tools (h @ [e]) = called_tools h @ (case env_message e of ToolCall p \<Rightarrow> [tc_call_id p] | _ \<Rightarrow> [])"
  "answered_tools (h @ [e]) = answered_tools h @ (case env_message e of ToolResult p \<Rightarrow> [tr_call_id p] | _ \<Rightarrow> [])"
  "finished (h @ [e]) \<longleftrightarrow> finished h \<or> (case env_message e of Completion _ \<Rightarrow> True | _ \<Rightarrow> False)"
  by (simp_all add: history_defs map_filter_snoc split: message.split)

text \<open>In a well-formed stream sequence numbers and context revisions ascend, and answers have requests.\<close>

definition coherent :: "envelope list \<Rightarrow> bool" where
  "coherent h \<longleftrightarrow> sorted_wrt (<) (map env_sequence h) \<and> sorted_wrt (<) (map cu_revision (contexts h)) \<and>
     set (answered_models h) \<subseteq> set (requested_models h) \<and> set (answered_tools h) \<subseteq> set (called_tools h)"

lemma may_follow_cases:
  assumes "may_follow b h e"
  obtains (start) s where "h = []" "env_message e = AgentStart s"
      "as_session_id s = sb_session_id b" "as_branch_id s = sb_branch_id b"
    | (later) "h \<noteq> []" "\<not> finished h" "\<forall>p \<in> set h. env_sequence p < env_sequence e" "may_say h (env_message e)"
  using assms by (cases "h = []") (auto simp: may_follow_def split: message.splits)

lemma legal_coherent: "legal (may_follow b) h \<Longrightarrow> coherent h"
proof (induction h rule: rev_induct)
  case Nil
  show ?case by (simp add: coherent_def)
next
  case (snoc e h)
  then have IH: "coherent h" and "may_follow b h e" by simp_all
  from this(2) show ?case
  proof (cases rule: may_follow_cases)
    case (start s)
    then show ?thesis using history_snoc [of "[]" e] by (simp add: coherent_def)
  next
    case later
    with IH show ?thesis
      by (cases "env_message e") (auto simp: coherent_def history_snoc sorted_wrt_append)
  qed
qed

lemma above_last:
  assumes "sorted_wrt (<) (map f xs)" and "xs \<noteq> []"
  shows "(\<forall>x \<in> set xs. f x < (k :: 'a :: linorder)) \<longleftrightarrow> f (last xs) < k"
  using assms by (induction xs rule: rev_induct) (auto simp: sorted_wrt_append)

definition verified :: "resolver \<Rightarrow> envelope \<Rightarrow> bool" where
  "verified status e \<longleftrightarrow> (\<forall>h \<in> set (referenced_hashes e). status h = RefVerified)"

definition acceptable :: "resolver \<Rightarrow> supervisor_binding \<Rightarrow> envelope list \<Rightarrow> envelope \<Rightarrow> bool" where
  "acceptable status b h e \<longleftrightarrow> validate e = Inr () \<and> verified status e \<and> may_follow b h e"

definition accept_step :: "resolver \<Rightarrow> envelope \<Rightarrow> stream_validator \<Rightarrow> (ingest_error, stream_validator) result" where
  "accept_step status e v = (case accept status e v of (Inl err, _) \<Rightarrow> Inl err | (Inr _, v') \<Rightarrow> Inr v')"

lemma validate_hashes_Inr: "validate_hashes status hs = Inr u \<longleftrightarrow> (\<forall>h \<in> set hs. status h = RefVerified)"
  by (induction hs) (auto split: blob_reference_status.split)

lemma accept_step_Inr:
  "accept_step status e v = Inr v' \<longleftrightarrow> validate e = Inr () \<and> verified status e \<and> accept_stream e v = Inr v'"
proof -
  have "accept_step status e v =
      rbind (map_err IngestProtocol (validate e)) (\<lambda>_. rbind (map_err IngestStream (accept_stream e v)) (\<lambda>v'.
      rbind (map_err IngestReference (validate_referenced_blobs e status)) (\<lambda>_. Inr v')))"
    by (cases "validate e"; cases "accept_stream e v"; cases "validate_referenced_blobs e status")
      (simp_all add: accept_step_def accept_def accept_claims_def)
  then show ?thesis
    by (auto simp: rbind_eq_Inr map_err_eq_Inr validate_referenced_blobs_def validate_hashes_Inr verified_def)
qed

lemma accept_message_iff:
  assumes "coherent h" and "h \<noteq> []" and "\<not> finished h"
  shows "rbind (accept_message (env_message e) (summary_of b h))
      (\<lambda>v. Inr (v\<lparr>sv_last_sequence := Some (env_sequence e)\<rparr>)) = Inr v' \<longleftrightarrow>
    may_say h (env_message e) \<and> v' = summary_of b (h @ [e])"
proof (cases "env_message e")
  case (ContextUpdate p)
  have "(\<forall>q \<in> set (contexts h). cu_revision q < cu_revision p) \<longleftrightarrow>
      (contexts h = [] \<or> cu_revision (last (contexts h)) < cu_revision p)"
    using assms(1) by (cases "contexts h = []") (simp_all add: coherent_def above_last)
  with assms ContextUpdate show ?thesis
    by (auto simp: accept_context_def summary_of_def last_of_def history_snoc)
next
  case (ModelRequest p)
  with assms show ?thesis
    by (auto simp: accept_model_request_def summary_of_def last_of_def history_snoc coherent_def)
next
  case (ModelResponse p)
  with assms show ?thesis
    by (auto simp: accept_model_response_def summary_of_def last_of_def history_snoc)
next
  case (ToolCall p)
  with assms show ?thesis
    by (auto simp: accept_tool_call_def summary_of_def last_of_def history_snoc coherent_def)
next
  case (ToolResult p)
  with assms show ?thesis
    by (auto simp: accept_tool_result_def summary_of_def last_of_def history_snoc)
next
  case (SafePoint p)
  with assms show ?thesis
    by (auto simp: accept_safe_point_def summary_of_def last_of_def history_snoc quiescent_def)
next
  case (Completion p)
  with assms show ?thesis
    by (auto simp: accept_completion_def summary_of_def last_of_def history_snoc quiescent_def)
qed simp

lemma accept_stream_iff:
  assumes "legal (may_follow b) h"
  shows "accept_stream e (summary_of b h) = Inr v \<longleftrightarrow> may_follow b h e \<and> v = summary_of b (h @ [e])"
proof (cases "h = []")
  case True
  have "summary_of b [e] = (summary_of b [])\<lparr>sv_started := True, sv_last_sequence := Some (env_sequence e)\<rparr>"
    if "env_message e = AgentStart s" for s
    using that history_snoc [of "[]" e] by (simp add: summary_of_def last_of_def)
  with True show ?thesis
    by (cases "env_message e")
      (auto simp: accept_stream_def may_follow_def validate_binding_def rbind_eq_Inr, auto simp: summary_of_def)
next
  case False
  note coherent = legal_coherent [OF assms]
  have order: "(\<forall>p \<in> set h. env_sequence p < env_sequence e) \<longleftrightarrow> env_sequence (last h) < env_sequence e"
    by (rule above_last) (use coherent False in \<open>simp_all add: coherent_def\<close>)
  have fields: "sv_started (summary_of b h)" "sv_completed (summary_of b h) = finished h"
    "sv_last_sequence (summary_of b h) = Some (env_sequence (last h))"
    using False by (simp_all add: summary_of_def last_of_def)
  show ?thesis
  proof (cases "finished h \<or> env_sequence e \<le> env_sequence (last h)")
    case True
    with False fields show ?thesis
      by (cases "env_message e") (auto simp: accept_stream_def may_follow_def order)
  next
    case nf: False
    then have "accept_stream e (summary_of b h) = Inr v \<longleftrightarrow>
        rbind (accept_message (env_message e) (summary_of b h))
          (\<lambda>v. Inr (v\<lparr>sv_last_sequence := Some (env_sequence e)\<rparr>)) = Inr v"
      by (cases "env_message e") (simp_all add: accept_stream_def fields)
    also have "\<dots> \<longleftrightarrow> may_say h (env_message e) \<and> v = summary_of b (h @ [e])"
      by (rule accept_message_iff) (use coherent False nf in simp_all)
    finally show ?thesis using False nf by (auto simp: may_follow_def order)
  qed
qed

lemma legal_acceptable:
  "legal (acceptable status b) es \<longleftrightarrow>
     (\<forall>e \<in> set es. validate e = Inr () \<and> verified status e) \<and> well_formed_stream b es"
  unfolding well_formed_stream_def
  by (induction es rule: rev_induct) (auto simp: acceptable_def)

interpretation ingest: history_automaton "accept_step status" "stream_validator_new b" "summary_of b"
  "acceptable status b" for status b
proof
  show "summary_of b [] = stream_validator_new b"
    by (simp add: summary_of_def stream_validator_new_def last_of_def)
  show "accept_step status e (summary_of b h) = Inr s \<longleftrightarrow> acceptable status b h e \<and> s = summary_of b (h @ [e])"
    if "legal (acceptable status b) h" for h e s
  proof -
    have "legal (may_follow b) h" using that by (simp add: legal_acceptable well_formed_stream_def)
    then show ?thesis by (auto simp: accept_step_Inr acceptable_def accept_stream_iff)
  qed
qed

lemma accept_state: "snd (accept status e v) = (case accept_step status e v of Inr v' \<Rightarrow> v' | Inl _ \<Rightarrow> v)"
  by (auto simp: accept_step_def accept_def split: prod.splits sum.splits)

section \<open>Objects as maps\<close>

definition ordered :: "extensions \<Rightarrow> bool" where
  "ordered m \<longleftrightarrow> sorted_wrt (<) (map fst m)"

lemma keys_map_insert: "fst ` set (map_insert k v m) = insert k (fst ` set m)"
  by (induction k v m rule: map_insert.induct) auto

lemma map_of_map_insert: "map_of (map_insert k v m) x = (if x = k then Some v else map_of m x)"
  by (induction k v m rule: map_insert.induct) auto

lemma ordered_Cons: "ordered ((k, v) # m) \<longleftrightarrow> (\<forall>x \<in> fst ` set m. k < x) \<and> ordered m"
  by (simp add: ordered_def)

lemma ordered_map_insert: "ordered m \<Longrightarrow> ordered (map_insert k v m)"
proof (induction k v m rule: map_insert.induct)
  case (1 k v)
  show ?case by (simp add: ordered_def)
next
  case (2 k v k' v' m)
  then have m: "\<forall>x \<in> fst ` set m. k' < x" "ordered m" by (simp_all add: ordered_Cons)
  consider "k < k'" | "k = k'" | "k' < k" by (metis linorder_less_linear)
  then show ?case
  proof cases
    case 1
    then have "\<forall>x \<in> fst ` set ((k', v') # m). k < x" using m(1) by (auto intro: less_trans)
    with 1 m show ?thesis by (simp add: ordered_Cons)
  next
    case 2
    with m show ?thesis by (simp add: ordered_Cons)
  next
    case 3
    then have "\<forall>x \<in> fst ` set (map_insert k v m). k' < x" using m(1) unfolding keys_map_insert by blast
    moreover have "ordered (map_insert k v m)" by (rule 2(1)) (use 3 m(2) in auto)
    moreover have "map_insert k v ((k', v') # m) = (k', v') # map_insert k v m" using 3 by auto
    ultimately show ?thesis by (simp only: ordered_Cons)
  qed
qed

lemma map_insert_last: "\<forall>x \<in> fst ` set m. x < k \<Longrightarrow> map_insert k v m = m @ [(k, v)]"
  by (induction m) auto

lemma filter_map_insert:
  "filter (\<lambda>e. fst e \<noteq> x) (map_insert k v m) =
     (if x = k then filter (\<lambda>e. fst e \<noteq> x) m else map_insert k v (filter (\<lambda>e. fst e \<noteq> x) m))"
  if "ordered m"
  using that
proof (induction k v m rule: map_insert.induct)
  case (2 k v k' v' m)
  then have m: "\<forall>y \<in> fst ` set m. k' < y" "ordered m" by (simp_all add: ordered_Cons)
  have first: "map_insert k v (filter (\<lambda>e. fst e \<noteq> x) m) = (k, v) # filter (\<lambda>e. fst e \<noteq> x) m" if "k < k'"
  proof -
    have "\<forall>y \<in> fst ` set (filter (\<lambda>e. fst e \<noteq> x) m). k < y" using that m(1) by (auto intro: less_trans)
    then show ?thesis by (cases "filter (\<lambda>e. fst e \<noteq> x) m") auto
  qed
  consider "k < k'" | "k = k'" | "k' < k" by (metis linorder_less_linear)
  then show ?case
  proof cases
    case 1
    with first show ?thesis by auto
  next
    case 2
    have "map_insert k v (filter (\<lambda>e. fst e \<noteq> x) m) = (k, v) # filter (\<lambda>e. fst e \<noteq> x) m"
    proof -
      have "\<forall>y \<in> fst ` set (filter (\<lambda>e. fst e \<noteq> x) m). k < y" using 2 m(1) by auto
      then show ?thesis by (cases "filter (\<lambda>e. fst e \<noteq> x) m") auto
    qed
    with 2 show ?thesis by auto
  next
    case 3
    with 2(1) m(2) show ?thesis by auto
  qed
qed simp

text \<open>Fields inserted one after the other.\<close>

fun insert_all :: "('k \<Rightarrow> 'v \<Rightarrow> 'm \<Rightarrow> 'm) \<Rightarrow> ('k \<times> 'v) list \<Rightarrow> 'm \<Rightarrow> 'm" where
  "insert_all ins [] m = m"
| "insert_all ins ((k, v) # es) m = insert_all ins es (ins k v m)"

text \<open>
  The contract of the object maps: what a lookup sees after an insertion, and that removing an
  inserted key that was not there before gives the map back.
\<close>

locale field_map =
  fixes insert_field :: "'k \<Rightarrow> 'v \<Rightarrow> 'm \<Rightarrow> 'm"
    and remove_field :: "'k \<Rightarrow> 'm \<Rightarrow> 'v option \<times> 'm"
    and lookup_field :: "'m \<Rightarrow> 'k \<Rightarrow> 'v option"
    and inv :: "'m \<Rightarrow> bool"
  assumes inv_insert: "inv m \<Longrightarrow> inv (insert_field k v m)"
    and lookup_insert: "lookup_field (insert_field k v m) x = (if x = k then Some v else lookup_field m x)"
    and remove_fst: "fst (remove_field k m) = lookup_field m k"
    and remove_insert: "inv m \<Longrightarrow> lookup_field m k = None \<Longrightarrow> snd (remove_field k (insert_field k v m)) = m"
    and remove_insert_other: "inv m \<Longrightarrow> k \<noteq> x \<Longrightarrow>
      snd (remove_field x (insert_field k v m)) = insert_field k v (snd (remove_field x m))"
begin

lemma inv_insert_all: "inv m \<Longrightarrow> inv (insert_all insert_field es m)"
  by (induction es arbitrary: m) (auto simp: inv_insert)

lemma lookup_insert_all:
  "x \<notin> fst ` set es \<Longrightarrow> lookup_field (insert_all insert_field es m) x = lookup_field m x"
  by (induction es arbitrary: m) (auto simp: lookup_insert)

lemma remove_from_all:
  assumes "inv m" and "x \<notin> fst ` set es"
  shows "snd (remove_field x (insert_all insert_field es m)) = insert_all insert_field es (snd (remove_field x m))"
  using assms by (induction es arbitrary: m) (auto simp: inv_insert remove_insert_other)

lemma remove_first:
  assumes "inv m" and "lookup_field m k = None" and "k \<notin> fst ` set es"
  shows "remove_field k (insert_all insert_field ((k, v) # es) m) = (Some v, insert_all insert_field es m)"
proof (rule prod_eqI)
  show "fst (remove_field k (insert_all insert_field ((k, v) # es) m)) = fst (Some v, insert_all insert_field es m)"
    using assms by (simp add: remove_fst lookup_insert_all lookup_insert)
  show "snd (remove_field k (insert_all insert_field ((k, v) # es) m)) = snd (Some v, insert_all insert_field es m)"
    using assms by (simp add: remove_from_all inv_insert remove_insert)
qed

end

interpretation object_map: field_map map_insert map_remove map_of ordered
proof
  show "ordered (map_insert k v m)" if "ordered m" for k v m by (rule ordered_map_insert [OF that])
  show "map_of (map_insert k v m) x = (if x = k then Some v else map_of m x)" for k v m x
    by (rule map_of_map_insert)
  show "fst (map_remove k m) = map_of m k" for k m by (simp add: map_remove_def)
  show "snd (map_remove k (map_insert k v m)) = m" if "ordered m" "map_of m k = None" for k v m
  proof -
    have "filter (\<lambda>e. fst e \<noteq> k) m = m" using that(2) by (auto simp: filter_id_conv map_of_eq_None_iff)
    then show ?thesis by (simp add: map_remove_def filter_map_insert [OF that(1)])
  qed
  show "snd (map_remove x (map_insert k v m)) = map_insert k v (snd (map_remove x m))"
    if "ordered m" "k \<noteq> x" for k x v m
    using that(2) by (simp add: map_remove_def filter_map_insert [OF that(1)])
qed

section \<open>Reading back what was written\<close>

text \<open>What the values of \<open>serde_json\<close> satisfy by construction: object keys ascend, negative integers are
  negative, floats are finite.\<close>

fun json_ok :: "json \<Rightarrow> bool" where
  "json_ok (JNumber (NegInt i)) \<longleftrightarrow> i < 0"
| "json_ok (JNumber (Float bits)) \<longleftrightarrow> is_finite_f64 bits"
| "json_ok (JArray items) \<longleftrightarrow> list_all json_ok items"
| "json_ok (JObject es) \<longleftrightarrow> ordered es \<and> list_all (\<lambda>(k, v). json_ok v) es"
| "json_ok _ \<longleftrightarrow> True"

text \<open>What the deserializer feeds to a visitor for the text of a value.\<close>

fun raw_of :: "json \<Rightarrow> raw" where
  "raw_of JNull = RNull"
| "raw_of (JBool b) = RBool b"
| "raw_of (JNumber (PosInt n)) = RU64 n"
| "raw_of (JNumber (NegInt i)) = RI64 i"
| "raw_of (JNumber (Float bits)) = RF64 bits"
| "raw_of (JString s) = RStr s"
| "raw_of (JArray items) = RSeq (map raw_of items) None"
| "raw_of (JObject es) = RMap (map (\<lambda>(k, v). (k, raw_of v)) es) None"

text \<open>Documented behaviour of \<open>serde_json\<close> on one value: its compact text has no line break and is not
  blank, and the deserializer reads the text back completely.\<close>

definition text_reads_back :: "externals \<Rightarrow> wire \<Rightarrow> json \<Rightarrow> bool" where
  "text_reads_back X W v \<longleftrightarrow>
     (let s = json_to_string X v in
      wire_events W s = raw_of v \<and> wire_end W s = None \<and>
      CHR 0x0D \<notin> set s \<and> CHR 0x0A \<notin> set s \<and> \<not> list_all is_ascii_whitespace s)"

text \<open>The derived serializer and deserializer of a payload type agree on one payload.\<close>

definition payload_reads_back :: "wire \<Rightarrow> message \<Rightarrow> bool" where
  "payload_reads_back W m \<longleftrightarrow>
     (case encode_message W m of
        Inr (JObject es) \<Rightarrow> json_ok (JObject es) \<and> decode_message W (message_kind m) (JObject es) = Inr m
      | _ \<Rightarrow> False)"

lemma visit_seq_raw:
  assumes "\<And>v. v \<in> set items \<Longrightarrow> visit custom (raw_of v) = Inr v"
  shows "visit_seq custom (map raw_of items) None acc = Inr (JArray (acc @ items))"
  using assms by (induction items arbitrary: acc) auto

lemma visit_map_raw:
  assumes "\<And>k v. (k, v) \<in> set es \<Longrightarrow> visit custom (raw_of v) = Inr v" and "ordered (acc @ es)"
  shows "visit_map custom (map (\<lambda>(k, v). (k, raw_of v)) es) None acc = Inr (JObject (acc @ es))"
  using assms
proof (induction es arbitrary: acc)
  case (Cons e es)
  obtain k v where e: "e = (k, v)" by (cases e)
  have below: "\<forall>x \<in> fst ` set acc. x < k" using Cons.prems(2) by (auto simp: e ordered_def sorted_wrt_append)
  then have "k \<notin> fst ` set acc" by (metis less_irrefl)
  then have "\<not> contains_key acc k" by (simp add: contains_key_def map_of_eq_None_iff)
  moreover have "visit custom (raw_of v) = Inr v" by (rule Cons.prems(1) [of k]) (simp add: e)
  moreover have "visit_map custom (map (\<lambda>(k, v). (k, raw_of v)) es) None (acc @ [(k, v)]) = Inr (JObject ((acc @ [(k, v)]) @ es))"
    by (rule Cons.IH) (use Cons.prems e in auto)
  ultimately show ?case by (simp add: e map_insert_last [OF below])
qed simp

lemma visit_raw_of: "json_ok v \<Longrightarrow> visit custom (raw_of v) = Inr v"
proof (induction v)
  case (JNumber n)
  then show ?case by (cases n) auto
next
  case (JArray items)
  have "visit_seq custom (map raw_of items) None [] = Inr (JArray ([] @ items))"
    by (rule visit_seq_raw) (use JArray in \<open>auto simp: list_all_iff\<close>)
  then show ?case by simp
next
  case (JObject es)
  have "visit_map custom (map (\<lambda>(k, v). (k, raw_of v)) es) None [] = Inr (JObject ([] @ es))"
  proof (rule visit_map_raw)
    show "visit custom (raw_of v) = Inr v" if "(k, v) \<in> set es" for k v
      using JObject.IH [of "(k, v)" v] JObject.prems that by (auto simp: list_all_iff)
    show "ordered ([] @ es)" using JObject.prems by simp
  qed
  then show ?case by simp
qed simp_all

lemma encoded_fields_all:
  "encoded_fields e payload = insert_all map_insert
     [(''protocol_version'', JNumber (PosInt (ucast (protocol_version e)))),
      (''sequence'', JNumber (PosInt (env_sequence e))),
      (''type'', JString (message_kind (env_message e))), (''payload'', payload)] (env_extensions e)"
  by (simp add: encoded_fields_def)

lemma map_insert_values: "set (map_insert k v m) \<subseteq> insert (k, v) (set m)"
  by (induction k v m rule: map_insert.induct) auto

lemma json_ok_insert:
  "json_ok (JObject m) \<Longrightarrow> json_ok v \<Longrightarrow> json_ok (JObject (map_insert k v m))"
  using map_insert_values [of k v m] by (auto simp: ordered_map_insert list_all_iff)

lemma reject_reserved_Inr:
  "reject_reserved m reserved scope = Inr u \<longleftrightarrow> (\<forall>k \<in> set reserved. map_of m k = None)"
proof (cases "find (contains_key m) reserved")
  case None
  then show ?thesis using find_None_iff [of "contains_key m" reserved] by (auto simp: reject_reserved_def contains_key_def)
next
  case (Some k)
  then have "k \<in> set reserved" "contains_key m k" by (auto simp: find_Some_iff)
  with Some show ?thesis by (auto simp: reject_reserved_def contains_key_def)
qed

lemma validate_Inr:
  "validate e = Inr u \<longleftrightarrow> protocol_version e = current_protocol_version \<and> env_sequence e \<le> max_sequence \<and>
     (\<forall>k \<in> set envelope_fields. map_of (env_extensions e) k = None) \<and> validate_message (env_message e) = Inr ()"
  by (auto simp: validate_def rbind_eq_Inr reject_reserved_Inr bounded_integer_def)

lemma decode_encoded_fields:
  assumes "validate e = Inr ()" and "ordered (env_extensions e)" and "is_object payload"
    and "decode_message W (message_kind (env_message e)) payload = Inr (env_message e)"
  shows "decode_fields W (encoded_fields e payload) = Inr e"
proof -
  let ?v = "(''protocol_version'', JNumber (PosInt (ucast (protocol_version e))))"
    and ?s = "(''sequence'', JNumber (PosInt (env_sequence e)))"
    and ?t = "(''type'', JString (message_kind (env_message e)))" and ?p = "(''payload'', payload)"
  have free: "map_of (env_extensions e) k = None" if "k \<in> set envelope_fields" for k
    using assms(1) that by (simp add: validate_Inr)
  note first = object_map.remove_first [OF assms(2)]
  have r1: "map_remove ''protocol_version'' (encoded_fields e payload) = (Some (snd ?v), insert_all map_insert [?s, ?t, ?p] (env_extensions e))"
    unfolding encoded_fields_all snd_conv by (rule first) (simp_all add: free envelope_fields_def)
  have r2: "map_remove ''sequence'' (insert_all map_insert [?s, ?t, ?p] (env_extensions e)) = (Some (snd ?s), insert_all map_insert [?t, ?p] (env_extensions e))"
    unfolding snd_conv by (rule first) (simp_all add: free envelope_fields_def)
  have r3: "map_remove ''type'' (insert_all map_insert [?t, ?p] (env_extensions e)) = (Some (snd ?t), insert_all map_insert [?p] (env_extensions e))"
    unfolding snd_conv by (rule first) (simp_all add: free envelope_fields_def)
  have r4: "map_remove ''payload'' (insert_all map_insert [?p] (env_extensions e)) = (Some (snd ?p), insert_all map_insert [] (env_extensions e))"
    unfolding snd_conv by (rule first) (simp_all add: free envelope_fields_def)
  have version: "u16_of_u64 (ucast (protocol_version e)) = Some current_protocol_version"
    "protocol_version e = current_protocol_version"
    using assms(1) by (simp_all add: validate_Inr u16_of_u64_def current_protocol_version_def)
  have e: "\<lparr>protocol_version = current_protocol_version, env_sequence = env_sequence e,
      env_message = env_message e, env_extensions = env_extensions e\<rparr> = e"
    using version(2) by simp
  note required = required_u16_def required_u64_def required_string_def required_value_def
  have q1: "required_u16 (encoded_fields e payload) ''protocol_version'' =
      Inr (current_protocol_version, insert_all map_insert [?s, ?t, ?p] (env_extensions e))"
    using version(1) by (simp add: required r1 del: insert_all.simps)
  have q2: "required_u64 (insert_all map_insert [?s, ?t, ?p] (env_extensions e)) ''sequence'' =
      Inr (env_sequence e, insert_all map_insert [?t, ?p] (env_extensions e))"
    by (simp add: required r2 del: insert_all.simps)
  have q3: "required_string (insert_all map_insert [?t, ?p] (env_extensions e)) ''type'' =
      Inr (message_kind (env_message e), insert_all map_insert [?p] (env_extensions e))"
    by (simp add: required r3 del: insert_all.simps)
  have q4: "required_value (insert_all map_insert [?p] (env_extensions e)) ''payload'' = Inr (payload, env_extensions e)"
    by (simp add: required r4 del: insert_all.simps(2))
  show ?thesis
    unfolding decode_fields_def q1 rbind.simps prod.case q2 q3 q4
    by (simp add: assms(1,3,4) Let_def e)
qed

section \<open>What the reader accepts\<close>

fun no_repeated_keys :: "raw \<Rightarrow> bool" where
  "no_repeated_keys (RSeq xs _) \<longleftrightarrow> list_all no_repeated_keys xs"
| "no_repeated_keys (RMap es _) \<longleftrightarrow> distinct (map fst es) \<and> list_all (\<lambda>(k, r). no_repeated_keys r) es"
| "no_repeated_keys _ \<longleftrightarrow> True"

lemma visit_Inr:
  "visit custom r = Inr v \<Longrightarrow> no_repeated_keys r \<and> json_ok v"
  "visit_seq custom xs stop vs = Inr v \<Longrightarrow> list_all json_ok vs \<Longrightarrow> list_all no_repeated_keys xs \<and> json_ok v"
  "visit_map custom es stop m = Inr v \<Longrightarrow> json_ok (JObject m) \<Longrightarrow>
     distinct (map fst es) \<and> fst ` set es \<inter> fst ` set m = {} \<and> list_all (\<lambda>(k, r). no_repeated_keys r) es \<and> json_ok v"
proof (induction custom r and custom xs stop vs and custom es stop m arbitrary: v and v and v
    rule: visit_visit_seq_visit_map.induct)
  case (13 custom k x es stop acc)
  then obtain w where new: "\<not> contains_key acc k" and w: "visit custom x = Inr w"
    and rest: "visit_map custom es stop (map_insert k w acc) = Inr v"
    by (auto simp: rbind_eq_Inr split: if_splits)
  from "13.IH"(1) [OF new w] have x: "no_repeated_keys x" "json_ok w" by simp_all
  have "json_ok (JObject (map_insert k w acc))" by (rule json_ok_insert [OF "13.prems"(2) x(2)])
  from "13.IH"(2) [OF new rest this] have es: "distinct (map fst es)"
    "fst ` set es \<inter> insert k (fst ` set acc) = {}" "list_all (\<lambda>(k, r). no_repeated_keys r) es" "json_ok v"
    by (simp_all only: keys_map_insert)
  moreover have "k \<notin> fst ` set acc" using new by (simp add: contains_key_def map_of_eq_None_iff)
  ultimately show ?case using x(1) by auto
qed (auto simp: rbind_eq_Inr ordered_def split: if_splits option.splits)

end
