(* ===== verification/Epoch_Checkpoint.thy ===== *)
theory Epoch_Checkpoint
  imports Epoch_Blob
begin

text \<open>
  The crate \<open>epoch-checkpoint\<close>: application contexts captured at a safe point, stored as canonical
  JSON in the blob store, and restored with every check of the code. The derived serializers are the
  record \<open>context_codec\<close>; a failure's detail text is kept symbolic where it embeds the text of another
  error or a debug rendering.
\<close>

section \<open>Contexts and artifacts\<close>

record resume_cursors =
  rc_boundary_sequence :: u64
  rc_message_cursor :: u64
  rc_tool_cursor :: u64
  rc_task_cursor :: u64

datatype message_role = RoleSystem | RoleUser | RoleAssistant | RoleTool

record observable_message =
  om_message_id :: string
  om_role :: message_role
  om_content_hash :: blob_hash

record pending_task =
  pt_task_id :: string
  pt_task_type :: string
  pt_payload_hash :: "blob_hash option"

record application_context =
  cx_schema_version :: u16
  cx_safe_point_id :: string
  cx_deterministic_seed :: u64
  cx_context_revision :: u64
  cx_cursors :: resume_cursors
  cx_model_identifier :: string
  cx_tool_registry :: "(string \<times> string) list"
  cx_messages :: "observable_message list"
  cx_pending_tasks :: "pending_task list"
  cx_pending_model_request_ids :: "string list"
  cx_pending_tool_call_ids :: "string list"
  cx_user_visible_summary_hash :: "blob_hash option"

record checkpoint_metadata =
  cm_safe_point_id :: string
  cm_context_revision :: u64
  cm_boundary_sequence :: u64

record application_checkpoint =
  ck_component_hash :: blob_hash
  ck_byte_length :: u64
  ck_schema_version :: u16
  ck_metadata :: checkpoint_metadata

definition application_context_schema_version :: u16 where "application_context_schema_version = 1"

definition application_context_media_type :: string where
  "application_context_media_type = ''application/vnd.epoch.application-context+json;version=1''"

definition max_signed_integer :: u64 where "max_signed_integer = 9223372036854775807"
definition max_identifier_bytes :: nat where "max_identifier_bytes = 255"
definition max_name_bytes :: nat where "max_name_bytes = 128"
definition max_collection_items :: nat where "max_collection_items = 100000"

section \<open>Outcomes\<close>

datatype failure_stage = StageCapture | StageLoad

datatype failure_code =
    InvalidContext
  | MissingReference
  | Storage
  | Integrity
  | Decode
  | NonCanonical
  | MetadataMismatch

datatype failure_detail =
    Detail string
  | DetailBlob blob_error
  | DetailSerde string string
  | DetailDuplicate string string
  | DetailHash string blob_hash

datatype unsupported_code = SchemaVersion | CooperationRequired

datatype 'a backend_outcome =
    Supported 'a
  | Unsupported unsupported_code string
  | FailedAt failure_stage failure_code failure_detail

type_synonym 'a checked = "(failure_code \<times> failure_detail, 'a) result"

definition unsupported_schema :: "u16 \<Rightarrow> 'a backend_outcome" where
  "unsupported_schema found =
     Unsupported SchemaVersion (''application context schema '' @ show_nat (unat found) @
       '' is unsupported; expected '' @ show_nat (unat application_context_schema_version))"

record context_codec =
  context_to_vec :: "application_context \<Rightarrow> (string, string) result"
  context_from_slice :: "string \<Rightarrow> (string, application_context) result"
  version_probe :: "string \<Rightarrow> (string, u16) result"

section \<open>Validation\<close>

definition check_string :: "string \<Rightarrow> string \<Rightarrow> nat \<Rightarrow> unit checked" where
  "check_string field v maximum =
     (if trim v = [] \<or> maximum < length v
      then Inl (InvalidContext, Detail (field @ '' must contain between 1 and '' @ show_nat maximum @ '' UTF-8 bytes''))
      else Inr ())"

definition bounded_identifier :: "string \<Rightarrow> string \<Rightarrow> unit checked" where
  "bounded_identifier field v = check_string field v max_identifier_bytes"

definition bounded_name :: "string \<Rightarrow> string \<Rightarrow> unit checked" where
  "bounded_name field v = check_string field v max_name_bytes"

definition check_integer :: "string \<Rightarrow> u64 \<Rightarrow> unit checked" where
  "check_integer field v =
     (if max_signed_integer < v
      then Inl (InvalidContext, Detail (field @ '' exceeds SQLite's signed integer range''))
      else Inr ())"

definition bounded_collection :: "string \<Rightarrow> nat \<Rightarrow> unit checked" where
  "bounded_collection field len =
     (if max_collection_items < len
      then Inl (InvalidContext, Detail (field @ '' exceeds '' @ show_nat max_collection_items @ '' entries''))
      else Inr ())"

fun unique_ids :: "string \<Rightarrow> string list \<Rightarrow> string set \<Rightarrow> unit checked" where
  "unique_ids field [] seen = Inr ()"
| "unique_ids field (i # is) seen =
     (if i \<in> seen then Inl (InvalidContext, DetailDuplicate field i) else unique_ids field is (insert i seen))"

text \<open>\<open>for x in xs { check(x)?; }\<close>.\<close>

fun check_each :: "('a \<Rightarrow> unit checked) \<Rightarrow> 'a list \<Rightarrow> unit checked" where
  "check_each f [] = Inr ()"
| "check_each f (x # xs) = rbind (f x) (\<lambda>_. check_each f xs)"

definition validate_context_shape :: "application_context \<Rightarrow> unit checked" where
  "validate_context_shape c =
     check_each (\<lambda>check. check)
       [bounded_identifier ''safe_point_id'' (cx_safe_point_id c),
        bounded_name ''model_identifier'' (cx_model_identifier c),
        check_integer ''deterministic_seed'' (cx_deterministic_seed c),
        check_integer ''context_revision'' (cx_context_revision c),
        check_integer ''cursors.boundary_sequence'' (rc_boundary_sequence (cx_cursors c)),
        check_integer ''cursors.message_cursor'' (rc_message_cursor (cx_cursors c)),
        check_integer ''cursors.tool_cursor'' (rc_tool_cursor (cx_cursors c)),
        check_integer ''cursors.task_cursor'' (rc_task_cursor (cx_cursors c)),
        bounded_collection ''tool_registry'' (length (cx_tool_registry c)),
        bounded_collection ''messages'' (length (cx_messages c)),
        bounded_collection ''pending_tasks'' (length (cx_pending_tasks c)),
        bounded_collection ''pending_model_request_ids'' (length (cx_pending_model_request_ids c)),
        bounded_collection ''pending_tool_call_ids'' (length (cx_pending_tool_call_ids c)),
        check_each (\<lambda>(name, version).
          rbind (bounded_name ''tool_registry.name'' name) (\<lambda>_.
          bounded_identifier ''tool_registry.version'' version)) (cx_tool_registry c),
        unique_ids ''messages.message_id'' (map om_message_id (cx_messages c)) {},
        check_each (\<lambda>m. bounded_identifier ''messages.message_id'' (om_message_id m)) (cx_messages c),
        unique_ids ''pending_tasks.task_id'' (map pt_task_id (cx_pending_tasks c)) {},
        check_each (\<lambda>task.
          rbind (bounded_identifier ''pending_tasks.task_id'' (pt_task_id task)) (\<lambda>_.
          bounded_name ''pending_tasks.task_type'' (pt_task_type task))) (cx_pending_tasks c),
        unique_ids ''pending_model_request_ids'' (cx_pending_model_request_ids c) {},
        check_each (bounded_identifier ''pending_model_request_ids'') (cx_pending_model_request_ids c),
        unique_ids ''pending_tool_call_ids'' (cx_pending_tool_call_ids c) {},
        check_each (bounded_identifier ''pending_tool_call_ids'') (cx_pending_tool_call_ids c)]"

definition context_references :: "application_context \<Rightarrow> blob_hash list" where
  "context_references c =
     map om_content_hash (cx_messages c) @
     List.map_filter pt_payload_hash (cx_pending_tasks c) @
     (case cx_user_visible_summary_hash c of None \<Rightarrow> [] | Some h \<Rightarrow> [h])"

definition validate_reference :: "externals \<Rightarrow> blob_store \<Rightarrow> fs \<Rightarrow> blob_hash \<Rightarrow> unit checked" where
  "validate_reference X st t h =
     (case blob_read X st h t of
        Inr _ \<Rightarrow> Inr ()
      | Inl (BNotFound _) \<Rightarrow> Inl (MissingReference, DetailHash ''observable context references missing blob'' h)
      | Inl (BHashMismatch _ _) \<Rightarrow> Inl (Integrity, DetailHash ''observable context references corrupt blob'' h)
      | Inl e \<Rightarrow> Inl (Storage, DetailBlob e))"

definition validate_references :: "externals \<Rightarrow> blob_store \<Rightarrow> fs \<Rightarrow> application_context \<Rightarrow> unit checked" where
  "validate_references X st t c = check_each (validate_reference X st t) (context_references c)"

section \<open>Capture and restore\<close>

definition capture ::
  "externals \<Rightarrow> context_codec \<Rightarrow> blob_store \<Rightarrow> (nat \<Rightarrow> fs \<Rightarrow> fs) \<Rightarrow> i64 \<Rightarrow> uuid \<Rightarrow> uuid \<Rightarrow>
   application_context \<Rightarrow> fs \<Rightarrow> application_checkpoint backend_outcome \<times> fs" where
  "capture X C st env now u u' c t =
     (if cx_schema_version c \<noteq> application_context_schema_version
      then (unsupported_schema (cx_schema_version c), t)
      else case validate_context_shape c of
        Inl (code, detail) \<Rightarrow> (FailedAt StageCapture code detail, t)
      | Inr _ \<Rightarrow>
     (case validate_references X st t c of
        Inl (code, detail) \<Rightarrow> (FailedAt StageCapture code detail, t)
      | Inr _ \<Rightarrow>
     (case context_to_vec C c of
        Inl e \<Rightarrow> (FailedAt StageCapture InvalidContext (DetailSerde ''context serialization failed'' e), t)
      | Inr bytes \<Rightarrow>
     (case blob_put X st env now u u' bytes application_context_media_type t of
        (Inl e, t') \<Rightarrow> (FailedAt StageCapture Storage (DetailBlob e), t')
      | (Inr m, t') \<Rightarrow>
          (Supported \<lparr>ck_component_hash = m_hash m, ck_byte_length = m_length m,
             ck_schema_version = cx_schema_version c,
             ck_metadata = \<lparr>cm_safe_point_id = cx_safe_point_id c, cm_context_revision = cx_context_revision c,
               cm_boundary_sequence = rc_boundary_sequence (cx_cursors c)\<rparr>\<rparr>, t')))))"

definition metadata_matches :: "application_checkpoint \<Rightarrow> application_context \<Rightarrow> bool" where
  "metadata_matches a c \<longleftrightarrow>
     cm_safe_point_id (ck_metadata a) = cx_safe_point_id c \<and>
     cm_context_revision (ck_metadata a) = cx_context_revision c \<and>
     cm_boundary_sequence (ck_metadata a) = rc_boundary_sequence (cx_cursors c)"

definition restore_bytes ::
  "externals \<Rightarrow> context_codec \<Rightarrow> blob_store \<Rightarrow> application_checkpoint \<Rightarrow> string \<Rightarrow> fs \<Rightarrow>
   application_context backend_outcome" where
  "restore_bytes X C st a bytes t =
     (if \<not> length bytes < 2 ^ 64
      then FailedAt StageLoad Integrity (Detail ''checkpoint byte length cannot be represented as u64'')
      else if of_nat (length bytes) \<noteq> ck_byte_length a
      then FailedAt StageLoad Integrity (Detail (''checkpoint length mismatch: metadata='' @
        show_nat (unat (ck_byte_length a)) @ '', actual='' @ show_nat (length bytes)))
      else case version_probe C bytes of
        Inl e \<Rightarrow> FailedAt StageLoad Decode (DetailSerde ''context version header is invalid'' e)
      | Inr version \<Rightarrow>
     if version \<noteq> application_context_schema_version then unsupported_schema version
     else (case context_from_slice C bytes of
        Inl e \<Rightarrow> FailedAt StageLoad Decode (DetailSerde ''context schema is invalid'' e)
      | Inr c \<Rightarrow>
     (case validate_context_shape c of
        Inl (code, detail) \<Rightarrow> FailedAt StageLoad code detail
      | Inr _ \<Rightarrow>
     (case validate_references X st t c of
        Inl (code, detail) \<Rightarrow> FailedAt StageLoad code detail
      | Inr _ \<Rightarrow>
     (case context_to_vec C c of
        Inl e \<Rightarrow> FailedAt StageLoad Decode (DetailSerde ''decoded context cannot be re-encoded'' e)
      | Inr canonical \<Rightarrow>
     if canonical \<noteq> bytes
     then FailedAt StageLoad NonCanonical (Detail ''context bytes are not the canonical schema encoding'')
     else if \<not> metadata_matches a c
     then FailedAt StageLoad MetadataMismatch (Detail ''checkpoint metadata does not match serialized context'')
     else Supported c)))))"

definition restore ::
  "externals \<Rightarrow> context_codec \<Rightarrow> blob_store \<Rightarrow> application_checkpoint \<Rightarrow> fs \<Rightarrow>
   application_context backend_outcome" where
  "restore X C st a t =
     (if ck_schema_version a \<noteq> application_context_schema_version
      then unsupported_schema (ck_schema_version a)
      else case blob_read X st (ck_component_hash a) t of
        Inl (BHashMismatch _ _) \<Rightarrow>
          FailedAt StageLoad Integrity (Detail ''checkpoint blob failed SHA-256 verification'')
      | Inl e \<Rightarrow> FailedAt StageLoad Storage (DetailBlob e)
      | Inr bytes \<Rightarrow> restore_bytes X C st a bytes t)"

end
