(* ===== verification/Epoch_Checkpoint_Properties.thy ===== *)
theory Epoch_Checkpoint_Properties
  imports Epoch_Checkpoint Epoch_Blob_Properties
begin

text \<open>
  What a checkpoint backend promises, as the interface \<open>checkpoint_backend\<close>, its implementation by the
  application backend, and what a restored context guarantees.
\<close>

section \<open>The backend interface\<close>

locale checkpoint_backend =
  fixes captures :: "'t \<Rightarrow> 'state \<Rightarrow> 'artifact \<Rightarrow> 't \<Rightarrow> bool"
    and restores :: "'artifact \<Rightarrow> 't \<Rightarrow> 'state backend_outcome"
    and keeps :: "'t \<Rightarrow> 't \<Rightarrow> bool"
  assumes captured_restores: "captures t s a t' \<Longrightarrow> keeps t' t'' \<Longrightarrow> restores a t'' = Supported s"
    and captures_keeps: "captures t s a t' \<Longrightarrow> keeps t t'"
    and keeps_refl: "keeps t t"
    and keeps_trans: "keeps t t' \<Longrightarrow> keeps t' t'' \<Longrightarrow> keeps t t''"
begin

lemma restore_after_capture: "captures t s a t' \<Longrightarrow> restores a t' = Supported s"
  by (rule captured_restores [OF _ keeps_refl])

lemma earlier_checkpoints_survive:
  assumes "captures t s a t'" and "keeps t' t1" and "captures t1 s2 a2 t2"
  shows "restores a t2 = Supported s"
  by (rule captured_restores [OF assms(1) keeps_trans [OF assms(2) captures_keeps [OF assms(3)]]])

lemma artifact_determines_state:
  assumes "captures t s a t'" and "keeps t' t1" and "captures t1 s2 a t2"
  shows "s = s2"
  using earlier_checkpoints_survive [OF assms] restore_after_capture [OF assms(3)] by simp

end

section \<open>The application backend\<close>

text \<open>The derived serializer and deserializer agree on one context.\<close>

definition context_reads_back :: "context_codec \<Rightarrow> application_context \<Rightarrow> bool" where
  "context_reads_back C c \<longleftrightarrow>
     (case context_to_vec C c of
        Inl _ \<Rightarrow> True
      | Inr bytes \<Rightarrow> context_from_slice C bytes = Inr c \<and> version_probe C bytes = Inr (cx_schema_version c))"

lemma check_each_Inr: "check_each f xs = Inr u \<longleftrightarrow> (\<forall>x \<in> set xs. f x = Inr ())"
  by (induction xs) (auto simp: rbind_eq_Inr)

lemma validate_reference_Inr: "validate_reference X st t h = Inr u \<longleftrightarrow> (\<exists>bytes. blob_read X st h t = Inr bytes)"
  by (auto simp: validate_reference_def split: sum.splits blob_error.splits)

lemma validate_references_Inr:
  "validate_references X st t c = Inr u \<longleftrightarrow> (\<forall>h \<in> set (context_references c). \<exists>bytes. blob_read X st h t = Inr bytes)"
  by (simp add: validate_references_def check_each_Inr validate_reference_Inr)

lemma capture_Supported:
  assumes "capture X C st env now u u' c t = (Supported a, t')"
  obtains bytes m where "cx_schema_version c = application_context_schema_version"
    "validate_context_shape c = Inr ()" "validate_references X st t c = Inr ()" "context_to_vec C c = Inr bytes"
    "blob_put X st env now u u' bytes application_context_media_type t = (Inr m, t')"
    "a = \<lparr>ck_component_hash = m_hash m, ck_byte_length = m_length m, ck_schema_version = cx_schema_version c,
       ck_metadata = \<lparr>cm_safe_point_id = cx_safe_point_id c, cm_context_revision = cx_context_revision c,
         cm_boundary_sequence = rc_boundary_sequence (cx_cursors c)\<rparr>\<rparr>"
  using assms by (auto simp: capture_def unsupported_schema_def split: if_splits sum.splits prod.splits)

lemma restore_bytes_Supported:
  "restore_bytes X C st a bytes t = Supported c \<longleftrightarrow>
     length bytes < 2 ^ 64 \<and> of_nat (length bytes) = ck_byte_length a \<and>
     version_probe C bytes = Inr application_context_schema_version \<and> context_from_slice C bytes = Inr c \<and>
     validate_context_shape c = Inr () \<and> validate_references X st t c = Inr () \<and>
     context_to_vec C c = Inr bytes \<and> metadata_matches a c"
  by (auto simp: restore_bytes_def unsupported_schema_def split: if_splits sum.splits prod.splits)

lemma restore_Supported:
  "restore X C st a t = Supported c \<longleftrightarrow> ck_schema_version a = application_context_schema_version \<and>
     (\<exists>bytes. blob_read X st (ck_component_hash a) t = Inr bytes \<and> restore_bytes X C st a bytes t = Supported c)"
  by (auto simp: restore_def unsupported_schema_def split: if_splits sum.splits blob_error.splits)

definition captured ::
  "externals \<Rightarrow> context_codec \<Rightarrow> blob_store \<Rightarrow> fs \<Rightarrow> application_context \<Rightarrow> application_checkpoint \<Rightarrow> fs \<Rightarrow> bool" where
  "captured X C st t c a t' \<longleftrightarrow> context_reads_back C c \<and>
     (\<exists>env now u u' bytes. context_to_vec C c = Inr bytes \<and>
        polite {temporary_path X (blob_hash_digest X bytes) u, temporary_path X (blob_hash_digest X bytes) u'} env \<and>
        (\<forall>other. blob_hash_digest X other = blob_hash_digest X bytes \<longrightarrow> other = bytes) \<and>
        capture X C st env now u u' c t = (Supported a, t'))"

lemma captured_restorable:
  assumes "captured X C st t c a t'" and "grows t' t''"
  shows "restore X C st a t'' = Supported c" and "grows t t'"
proof -
  from assms(1) obtain env now u u' bytes where vec: "context_to_vec C c = Inr bytes"
    and polite: "polite {temporary_path X (blob_hash_digest X bytes) u, temporary_path X (blob_hash_digest X bytes) u'} env"
    and inj: "\<And>other. blob_hash_digest X other = blob_hash_digest X bytes \<Longrightarrow> other = bytes"
    and cap: "capture X C st env now u u' c t = (Supported a, t')"
    and codec: "context_reads_back C c"
    unfolding captured_def by blast
  obtain m where version: "cx_schema_version c = application_context_schema_version"
    and shape: "validate_context_shape c = Inr ()" and refs: "validate_references X st t c = Inr ()"
    and put: "blob_put X st env now u u' bytes application_context_media_type t = (Inr m, t')"
    and a: "a = \<lparr>ck_component_hash = m_hash m, ck_byte_length = m_length m, ck_schema_version = cx_schema_version c,
       ck_metadata = \<lparr>cm_safe_point_id = cx_safe_point_id c, cm_context_revision = cx_context_revision c,
         cm_boundary_sequence = rc_boundary_sequence (cx_cursors c)\<rparr>\<rparr>"
    by (rule capture_Supported [OF cap]) (use vec in auto)
  have stored: "blob_stored X st t bytes t'" unfolding blob_stored_def using polite put by blast
  show grown: "grows t t'" by (rule blobs.stores_keeps [OF stored])
  have read: "blob_read X st (blob_hash_digest X bytes) t'' = Inr bytes"
    by (rule blobs.read_back [OF stored assms(2) inj])
  have m: "m = \<lparr>m_hash = blob_hash_digest X bytes, m_length = of_nat (length bytes), m_media_type = application_context_media_type\<rparr>"
    and len: "length bytes \<le> unat (max_blob_bytes st)"
    by (rule blob_put_Inr [OF put], assumption)+
  have "unat (max_blob_bytes st) < 2 ^ 64" using unsigned_less [of "max_blob_bytes st", where 'a = nat] by simp
  with len have "length bytes < 2 ^ 64" by linarith
  moreover have "validate_references X st t'' c = Inr ()"
    using refs blobs.keeps_read [OF grows_trans [OF grown assms(2)]] unfolding validate_references_Inr by blast
  moreover have "context_from_slice C bytes = Inr c" "version_probe C bytes = Inr application_context_schema_version"
    using codec vec version by (simp_all add: context_reads_back_def)
  ultimately show "restore X C st a t'' = Supported c"
    using read shape vec version by (simp add: restore_Supported restore_bytes_Supported a m metadata_matches_def)
qed

interpretation application: checkpoint_backend "captured X C st" "restore X C st" grows for X C st
proof
  show "restore X C st a t'' = Supported s" if "captured X C st t s a t'" "grows t' t''" for t s a t' t''
    by (rule captured_restorable(1) [OF that])
  show "grows t t'" if "captured X C st t s a t'" for t s a t'
    by (rule captured_restorable(2) [OF that grows_refl])
  show "grows t t''" if "grows t t'" "grows t' t''" for t t' t'' by (rule grows_trans [OF that])
qed (rule grows_refl)

text \<open>C13: a captured context is restored exactly. After a successful capture, and after any later growth of the
  blob store, restoring the artifact gives back the captured context, as long as the context's
  serializer and deserializer agree on it and no other byte string has the digest of its encoding.\<close>

theorem checkpoint_round_trip:
  assumes "context_reads_back C c" and "context_to_vec C c = Inr bytes"
    and "polite {temporary_path X (blob_hash_digest X bytes) u, temporary_path X (blob_hash_digest X bytes) u'} env"
    and "\<And>other. blob_hash_digest X other = blob_hash_digest X bytes \<Longrightarrow> other = bytes"
    and "capture X C st env now u u' c t = (Supported a, t')" and "grows t' t''"
  shows "restore X C st a t'' = Supported c"
proof (rule application.captured_restores [OF _ assms(6)])
  show "captured X C st t c a t'" unfolding captured_def using assms(1-5) by blast
qed

text \<open>C33: a restored context is sound. Whatever is in the store, a context that \<open>restore\<close> returns is the one whose
  canonical encoding has the artifact's hash and length, it passed validation, its metadata is the
  artifact's, and every blob it refers to is stored and verified.\<close>

theorem restored_context_is_sound:
  assumes "restore X C st a t = Supported c"
  shows "\<exists>bytes. blob_hash_digest X bytes = ck_component_hash a \<and> context_to_vec C c = Inr bytes \<and>
     of_nat (length bytes) = ck_byte_length a \<and> validate_context_shape c = Inr () \<and> metadata_matches a c \<and>
     list_all (\<lambda>h. \<exists>b. blob_read X st h t = Inr b \<and> blob_hash_digest X b = h) (context_references c)"
proof -
  from assms obtain bytes where read: "blob_read X st (ck_component_hash a) t = Inr bytes"
    and r: "restore_bytes X C st a bytes t = Supported c" by (auto simp: restore_Supported)
  have "list_all (\<lambda>h. \<exists>b. blob_read X st h t = Inr b \<and> blob_hash_digest X b = h) (context_references c)"
    using r blobs.read_verified unfolding restore_bytes_Supported validate_references_Inr list_all_iff by blast
  with r blobs.read_verified [OF read] show ?thesis by (auto simp: restore_bytes_Supported)
qed

definition example_context :: application_context where
  "example_context = \<lparr>cx_schema_version = 1, cx_safe_point_id = ''p1'', cx_deterministic_seed = 7, cx_context_revision = 2,
     cx_cursors = \<lparr>rc_boundary_sequence = 5, rc_message_cursor = 0, rc_tool_cursor = 0, rc_task_cursor = 0\<rparr>,
     cx_model_identifier = ''m'', cx_tool_registry = [], cx_messages = [], cx_pending_tasks = [],
     cx_pending_model_request_ids = [''r''], cx_pending_tool_call_ids = [], cx_user_visible_summary_hash = None\<rparr>"

definition example_codec_of_context :: context_codec where
  "example_codec_of_context = \<lparr>context_to_vec = (\<lambda>_. Inr ''payload''),
     context_from_slice = (\<lambda>_. Inr example_context), version_probe = (\<lambda>_. Inr 1)\<rparr>"

lemma example_shape: "validate_context_shape example_context = Inr ()"
proof -
  have "trim ''p1'' \<noteq> []" "trim ''m'' \<noteq> []" "trim ''r'' \<noteq> []" by code_simp+
  then show ?thesis
    by (simp add: validate_context_shape_def example_context_def bounded_identifier_def bounded_name_def check_string_def
        max_identifier_bytes_def max_name_bytes_def check_integer_def max_signed_integer_def bounded_collection_def
        max_collection_items_def)
qed

definition example_context_put :: "(blob_error, blob_metadata) result \<times> fs" where
  "example_context_put =
     blob_put one_blob_externals example_store quiet 5 1 2 ''payload'' application_context_media_type opened_fs"

definition example_artifact :: application_checkpoint where
  "example_artifact = \<lparr>ck_component_hash = m_hash (projr (fst example_context_put)),
     ck_byte_length = m_length (projr (fst example_context_put)), ck_schema_version = 1,
     ck_metadata = \<lparr>cm_safe_point_id = ''p1'', cm_context_revision = 2, cm_boundary_sequence = 5\<rparr>\<rparr>"

lemma example_captured:
  "capture one_blob_externals example_codec_of_context example_store quiet 5 1 2 example_context opened_fs =
     (Supported example_artifact, snd example_context_put)"
proof -
  have "\<not> isl (fst example_context_put)" by code_simp
  then have put: "blob_put one_blob_externals example_store quiet 5 1 2 ''payload'' application_context_media_type opened_fs =
      (Inr (projr (fst example_context_put)), snd example_context_put)"
    by (simp add: example_context_put_def prod_eq_iff)
  have "cx_schema_version example_context = application_context_schema_version" by code_simp
  moreover have "validate_references one_blob_externals example_store opened_fs example_context = Inr ()" by code_simp
  moreover have "context_to_vec example_codec_of_context example_context = Inr ''payload''"
    by (simp add: example_codec_of_context_def)
  ultimately show ?thesis using example_shape put
    by (simp add: capture_def example_artifact_def application_context_schema_version_def) (simp add: example_context_def)
qed

lemma example_context_reads_back: "context_reads_back example_codec_of_context example_context"
  by (simp add: context_reads_back_def example_codec_of_context_def) (simp add: example_context_def)

lemma example_context_vec: "context_to_vec example_codec_of_context example_context = Inr ''payload''"
  by (simp add: example_codec_of_context_def)

theorem checkpoint_round_trip_witness:
  "restore one_blob_externals example_codec_of_context example_store example_artifact (snd example_context_put) =
     Supported example_context"
  by (rule checkpoint_round_trip [OF example_context_reads_back example_context_vec quiet_polite
        one_blob_no_collision example_captured grows_refl])

lemma example_restored:
  "restore one_blob_externals example_codec_of_context example_store example_artifact (snd example_context_put) =
     Supported example_context"
proof (rule application.restore_after_capture)
  show "captured one_blob_externals example_codec_of_context example_store opened_fs example_context example_artifact
      (snd example_context_put)"
    unfolding captured_def
    using example_context_reads_back example_context_vec quiet_polite one_blob_no_collision example_captured by blast
qed

theorem restored_context_is_sound_witness:
  "\<exists>bytes. blob_hash_digest one_blob_externals bytes = ck_component_hash example_artifact \<and>
     context_to_vec example_codec_of_context example_context = Inr bytes \<and>
     of_nat (length bytes) = ck_byte_length example_artifact \<and> validate_context_shape example_context = Inr () \<and>
     metadata_matches example_artifact example_context \<and>
     list_all (\<lambda>h. \<exists>b. blob_read one_blob_externals example_store h (snd example_context_put) = Inr b \<and>
       blob_hash_digest one_blob_externals b = h) (context_references example_context)"
  by (rule restored_context_is_sound [OF example_restored])

end
