(* ===== verification/Epoch_Storage.thy ===== *)
theory Epoch_Storage
  imports Epoch_Text "HOL-Library.Char_ord" "HOL-Library.List_Lexorder"
begin

text \<open>
  Opening the trusted database (\<open>epoch-storage/src/lib.rs\<close>): the pragmas, the migration runner and its
  checks. SQLite is not part of the repository: what a batch of statements does to the tables other
  than \<open>schema_migrations\<close>, how many user tables there are, and what pragmas answer, are the fields of
  the record \<open>sqlite\<close>.
\<close>

section \<open>Migrations\<close>

record migration =
  mg_version :: i64
  mg_name :: string
  mg_sql :: string

definition latest_schema_version :: i64 where "latest_schema_version = 6"

text \<open>The compiled plan; the texts of the SQL files are its argument.\<close>

definition migrations :: "(nat \<Rightarrow> string) \<Rightarrow> migration list" where
  "migrations sql_file =
     [\<lparr>mg_version = 1, mg_name = ''initial_runtime_schema'', mg_sql = sql_file 1\<rparr>,
      \<lparr>mg_version = 2, mg_name = ''append_only_event_payloads'', mg_sql = sql_file 2\<rparr>,
      \<lparr>mg_version = 3, mg_name = ''append_only_effect_history'', mg_sql = sql_file 3\<rparr>,
      \<lparr>mg_version = 4, mg_name = ''trusted_capability_authority'', mg_sql = sql_file 4\<rparr>,
      \<lparr>mg_version = 5, mg_name = ''durable_branch_forks'', mg_sql = sql_file 5\<rparr>,
      \<lparr>mg_version = 6, mg_name = ''security_frontiers'', mg_sql = sql_file 6\<rparr>]"

record migration_row =
  mr_version :: i64
  mr_name :: string
  mr_checksum :: string
  mr_applied_at :: i64

text \<open>The database: \<open>schema_migrations\<close>, when it exists, and everything else.\<close>

record 'd database =
  history :: "migration_row list option"
  tables :: 'd

datatype sqlite_failure = Busy | Locked | OtherFailure

datatype storage_error =
    UnsupportedSchema i64 i64
  | MigrationDrift i64
  | MigrationGap i64 i64
  | MissingMigrationMetadata
  | InvalidMigrationPlan
  | PragmaNotApplied string string string
  | ForeignKeyCheckFailed
  | StorageSqlite sqlite_failure

type_synonym 'a storage_result = "(storage_error, 'a) result"

record 'd sqlite =
  execute_batch :: "string \<Rightarrow> 'd \<Rightarrow> (sqlite_failure, 'd) result"
  user_tables :: "'d \<Rightarrow> nat"
  foreign_key_violation :: "'d \<Rightarrow> bool"
  set_safety_pragmas :: "(sqlite_failure, unit) result"
  set_journal_mode :: "nat \<Rightarrow> (sqlite_failure, string) result"
  set_synchronous :: "(sqlite_failure, unit) result"
  synchronous_pragma :: "(sqlite_failure, int) result"
  foreign_keys_pragma :: "(sqlite_failure, int) result"

definition migration_checksum :: "externals \<Rightarrow> migration \<Rightarrow> string" where
  "migration_checksum X m = encode_hex (sha256 X (mg_sql m))"

text \<open>\<open>CREATE TABLE IF NOT EXISTS schema_migrations\<close>, its constraints, and \<open>table_exists\<close> for it.\<close>

definition migration_insert_ok :: "migration_row list \<Rightarrow> migration_row \<Rightarrow> bool" where
  "migration_insert_ok rows r \<longleftrightarrow>
     1 \<le> mr_version r \<and> mr_version r \<notin> set (map mr_version rows) \<and>
     1 \<le> length (utf8_scalars (mr_name r)) \<and> length (utf8_scalars (mr_name r)) \<le> 255 \<and>
     mr_name r \<notin> set (map mr_name rows) \<and>
     is_sha256_hex (mr_checksum r) \<and> 0 \<le> mr_applied_at r"

definition create_migration_table :: "'d database \<Rightarrow> 'd database" where
  "create_migration_table d = (case history d of None \<Rightarrow> d\<lparr>history := Some []\<rparr> | Some _ \<Rightarrow> d)"

definition migration_rows :: "'d database \<Rightarrow> migration_row list" where
  "migration_rows d = (case history d of None \<Rightarrow> [] | Some rows \<Rightarrow> rows)"

fun plan_ok :: "i64 \<Rightarrow> migration list \<Rightarrow> bool" where
  "plan_ok expected [] \<longleftrightarrow> True"
| "plan_ok expected (m # ms) \<longleftrightarrow>
     mg_version m = expected \<and> mg_name m \<noteq> [] \<and> mg_sql m \<noteq> [] \<and> plan_ok (expected + 1) ms"

definition validate_migration_plan :: "migration list \<Rightarrow> unit storage_result" where
  "validate_migration_plan ms = (if plan_ok 1 ms then Inr () else Inl InvalidMigrationPlan)"

definition verify_database_identity :: "'d sqlite \<Rightarrow> 'd database \<Rightarrow> unit storage_result" where
  "verify_database_identity S d =
     (if history d \<noteq> None then Inr ()
      else if user_tables S (tables d) = 0 then Inr ()
      else Inl MissingMigrationMetadata)"

text \<open>The loop over the recorded migrations, in ascending order of their versions, and the plan.\<close>

fun verify_rows :: "externals \<Rightarrow> migration_row list \<Rightarrow> migration list \<Rightarrow> unit storage_result" where
  "verify_rows X [] plan = Inr ()"
| "verify_rows X (r # rs) [] = Inl (UnsupportedSchema (mr_version r) latest_schema_version)"
| "verify_rows X (r # rs) (m # ms) =
     (if latest_schema_version < mr_version r then Inl (UnsupportedSchema (mr_version r) latest_schema_version)
      else if mr_version r \<noteq> mg_version m then Inl (MigrationGap (mg_version m) (mr_version r))
      else if mr_name r \<noteq> mg_name m \<or> mr_checksum r \<noteq> migration_checksum X m
      then Inl (MigrationDrift (mr_version r))
      else verify_rows X rs ms)"

definition verify_migration_history :: "externals \<Rightarrow> migration list \<Rightarrow> 'd database \<Rightarrow> nat storage_result" where
  "verify_migration_history X plan d =
     (let applied = sort_key mr_version (migration_rows d) in
      rbind (verify_rows X applied plan) (\<lambda>_. Inr (length applied)))"

definition row_of_migration :: "externals \<Rightarrow> i64 \<Rightarrow> migration \<Rightarrow> migration_row" where
  "row_of_migration X now m =
     \<lparr>mr_version = mg_version m, mr_name = mg_name m, mr_checksum = migration_checksum X m, mr_applied_at = now\<rparr>"

fun apply_pending ::
  "externals \<Rightarrow> 'd sqlite \<Rightarrow> i64 \<Rightarrow> migration list \<Rightarrow> 'd database \<Rightarrow> 'd database storage_result" where
  "apply_pending X S now [] d = Inr d"
| "apply_pending X S now (m # ms) d =
     rbind (map_err StorageSqlite (execute_batch S (mg_sql m) (tables d))) (\<lambda>tables'.
     rbind (ok_or (sql_insert migration_insert_ok (row_of_migration X now m) (migration_rows d))
       (StorageSqlite OtherFailure)) (\<lambda>rows.
     apply_pending X S now ms (d\<lparr>history := Some rows, tables := tables'\<rparr>)))"

definition migrate_in_transaction ::
  "externals \<Rightarrow> 'd sqlite \<Rightarrow> i64 \<Rightarrow> migration list \<Rightarrow> 'd database \<Rightarrow> (unit \<times> 'd database) storage_result" where
  "migrate_in_transaction X S now plan d =
     rbind (verify_database_identity S d) (\<lambda>_.
     let d1 = create_migration_table d in
     rbind (verify_migration_history X plan d1) (\<lambda>applied_count.
     rbind (apply_pending X S now (drop applied_count plan) d1) (\<lambda>d2. Inr ((), d2))))"

definition apply_migrations ::
  "externals \<Rightarrow> 'd sqlite \<Rightarrow> i64 \<Rightarrow> migration list \<Rightarrow> 'd database \<Rightarrow> unit storage_result \<times> 'd database" where
  "apply_migrations X S now plan d =
     (case validate_migration_plan plan of
        Inl e \<Rightarrow> (Inl e, d)
      | Inr _ \<Rightarrow> run_tx (migrate_in_transaction X S now plan d) d)"

section \<open>Opening\<close>

definition is_sqlite_lock :: "sqlite_failure \<Rightarrow> bool" where
  "is_sqlite_lock e \<longleftrightarrow> e = Busy \<or> e = Locked"

text \<open>\<open>retry_sqlite_busy\<close>: nine delayed attempts and a last one; \<open>operation n\<close> is the \<open>n\<close>-th attempt.\<close>

fun retry_from :: "nat \<Rightarrow> nat \<Rightarrow> (nat \<Rightarrow> (sqlite_failure, 'a) result) \<Rightarrow> (sqlite_failure, 'a) result" where
  "retry_from n 0 operation = operation n"
| "retry_from n (Suc delays) operation =
     (case operation n of
        Inr v \<Rightarrow> Inr v
      | Inl e \<Rightarrow> if is_sqlite_lock e then retry_from (Suc n) delays operation else Inl e)"

definition retry_sqlite_busy :: "(nat \<Rightarrow> (sqlite_failure, 'a) result) \<Rightarrow> (sqlite_failure, 'a) result" where
  "retry_sqlite_busy operation = retry_from 0 9 operation"

definition require_pragma :: "string \<Rightarrow> int \<Rightarrow> int \<Rightarrow> unit storage_result" where
  "require_pragma name expected actual =
     (if actual \<noteq> expected then Inl (PragmaNotApplied name (show_int expected) (show_int actual)) else Inr ())"

definition configure_connection :: "'d sqlite \<Rightarrow> unit storage_result" where
  "configure_connection S =
     rbind (map_err StorageSqlite (set_safety_pragmas S)) (\<lambda>_.
     rbind (map_err StorageSqlite (retry_sqlite_busy (set_journal_mode S))) (\<lambda>journal_mode.
     if to_ascii_lowercase journal_mode \<noteq> ''wal''
     then Inl (PragmaNotApplied ''journal_mode'' ''wal'' journal_mode) else
     rbind (map_err StorageSqlite (set_synchronous S)) (\<lambda>_.
     rbind (map_err StorageSqlite (synchronous_pragma S)) (\<lambda>synchronous.
     rbind (require_pragma ''synchronous'' 2 synchronous) (\<lambda>_.
     rbind (map_err StorageSqlite (foreign_keys_pragma S)) (\<lambda>foreign_keys.
     require_pragma ''foreign_keys'' 1 foreign_keys))))))"

definition verify_foreign_keys :: "'d sqlite \<Rightarrow> 'd database \<Rightarrow> unit storage_result" where
  "verify_foreign_keys S d =
     (if foreign_key_violation S (tables d) then Inl ForeignKeyCheckFailed else Inr ())"

definition store_open ::
  "externals \<Rightarrow> 'd sqlite \<Rightarrow> i64 \<Rightarrow> migration list \<Rightarrow> 'd database \<Rightarrow> unit storage_result \<times> 'd database" where
  "store_open X S now plan d =
     (case configure_connection S of
        Inl e \<Rightarrow> (Inl e, d)
      | Inr _ \<Rightarrow>
          (case apply_migrations X S now plan d of
             (Inl e, d') \<Rightarrow> (Inl e, d')
           | (Inr _, d') \<Rightarrow> (verify_foreign_keys S d', d')))"

definition current_schema_version :: "'d database \<Rightarrow> i64 storage_result" where
  "current_schema_version d =
     (case history d of
        None \<Rightarrow> Inl (StorageSqlite OtherFailure)
      | Some rows \<Rightarrow> Inr (case map mr_version rows of [] \<Rightarrow> 0 | v # vs \<Rightarrow> fold max vs v))"

end
