(* ===== verification/Epoch_Storage_Properties.thy ===== *)
theory Epoch_Storage_Properties
  imports Epoch_Storage Epoch_Example "HOL-Library.Multiset"
begin

text \<open>
  What opening the database guarantees: an upgrade applies exactly the missing migrations or changes
  nothing, and a database that was opened once opens again unchanged.
\<close>

section \<open>Histories and plans\<close>

definition row_key :: "migration_row \<Rightarrow> i64 \<times> string \<times> string" where
  "row_key r = (mr_version r, mr_name r, mr_checksum r)"

definition migration_key :: "externals \<Rightarrow> migration \<Rightarrow> i64 \<times> string \<times> string" where
  "migration_key X m = (mg_version m, mg_name m, migration_checksum X m)"

fun run_batches :: "'d sqlite \<Rightarrow> migration list \<Rightarrow> 'd \<Rightarrow> (sqlite_failure, 'd) result" where
  "run_batches S [] t = Inr t"
| "run_batches S (m # ms) t = rbind (execute_batch S (mg_sql m) t) (run_batches S ms)"

lemma verify_rows_Inr:
  "verify_rows X rs plan = Inr u \<longleftrightarrow>
     length rs \<le> length plan \<and> map row_key rs = map (migration_key X) (take (length rs) plan) \<and>
     (\<forall>r \<in> set rs. mr_version r \<le> latest_schema_version)"
  by (induction X rs plan rule: verify_rows.induct) (auto simp: row_key_def migration_key_def)

lemma apply_pending_Inr:
  assumes "apply_pending X S now ms d = Inr d'" and "history d = Some rows"
  shows "history d' = Some (rows @ map (row_of_migration X now) ms) \<and> run_batches S ms (tables d) = Inr (tables d')"
  using assms
proof (induction X S now ms d arbitrary: rows rule: apply_pending.induct)
  case (1 X S now d)
  then show ?case by simp
next
  case (2 X S now m ms d)
  from "2.prems"(1) obtain t rows' where batch: "execute_batch S (mg_sql m) (tables d) = Inr t"
    and rows': "sql_insert migration_insert_ok (row_of_migration X now m) (migration_rows d) = Some rows'"
    and rest: "apply_pending X S now ms (d\<lparr>history := Some rows', tables := t\<rparr>) = Inr d'"
    by (auto simp: rbind_eq_Inr map_err_eq_Inr ok_or_eq_Inr)
  have "rows' = rows @ [row_of_migration X now m]"
    using rows' "2.prems"(2) by (simp add: sql_insert_eq_Some migration_rows_def)
  moreover have "history d' = Some (rows' @ map (row_of_migration X now) ms) \<and> run_batches S ms t = Inr (tables d')"
    using "2.IH" [OF rest, of rows'] by simp
  ultimately show ?case using batch by simp
qed

lemma key_row_of_migration: "row_key (row_of_migration X now m) = migration_key X m"
  by (simp add: row_key_def row_of_migration_def migration_key_def)

lemma apply_migrations_Inr:
  assumes "apply_migrations X S now plan d = (Inr u, d')"
  obtains k where "k \<le> length plan" "plan_ok 1 plan"
    "map row_key (sort_key mr_version (migration_rows d)) = map (migration_key X) (take k plan)"
    "history d' = Some (migration_rows d @ map (row_of_migration X now) (drop k plan))"
    "run_batches S (drop k plan) (tables d) = Inr (tables d')"
proof -
  let ?d1 = "create_migration_table d"
  have d1: "history ?d1 = Some (migration_rows d)" "tables ?d1 = tables d" "migration_rows ?d1 = migration_rows d"
    by (simp_all add: create_migration_table_def migration_rows_def split: option.split)
  from assms obtain k where ok: "plan_ok 1 plan"
    and history: "verify_migration_history X plan ?d1 = Inr k"
    and pending: "apply_pending X S now (drop k plan) ?d1 = Inr d'"
    by (auto simp: apply_migrations_def migrate_in_transaction_def validate_migration_plan_def run_tx_Inr rbind_eq_Inr Let_def
        split: if_splits)
  let ?applied = "sort_key mr_version (migration_rows d)"
  have rows: "verify_rows X ?applied plan = Inr ()" "k = length ?applied"
    using history by (auto simp: verify_migration_history_def d1(3) rbind_eq_Inr)
  show ?thesis
  proof (rule that)
    show "k \<le> length plan" "map row_key ?applied = map (migration_key X) (take k plan)"
      using rows by (simp_all add: verify_rows_Inr)
  qed (use ok apply_pending_Inr [OF pending d1(1)] d1(2) in simp_all)
qed

section \<open>Properties\<close>

text \<open>C14: an upgrade is exact or has no effect. When the migrations are applied successfully, the recorded history
  was a prefix of the compiled plan (same versions, names and checksums), exactly the missing
  migrations ran, in order, and exactly their records were added; on any error, one in the middle of
  a migration included, the database is as it was.\<close>

theorem upgrade_is_exact_or_void:
  "case apply_migrations X S now plan d of
     (Inl e, d') \<Rightarrow> d' = d
   | (Inr _, d') \<Rightarrow> \<exists>k \<le> length plan.
       map row_key (sort_key mr_version (migration_rows d)) = map (migration_key X) (take k plan) \<and>
       migration_rows d' = migration_rows d @ map (row_of_migration X now) (drop k plan) \<and>
       run_batches S (drop k plan) (tables d) = Inr (tables d')"
proof -
  obtain r d' where run: "apply_migrations X S now plan d = (r, d')" by (cases "apply_migrations X S now plan d")
  show ?thesis
  proof (cases r)
    case (Inl e)
    then have "d' = d" using run by (auto simp: apply_migrations_def run_tx_Inl split: sum.splits)
    with run Inl show ?thesis by simp
  next
    case (Inr u)
    from apply_migrations_Inr [OF run [unfolded Inr]] obtain k where "k \<le> length plan"
      "map row_key (sort_key mr_version (migration_rows d)) = map (migration_key X) (take k plan)"
      "history d' = Some (migration_rows d @ map (row_of_migration X now) (drop k plan))"
      "run_batches S (drop k plan) (tables d) = Inr (tables d')" by metis
    with run Inr show ?thesis by (auto simp: migration_rows_def)
  qed
qed

lemma plan_versions: "plan_ok v plan \<Longrightarrow> map mg_version plan = map (\<lambda>i. v + int i) [0..<length plan]"
proof (induction v plan rule: plan_ok.induct)
  case (2 v m ms)
  have "map (\<lambda>i. v + int i) [0..<Suc (length ms)] = v # map (\<lambda>i. v + 1 + int i) [0..<length ms]"
    by (simp add: upt_conv_Cons map_Suc_upt [symmetric] comp_def del: upt_Suc)
  with 2 show ?case by simp
qed simp

lemma versions_ascend: "plan_ok 1 plan \<Longrightarrow> sorted_wrt (<) (map mg_version plan)"
  by (simp add: plan_versions sorted_wrt_map sorted_wrt_iff_nth_less)

lemma upgraded_history:
  assumes "apply_migrations X S now plan d = (Inr u, d')"
  shows "map row_key (sort_key mr_version (migration_rows d')) = map (migration_key X) plan" and "history d' \<noteq> None"
proof -
  from apply_migrations_Inr [OF assms] obtain k where ok: "plan_ok 1 plan"
    and old: "map row_key (sort_key mr_version (migration_rows d)) = map (migration_key X) (take k plan)"
    and history: "history d' = Some (migration_rows d @ map (row_of_migration X now) (drop k plan))" by metis
  let ?sorted = "sort_key mr_version (migration_rows d) @ map (row_of_migration X now) (drop k plan)"
  have keys: "map row_key ?sorted = map (migration_key X) plan"
    using old by (simp add: key_row_of_migration comp_def) (metis append_take_drop_id map_append)
  have "map mr_version ?sorted = map fst (map row_key ?sorted)" by (simp add: row_key_def)
  also have "\<dots> = map mg_version plan" unfolding keys by (simp add: migration_key_def)
  finally have "sorted_wrt (<) (map mr_version ?sorted)" using versions_ascend [OF ok] by simp
  then have strict: "sorted (map mr_version ?sorted)" "distinct (map mr_version ?sorted)"
    by (simp_all only: strict_sorted_iff)
  have rows: "migration_rows d' = migration_rows d @ map (row_of_migration X now) (drop k plan)"
    by (simp add: migration_rows_def history)
  have "sort_key mr_version (migration_rows d') = ?sorted"
  proof (rule sort_key_inj_key_eq)
    show same: "mset (migration_rows d') = mset ?sorted" by (simp add: rows)
    show "inj_on mr_version (set (migration_rows d'))"
      using strict(2) unfolding mset_eq_setD [OF same] distinct_map by blast
    show "sorted (map mr_version ?sorted)" by (rule strict(1))
  qed
  with keys show "map row_key (sort_key mr_version (migration_rows d')) = map (migration_key X) plan" by simp
  show "history d' \<noteq> None" using history by simp
qed

text \<open>A database that was opened opens again. After the compiled migrations were applied successfully, the
  recorded history is exactly the compiled plan, and applying the plan again, at any later time,
  succeeds and changes nothing.\<close>

theorem reopening_changes_nothing:
  assumes "apply_migrations X S now (migrations sql_file) d = (Inr (), d')"
  shows "map row_key (sort_key mr_version (migration_rows d')) = map (migration_key X) (migrations sql_file) \<and>
    apply_migrations X S now' (migrations sql_file) d' = (Inr (), d')"
proof -
  let ?plan = "migrations sql_file"
  from apply_migrations_Inr [OF assms] have ok: "plan_ok 1 ?plan" by blast
  note up = upgraded_history [OF assms]
  let ?sorted = "sort_key mr_version (migration_rows d')"
  have len: "length ?sorted = length ?plan" using arg_cong [OF up(1), of length] by simp
  have "map mr_version ?sorted = map fst (map row_key ?sorted)" by (simp add: row_key_def)
  also have "\<dots> = map mg_version ?plan" unfolding up(1) by (simp add: migration_key_def)
  finally have "mr_version ` set ?sorted = mg_version ` set ?plan" by (metis set_map)
  moreover have "mg_version ` set ?plan \<subseteq> {..latest_schema_version}"
    by (simp add: migrations_def latest_schema_version_def)
  ultimately have "\<forall>r \<in> set ?sorted. mr_version r \<le> latest_schema_version" by blast
  then have "verify_rows X ?sorted ?plan = Inr ()" using up(1) len by (simp add: verify_rows_Inr)
  moreover have "create_migration_table d' = d'" using up(2) by (auto simp: create_migration_table_def)
  ultimately have "migrate_in_transaction X S now' ?plan d' = Inr ((), d')"
    using up(2) len by (simp add: migrate_in_transaction_def verify_database_identity_def verify_migration_history_def Let_def)
  with ok up(1) show ?thesis by (simp add: apply_migrations_def validate_migration_plan_def run_tx_Inr)
qed

definition example_sqlite :: "nat sqlite" where
  "example_sqlite = \<lparr>execute_batch = (\<lambda>_ n. Inr (Suc n)), user_tables = (\<lambda>n. n), foreign_key_violation = (\<lambda>_. False),
     set_safety_pragmas = Inr (), set_journal_mode = (\<lambda>_. Inr ''wal''), set_synchronous = Inr (), synchronous_pragma = Inr 2, foreign_keys_pragma = Inr 1\<rparr>"

definition example_upgrade :: "unit storage_result \<times> nat database" where
  "example_upgrade = apply_migrations example_externals example_sqlite 5 (migrations (\<lambda>i. ''sql''))
     \<lparr>history = None, tables = 0\<rparr>"

theorem reopening_changes_nothing_witness:
  "map row_key (sort_key mr_version (migration_rows (snd example_upgrade))) =
     map (migration_key example_externals) (migrations (\<lambda>i. ''sql'')) \<and>
   apply_migrations example_externals example_sqlite 9 (migrations (\<lambda>i. ''sql'')) (snd example_upgrade) =
     (Inr (), snd example_upgrade)"
proof (rule reopening_changes_nothing)
  have "\<not> isl (fst example_upgrade)" by code_simp
  then have "fst example_upgrade = Inr ()" by (cases "fst example_upgrade") simp_all
  then show "apply_migrations example_externals example_sqlite 5 (migrations (\<lambda>i. ''sql''))
      \<lparr>history = None, tables = 0\<rparr> = (Inr (), snd example_upgrade)"
    by (simp add: example_upgrade_def prod_eq_iff)
qed

section \<open>Busy databases\<close>

lemma retry_from_attempt:
  "\<exists>k \<le> delays. retry_from n delays operation = operation (n + k) \<and>
     list_all (\<lambda>i. \<exists>e. operation (n + i) = Inl e \<and> is_sqlite_lock e) [0..<k] \<and>
     (k = delays \<or> \<not> (\<exists>e. operation (n + k) = Inl e \<and> is_sqlite_lock e))"
proof (induction n delays operation rule: retry_from.induct)
  case (1 n operation)
  show ?case by simp
next
  case (2 n delays operation)
  show ?case
  proof (cases "\<exists>e. operation n = Inl e \<and> is_sqlite_lock e")
    case True
    then obtain e where e: "operation n = Inl e" "is_sqlite_lock e" by blast
    from "2.IH" [OF e] obtain k where k: "k \<le> delays" "retry_from (Suc n) delays operation = operation (Suc n + k)"
      "list_all (\<lambda>i. \<exists>e. operation (Suc n + i) = Inl e \<and> is_sqlite_lock e) [0..<k]"
      "k = delays \<or> \<not> (\<exists>e. operation (Suc n + k) = Inl e \<and> is_sqlite_lock e)" by blast
    have "[0..<Suc k] = 0 # map Suc [0..<k]" by (simp add: upt_conv_Cons map_Suc_upt del: upt_Suc)
    then have "list_all (\<lambda>i. \<exists>e. operation (n + i) = Inl e \<and> is_sqlite_lock e) [0..<Suc k]"
      using k(3) e by (simp add: list.pred_map comp_def del: upt_Suc)
    with k e show ?thesis by (intro exI [of _ "Suc k"]) (auto simp del: upt_Suc)
  next
    case False
    then have "retry_from n (Suc delays) operation = operation n"
      by (cases "operation n") auto
    with False show ?thesis by (intro exI [of _ 0]) simp
  qed
qed

text \<open>A busy database is retried, but not for ever. Setting the journal mode is attempted at most ten times:
  the answer is that of the first attempt that did not find the database locked, or of the tenth.\<close>

theorem busy_retries_are_bounded:
  "\<exists>k \<le> 9. retry_sqlite_busy operation = operation k \<and>
     list_all (\<lambda>i. \<exists>e. operation i = Inl e \<and> is_sqlite_lock e) [0..<k] \<and>
     (k = 9 \<or> \<not> (\<exists>e. operation k = Inl e \<and> is_sqlite_lock e))"
  using retry_from_attempt [of 9 0 operation] by (simp add: retry_sqlite_busy_def)

end
