(* ===== verification/Epoch_Host.thy ===== *)
theory Epoch_Host
  imports Epoch_Blob "HOL-Library.Char_ord" "HOL-Library.List_Lexorder"
begin

text \<open>
  The host's file tree as workspaces use it: paths and their components, UTF-8 names, nodes with the
  metadata the code reads, and the file operations of the standard library.

  A path names a node by the list of its components from the root of the tree, with the symbolic links
  of its leading directories resolved: the code opens the final component without following a link.
  A tree changes only through the operations here; \<open>fsync\<close>, ownership and permission checks of the
  kernel are not part of the model.
\<close>

section \<open>Text\<close>

text \<open>\<open>str::split('/')\<close>: at least one piece, empty pieces included.\<close>

fun split_on :: "char \<Rightarrow> string \<Rightarrow> string list" where
  "split_on d [] = [[]]"
| "split_on d (c # cs) =
     (if c = d then [] # split_on d cs
      else (case split_on d cs of [] \<Rightarrow> [[c]] | p # ps \<Rightarrow> (c # p) # ps))"

fun join_with :: "char \<Rightarrow> string list \<Rightarrow> string" where
  "join_with d [] = []"
| "join_with d [p] = p"
| "join_with d (p # q # ps) = p @ d # join_with d (q # ps)"

lemma split_on_not_Nil [simp]: "split_on d s \<noteq> []"
  by (induction s) (auto split: list.splits)

lemma split_on_free: "d \<notin> set s \<Longrightarrow> split_on d s = [s]"
  by (induction s) auto

lemma split_on_append: "d \<notin> set p \<Longrightarrow> split_on d (p @ d # s) = p # split_on d s"
  by (induction p) auto

lemma split_join:
  assumes "ps \<noteq> []" and "list_all (\<lambda>p. d \<notin> set p) ps"
  shows "split_on d (join_with d ps) = ps"
  using assms by (induction d ps rule: join_with.induct) (auto simp: split_on_free split_on_append)

lemma join_split: "join_with d (split_on d s) = s"
proof (induction s)
  case Nil
  show ?case by simp
next
  case (Cons c cs)
  obtain p ps where "split_on d cs = p # ps" by (cases "split_on d cs") simp_all
  with Cons show ?case by (cases ps) auto
qed

lemma split_on_pieces: "list_all (\<lambda>p. d \<notin> set p) (split_on d s)"
  by (induction s) (auto split: list.splits)

lemma join_with_inj:
  assumes "join_with d ps = join_with d qs" "ps \<noteq> []" "qs \<noteq> []"
    and "list_all (\<lambda>p. d \<notin> set p) ps" "list_all (\<lambda>p. d \<notin> set p) qs"
  shows "ps = qs"
  using split_join assms by metis

text \<open>\<open>str::from_utf8(bytes).is_ok()\<close>: no overlong form, no surrogate, nothing past \<open>U+10FFFF\<close>.\<close>

fun is_utf8 :: "string \<Rightarrow> bool" where
  "is_utf8 [] = True"
| "is_utf8 (a # cs) =
     (if byte a < 128 then is_utf8 cs
      else if 194 \<le> byte a \<and> byte a \<le> 223
      then (case cs of b # r \<Rightarrow> is_continuation b \<and> is_utf8 r | _ \<Rightarrow> False)
      else if 224 \<le> byte a \<and> byte a \<le> 239
      then (case cs of b # c # r \<Rightarrow>
              is_continuation b \<and> is_continuation c \<and>
              (byte a = 224 \<longrightarrow> 160 \<le> byte b) \<and> (byte a = 237 \<longrightarrow> byte b \<le> 159) \<and> is_utf8 r
            | _ \<Rightarrow> False)
      else if 240 \<le> byte a \<and> byte a \<le> 244
      then (case cs of b # c # e # r \<Rightarrow>
              is_continuation b \<and> is_continuation c \<and> is_continuation e \<and>
              (byte a = 240 \<longrightarrow> 144 \<le> byte b) \<and> (byte a = 244 \<longrightarrow> byte b \<le> 143) \<and> is_utf8 r
            | _ \<Rightarrow> False)
      else False)"

section \<open>Nodes\<close>

text \<open>What \<open>same_file\<close> compares, and the permission bits with the file type bits cut off.\<close>

record file_stat =
  fs_dev :: u64
  fs_ino :: u64
  fs_mtime :: i64
  fs_mtime_nsec :: i64
  fs_mode :: u32

datatype special_kind = Fifo | Socket | BlockDevice | CharDevice | UnknownDevice

datatype host_node =
    HostDir u32
  | HostFile file_stat string
  | HostLink string
  | HostSpecial special_kind

type_synonym host_fs = "(path \<times> host_node) list"

definition host_put :: "path \<Rightarrow> host_node \<Rightarrow> host_fs \<Rightarrow> host_fs" where
  "host_put p n t = (p, n) # filter (\<lambda>e. fst e \<noteq> p) t"

definition host_remove :: "path \<Rightarrow> host_fs \<Rightarrow> host_fs" where
  "host_remove p t = filter (\<lambda>e. fst e \<noteq> p) t"

definition path_prefix :: "path \<Rightarrow> path \<Rightarrow> bool" where
  "path_prefix p q \<longleftrightarrow> take (length p) q = p"

text \<open>\<open>fs::remove_dir_all\<close> and \<open>fs::rename\<close> of a directory: the node and everything below it.\<close>

definition host_remove_all :: "path \<Rightarrow> host_fs \<Rightarrow> host_fs" where
  "host_remove_all p t = filter (\<lambda>e. \<not> path_prefix p (fst e)) t"

definition host_move :: "path \<Rightarrow> path \<Rightarrow> host_fs \<Rightarrow> host_fs" where
  "host_move source target t =
     map (\<lambda>(q, n). if path_prefix source q then (target @ drop (length source) q, n) else (q, n)) t"

text \<open>The names \<open>fs::read_dir\<close> lists, in the order of \<open>children.sort()\<close>.\<close>

definition child_names :: "path \<Rightarrow> host_fs \<Rightarrow> string list" where
  "child_names p t =
     sort (remdups (map last (filter (\<lambda>q. q \<noteq> [] \<and> butlast q = p) (map fst t))))"

definition is_directory :: "path \<Rightarrow> host_fs \<Rightarrow> bool" where
  "is_directory p t = (case map_of t p of Some (HostDir _) \<Rightarrow> True | _ \<Rightarrow> False)"

lemma map_of_host_put [simp]: "map_of (host_put p n t) q = (if q = p then Some n else map_of t q)"
  by (induction t) (auto simp: host_put_def)

lemma map_of_host_remove [simp]: "map_of (host_remove p t) q = (if q = p then None else map_of t q)"
  by (induction t) (auto simp: host_remove_def)

lemma map_of_host_remove_all [simp]:
  "map_of (host_remove_all p t) q = (if path_prefix p q then None else map_of t q)"
  by (induction t) (auto simp: host_remove_all_def)

lemma path_prefix_append [simp]: "path_prefix p (p @ q)"
  by (simp add: path_prefix_def)

lemma path_prefix_refl [simp]: "path_prefix p p"
  by (simp add: path_prefix_def)

lemma path_prefix_iff: "path_prefix p q \<longleftrightarrow> (\<exists>r. q = p @ r)"
  by (metis append_eq_conv_conj append_take_drop_id path_prefix_def)

lemma child_names_iff: "n \<in> set (child_names p t) \<longleftrightarrow> map_of t (p @ [n]) \<noteq> None"
proof -
  have "map_of t (p @ [n]) \<noteq> None \<longleftrightarrow> p @ [n] \<in> fst ` set t" by (simp add: map_of_eq_None_iff)
  also have "\<dots> \<longleftrightarrow> n \<in> set (child_names p t)"
    by (force simp: child_names_def image_iff)
  finally show ?thesis by simp
qed

lemma child_names_sorted: "sorted (child_names p t)" "distinct (child_names p t)"
  by (simp_all add: child_names_def)

text \<open>
  Moving a subtree to a place nothing is at: the target shows what the source showed, the source is
  gone, everything else stays.
\<close>

lemma map_of_host_move:
  assumes "\<And>r. map_of t (target @ r) = None" and "\<not> path_prefix target source" "\<not> path_prefix source target"
  shows "map_of (host_move source target t) q =
    (if path_prefix source q then None
     else if path_prefix target q then map_of t (source @ drop (length target) q)
     else map_of t q)"
proof -
  have none: "(target @ r, n) \<notin> set t" for r n
    using assms(1) [of r] by (metis map_of_eq_None_iff fst_conv image_eqI)
  have "(\<And>r n. (target @ r, n) \<notin> set t) \<Longrightarrow> map_of (host_move source target t) q =
    (if path_prefix source q then None
     else if path_prefix target q then map_of t (source @ drop (length target) q)
     else map_of t q)"
  proof (induction t)
    case Nil
    show ?case by (simp add: host_move_def)
  next
    case (Cons e t)
    obtain p n where e: "e = (p, n)" by (cases e)
    have IH: "map_of (host_move source target t) q =
      (if path_prefix source q then None
       else if path_prefix target q then map_of t (source @ drop (length target) q) else map_of t q)"
      by (rule Cons.IH) (use Cons.prems in auto)
    have p: "\<not> path_prefix target p" using Cons.prems by (auto simp: e path_prefix_iff)
    have move: "host_move source target (e # t) =
      (if path_prefix source p then (target @ drop (length source) p, n) else (p, n)) # host_move source target t"
      by (simp add: host_move_def e)
    have incomparable: "path_prefix source q \<Longrightarrow> \<not> path_prefix target q"
      using assms(2,3) unfolding path_prefix_iff by (metis append_eq_append_conv2)
    show ?case
    proof (cases "path_prefix source p")
      case True
      then obtain r where r: "p = source @ r" by (auto simp: path_prefix_iff)
      have ns: "\<not> path_prefix source (target @ r)"
        using assms(2,3) unfolding path_prefix_iff by (metis append_eq_append_conv2)
      show ?thesis
        unfolding move using IH ns incomparable assms(2) p by (auto simp: r e path_prefix_iff)
    next
      case False
      then show ?thesis
        unfolding move using IH p by (auto simp: e path_prefix_iff)
    qed
  qed
  with none show ?thesis by blast
qed

end
