(* ===== verification/Epoch_Workspace.thy ===== *)
theory Epoch_Workspace
  imports Epoch_Host
begin

unbundle bit_operations_syntax

text \<open>
  The crate \<open>epoch-workspace\<close>: full-copy workspace snapshots over the blob store. A snapshot walks the
  declared source without following links, stores every file as a blob and the manifest as canonical
  JSON; a restore verifies everything before it touches the target's directory, builds a private
  staging tree and publishes it by one rename.

  The host's tree does not change during a call other than through the call itself; what a reader of
  a file observes at each step is an argument of \<open>read_regular_file\<close>. Raw path arguments are strings
  whose components and resolution are those of the kernel, with at most forty links; a trailing slash
  is not distinguished. The derived serializers are the record \<open>manifest_codec\<close>.
\<close>

section \<open>Paths and their resolution\<close>

datatype path_component = RootDir | CurDir | ParentDir | Normal string

definition component_of :: "string \<Rightarrow> path_component" where
  "component_of s = (if s = ''.'' then CurDir else if s = ''..'' then ParentDir else Normal s)"

text \<open>\<open>Path::components\<close>: empty pieces vanish, and so does a dot that is not leading.\<close>

definition path_components :: "string \<Rightarrow> path_component list" where
  "path_components s =
     (let pieces = filter (\<lambda>p. p \<noteq> []) (split_on (CHR ''/'') s) in
      if starts_with ''/'' s then RootDir # filter (\<lambda>c. c \<noteq> CurDir) (map component_of pieces)
      else (case map component_of pieces of
          [] \<Rightarrow> []
        | c # cs \<Rightarrow> c # filter (\<lambda>c. c \<noteq> CurDir) cs))"

datatype ws_io = WsNotFound | WsAlreadyExists | WsNotADirectory | WsLoop

text \<open>Where a path leads from a directory, every link followed.\<close>

function resolve :: "nat \<Rightarrow> host_fs \<Rightarrow> path \<Rightarrow> path_component list \<Rightarrow> (ws_io, path) result" where
  "resolve n t dir [] = (if map_of t dir = None then Inl WsNotFound else Inr dir)"
| "resolve n t dir (RootDir # cs) = resolve n t [] cs"
| "resolve n t dir (CurDir # cs) = resolve n t dir cs"
| "resolve n t dir (ParentDir # cs) = resolve n t (butlast dir) cs"
| "resolve n t dir (Normal a # cs) =
     (case map_of t (dir @ [a]) of
        None \<Rightarrow> Inl WsNotFound
      | Some (HostDir _) \<Rightarrow> resolve n t (dir @ [a]) cs
      | Some (HostLink target) \<Rightarrow>
          (case n of 0 \<Rightarrow> Inl WsLoop | Suc m \<Rightarrow> resolve m t dir (path_components target @ cs))
      | Some _ \<Rightarrow> if cs = [] then Inr (dir @ [a]) else Inl WsNotADirectory)"
  by pat_completeness auto
termination by (relation "measures [\<lambda>(n, _, _, _). n, \<lambda>(_, _, _, cs). length cs]") auto

definition max_links :: nat where "max_links = 40"

text \<open>\<open>fs::symlink_metadata\<close>: the final component is not followed.\<close>

definition lstat :: "host_fs \<Rightarrow> path \<Rightarrow> path_component list \<Rightarrow> (ws_io, path \<times> host_node) result" where
  "lstat t cwd cs =
     (if cs = [] then Inl WsNotFound
      else (case last cs of
        Normal a \<Rightarrow>
          rbind (if butlast cs = [] then Inr cwd else resolve max_links t cwd (butlast cs)) (\<lambda>dir.
          if \<not> is_directory dir t then Inl WsNotADirectory
          else (case map_of t (dir @ [a]) of None \<Rightarrow> Inl WsNotFound | Some n \<Rightarrow> Inr (dir @ [a], n)))
      | _ \<Rightarrow>
          rbind (resolve max_links t cwd cs) (\<lambda>p.
          case map_of t p of None \<Rightarrow> Inl WsNotFound | Some n \<Rightarrow> Inr (p, n))))"

section \<open>Data\<close>

definition workspace_schema_version :: u32 where "workspace_schema_version = 1"

definition manifest_media_type :: string where
  "manifest_media_type = ''application/vnd.epoch.workspace-manifest+json''"

definition file_media_type :: string where "file_media_type = ''application/octet-stream''"

record workspace_limits =
  max_entries :: nat
  max_total_bytes :: u64
  max_file_bytes :: u64
  max_manifest_bytes :: u64
  max_depth :: nat
  max_path_bytes :: nat
  max_component_bytes :: nat
  max_symlink_target_bytes :: nat

definition default_limits :: workspace_limits where
  "default_limits =
     \<lparr>max_entries = 100000, max_total_bytes = 512 * 1024 * 1024, max_file_bytes = 256 * 1024 * 1024,
      max_manifest_bytes = 16 * 1024 * 1024, max_depth = 64, max_path_bytes = 4096,
      max_component_bytes = 255, max_symlink_target_bytes = 4096\<rparr>"

datatype hardlink_policy = Materialize

datatype entry_kind =
    EntryDirectory (entry_mode: u32)
  | EntryRegular (entry_mode: u32) (entry_executable: bool) (entry_length: u64) (entry_hash: blob_hash)
  | EntrySymlink (entry_target: string)

record workspace_entry =
  we_path :: string
  we_kind :: entry_kind

record workspace_manifest =
  wm_schema_version :: u32
  wm_hardlink_policy :: hardlink_policy
  wm_root_mode :: u32
  wm_entries :: "workspace_entry list"

record manifest_ref =
  ws_manifest_hash :: blob_hash
  ws_manifest_length :: u64

record restore_report =
  rr_entries :: nat
  rr_total_file_bytes :: u64

datatype restore_fault = NoRestoreFault | AfterStagingCreated | AfterFirstEntry | BeforePublish

datatype limit_kind =
    LimitEntries | LimitTotalBytes | LimitFileBytes | LimitManifestBytes | LimitDepth
  | LimitPathBytes | LimitComponentBytes | LimitSymlinkTargetBytes

datatype ws_unsupported =
    NonUtf8Path | NonUtf8SymlinkTarget | SymlinkEscape string | SpecialFile string string

datatype ws_error =
    WInvalidSourceRoot
  | WStateRootOverlapsWorkspace
  | WInvalidLimits
  | WLimitExceeded limit_kind u64 u64
  | WUnsupported ws_unsupported
  | WUnsafeManifestPath string
  | WUnsafeRestoreTarget string
  | WTargetExists string
  | WSourceChanged path
  | WFutureSchema u32 u32
  | WUnsupportedSchema u32
  | WNonCanonicalManifest
  | WInvalidManifest string
  | WManifestLengthMismatch u64 u64
  | WReferencedBlobLengthMismatch blob_hash u64 u64
  | WFaultInjected restore_fault
  | WBlob blob_error
  | WJson string
  | WIo ws_io

type_synonym 'a ws_result = "(ws_error, 'a) result"

record manifest_codec =
  manifest_to_vec :: "workspace_manifest \<Rightarrow> (string, string) result"
  manifest_from_slice :: "string \<Rightarrow> (string, workspace_manifest) result"

record workspace_backend =
  wb_store :: blob_store
  wb_blob_root :: path
  wb_limits :: workspace_limits

text \<open>What one \<open>BlobStore::put\<close> takes from its host.\<close>

record put_host =
  ph_env :: "nat \<Rightarrow> fs \<Rightarrow> fs"
  ph_clock :: i64
  ph_uuids :: "uuid \<times> uuid"

section \<open>Limits and modes\<close>

text \<open>\<open>u64::try_from(length).unwrap_or(u64::MAX)\<close>.\<close>

definition u64_of_usize :: "nat \<Rightarrow> u64" where
  "u64_of_usize n = (if int n < 2 ^ 64 then of_nat n else - 1)"

definition checked_add_u64 :: "u64 \<Rightarrow> u64 \<Rightarrow> u64 option" where
  "checked_add_u64 a b = (if uint a + uint b < 2 ^ 64 then Some (a + b) else None)"

definition enforce_limit :: "limit_kind \<Rightarrow> u64 \<Rightarrow> u64 \<Rightarrow> unit ws_result" where
  "enforce_limit kind actual maximum =
     (if maximum < actual then Inl (WLimitExceeded kind actual maximum) else Inr ())"

definition validate_limits :: "workspace_limits \<Rightarrow> unit ws_result" where
  "validate_limits l =
     (if max_entries l = 0 \<or> max_total_bytes l = 0 \<or> max_file_bytes l = 0 \<or> max_manifest_bytes l = 0 \<or>
         max_depth l = 0 \<or> max_path_bytes l = 0 \<or> max_component_bytes l = 0 \<or>
         max_symlink_target_bytes l = 0 \<or> max_total_bytes l < max_file_bytes l
      then Inl WInvalidLimits else Inr ())"

definition metadata_mode :: "u32 \<Rightarrow> u32" where
  "metadata_mode mode = mode AND 0x1FF"

definition is_executable :: "u32 \<Rightarrow> bool" where
  "is_executable mode \<longleftrightarrow> mode AND 0x49 \<noteq> 0"

definition validate_mode :: "u32 \<Rightarrow> unit ws_result" where
  "validate_mode mode =
     (if mode AND NOT 0x1FF = 0 then Inr () else Inl (WInvalidManifest ''mode contains unsupported bits''))"

section \<open>Manifest paths\<close>

definition enforce_path_limits :: "string \<Rightarrow> nat \<Rightarrow> workspace_limits \<Rightarrow> unit ws_result" where
  "enforce_path_limits p depth l =
     rbind (enforce_limit LimitPathBytes (u64_of_usize (length p)) (u64_of_usize (max_path_bytes l))) (\<lambda>_.
     rbind (enforce_limit LimitDepth (u64_of_usize depth) (u64_of_usize (max_depth l))) (\<lambda>_.
     enforce_limit LimitComponentBytes
       (u64_of_usize (foldr max (map length (split_on (CHR ''/'') p)) 0))
       (u64_of_usize (max_component_bytes l))))"

definition has_drive_letter :: "string \<Rightarrow> bool" where
  "has_drive_letter p \<longleftrightarrow> 1 < length p \<and> p ! 1 = CHR '':''"

definition validate_manifest_path :: "string \<Rightarrow> workspace_limits \<Rightarrow> nat ws_result" where
  "validate_manifest_path p l =
     (if p = [] \<or> starts_with ''/'' p \<or> starts_with ''//'' p \<or> CHR 0x5C \<in> set p \<or> has_drive_letter p
      then Inl (WUnsafeManifestPath p)
      else
        let components = split_on (CHR ''/'') p in
        if list_ex (\<lambda>c. c = [] \<or> c = ''.'' \<or> c = ''..'' \<or> c = ''.epoch'' \<or> CHR 0x00 \<in> set c) components
        then Inl (WUnsafeManifestPath p)
        else rbind (enforce_path_limits p (length components) l) (\<lambda>_. Inr (length components)))"

text \<open>The directory a link's target reaches, component by component.\<close>

fun resolve_target :: "string list \<Rightarrow> string list \<Rightarrow> string list option" where
  "resolve_target resolved [] = Some resolved"
| "resolve_target resolved (c # cs) =
     (if c = [] \<or> c = ''.'' then resolve_target resolved cs
      else if c = ''..'' then (if resolved = [] then None else resolve_target (butlast resolved) cs)
      else if c = ''.epoch'' then None
      else resolve_target (resolved @ [c]) cs)"

definition validate_symlink_target :: "string \<Rightarrow> string \<Rightarrow> workspace_limits \<Rightarrow> unit ws_result" where
  "validate_symlink_target link target l =
     rbind (enforce_limit LimitSymlinkTargetBytes (u64_of_usize (length target))
       (u64_of_usize (max_symlink_target_bytes l))) (\<lambda>_.
     if target = [] \<or> starts_with ''/'' target \<or> starts_with ''//'' target \<or> CHR 0x5C \<in> set target \<or>
        has_drive_letter target \<or> CHR 0x00 \<in> set target
     then Inl (WUnsupported (SymlinkEscape link))
     else (case resolve_target (butlast (split_on (CHR ''/'') link)) (split_on (CHR ''/'') target) of
        None \<Rightarrow> Inl (WUnsupported (SymlinkEscape link))
      | Some _ \<Rightarrow> Inr ()))"

fun path_to_manifest_loop :: "string \<Rightarrow> path_component list \<Rightarrow> string \<Rightarrow> string ws_result" where
  "path_to_manifest_loop display [] out = Inr out"
| "path_to_manifest_loop display (Normal c # cs) out =
     (if \<not> is_utf8 c then Inl (WUnsupported NonUtf8Path)
      else path_to_manifest_loop display cs (if out = [] then c else out @ ''/'' @ c))"
| "path_to_manifest_loop display (_ # cs) out = Inl (WUnsafeManifestPath display)"

definition path_to_manifest :: "path \<Rightarrow> string ws_result" where
  "path_to_manifest p = path_to_manifest_loop (join_with (CHR ''/'') p) (map Normal p) []"

definition manifest_path :: "string \<Rightarrow> path" where
  "manifest_path p = split_on (CHR ''/'') p"

definition path_depth :: "string \<Rightarrow> nat" where
  "path_depth p = length (split_on (CHR ''/'') p)"

section \<open>Manifest validation\<close>

definition validate_entry_kind :: "workspace_limits \<Rightarrow> workspace_entry \<Rightarrow> u64 \<Rightarrow> u64 ws_result" where
  "validate_entry_kind l e running =
     (case we_kind e of
        EntryDirectory mode \<Rightarrow> rbind (validate_mode mode) (\<lambda>_. Inr running)
      | EntryRegular mode executable len _ \<Rightarrow>
          rbind (validate_mode mode) (\<lambda>_.
          if executable \<noteq> is_executable mode
          then Inl (WInvalidManifest ''executable bit disagrees with mode'')
          else
            rbind (enforce_limit LimitFileBytes len (max_file_bytes l)) (\<lambda>_.
            ok_or (checked_add_u64 running len) (WLimitExceeded LimitTotalBytes (- 1) (max_total_bytes l))))
      | EntrySymlink target \<Rightarrow> rbind (validate_symlink_target (we_path e) target l) (\<lambda>_. Inr running))"

fun validate_entries ::
  "workspace_limits \<Rightarrow> workspace_entry list \<Rightarrow> string option \<Rightarrow> u64 \<Rightarrow> u64 ws_result" where
  "validate_entries l [] previous running = Inr running"
| "validate_entries l (e # es) previous running =
     rbind (validate_manifest_path (we_path e) l) (\<lambda>depth.
     if (case previous of None \<Rightarrow> False | Some v \<Rightarrow> we_path e \<le> v) then Inl WNonCanonicalManifest
     else
       rbind (validate_entry_kind l e running) (\<lambda>running'.
       rbind (enforce_limit LimitDepth (u64_of_usize depth) (u64_of_usize (max_depth l))) (\<lambda>_.
       validate_entries l es (Some (we_path e)) running')))"

definition entry_kinds :: "workspace_entry list \<Rightarrow> string \<Rightarrow> entry_kind option" where
  "entry_kinds es = map_of (map (\<lambda>e. (we_path e, we_kind e)) es)"

definition is_directory_kind :: "entry_kind option \<Rightarrow> bool" where
  "is_directory_kind k = (case k of Some (EntryDirectory _) \<Rightarrow> True | _ \<Rightarrow> False)"

definition parents_present :: "workspace_entry list \<Rightarrow> string \<Rightarrow> bool" where
  "parents_present es p =
     (let components = split_on (CHR ''/'') p in
      list_all (\<lambda>end. is_directory_kind (entry_kinds es (join_with (CHR ''/'') (take end components))))
        [1 ..< length components])"

definition validate_manifest :: "workspace_manifest \<Rightarrow> workspace_limits \<Rightarrow> unit ws_result" where
  "validate_manifest m l =
     rbind (validate_mode (wm_root_mode m)) (\<lambda>_.
     if max_entries l < length (wm_entries m)
     then Inl (WLimitExceeded LimitEntries (u64_of_usize (length (wm_entries m))) (u64_of_usize (max_entries l)))
     else
       rbind (validate_entries l (wm_entries m) None 0) (\<lambda>running.
       rbind (enforce_limit LimitTotalBytes running (max_total_bytes l)) (\<lambda>_.
       if list_all (\<lambda>e. parents_present (wm_entries m) (we_path e)) (wm_entries m) then Inr ()
       else Inl (WInvalidManifest ''entry parent is absent or not a directory''))))"

section \<open>Capturing\<close>

text \<open>
  The observations of \<open>read_regular_file\<close>: the metadata seen before the file is opened, the node that
  was opened, what reading it to the end yields, and the metadata afterwards.
\<close>

type_synonym file_metadata = "file_stat \<times> nat"

definition same_file :: "file_metadata \<Rightarrow> file_metadata \<Rightarrow> bool" where
  "same_file a b \<longleftrightarrow>
     fs_dev (fst a) = fs_dev (fst b) \<and> fs_ino (fst a) = fs_ino (fst b) \<and> snd a = snd b \<and>
     fs_mtime (fst a) = fs_mtime (fst b) \<and> fs_mtime_nsec (fst a) = fs_mtime_nsec (fst b)"

definition read_regular_file ::
  "path \<Rightarrow> file_metadata \<Rightarrow> host_node \<Rightarrow> string \<Rightarrow> file_metadata \<Rightarrow> u64 \<Rightarrow>
   (string \<times> file_metadata) ws_result" where
  "read_regular_file p observed opened content after maximum =
     rbind (enforce_limit LimitFileBytes (u64_of_usize (snd observed)) maximum) (\<lambda>_.
     case opened of
       HostFile st bs \<Rightarrow>
         if \<not> same_file observed (st, length bs) then Inl (WSourceChanged p)
         else
           let bytes = take (unat maximum + 1) content in
           rbind (enforce_limit LimitFileBytes (u64_of_usize (length bytes)) maximum) (\<lambda>_.
           if \<not> same_file (st, length bs) after \<or> snd after \<noteq> length bytes then Inl (WSourceChanged p)
           else Inr (bytes, after))
     | HostLink _ \<Rightarrow> Inl (WIo WsLoop)
     | _ \<Rightarrow> Inl (WSourceChanged p))"

definition special_file_kind :: "special_kind \<Rightarrow> string" where
  "special_file_kind k =
     (case k of Fifo \<Rightarrow> ''fifo'' | Socket \<Rightarrow> ''socket'' | BlockDevice \<Rightarrow> ''block_device''
      | CharDevice \<Rightarrow> ''character_device'' | UnknownDevice \<Rightarrow> ''unknown'')"

record capture_state =
  ca_entries :: "workspace_entry list"
  ca_total_bytes :: u64

definition add_entry :: "workspace_limits \<Rightarrow> capture_state \<Rightarrow> unit ws_result" where
  "add_entry l c =
     (let actual = length (ca_entries c) + 1 in
      if max_entries l < actual
      then Inl (WLimitExceeded LimitEntries (u64_of_usize actual) (u64_of_usize (max_entries l)))
      else Inr ())"

definition push_entry :: "string \<Rightarrow> entry_kind \<Rightarrow> capture_state \<Rightarrow> capture_state" where
  "push_entry p k c = c\<lparr>ca_entries := ca_entries c @ [\<lparr>we_path = p, we_kind = k\<rparr>]\<rparr>"

definition capture_file ::
  "externals \<Rightarrow> workspace_backend \<Rightarrow> put_host \<Rightarrow> path \<Rightarrow> string \<Rightarrow> file_stat \<Rightarrow> string \<Rightarrow> capture_state \<Rightarrow> fs \<Rightarrow>
   capture_state ws_result \<times> fs" where
  "capture_file X B ph p mp st bs c bt =
     (case rbind (read_regular_file p (st, length bs) (HostFile st bs) bs (st, length bs)
               (max_file_bytes (wb_limits B))) (\<lambda>(bytes, opened).
           rbind (ok_or (checked_add_u64 (ca_total_bytes c) (u64_of_usize (length bytes)))
               (WLimitExceeded LimitTotalBytes (- 1) (max_total_bytes (wb_limits B)))) (\<lambda>running.
           rbind (enforce_limit LimitTotalBytes running (max_total_bytes (wb_limits B))) (\<lambda>_.
           Inr (bytes, opened, running)))) of
        Inl e \<Rightarrow> (Inl e, bt)
      | Inr (bytes, opened, running) \<Rightarrow>
          (case blob_put X (wb_store B) (ph_env ph) (ph_clock ph) (fst (ph_uuids ph)) (snd (ph_uuids ph))
                  bytes file_media_type bt of
             (Inl e, bt') \<Rightarrow> (Inl (WBlob e), bt')
           | (Inr blob, bt') \<Rightarrow>
               let mode = metadata_mode (fs_mode (fst opened)) in
               (Inr (push_entry mp (EntryRegular mode (is_executable mode) (m_length blob) (m_hash blob))
                  (c\<lparr>ca_total_bytes := running\<rparr>)), bt')))"

datatype visited = Continue capture_state | Descend capture_state

text \<open>One turn of the loop of \<open>Capture::walk\<close> up to its recursive call.\<close>

definition visit_child ::
  "externals \<Rightarrow> workspace_backend \<Rightarrow> (path \<Rightarrow> put_host) \<Rightarrow> host_fs \<Rightarrow> path \<Rightarrow> path \<Rightarrow> nat \<Rightarrow> string \<Rightarrow>
   capture_state \<Rightarrow> fs \<Rightarrow> visited ws_result \<times> fs" where
  "visit_child X B ho t source relative depth name c bt =
     (if name = ''.epoch'' then (Inr (Continue c), bt)
      else if \<not> is_utf8 name then (Inl (WUnsupported NonUtf8Path), bt)
      else
        let child = relative @ [name] in
        case rbind (path_to_manifest child) (\<lambda>mp.
             rbind (enforce_path_limits mp (depth + 1) (wb_limits B)) (\<lambda>_. Inr mp)) of
          Inl e \<Rightarrow> (Inl e, bt)
        | Inr mp \<Rightarrow>
            if source @ child = wb_blob_root B then (Inr (Continue c), bt)
            else (case map_of t (source @ child) of
              None \<Rightarrow> (Inl (WIo WsNotFound), bt)
            | Some n \<Rightarrow>
                (case add_entry (wb_limits B) c of
                   Inl e \<Rightarrow> (Inl e, bt)
                 | Inr _ \<Rightarrow>
                     (case n of
                        HostDir mode \<Rightarrow>
                          (Inr (Descend (push_entry mp (EntryDirectory (metadata_mode mode)) c)), bt)
                      | HostLink target \<Rightarrow>
                          if \<not> is_utf8 target then (Inl (WUnsupported NonUtf8SymlinkTarget), bt)
                          else (case validate_symlink_target mp target (wb_limits B) of
                              Inl e \<Rightarrow> (Inl e, bt)
                            | Inr _ \<Rightarrow> (Inr (Continue (push_entry mp (EntrySymlink target) c)), bt))
                      | HostFile st bs \<Rightarrow>
                          (case capture_file X B (ho child) (source @ child) mp st bs c bt of
                             (Inl e, bt') \<Rightarrow> (Inl e, bt')
                           | (Inr c', bt') \<Rightarrow> (Inr (Continue c'), bt'))
                      | HostSpecial k \<Rightarrow>
                          (Inl (WUnsupported (SpecialFile mp (special_file_kind k))), bt)))))"

lemma visit_descend:
  "visit_child X B ho t source relative depth name c bt = (Inr (Descend c'), bt') \<Longrightarrow>
     source @ relative @ [name] \<in> fst ` set t"
  unfolding visit_child_def Let_def
  by (auto split: if_splits sum.splits option.splits host_node.splits prod.splits dest!: map_of_SomeD
      intro: rev_image_eqI)

definition longest_path :: "host_fs \<Rightarrow> nat" where
  "longest_path t = foldr max (map (length \<circ> fst) t) 0"

lemma length_le_longest: "p \<in> fst ` set t \<Longrightarrow> length p \<le> longest_path t"
  unfolding longest_path_def by (induction t) (force simp: le_max_iff_disj image_iff)+

definition walk_room :: "host_fs \<Rightarrow> path \<Rightarrow> path \<Rightarrow> nat" where
  "walk_room t source relative = longest_path t + 1 - length (source @ relative)"

lemma visit_descend_room:
  assumes "visit_child X B ho t source relative depth name c bt = (Inr (Descend c'), bt')"
  shows "walk_room t source (relative @ [name]) < walk_room t source relative"
  using length_le_longest [OF visit_descend [OF assms]] by (simp add: walk_room_def)

text \<open>The walk: no deeper than the longest path of the tree.\<close>

function (sequential) walk ::
    "externals \<Rightarrow> workspace_backend \<Rightarrow> (path \<Rightarrow> put_host) \<Rightarrow> host_fs \<Rightarrow> path \<Rightarrow> path \<Rightarrow> nat \<Rightarrow>
     capture_state \<Rightarrow> fs \<Rightarrow> capture_state ws_result \<times> fs"
  and walk_children ::
    "externals \<Rightarrow> workspace_backend \<Rightarrow> (path \<Rightarrow> put_host) \<Rightarrow> host_fs \<Rightarrow> path \<Rightarrow> path \<Rightarrow> nat \<Rightarrow>
     string list \<Rightarrow> capture_state \<Rightarrow> fs \<Rightarrow> capture_state ws_result \<times> fs" where
  "walk X B ho t source relative depth c bt =
     (if \<not> is_directory (source @ relative) t then (Inl (WIo WsNotADirectory), bt)
      else walk_children X B ho t source relative depth (child_names (source @ relative) t) c bt)"
| "walk_children X B ho t source relative depth [] c bt = (Inr c, bt)"
| "walk_children X B ho t source relative depth (name # names) c bt =
     (case visit_child X B ho t source relative depth name c bt of
        (Inl e, bt1) \<Rightarrow> (Inl e, bt1)
      | (Inr (Continue c1), bt1) \<Rightarrow> walk_children X B ho t source relative depth names c1 bt1
      | (Inr (Descend c1), bt1) \<Rightarrow>
          (case walk X B ho t source (relative @ [name]) (depth + 1) c1 bt1 of
             (Inl e, bt2) \<Rightarrow> (Inl e, bt2)
           | (Inr c2, bt2) \<Rightarrow> walk_children X B ho t source relative depth names c2 bt2))"
  by pat_completeness auto

termination
proof (relation "measures
    [\<lambda>a. case a of Inl (_, _, _, t, source, relative, _) \<Rightarrow> walk_room t source relative
       | Inr (_, _, _, t, source, relative, _) \<Rightarrow> walk_room t source relative,
     \<lambda>a. case a of Inl _ \<Rightarrow> 1 | Inr _ \<Rightarrow> 0,
     \<lambda>a. case a of Inl _ \<Rightarrow> 0 | Inr (_, _, _, _, _, _, _, names, _) \<Rightarrow> length names]", goal_cases)
qed (auto dest: visit_descend_room [OF sym])

section \<open>Snapshots\<close>

definition workspace_open :: "externals \<Rightarrow> i64 \<Rightarrow> path \<Rightarrow> workspace_limits \<Rightarrow> fs \<Rightarrow> workspace_backend ws_result \<times> fs" where
  "workspace_open X now blob_root l bt =
     (case validate_limits l of
        Inl e \<Rightarrow> (Inl e, bt)
      | Inr _ \<Rightarrow>
          (case blob_open X now (max (max_file_bytes l) (max_manifest_bytes l)) bt of
             (Inl e, bt') \<Rightarrow> (Inl (WBlob e), bt')
           | (Inr st, bt') \<Rightarrow> (Inr \<lparr>wb_store = st, wb_blob_root = blob_root, wb_limits = l\<rparr>, bt')))"

definition source_root :: "workspace_backend \<Rightarrow> host_fs \<Rightarrow> path \<Rightarrow> string \<Rightarrow> (path \<times> u32) ws_result" where
  "source_root B t cwd source =
     (case lstat t cwd (path_components source) of
        Inl e \<Rightarrow> Inl (WIo e)
      | Inr (canonical, HostDir mode) \<Rightarrow>
          if canonical = wb_blob_root B \<or> path_prefix (wb_blob_root B) canonical
          then Inl WStateRootOverlapsWorkspace
          else Inr (canonical, mode)
      | Inr _ \<Rightarrow> Inl WInvalidSourceRoot)"

definition build_manifest :: "u32 \<Rightarrow> capture_state \<Rightarrow> workspace_manifest" where
  "build_manifest mode c =
     \<lparr>wm_schema_version = workspace_schema_version, wm_hardlink_policy = Materialize,
      wm_root_mode = metadata_mode mode, wm_entries = sort_key we_path (ca_entries c)\<rparr>"

definition encode_manifest :: "manifest_codec \<Rightarrow> workspace_limits \<Rightarrow> workspace_manifest \<Rightarrow> string ws_result" where
  "encode_manifest C l m =
     rbind (validate_manifest m l) (\<lambda>_.
     rbind (map_err WJson (manifest_to_vec C m)) (\<lambda>encoded.
     rbind (enforce_limit LimitManifestBytes (u64_of_usize (length encoded)) (max_manifest_bytes l)) (\<lambda>_.
     Inr encoded)))"

text \<open>The blob of the manifest takes its host at the empty path.\<close>

definition workspace_snapshot ::
  "externals \<Rightarrow> manifest_codec \<Rightarrow> workspace_backend \<Rightarrow> (path \<Rightarrow> put_host) \<Rightarrow> host_fs \<Rightarrow> path \<Rightarrow> string \<Rightarrow>
   fs \<Rightarrow> manifest_ref ws_result \<times> fs" where
  "workspace_snapshot X C B ho t cwd source bt =
     (case source_root B t cwd source of
        Inl e \<Rightarrow> (Inl e, bt)
      | Inr (canonical, mode) \<Rightarrow>
          (case walk X B ho t canonical [] 0 \<lparr>ca_entries = [], ca_total_bytes = 0\<rparr> bt of
             (Inl e, bt') \<Rightarrow> (Inl e, bt')
           | (Inr c, bt') \<Rightarrow>
               (case encode_manifest C (wb_limits B) (build_manifest mode c) of
                  Inl e \<Rightarrow> (Inl e, bt')
                | Inr encoded \<Rightarrow>
                    (case blob_put X (wb_store B) (ph_env (ho [])) (ph_clock (ho []))
                            (fst (ph_uuids (ho []))) (snd (ph_uuids (ho []))) encoded manifest_media_type bt' of
                       (Inl e, bt2) \<Rightarrow> (Inl (WBlob e), bt2)
                     | (Inr m, bt2) \<Rightarrow>
                         (Inr \<lparr>ws_manifest_hash = m_hash m, ws_manifest_length = m_length m\<rparr>, bt2)))))"

definition load_manifest ::
  "externals \<Rightarrow> manifest_codec \<Rightarrow> workspace_backend \<Rightarrow> manifest_ref \<Rightarrow> fs \<Rightarrow> workspace_manifest ws_result" where
  "load_manifest X C B s bt =
     rbind (map_err WBlob (blob_read X (wb_store B) (ws_manifest_hash s) bt)) (\<lambda>encoded.
     let actual = u64_of_usize (length encoded) in
     if actual \<noteq> ws_manifest_length s then Inl (WManifestLengthMismatch (ws_manifest_length s) actual)
     else
       rbind (enforce_limit LimitManifestBytes actual (max_manifest_bytes (wb_limits B))) (\<lambda>_.
       rbind (map_err WJson (manifest_from_slice C encoded)) (\<lambda>m.
       if workspace_schema_version < wm_schema_version m
       then Inl (WFutureSchema (wm_schema_version m) workspace_schema_version)
       else if wm_schema_version m \<noteq> workspace_schema_version
       then Inl (WUnsupportedSchema (wm_schema_version m))
       else
         rbind (map_err WJson (manifest_to_vec C m)) (\<lambda>canonical.
         if canonical \<noteq> encoded then Inl WNonCanonicalManifest
         else rbind (validate_manifest m (wb_limits B)) (\<lambda>_. Inr m)))))"

text \<open>The prepared files, in the order of their paths: the order of the entries of a valid manifest.\<close>

fun prepare_files ::
  "externals \<Rightarrow> blob_store \<Rightarrow> workspace_entry list \<Rightarrow> fs \<Rightarrow> (string \<times> string) list ws_result" where
  "prepare_files X st [] bt = Inr []"
| "prepare_files X st (e # es) bt =
     (case we_kind e of
        EntryRegular _ _ len h \<Rightarrow>
          rbind (map_err WBlob (blob_read X st h bt)) (\<lambda>bytes.
          let actual = u64_of_usize (length bytes) in
          if actual \<noteq> len then Inl (WReferencedBlobLengthMismatch h len actual)
          else rbind (prepare_files X st es bt) (\<lambda>files. Inr ((we_path e, bytes) # files)))
      | _ \<Rightarrow> prepare_files X st es bt)"

definition restore_report_of :: "workspace_manifest \<Rightarrow> (string \<times> string) list \<Rightarrow> restore_report" where
  "restore_report_of m files =
     \<lparr>rr_entries = length (wm_entries m),
      rr_total_file_bytes = sum_list (map (\<lambda>(_, bytes). u64_of_usize (length bytes)) files)\<rparr>"

definition workspace_validate ::
  "externals \<Rightarrow> manifest_codec \<Rightarrow> workspace_backend \<Rightarrow> manifest_ref \<Rightarrow> fs \<Rightarrow> restore_report ws_result" where
  "workspace_validate X C B s bt =
     rbind (load_manifest X C B s bt) (\<lambda>m.
     rbind (prepare_files X (wb_store B) (wm_entries m) bt) (\<lambda>files.
     Inr (restore_report_of m files)))"

section \<open>Operations on the host's tree\<close>

type_synonym 'a host_op = "host_fs \<Rightarrow> 'a ws_result \<times> host_fs"

definition hok :: "'a \<Rightarrow> 'a host_op" where "hok x t = (Inr x, t)"
definition herr :: "ws_error \<Rightarrow> 'a host_op" where "herr e t = (Inl e, t)"

definition hbind :: "'a host_op \<Rightarrow> ('a \<Rightarrow> 'b host_op) \<Rightarrow> 'b host_op" where
  "hbind m f t = (case m t of (Inl e, t') \<Rightarrow> (Inl e, t') | (Inr x, t') \<Rightarrow> f x t')"

text \<open>\<open>Path::try_exists\<close>.\<close>

definition try_exists :: "path \<Rightarrow> bool host_op" where
  "try_exists p t =
     ((case resolve max_links t [] (map Normal p) of
         Inr _ \<Rightarrow> Inr True
       | Inl WsNotFound \<Rightarrow> Inr False
       | Inl e \<Rightarrow> Inl (WIo e)), t)"

definition create_node :: "path \<Rightarrow> host_node \<Rightarrow> unit host_op" where
  "create_node p n t =
     (if map_of t p \<noteq> None then (Inl (WIo WsAlreadyExists), t)
      else if \<not> is_directory (butlast p) t then (Inl (WIo WsNotFound), t)
      else (Inr (), host_put p n t))"

definition create_private_directory :: "path \<Rightarrow> unit host_op" where
  "create_private_directory p = create_node p (HostDir private_directory_mode)"

definition set_mode :: "path \<Rightarrow> u32 \<Rightarrow> unit host_op" where
  "set_mode p mode t =
     (case map_of t p of
        Some (HostDir _) \<Rightarrow> (Inr (), host_put p (HostDir mode) t)
      | Some (HostFile st bs) \<Rightarrow> (Inr (), host_put p (HostFile (st\<lparr>fs_mode := mode\<rparr>) bs) t)
      | Some _ \<Rightarrow> (Inr (), t)
      | None \<Rightarrow> (Inl (WIo WsNotFound), t))"

definition write_new_file :: "file_stat \<Rightarrow> path \<Rightarrow> string \<Rightarrow> u32 \<Rightarrow> unit host_op" where
  "write_new_file st p bytes mode =
     hbind (create_node p (HostFile (st\<lparr>fs_mode := private_file_mode\<rparr>) bytes)) (\<lambda>_. set_mode p mode)"

definition create_symlink :: "string \<Rightarrow> path \<Rightarrow> unit host_op" where
  "create_symlink target p = create_node p (HostLink target)"

definition rename_directory :: "string \<Rightarrow> path \<Rightarrow> path \<Rightarrow> unit host_op" where
  "rename_directory raw staging target t =
     (case map_of t target of
        None \<Rightarrow> (Inr (), host_move staging target t)
      | Some _ \<Rightarrow>
          (case resolve max_links t [] (map Normal target) of
             Inr _ \<Rightarrow> (Inl (WTargetExists raw), t)
           | Inl _ \<Rightarrow> (Inl (WIo WsNotADirectory), t)))"

text \<open>\<open>make_tree_removable\<close> opens every directory and file of a tree to its owner.\<close>

definition make_tree_removable :: "path \<Rightarrow> host_fs \<Rightarrow> host_fs" where
  "make_tree_removable p t =
     map (\<lambda>(q, n). (q,
       if path_prefix p q then
         (case n of
            HostDir _ \<Rightarrow> HostDir private_directory_mode
          | HostFile st bs \<Rightarrow> HostFile (st\<lparr>fs_mode := private_file_mode\<rparr>) bs
          | n' \<Rightarrow> n')
       else n)) t"

section \<open>Restoring\<close>

record restore_host =
  rh_cwd :: path
  rh_uuid :: uuid
  rh_stat :: "path \<Rightarrow> file_stat"

text \<open>The directory of the target, as given and resolved, and its name.\<close>

definition validate_restore_target :: "host_fs \<Rightarrow> path \<Rightarrow> string \<Rightarrow> (path \<times> string) ws_result" where
  "validate_restore_target t cwd target =
     (let cs = path_components target in
      case (if cs = [] then CurDir else last cs) of
        Normal name \<Rightarrow>
          if list_ex (\<lambda>c. c = ParentDir \<or> c = CurDir) cs then Inl (WUnsafeRestoreTarget target)
          else (case resolve max_links t cwd cs of
              Inr _ \<Rightarrow> Inl (WTargetExists target)
            | Inl e \<Rightarrow>
                if e \<noteq> WsNotFound then Inl (WIo e)
                else (case lstat t cwd (butlast cs) of
                    Inr (parent, HostDir _) \<Rightarrow> Inr (parent, name)
                  | Inr _ \<Rightarrow> Inl (WUnsafeRestoreTarget target)
                  | Inl e' \<Rightarrow> Inl (WIo e')))
      | _ \<Rightarrow> Inl (WUnsafeRestoreTarget target))"

definition restore_lock_path :: "externals \<Rightarrow> path \<Rightarrow> string \<Rightarrow> path" where
  "restore_lock_path X parent target =
     parent @ [''.epoch-restore-lock-'' @ hash_str (blob_hash_digest X target)]"

definition staging_path :: "externals \<Rightarrow> path \<Rightarrow> string \<Rightarrow> uuid \<Rightarrow> path" where
  "staging_path X parent name u =
     parent @ [''.epoch-restore-'' @ (if is_utf8 name then name else ''workspace'') @ ''-'' @ uuid_to_string X u]"

text \<open>\<open>RestoreLock\<close> and \<open>StagingGuard\<close>: what their destructors undo on every way out.\<close>

definition with_restore_lock ::
  "externals \<Rightarrow> file_stat \<Rightarrow> path \<Rightarrow> string \<Rightarrow> 'a host_op \<Rightarrow> 'a host_op" where
  "with_restore_lock X st parent target body t =
     (let lock = restore_lock_path X parent target in
      case create_node lock (HostFile (st\<lparr>fs_mode := private_file_mode\<rparr>)
             (''epoch workspace restore lock'' @ [CHR 0x0A])) t of
        (Inl (WIo WsAlreadyExists), t') \<Rightarrow> (Inl (WTargetExists target), t')
      | (Inl e, t') \<Rightarrow> (Inl e, t')
      | (Inr _, t') \<Rightarrow> (let (r, t2) = body t' in (r, host_remove lock t2)))"

definition with_staging :: "path \<Rightarrow> 'a host_op \<Rightarrow> 'a host_op" where
  "with_staging staging body =
     hbind (create_private_directory staging) (\<lambda>_ t.
       case body t of
         (Inr x, t') \<Rightarrow> (Inr x, t')
       | (Inl e, t') \<Rightarrow> (Inl e, host_remove_all staging (make_tree_removable staging t')))"

definition maybe_fault_after_first :: "restore_fault \<Rightarrow> nat \<Rightarrow> unit host_op" where
  "maybe_fault_after_first fault created =
     (if fault = AfterFirstEntry \<and> created = 1 then herr (WFaultInjected fault) else hok ())"

fun create_directories :: "restore_fault \<Rightarrow> path \<Rightarrow> workspace_entry list \<Rightarrow> nat \<Rightarrow> nat host_op" where
  "create_directories fault staging [] created = hok created"
| "create_directories fault staging (e # es) created =
     hbind (create_private_directory (staging @ manifest_path (we_path e))) (\<lambda>_.
     hbind (maybe_fault_after_first fault (created + 1)) (\<lambda>_.
     create_directories fault staging es (created + 1)))"

definition create_entry ::
  "restore_host \<Rightarrow> path \<Rightarrow> (string \<times> string) list \<Rightarrow> workspace_entry \<Rightarrow> unit host_op" where
  "create_entry ho staging prepared e =
     (let p = staging @ manifest_path (we_path e) in
      case we_kind e of
        EntryDirectory _ \<Rightarrow> hok ()
      | EntryRegular mode _ _ _ \<Rightarrow>
          (case map_of prepared (we_path e) of
             None \<Rightarrow> herr (WInvalidManifest ''prepared file is missing'')
           | Some bytes \<Rightarrow> write_new_file (rh_stat ho p) p bytes mode)
      | EntrySymlink target \<Rightarrow> create_symlink target p)"

fun create_entries ::
  "restore_host \<Rightarrow> restore_fault \<Rightarrow> path \<Rightarrow> (string \<times> string) list \<Rightarrow> workspace_entry list \<Rightarrow> nat \<Rightarrow> nat host_op" where
  "create_entries ho fault staging prepared [] created = hok created"
| "create_entries ho fault staging prepared (e # es) created =
     (if is_directory_kind (Some (we_kind e)) then create_entries ho fault staging prepared es created
      else
        hbind (create_entry ho staging prepared e) (\<lambda>_.
        hbind (maybe_fault_after_first fault (created + 1)) (\<lambda>_.
        create_entries ho fault staging prepared es (created + 1))))"

fun set_directory_modes :: "path \<Rightarrow> workspace_entry list \<Rightarrow> unit host_op" where
  "set_directory_modes staging [] = hok ()"
| "set_directory_modes staging (e # es) =
     hbind (set_mode (staging @ manifest_path (we_path e)) (entry_mode (we_kind e))) (\<lambda>_.
     set_directory_modes staging es)"

text \<open>\<open>sort_by_key(|entry| (path_depth(..), path))\<close> as two stable sorts, and the reverse by depth.\<close>

definition manifest_directories :: "workspace_manifest \<Rightarrow> workspace_entry list" where
  "manifest_directories m =
     sort_key (path_depth \<circ> we_path) (sort_key we_path
       (filter (\<lambda>e. is_directory_kind (Some (we_kind e))) (wm_entries m)))"

definition deepest_first :: "workspace_entry list \<Rightarrow> workspace_entry list" where
  "deepest_first es = sort_key (\<lambda>e. - int (path_depth (we_path e))) es"

definition build_staging ::
  "restore_host \<Rightarrow> restore_fault \<Rightarrow> string \<Rightarrow> path \<Rightarrow> path \<Rightarrow> workspace_manifest \<Rightarrow>
   (string \<times> string) list \<Rightarrow> restore_report host_op" where
  "build_staging ho fault raw staging target m prepared =
     (if fault = AfterStagingCreated then herr (WFaultInjected fault)
      else
        let directories = manifest_directories m in
        hbind (create_directories fault staging directories 0) (\<lambda>created.
        hbind (create_entries ho fault staging prepared (wm_entries m) created) (\<lambda>_.
        if fault = BeforePublish then herr (WFaultInjected fault)
        else
          hbind (try_exists target) (\<lambda>exists.
          if exists then herr (WTargetExists raw)
          else
            hbind (set_directory_modes staging (deepest_first directories)) (\<lambda>_.
            hbind (set_mode staging (wm_root_mode m)) (\<lambda>_.
            hbind (rename_directory raw staging target) (\<lambda>_.
            hok (restore_report_of m prepared))))))))"

definition restore_with_fault ::
  "externals \<Rightarrow> manifest_codec \<Rightarrow> workspace_backend \<Rightarrow> restore_host \<Rightarrow> manifest_ref \<Rightarrow> string \<Rightarrow>
   restore_fault \<Rightarrow> fs \<Rightarrow> restore_report host_op" where
  "restore_with_fault X C B ho s raw fault bt t =
     (case rbind (load_manifest X C B s bt) (\<lambda>m.
           rbind (prepare_files X (wb_store B) (wm_entries m) bt) (\<lambda>prepared.
           rbind (validate_restore_target t (rh_cwd ho) raw) (\<lambda>(parent, name).
           Inr (m, prepared, parent, name)))) of
        Inl e \<Rightarrow> (Inl e, t)
      | Inr (m, prepared, parent, name) \<Rightarrow>
          let target = parent @ [name]; staging = staging_path X parent name (rh_uuid ho) in
          with_restore_lock X (rh_stat ho (restore_lock_path X parent raw)) parent raw
            (hbind (try_exists target) (\<lambda>exists.
             if exists then herr (WTargetExists raw)
             else with_staging staging (build_staging ho fault raw staging target m prepared))) t)"

definition workspace_restore ::
  "externals \<Rightarrow> manifest_codec \<Rightarrow> workspace_backend \<Rightarrow> restore_host \<Rightarrow> manifest_ref \<Rightarrow> string \<Rightarrow>
   fs \<Rightarrow> restore_report host_op" where
  "workspace_restore X C B ho s raw = restore_with_fault X C B ho s raw NoRestoreFault"

end
