(* ===== verification/Epoch_Workspace_Proofs.thy ===== *)
theory Epoch_Workspace_Proofs
  imports Epoch_Workspace
begin

text \<open>
  Lemmas of the workspace backend: what the operations on the host's tree touch, the tree a restore
  builds, and the entries a walk collects.
\<close>

section \<open>Trees\<close>

text \<open>Every node but the root sits in a directory.\<close>

definition tree_ok :: "host_fs \<Rightarrow> bool" where
  "tree_ok t \<longleftrightarrow> (\<forall>p. p \<noteq> [] \<and> map_of t p \<noteq> None \<longrightarrow> is_directory (butlast p) t)"

lemma is_directory_iff: "is_directory p t \<longleftrightarrow> (\<exists>mode. map_of t p = Some (HostDir mode))"
  by (simp add: is_directory_def split: option.splits host_node.splits)

lemma tree_ok_parent: "tree_ok t \<Longrightarrow> map_of t (p @ [a]) \<noteq> None \<Longrightarrow> is_directory p t"
  by (metis butlast_snoc snoc_eq_iff_butlast tree_ok_def)

lemma tree_ok_prefix:
  assumes "tree_ok t" and "map_of t (p @ q) \<noteq> None" and "q \<noteq> []"
  shows "is_directory p t"
  using assms(2,3)
proof (induction q rule: rev_induct)
  case Nil
  then show ?case by simp
next
  case (snoc a q)
  have dir: "is_directory (p @ q) t" using tree_ok_parent [OF assms(1), of "p @ q" a] snoc.prems(1) by simp
  show ?case
  proof (cases "q = []")
    case True
    with dir show ?thesis by simp
  next
    case False
    with dir snoc.IH show ?thesis by (auto simp: is_directory_iff)
  qed
qed

lemma tree_ok_below:
  assumes "tree_ok t" and "map_of t p = None"
  shows "map_of t (p @ q) = None"
proof (cases "q = []")
  case False
  with tree_ok_prefix [OF assms(1)] assms(2) show ?thesis by (force simp: is_directory_iff)
qed (simp add: assms(2))

lemma resolve_real:
  assumes "\<And>i. i \<le> length q \<Longrightarrow> is_directory (p @ take i q) t"
  shows "resolve n t p (map Normal q @ cs) = resolve n t (p @ q) cs"
  using assms
proof (induction q arbitrary: p)
  case Nil
  show ?case by simp
next
  case (Cons a q)
  have "is_directory (p @ [a]) t" using Cons.prems [of 1] by simp
  then obtain mode where m: "map_of t (p @ [a]) = Some (HostDir mode)" by (auto simp: is_directory_iff)
  have "resolve n t (p @ [a]) (map Normal q @ cs) = resolve n t ((p @ [a]) @ q) cs"
    by (rule Cons.IH) (use Cons.prems [of "Suc _"] in simp)
  with m show ?case by simp
qed

lemma resolve_directory:
  assumes "tree_ok t" and "is_directory p t"
  shows "resolve n t [] (map Normal p @ cs) = resolve n t p cs"
proof -
  have "is_directory ([] @ take i p) t" if "i \<le> length p" for i
  proof (cases "i = length p")
    case True
    with assms(2) show ?thesis by simp
  next
    case False
    have "map_of t (take i p @ drop i p) \<noteq> None" using assms(2) by (auto simp: is_directory_iff)
    from tree_ok_prefix [OF assms(1) this] False that show ?thesis by simp
  qed
  then show ?thesis using resolve_real [where p = "[]"] by simp
qed

section \<open>What an operation touches\<close>

text \<open>An operation confined to a place leaves every path that is not below it as it was.\<close>

definition confined :: "path \<Rightarrow> 'a host_op \<Rightarrow> bool" where
  "confined p m \<longleftrightarrow> (\<forall>t q. \<not> path_prefix p q \<longrightarrow> map_of (snd (m t)) q = map_of t q)"

named_theorems confined_intros

lemma confinedD: "confined p m \<Longrightarrow> m t = (r, t') \<Longrightarrow> \<not> path_prefix p q \<Longrightarrow> map_of t' q = map_of t q"
  by (metis confined_def snd_conv)

lemma confined_pure [confined_intros]: "confined p (hok x)" "confined p (herr e)" "confined p (try_exists q)"
  by (simp_all add: confined_def hok_def herr_def try_exists_def)

lemma confined_hbind [confined_intros]:
  assumes "confined p m" and "\<And>x. confined p (f x)"
  shows "confined p (hbind m f)"
  using assms by (auto simp: confined_def hbind_def split: prod.splits sum.splits) (metis snd_conv)+

lemma confined_if [confined_intros]: "confined p a \<Longrightarrow> confined p b \<Longrightarrow> confined p (if c then a else b)"
  by simp

lemma confined_create [confined_intros]: "path_prefix p q \<Longrightarrow> confined p (create_node q n)"
  by (auto simp: confined_def create_node_def)

lemma confined_set_mode [confined_intros]: "path_prefix p q \<Longrightarrow> confined p (set_mode q mode)"
  by (auto simp: confined_def set_mode_def split: option.splits host_node.splits)

lemma confined_fault [confined_intros]: "confined p (maybe_fault_after_first fault n)"
  by (simp add: maybe_fault_after_first_def confined_intros)

lemma confined_directories [confined_intros]: "confined p (create_directories fault p es n)"
  by (induction es arbitrary: n) (auto simp: create_private_directory_def intro!: confined_intros)

lemma confined_entry [confined_intros]: "confined p (create_entry ho p prepared e)"
  by (auto simp: create_entry_def Let_def write_new_file_def create_symlink_def
      split: entry_kind.splits option.splits intro!: confined_intros)

lemma confined_entries [confined_intros]: "confined p (create_entries ho fault p prepared es n)"
  by (induction es arbitrary: n) (auto intro!: confined_intros)

lemma confined_modes [confined_intros]: "confined p (set_directory_modes p es)"
  by (induction es) (auto intro!: confined_intros)

lemma hbind_Inl:
  "hbind m f t = (Inl e, t') \<longleftrightarrow> m t = (Inl e, t') \<or> (\<exists>x t1. m t = (Inr x, t1) \<and> f x t1 = (Inl e, t'))"
  by (auto simp: hbind_def split: prod.splits sum.splits)

lemma hbind_Inr:
  "hbind m f t = (Inr y, t') \<longleftrightarrow> (\<exists>x t1. m t = (Inr x, t1) \<and> f x t1 = (Inr y, t'))"
  by (auto simp: hbind_def split: prod.splits sum.splits)

lemma rename_Inl: "rename_directory raw staging target t = (Inl e, t') \<Longrightarrow> t' = t"
  by (auto simp: rename_directory_def split: option.splits sum.splits)

text \<open>A failing restore has worked inside its staging tree only.\<close>

definition staged_only :: "path \<Rightarrow> 'a host_op \<Rightarrow> bool" where
  "staged_only p m \<longleftrightarrow>
     (\<forall>t e t' q. m t = (Inl e, t') \<and> \<not> path_prefix p q \<longrightarrow> map_of t' q = map_of t q)"

lemma staged_only_confined: "confined p m \<Longrightarrow> staged_only p m"
  by (auto simp: staged_only_def dest: confinedD)

lemma staged_only_hbind:
  assumes "confined p m" and "\<And>x. staged_only p (f x)"
  shows "staged_only p (hbind m f)"
  unfolding staged_only_def hbind_Inl
proof (intro allI impI, elim conjE disjE exE)
  fix t e t' q
  assume "m t = (Inl e, t')" and q: "\<not> path_prefix p q"
  then show "map_of t' q = map_of t q" by (rule confinedD [OF assms(1)])
next
  fix t e t' q x t1
  assume q: "\<not> path_prefix p q" and "m t = (Inr x, t1)" and f: "f x t1 = (Inl e, t')"
  then have "map_of t1 q = map_of t q" by (blast intro: confinedD [OF assms(1)])
  moreover have "map_of t' q = map_of t1 q" using assms(2) f q by (simp add: staged_only_def)
  ultimately show "map_of t' q = map_of t q" by simp
qed

lemma staged_only_if: "staged_only p a \<Longrightarrow> staged_only p b \<Longrightarrow> staged_only p (if c then a else b)"
  by simp

lemma staged_only_publish: "staged_only p (hbind (rename_directory raw p target) (\<lambda>_. hok x))"
  by (auto simp: staged_only_def hbind_Inl hok_def dest: rename_Inl)

lemma build_staging_only: "staged_only staging (build_staging ho fault raw staging target m prepared)"
  unfolding build_staging_def Let_def
  by (rule staged_only_publish staged_only_if staged_only_hbind staged_only_confined [OF confined_pure(2)]
      confined_intros path_prefix_refl)+

lemma map_of_make_tree_removable:
  "\<not> path_prefix p q \<Longrightarrow> map_of (make_tree_removable p t) q = map_of t q"
  by (induction t) (auto simp: make_tree_removable_def)

lemma with_staging_Inl:
  assumes "with_staging staging body t = (Inl e, t')" and "staged_only staging body" and "tree_ok t"
  shows "map_of t' = map_of t"
proof (cases "create_private_directory staging t")
  case (Pair r t1)
  show ?thesis
  proof (cases r)
    case (Inl e')
    with Pair assms(1) have "t' = t1" by (auto simp: with_staging_def hbind_def)
    moreover have "t1 = t" using Pair Inl by (auto simp: create_private_directory_def create_node_def split: if_splits)
    ultimately show ?thesis by simp
  next
    case (Inr u)
    with Pair assms(1) obtain t2 where b: "body t1 = (Inl e, t2)"
      and t': "t' = host_remove_all staging (make_tree_removable staging t2)"
      by (auto simp: with_staging_def hbind_def split: prod.splits sum.splits)
    from Pair Inr have new: "map_of t staging = None" and t1: "t1 = host_put staging (HostDir private_directory_mode) t"
      by (auto simp: create_private_directory_def create_node_def split: if_splits)
    show ?thesis
    proof
      fix q
      show "map_of t' q = map_of t q"
      proof (cases "path_prefix staging q")
        case True
        then obtain r where "q = staging @ r" by (auto simp: path_prefix_iff)
        with True show ?thesis using tree_ok_below [OF assms(3) new] by (simp add: t')
      next
        case False
        then have "map_of t2 q = map_of t1 q" using assms(2) b by (simp add: staged_only_def)
        with False show ?thesis by (auto simp: t' t1 map_of_make_tree_removable)
      qed
    qed
  qed
qed

lemma with_restore_lock_Inl:
  assumes "with_restore_lock X st parent target body t = (Inl e, t')"
    and "\<And>t1 t2. body t1 = (Inl e, t2) \<Longrightarrow> tree_ok t1 \<Longrightarrow> map_of t2 = map_of t1" and "tree_ok t"
  shows "map_of t' = map_of t"
proof -
  let ?lock = "restore_lock_path X parent target"
  let ?node = "HostFile (st\<lparr>fs_mode := private_file_mode\<rparr>) (''epoch workspace restore lock'' @ [CHR 0x0A])"
  show ?thesis
  proof (cases "map_of t ?lock = None \<and> is_directory (butlast ?lock) t")
    case False
    then have "fst (create_node ?lock ?node t) \<noteq> Inr ()" "snd (create_node ?lock ?node t) = t"
      by (auto simp: create_node_def)
    then show ?thesis using assms(1) unfolding with_restore_lock_def Let_def
      by (auto split: prod.splits sum.splits ws_error.splits ws_io.splits)
  next
    case True
    then have c: "create_node ?lock ?node t = (Inr (), host_put ?lock ?node t)" by (simp add: create_node_def)
    from assms(1) obtain t2 where b: "body (host_put ?lock ?node t) = (Inl e, t2)" and t': "t' = host_remove ?lock t2"
      unfolding with_restore_lock_def Let_def c by (auto split: prod.splits)
    have "tree_ok (host_put ?lock ?node t)"
      using assms(3) True unfolding tree_ok_def is_directory_iff map_of_host_put
      by (metis option.distinct(1))
    from assms(2) [OF b this] True show ?thesis by (auto simp: t')
  qed
qed

lemma try_exists_state: "try_exists p t = (r, t') \<Longrightarrow> t' = t"
  by (simp add: try_exists_def)

lemma restore_body_Inl:
  assumes "hbind (try_exists target) (\<lambda>exists. if exists then herr (WTargetExists raw)
      else with_staging staging (build_staging ho fault raw staging target m prepared)) t = (Inl e, t')"
    and "tree_ok t"
  shows "map_of t' = map_of t"
  using assms(1) unfolding hbind_Inl
proof (elim disjE exE conjE)
  fix x t1
  assume "try_exists target t = (Inr x, t1)"
    and b: "(if x then herr (WTargetExists raw)
      else with_staging staging (build_staging ho fault raw staging target m prepared)) t1 = (Inl e, t')"
  then have "t1 = t" by (auto dest: try_exists_state)
  with b with_staging_Inl [OF _ build_staging_only assms(2)] show ?thesis
    by (auto simp: herr_def split: if_splits)
qed (auto dest: try_exists_state)

lemma restore_Inl:
  assumes "restore_with_fault X C B ho s raw fault bt t = (Inl e, t')" and "tree_ok t"
  shows "map_of t' = map_of t"
proof (cases "rbind (load_manifest X C B s bt) (\<lambda>m.
           rbind (prepare_files X (wb_store B) (wm_entries m) bt) (\<lambda>prepared.
           rbind (validate_restore_target t (rh_cwd ho) raw) (\<lambda>(parent, name).
           Inr (m, prepared, parent, name))))")
  case (Inl e')
  with assms(1) show ?thesis by (simp add: restore_with_fault_def)
next
  case (Inr r)
  then obtain m prepared parent name where r: "r = (m, prepared, parent, name)" by (cases r)
  from assms(1) [unfolded restore_with_fault_def Let_def Inr r] show ?thesis
    unfolding sum.case prod.case
    by (rule with_restore_lock_Inl) (use restore_body_Inl assms(2) in blast)+
qed

section \<open>Valid manifests\<close>

lemma validate_entries_Inr:
  assumes "validate_entries l es previous running = Inr running'"
  shows "sorted_wrt (<) (map we_path es) \<and>
    (\<forall>e \<in> set es. (\<forall>v. previous = Some v \<longrightarrow> v < we_path e) \<and>
       (\<exists>depth. validate_manifest_path (we_path e) l = Inr depth) \<and> (\<exists>a b. validate_entry_kind l e a = Inr b))"
  using assms
proof (induction es arbitrary: previous running)
  case Nil
  show ?case by simp
next
  case (Cons x es)
  from Cons.prems obtain depth running1
    where x: "validate_manifest_path (we_path x) l = Inr depth" "validate_entry_kind l x running = Inr running1"
      "\<forall>v. previous = Some v \<longrightarrow> v < we_path x"
      and rest: "validate_entries l es (Some (we_path x)) running1 = Inr running'"
    by (auto simp: result_simps not_le split: option.splits if_splits)
  from Cons.IH [OF rest] x show ?case by (auto intro: less_trans)
qed

text \<open>The relative path of an entry.\<close>

abbreviation entry_path :: "workspace_entry \<Rightarrow> path" where
  "entry_path e \<equiv> manifest_path (we_path e)"

lemma entry_path_inj: "manifest_path a = manifest_path b \<longleftrightarrow> a = b"
  unfolding manifest_path_def by (metis join_split)

lemma entry_path_not_Nil [simp]: "manifest_path a \<noteq> []" "[] \<noteq> manifest_path a"
  by (simp_all add: manifest_path_def) (metis split_on_not_Nil)

lemma entry_paths_not_Nil [simp]: "[] \<notin> entry_path ` A"
  by auto

lemma map_of_keyed:
  "distinct (map g es) \<Longrightarrow> map_of (map (\<lambda>e. (g e, f e)) es) q = Some n \<longleftrightarrow> (\<exists>e \<in> set es. g e = q \<and> n = f e)"
  "map_of (map (\<lambda>e. (g e, f e)) es) q = None \<longleftrightarrow> q \<notin> g ` set es"
  by (force simp: map_of_eq_Some_iff comp_def) (force simp: map_of_eq_None_iff)

lemma validate_manifestD:
  assumes "validate_manifest m l = Inr ()"
  shows "distinct (map we_path (wm_entries m))" "sorted_wrt (<) (map we_path (wm_entries m))"
    "\<And>e. e \<in> set (wm_entries m) \<Longrightarrow> \<exists>depth. validate_manifest_path (we_path e) l = Inr depth"
    "\<And>e. e \<in> set (wm_entries m) \<Longrightarrow> parents_present (wm_entries m) (we_path e)"
proof -
  from assms obtain running where e: "validate_entries l (wm_entries m) None 0 = Inr running"
    and p: "list_all (\<lambda>e. parents_present (wm_entries m) (we_path e)) (wm_entries m)"
    by (auto simp: validate_manifest_def result_simps split: if_splits)
  show s: "sorted_wrt (<) (map we_path (wm_entries m))" using validate_entries_Inr [OF e] by simp
  then show "distinct (map we_path (wm_entries m))" by (simp add: strict_sorted_iff)
  show "\<exists>depth. validate_manifest_path (we_path x) l = Inr depth" if "x \<in> set (wm_entries m)" for x
    using validate_entries_Inr [OF e] that by simp
  show "parents_present (wm_entries m) (we_path x)" if "x \<in> set (wm_entries m)" for x
    using p that by (simp add: list_all_iff)
qed

lemma entry_kinds_Some:
  "distinct (map we_path es) \<Longrightarrow> entry_kinds es p = Some k \<longleftrightarrow> (\<exists>e \<in> set es. we_path e = p \<and> we_kind e = k)"
  by (force simp: entry_kinds_def map_of_eq_Some_iff comp_def)

text \<open>The directory of an entry is the root or a directory entry.\<close>

lemma parent_entry:
  assumes "distinct (map we_path es)" and "parents_present es (we_path e)" and "butlast (entry_path e) \<noteq> []"
  shows "\<exists>d \<in> set es. entry_path d = butlast (entry_path e) \<and> is_directory_kind (Some (we_kind d))"
proof -
  let ?cs = "entry_path e"
  let ?p = "join_with (CHR ''/'') (butlast ?cs)"
  have len: "1 < length ?cs" using assms(3) by (metis length_butlast length_greater_0_conv zero_less_diff)
  have "is_directory_kind (entry_kinds es (join_with (CHR ''/'') (take (length ?cs - 1) ?cs)))"
    using assms(2) len by (auto simp: parents_present_def Let_def list_all_iff manifest_path_def)
  then have "is_directory_kind (entry_kinds es ?p)" by (simp add: butlast_conv_take)
  then obtain mode where "entry_kinds es ?p = Some (EntryDirectory mode)"
    by (auto simp: is_directory_kind_def split: option.splits entry_kind.splits)
  then obtain d where d: "d \<in> set es" "we_path d = ?p" "we_kind d = EntryDirectory mode"
    using entry_kinds_Some [OF assms(1)] by blast
  have "list_all (\<lambda>p. CHR ''/'' \<notin> set p) ?cs" by (simp add: manifest_path_def split_on_pieces)
  then have "list_all (\<lambda>p. CHR ''/'' \<notin> set p) (butlast ?cs)"
    by (auto simp: list_all_iff dest: in_set_butlastD)
  then have "entry_path d = butlast ?cs" unfolding d(2) manifest_path_def
    using split_join assms(3) by (simp add: manifest_path_def)
  moreover have "is_directory_kind (Some (we_kind d))" by (simp add: d(3) is_directory_kind_def)
  ultimately show ?thesis using d(1) by blast
qed

lemma prepare_files_Inr:
  assumes "prepare_files X st es bt = Inr files" and "distinct (map we_path es)" and "e \<in> set es"
    and "we_kind e = EntryRegular mode x len h"
  shows "\<exists>bytes. map_of files (we_path e) = Some bytes \<and> blob_read X st h bt = Inr bytes \<and>
    u64_of_usize (length bytes) = len"
  using assms(1-3)
proof (induction es arbitrary: files)
  case Nil
  then show ?case by simp
next
  case (Cons a es)
  show ?case
  proof (cases "e = a")
    case True
    with Cons.prems(1) assms(4) show ?thesis by (auto simp: result_simps Let_def split: if_splits)
  next
    case False
    with Cons.prems have e: "e \<in> set es" "we_path a \<noteq> we_path e" by auto
    from Cons.prems(1) obtain files' where "prepare_files X st es bt = Inr files'"
      and "map_of files (we_path e) = map_of files' (we_path e)"
      using e(2) by (cases "we_kind a") (auto simp: result_simps Let_def split: if_splits)
    with Cons.IH Cons.prems(2) e(1) show ?thesis by simp
  qed
qed

section \<open>Building the staging tree\<close>

definition host_puts :: "(path \<times> host_node) list \<Rightarrow> host_fs \<Rightarrow> host_fs" where
  "host_puts ps t = fold (\<lambda>(p, n). host_put p n) ps t"

lemma host_puts_simps [simp]:
  "host_puts [] t = t" "host_puts ((p, n) # ps) t = host_puts ps (host_put p n t)"
  by (simp_all add: host_puts_def)

lemma map_of_host_puts:
  "distinct (map fst ps) \<Longrightarrow>
     map_of (host_puts ps t) q = (case map_of ps q of Some n \<Rightarrow> Some n | None \<Rightarrow> map_of t q)"
proof (induction ps arbitrary: t)
  case Nil
  show ?case by simp
next
  case (Cons a ps)
  obtain p n where a: "a = (p, n)" by (cases a)
  with Cons.prems have "map_of ps p = None" by (simp add: map_of_eq_None_iff)
  with Cons a show ?case by (auto split: option.splits)
qed

text \<open>Directories in an order in which each one's parent is there before it.\<close>

fun ready :: "path set \<Rightarrow> path list \<Rightarrow> bool" where
  "ready D [] = True"
| "ready D (p # ps) = (butlast p \<in> D \<and> ready (insert p D) ps)"

lemma ready_by_depth:
  assumes "sorted_wrt (\<lambda>p q. length p \<le> length q) ps" and "[] \<notin> set ps"
    and "\<forall>p \<in> set ps. butlast p \<in> D \<union> set ps"
  shows "ready D ps"
  using assms
proof (induction ps arbitrary: D)
  case Nil
  show ?case by simp
next
  case (Cons p ps)
  have "length (butlast p) < length p" using Cons.prems(2) by (cases p) auto
  then have "q \<noteq> butlast p" if "length p \<le> length q" for q using that by auto
  then have "butlast p \<notin> set (p # ps)" using Cons.prems(1) by fastforce
  moreover have "ready (insert p D) ps" by (rule Cons.IH) (use Cons.prems in auto)
  ultimately show ?case using Cons.prems(3) by auto
qed

lemma create_node_ok:
  "map_of t p = None \<Longrightarrow> is_directory (butlast p) t \<Longrightarrow> create_node p n t = (Inr (), host_put p n t)"
  by (simp add: create_node_def)

lemma create_directories_ok:
  assumes "ready D (map entry_path es)" and "\<forall>d \<in> D. is_directory (staging @ d) t"
    and "distinct (map entry_path es)" and "\<forall>e \<in> set es. map_of t (staging @ entry_path e) = None"
  shows "create_directories NoRestoreFault staging es k t =
    (Inr (k + length es), host_puts (map (\<lambda>e. (staging @ entry_path e, HostDir private_directory_mode)) es) t)"
  using assms
proof (induction es arbitrary: D k t)
  case Nil
  show ?case by (simp add: hok_def)
next
  case (Cons e es)
  let ?p = "staging @ entry_path e"
  have "create_private_directory ?p t = (Inr (), host_put ?p (HostDir private_directory_mode) t)"
    unfolding create_private_directory_def
    by (rule create_node_ok) (use Cons.prems in \<open>auto simp: butlast_append\<close>)
  moreover have "create_directories NoRestoreFault staging es (k + 1) (host_put ?p (HostDir private_directory_mode) t) =
    (Inr (k + 1 + length es), host_puts (map (\<lambda>e. (staging @ entry_path e, HostDir private_directory_mode)) es)
      (host_put ?p (HostDir private_directory_mode) t))"
    by (rule Cons.IH [of "insert (entry_path e) D"])
      (use Cons.prems in \<open>auto simp: is_directory_iff image_iff\<close>)
  ultimately show ?case by (simp add: hbind_def maybe_fault_after_first_def hok_def)
qed

text \<open>The node an entry becomes.\<close>

definition entry_node :: "restore_host \<Rightarrow> path \<Rightarrow> (string \<times> string) list \<Rightarrow> workspace_entry \<Rightarrow> host_node" where
  "entry_node ho staging prepared e =
     (case we_kind e of
        EntryDirectory mode \<Rightarrow> HostDir mode
      | EntryRegular mode _ _ _ \<Rightarrow>
          HostFile ((rh_stat ho (staging @ entry_path e))\<lparr>fs_mode := mode\<rparr>)
            (case map_of prepared (we_path e) of Some bytes \<Rightarrow> bytes | None \<Rightarrow> [])
      | EntrySymlink target \<Rightarrow> HostLink target)"

abbreviation is_dir_entry :: "workspace_entry \<Rightarrow> bool" where
  "is_dir_entry e \<equiv> is_directory_kind (Some (we_kind e))"

lemma create_entry_ok:
  assumes "\<not> is_dir_entry e" and "map_of t (staging @ entry_path e) = None"
    and "is_directory (staging @ butlast (entry_path e)) t"
    and "\<forall>mode x len h. we_kind e = EntryRegular mode x len h \<longrightarrow> map_of prepared (we_path e) \<noteq> None"
  shows "\<exists>t'. create_entry ho staging prepared e t = (Inr (), t') \<and>
    map_of t' = (map_of t)(staging @ entry_path e \<mapsto> entry_node ho staging prepared e)"
proof -
  let ?p = "staging @ entry_path e"
  have ok: "create_node ?p n t = (Inr (), host_put ?p n t)" for n
    by (rule create_node_ok) (use assms(2,3) in \<open>simp_all add: butlast_append\<close>)
  show ?thesis
  proof (cases "we_kind e")
    case (EntryDirectory mode)
    with assms(1) show ?thesis by (simp add: is_directory_kind_def)
  next
    case (EntryRegular mode x len h)
    then obtain bytes where "map_of prepared (we_path e) = Some bytes" using assms(4) by auto
    with EntryRegular show ?thesis
      by (auto simp: create_entry_def Let_def write_new_file_def hbind_def ok set_mode_def entry_node_def fun_eq_iff)
  next
    case (EntrySymlink target)
    then show ?thesis by (auto simp: create_entry_def create_symlink_def Let_def ok entry_node_def fun_eq_iff)
  qed
qed

lemma create_entries_ok:
  assumes "distinct (map entry_path es)"
    and "\<forall>e \<in> set es. \<not> is_dir_entry e \<longrightarrow> map_of t (staging @ entry_path e) = None \<and>
      is_directory (staging @ butlast (entry_path e)) t \<and>
      (\<forall>mode x len h. we_kind e = EntryRegular mode x len h \<longrightarrow> map_of prepared (we_path e) \<noteq> None)"
  shows "\<exists>k' t'. create_entries ho NoRestoreFault staging prepared es k t = (Inr k', t') \<and>
    map_of t' = (\<lambda>q. case map_of (map (\<lambda>e. (staging @ entry_path e, entry_node ho staging prepared e))
        (filter (\<lambda>e. \<not> is_dir_entry e) es)) q of Some n \<Rightarrow> Some n | None \<Rightarrow> map_of t q)"
  using assms
proof (induction es arbitrary: k t)
  case Nil
  show ?case by (simp add: hok_def)
next
  case (Cons e es)
  show ?case
  proof (cases "is_dir_entry e")
    case True
    with Cons show ?thesis by simp
  next
    case False
    let ?p = "staging @ entry_path e"
    have old: "map_of t ?p = None" "is_directory (staging @ butlast (entry_path e)) t"
      "\<forall>mode x len h. we_kind e = EntryRegular mode x len h \<longrightarrow> map_of prepared (we_path e) \<noteq> None"
      using Cons.prems(2) False by simp_all
    obtain t1 where c: "create_entry ho staging prepared e t = (Inr (), t1)"
      and t1: "map_of t1 = (map_of t)(?p \<mapsto> entry_node ho staging prepared e)"
      using create_entry_ok [OF False old] by blast
    have new: "entry_path a \<noteq> entry_path e" if "a \<in> set es" for a
      using Cons.prems(1) that by (auto simp: image_iff)
    have "\<exists>k' t'. create_entries ho NoRestoreFault staging prepared es (k + 1) t1 = (Inr k', t') \<and>
      map_of t' = (\<lambda>q. case map_of (map (\<lambda>e. (staging @ entry_path e, entry_node ho staging prepared e))
        (filter (\<lambda>e. \<not> is_dir_entry e) es)) q of Some n \<Rightarrow> Some n | None \<Rightarrow> map_of t1 q)"
    proof (rule Cons.IH)
      show "distinct (map entry_path es)" using Cons.prems(1) by simp
      have kept: "is_directory q t \<Longrightarrow> is_directory q t1" for q
        using old(1) by (auto simp: t1 is_directory_iff)
      have absent: "map_of t1 (staging @ entry_path a) = map_of t (staging @ entry_path a)" if "a \<in> set es" for a
        using new [OF that] by (simp add: t1)
      show "\<forall>e \<in> set es. \<not> is_dir_entry e \<longrightarrow> map_of t1 (staging @ entry_path e) = None \<and>
          is_directory (staging @ butlast (entry_path e)) t1 \<and>
          (\<forall>mode x len h. we_kind e = EntryRegular mode x len h \<longrightarrow> map_of prepared (we_path e) \<noteq> None)"
        using Cons.prems(2) kept absent by (metis list.set_intros(2))
    qed
    then obtain k' t' where r: "create_entries ho NoRestoreFault staging prepared es (k + 1) t1 = (Inr k', t')"
      and t': "map_of t' = (\<lambda>q. case map_of (map (\<lambda>e. (staging @ entry_path e, entry_node ho staging prepared e))
        (filter (\<lambda>e. \<not> is_dir_entry e) es)) q of Some n \<Rightarrow> Some n | None \<Rightarrow> map_of t1 q)" by blast
    have none: "map_of (map (\<lambda>e. (staging @ entry_path e, entry_node ho staging prepared e))
        (filter (\<lambda>e. \<not> is_dir_entry e) es)) ?p = None"
      using new by (auto simp: map_of_keyed(2)) (metis new)
    have run: "create_entries ho NoRestoreFault staging prepared (e # es) k t = (Inr k', t')"
      using False r by (simp add: hbind_def c maybe_fault_after_first_def hok_def)
    have "map_of t' q = (case map_of (map (\<lambda>e. (staging @ entry_path e, entry_node ho staging prepared e))
        (filter (\<lambda>e. \<not> is_dir_entry e) (e # es))) q of Some n \<Rightarrow> Some n | None \<Rightarrow> map_of t q)" for q
      using False none by (auto simp: t' t1 split: option.splits)
    with run show ?thesis by blast
  qed
qed

lemma set_directory_modes_ok:
  assumes "distinct (map entry_path es)" and "\<forall>e \<in> set es. is_directory (staging @ entry_path e) t"
  shows "set_directory_modes staging es t =
    (Inr (), host_puts (map (\<lambda>e. (staging @ entry_path e, HostDir (entry_mode (we_kind e)))) es) t)"
  using assms
proof (induction es arbitrary: t)
  case Nil
  show ?case by (simp add: hok_def)
next
  case (Cons e es)
  let ?p = "staging @ entry_path e"
  let ?t = "host_put ?p (HostDir (entry_mode (we_kind e))) t"
  have "set_mode ?p (entry_mode (we_kind e)) t = (Inr (), ?t)"
    using Cons.prems(2) by (auto simp: set_mode_def is_directory_iff)
  moreover have "set_directory_modes staging es ?t =
    (Inr (), host_puts (map (\<lambda>e. (staging @ entry_path e, HostDir (entry_mode (we_kind e)))) es) ?t)"
    by (rule Cons.IH) (use Cons.prems in \<open>auto simp: is_directory_iff\<close>)
  ultimately show ?case by (simp add: hbind_def)
qed

section \<open>The published tree\<close>

definition restored_node ::
  "restore_host \<Rightarrow> path \<Rightarrow> workspace_manifest \<Rightarrow> (string \<times> string) list \<Rightarrow> path \<Rightarrow> host_node option" where
  "restored_node ho staging m prepared r =
     (if r = [] then Some (HostDir (wm_root_mode m))
      else map_of (map (\<lambda>e. (entry_path e, entry_node ho staging prepared e)) (wm_entries m)) r)"

lemma manifest_directories_set [simp]:
  "set (manifest_directories m) = {e \<in> set (wm_entries m). is_dir_entry e}"
  by (simp add: manifest_directories_def)

lemma deepest_first_set [simp]: "set (deepest_first es) = set es"
  by (simp add: deepest_first_def)

lemma distinct_paths_sort_key:
  "distinct (map f (sort_key k xs)) \<longleftrightarrow> distinct (map f xs)"
  by (simp add: distinct_map)

lemma distinct_manifest_directories:
  assumes "distinct (map we_path (wm_entries m))"
  shows "distinct (map entry_path (manifest_directories m))"
proof -
  have "distinct (map we_path (manifest_directories m))"
    unfolding manifest_directories_def distinct_paths_sort_key using assms by (rule distinct_map_filter)
  then show ?thesis by (simp add: distinct_map inj_on_def entry_path_inj)
qed

lemma manifest_directories_ready:
  assumes "validate_manifest m l = Inr ()"
  shows "ready {[]} (map entry_path (manifest_directories m))"
proof (rule ready_by_depth)
  have "sorted (map (path_depth \<circ> we_path) (manifest_directories m))"
    by (simp add: manifest_directories_def)
  then show "sorted_wrt (\<lambda>p q. length p \<le> length q) (map entry_path (manifest_directories m))"
    by (simp add: sorted_wrt_map path_depth_def manifest_path_def comp_def)
  show "[] \<notin> set (map entry_path (manifest_directories m))" by auto
  show "\<forall>p \<in> set (map entry_path (manifest_directories m)).
      butlast p \<in> {[]} \<union> set (map entry_path (manifest_directories m))"
    using parent_entry [OF validate_manifestD(1) [OF assms] validate_manifestD(4) [OF assms]]
    by (fastforce simp: image_iff)
qed

lemma map_of_puts_keyed:
  assumes "distinct (map entry_path es)"
  shows "e \<in> set es \<Longrightarrow> map_of (host_puts (map (\<lambda>e. (staging @ entry_path e, f e)) es) t) (staging @ entry_path e) = Some (f e)"
    "r \<notin> entry_path ` set es \<Longrightarrow> map_of (host_puts (map (\<lambda>e. (staging @ entry_path e, f e)) es) t) (staging @ r) = map_of t (staging @ r)"
proof -
  let ?ps = "map (\<lambda>e. (staging @ entry_path e, f e)) es"
  have dist: "distinct (map (\<lambda>e. staging @ entry_path e) es)"
    using assms by (simp add: distinct_map inj_on_def)
  then have "distinct (map fst ?ps)" by (simp add: comp_def)
  note look = map_of_host_puts [OF this]
  show "map_of (host_puts ?ps t) (staging @ entry_path e) = Some (f e)" if "e \<in> set es"
  proof -
    have "map_of ?ps (staging @ entry_path e) = Some (f e)" unfolding map_of_keyed(1) [OF dist] using that by blast
    then show ?thesis by (simp add: look)
  qed
  show "map_of (host_puts ?ps t) (staging @ r) = map_of t (staging @ r)" if "r \<notin> entry_path ` set es"
  proof -
    have "map_of ?ps (staging @ r) = None" unfolding map_of_keyed(2) using that by auto
    then show ?thesis by (simp add: look)
  qed
qed

definition files_prepared :: "workspace_manifest \<Rightarrow> (string \<times> string) list \<Rightarrow> bool" where
  "files_prepared m prepared \<longleftrightarrow>
     (\<forall>e \<in> set (wm_entries m). \<forall>mode x len h. we_kind e = EntryRegular mode x len h \<longrightarrow>
        map_of prepared (we_path e) \<noteq> None)"

text \<open>What the loops leave below the staging directory.\<close>

lemma staged_tree:
  assumes valid: "validate_manifest m l = Inr ()"
    and files: "files_prepared m prepared"
    and staging: "is_directory staging t" and empty: "\<And>r. r \<noteq> [] \<Longrightarrow> map_of t (staging @ r) = None"
  shows "\<exists>k t1 k' t2 t3. create_directories NoRestoreFault staging (manifest_directories m) 0 t = (Inr k, t1) \<and>
    create_entries ho NoRestoreFault staging prepared (wm_entries m) k t1 = (Inr k', t2) \<and>
    set_directory_modes staging (deepest_first (manifest_directories m)) t2 = (Inr (), t3) \<and>
    is_directory staging t3 \<and> (\<forall>r. r \<noteq> [] \<longrightarrow> map_of t3 (staging @ r) = restored_node ho staging m prepared r)"
proof -
  let ?dirs = "manifest_directories m"
  note d = validate_manifestD [OF valid]
  have paths: "distinct (map entry_path (wm_entries m))"
    using d(1) by (simp add: distinct_map inj_on_def entry_path_inj)
  have ddirs: "distinct (map entry_path ?dirs)" by (rule distinct_manifest_directories [OF d(1)])
  let ?t1 = "host_puts (map (\<lambda>e. (staging @ entry_path e, HostDir private_directory_mode)) ?dirs) t"
  have c1: "create_directories NoRestoreFault staging ?dirs 0 t = (Inr (0 + length ?dirs), ?t1)"
    by (rule create_directories_ok [OF manifest_directories_ready [OF valid] _ ddirs]) (auto simp: staging empty)
  note l1 = map_of_puts_keyed [OF ddirs, of _ staging "\<lambda>e. HostDir private_directory_mode" t]
  have dirs1: "is_directory (staging @ butlast (entry_path e)) ?t1" if e: "e \<in> set (wm_entries m)" for e
  proof (cases "butlast (entry_path e) = []")
    case True
    have "is_directory staging ?t1"
      using l1(2) [of "[]"] staging by (auto simp: is_directory_iff)
    with True show ?thesis by simp
  next
    case False
    obtain p where p: "p \<in> set ?dirs" "entry_path p = butlast (entry_path e)"
      using parent_entry [OF d(1) d(4) [OF e] False] by auto
    from l1(1) [OF p(1)] p(2) show ?thesis by (simp add: is_directory_iff)
  qed
  have other: "entry_path e \<notin> entry_path ` set ?dirs" if "e \<in> set (wm_entries m)" "\<not> is_dir_entry e" for e
    using distinct_key_eq [OF paths, of e] that by auto
  let ?rest = "filter (\<lambda>e. \<not> is_dir_entry e) (wm_entries m)"
  let ?ps = "map (\<lambda>e. (staging @ entry_path e, entry_node ho staging prepared e)) ?rest"
  obtain k' t2 where c2: "create_entries ho NoRestoreFault staging prepared (wm_entries m) (0 + length ?dirs) ?t1 = (Inr k', t2)"
    and t2: "map_of t2 = (\<lambda>q. case map_of ?ps q of Some n \<Rightarrow> Some n | None \<Rightarrow> map_of ?t1 q)"
  proof -
    have "\<forall>e \<in> set (wm_entries m). \<not> is_dir_entry e \<longrightarrow> map_of ?t1 (staging @ entry_path e) = None \<and>
      is_directory (staging @ butlast (entry_path e)) ?t1 \<and>
      (\<forall>mode x len h. we_kind e = EntryRegular mode x len h \<longrightarrow> map_of prepared (we_path e) \<noteq> None)"
      using l1(2) [OF other] empty dirs1 files by (simp add: files_prepared_def)
    from create_entries_ok [OF paths this] that show ?thesis by blast
  qed
  have distr: "distinct (map (\<lambda>e. staging @ entry_path e) ?rest)"
    using paths by (simp add: distinct_map inj_on_def)
  have l2: "map_of t2 (staging @ r) = map_of ?t1 (staging @ r)" if "r \<notin> entry_path ` set ?rest" for r
  proof -
    have "map_of ?ps (staging @ r) = None" unfolding map_of_keyed(2) using that by auto
    then show ?thesis by (simp add: t2)
  qed
  have l2': "map_of t2 (staging @ entry_path e) = Some (entry_node ho staging prepared e)"
    if "e \<in> set (wm_entries m)" "\<not> is_dir_entry e" for e
  proof -
    have "map_of ?ps (staging @ entry_path e) = Some (entry_node ho staging prepared e)"
      unfolding map_of_keyed(1) [OF distr] using that by auto
    then show ?thesis by (simp add: t2)
  qed
  have dir2: "map_of t2 (staging @ entry_path e) = Some (HostDir private_directory_mode)" if "e \<in> set ?dirs" for e
  proof -
    have "entry_path e \<notin> entry_path ` set ?rest"
      using distinct_key_eq [OF paths, of e] that by auto
    from l2 [OF this] l1(1) [OF that] show ?thesis by simp
  qed
  let ?last = "deepest_first ?dirs"
  let ?t3 = "host_puts (map (\<lambda>e. (staging @ entry_path e, HostDir (entry_mode (we_kind e)))) ?last) t2"
  have dlast: "distinct (map entry_path ?last)"
    using ddirs by (simp add: deepest_first_def distinct_paths_sort_key)
  have c3: "set_directory_modes staging ?last t2 = (Inr (), ?t3)"
    by (rule set_directory_modes_ok [OF dlast]) (use dir2 in \<open>auto simp: is_directory_iff\<close>)
  note l3 = map_of_puts_keyed [OF dlast, of _ staging "\<lambda>e. HostDir (entry_mode (we_kind e))" t2]
  have root: "is_directory staging ?t3"
    using l3(2) [of "[]"] l2 [of "[]"] l1(2) [of "[]"] staging by (auto simp: is_directory_iff)
  have look: "map_of ?t3 (staging @ r) = restored_node ho staging m prepared r" if "r \<noteq> []" for r
  proof (cases "r \<in> entry_path ` set (wm_entries m)")
    case True
    then obtain e where e: "e \<in> set (wm_entries m)" "r = entry_path e" by blast
    have "restored_node ho staging m prepared r = Some (entry_node ho staging prepared e)"
      unfolding restored_node_def using that e by (simp add: map_of_keyed(1) [OF paths]) blast
    moreover have "map_of ?t3 (staging @ r) = Some (entry_node ho staging prepared e)"
    proof (cases "is_dir_entry e")
      case True
      then have "entry_node ho staging prepared e = HostDir (entry_mode (we_kind e))"
        by (auto simp: is_directory_kind_def entry_node_def split: entry_kind.splits)
      with l3(1) [of e] True e show ?thesis by simp
    next
      case False
      with l3(2) [of r] l2' [OF e(1) False] other [OF e(1) False] e(2) show ?thesis by simp
    qed
    ultimately show ?thesis by simp
  next
    case False
    then have "r \<notin> entry_path ` set ?last" "r \<notin> entry_path ` set ?rest" "r \<notin> entry_path ` set ?dirs" by auto
    with l3(2) l2 l1(2) empty [OF that] have "map_of ?t3 (staging @ r) = None" by simp
    moreover have "restored_node ho staging m prepared r = None"
      unfolding restored_node_def using that False by (simp add: map_of_keyed(2))
    ultimately show ?thesis by simp
  qed
  from c1 c2 c3 root look show ?thesis by blast
qed

lemma siblings_incomparable:
  "a \<noteq> b \<Longrightarrow> \<not> path_prefix (p @ [a]) (p @ [b])" "\<not> path_prefix (p @ [a]) p"
  by (auto simp: path_prefix_def)

lemma try_exists_absent:
  assumes "\<And>i. i \<le> length p \<Longrightarrow> is_directory (take i p) t" and "map_of t (p @ [a]) = None"
  shows "try_exists (p @ [a]) t = (Inr False, t)"
proof -
  have "resolve max_links t [] (map Normal p @ [Normal a]) = resolve max_links t ([] @ p) [Normal a]"
    by (rule resolve_real) (simp add: assms(1))
  then show ?thesis using assms(2) by (simp add: try_exists_def)
qed

lemma tree_ok_directories:
  assumes "tree_ok t" and "is_directory p t" and "i \<le> length p"
  shows "is_directory (take i p) t"
proof (cases "i = length p")
  case False
  have "map_of t (take i p @ drop i p) \<noteq> None" using assms(2) by (auto simp: is_directory_iff)
  from tree_ok_prefix [OF assms(1) this] False assms(3) show ?thesis by simp
qed (simp add: assms(2))

lemma build_staging_ok:
  assumes valid: "validate_manifest m l = Inr ()"
    and files: "files_prepared m prepared"
    and tree: "tree_ok t" and names: "name \<noteq> sname"
    and staging: "is_directory (parent @ [sname]) t" and empty: "\<And>r. r \<noteq> [] \<Longrightarrow> map_of t ((parent @ [sname]) @ r) = None"
    and target: "map_of t (parent @ [name]) = None"
  shows "\<exists>t'. build_staging ho NoRestoreFault raw (parent @ [sname]) (parent @ [name]) m prepared t =
      (Inr (restore_report_of m prepared), t') \<and>
    (\<forall>q. map_of t' q =
       (if path_prefix (parent @ [sname]) q then None
        else if path_prefix (parent @ [name]) q
        then restored_node ho (parent @ [sname]) m prepared (drop (Suc (length parent)) q)
        else map_of t q))"
proof -
  let ?staging = "parent @ [sname]" and ?target = "parent @ [name]"
  obtain k t1 k' t2 t3
    where c1: "create_directories NoRestoreFault ?staging (manifest_directories m) 0 t = (Inr k, t1)"
      and c2: "create_entries ho NoRestoreFault ?staging prepared (wm_entries m) k t1 = (Inr k', t2)"
      and c3: "set_directory_modes ?staging (deepest_first (manifest_directories m)) t2 = (Inr (), t3)"
      and root: "is_directory ?staging t3"
      and look: "\<And>r. r \<noteq> [] \<Longrightarrow> map_of t3 (?staging @ r) = restored_node ho ?staging m prepared r"
    using staged_tree [OF valid files staging empty] by blast
  have out1: "map_of t1 q = map_of t q" if "\<not> path_prefix ?staging q" for q
    by (rule confinedD [OF confined_directories c1 that])
  have out2: "map_of t2 q = map_of t q" if "\<not> path_prefix ?staging q" for q
    using confinedD [OF confined_entries c2 that] out1 [OF that] by simp
  have out3: "map_of t3 q = map_of t q" if "\<not> path_prefix ?staging q" for q
    using confinedD [OF confined_modes c3 that] out2 [OF that] by simp
  have sep: "\<not> path_prefix ?staging ?target" "\<not> path_prefix ?target ?staging"
    using names by (simp_all add: siblings_incomparable)
  have parent: "is_directory parent t" using tree_ok_prefix [OF tree, of parent "[sname]"] staging
    by (auto simp: is_directory_iff)
  have "try_exists ?target t2 = (Inr False, t2)"
  proof (rule try_exists_absent)
    show "is_directory (take i parent) t2" if "i \<le> length parent" for i
    proof -
      have "\<not> path_prefix ?staging (take i parent)" by (auto simp: path_prefix_def dest: arg_cong [where f = length])
      with out2 tree_ok_directories [OF tree parent that] show ?thesis by (simp add: is_directory_iff)
    qed
    show "map_of t2 ?target = None" using out2 [OF sep(1)] target by simp
  qed
  moreover
  let ?t4 = "host_put ?staging (HostDir (wm_root_mode m)) t3"
  have "set_mode ?staging (wm_root_mode m) t3 = (Inr (), ?t4)"
    using root by (auto simp: set_mode_def is_directory_iff)
  moreover
  have gone: "map_of ?t4 (?target @ r) = None" for r
  proof -
    have "\<not> path_prefix ?staging (?target @ r)" using names by (auto simp: path_prefix_def)
    moreover have "map_of t (?target @ r) = None" by (rule tree_ok_below [OF tree target])
    ultimately show ?thesis using out3 names by auto
  qed
  then have "rename_directory raw ?staging ?target ?t4 = (Inr (), host_move ?staging ?target ?t4)"
    using gone [of "[]"] by (simp add: rename_directory_def del: map_of_host_put)
  ultimately have run: "build_staging ho NoRestoreFault raw ?staging ?target m prepared t =
      (Inr (restore_report_of m prepared), host_move ?staging ?target ?t4)"
    by (simp add: build_staging_def Let_def hbind_def hok_def c1 c2 c3)
  have "map_of (host_move ?staging ?target ?t4) q =
       (if path_prefix ?staging q then None
        else if path_prefix ?target q then restored_node ho ?staging m prepared (drop (Suc (length parent)) q)
        else map_of t q)" for q
  proof -
    have at: "map_of ?t4 (?staging @ r) = restored_node ho ?staging m prepared r" for r
      using look [of r] by (cases "r = []") (simp_all add: restored_node_def)
    show ?thesis unfolding map_of_host_move [OF gone sep(2) sep(1)] at
      by (cases "q = ?staging") (auto simp: out3)
  qed
  with run show ?thesis by blast
qed

text \<open>
  A restore can go ahead: nothing is at the target, at the lock or at the staging directory, and the
  three are different.
\<close>

definition restorable :: "externals \<Rightarrow> restore_host \<Rightarrow> string \<Rightarrow> path \<Rightarrow> string \<Rightarrow> host_fs \<Rightarrow> bool" where
  "restorable X ho raw parent name t \<longleftrightarrow>
     (let target = parent @ [name]; lock = restore_lock_path X parent raw;
          staging = staging_path X parent name (rh_uuid ho) in
      map_of t target = None \<and> map_of t lock = None \<and> map_of t staging = None \<and>
      distinct [target, lock, staging])"

lemma validate_restore_target_Inr:
  assumes "validate_restore_target t cwd raw = Inr (parent, name)"
  shows "is_directory parent t"
proof -
  let ?cs = "path_components raw"
  from assms obtain mode where "lstat t cwd (butlast ?cs) = Inr (parent, HostDir mode)"
    by (auto simp: validate_restore_target_def Let_def split: path_component.splits if_splits sum.splits
        prod.splits host_node.splits)
  then have "map_of t parent = Some (HostDir mode)"
    by (auto simp: lstat_def result_simps split: path_component.splits if_splits option.splits)
  then show ?thesis by (simp add: is_directory_iff)
qed

lemma load_manifest_valid:
  "load_manifest X C B s bt = Inr m \<Longrightarrow> validate_manifest m (wb_limits B) = Inr ()"
  by (auto simp: load_manifest_def Let_def result_simps split: if_splits)

lemma prepared_files:
  assumes "validate_manifest m l = Inr ()" and "prepare_files X st (wm_entries m) bt = Inr prepared"
  shows "files_prepared m prepared"
  unfolding files_prepared_def using prepare_files_Inr [OF assms(2) validate_manifestD(1) [OF assms(1)]]
  by blast

lemma restore_ok:
  assumes load: "load_manifest X C B s bt = Inr m"
    and prep: "prepare_files X (wb_store B) (wm_entries m) bt = Inr prepared"
    and dest: "validate_restore_target t (rh_cwd ho) raw = Inr (parent, name)"
    and tree: "tree_ok t" and free: "restorable X ho raw parent name t"
  shows "\<exists>t'. workspace_restore X C B ho s raw bt t = (Inr (restore_report_of m prepared), t') \<and>
    (\<forall>q. map_of t' q =
       (if path_prefix (parent @ [name]) q
        then restored_node ho (staging_path X parent name (rh_uuid ho)) m prepared (drop (Suc (length parent)) q)
        else map_of t q))"
proof -
  define sname where "sname = last (staging_path X parent name (rh_uuid ho))"
  define lname where "lname = last (restore_lock_path X parent raw)"
  have sp: "staging_path X parent name (rh_uuid ho) = parent @ [sname]"
    by (simp add: sname_def staging_path_def)
  have lp: "restore_lock_path X parent raw = parent @ [lname]"
    by (simp add: lname_def restore_lock_path_def)
  from free have none: "map_of t (parent @ [name]) = None" "map_of t (parent @ [lname]) = None"
    "map_of t (parent @ [sname]) = None" and diff: "name \<noteq> lname" "name \<noteq> sname" "lname \<noteq> sname"
    by (auto simp: restorable_def Let_def sp lp)
  have parent: "is_directory parent t" by (rule validate_restore_target_Inr [OF dest])
  define node where "node = HostFile ((rh_stat ho (parent @ [lname]))\<lparr>fs_mode := private_file_mode\<rparr>)
    (''epoch workspace restore lock'' @ [CHR 0x0A])"
  let ?t0 = "host_put (parent @ [lname]) node t"
  let ?t1 = "host_put (parent @ [sname]) (HostDir private_directory_mode) ?t0"
  have lock: "create_node (parent @ [lname]) node t = (Inr (), ?t0)"
    by (rule create_node_ok) (simp_all add: none parent)
  have parent0: "is_directory parent ?t0" using parent by (simp add: is_directory_iff)
  have keep: "tree_ok (host_put (parent @ [a]) n t)" if "tree_ok t" "map_of t (parent @ [a]) = None" "is_directory parent t"
    for a n and t
    using that unfolding tree_ok_def is_directory_iff map_of_host_put by (metis butlast_snoc option.distinct(1))
  have tree0: "tree_ok ?t0" by (rule keep) (simp_all add: tree none parent)
  have tree1: "tree_ok ?t1" by (rule keep [OF tree0]) (use none diff parent0 in simp_all)
  have exists: "try_exists (parent @ [name]) ?t0 = (Inr False, ?t0)"
    by (rule try_exists_absent [OF tree_ok_directories [OF tree0 parent0]]) (use none diff in simp_all)
  have stage: "create_private_directory (parent @ [sname]) ?t0 = (Inr (), ?t1)"
    unfolding create_private_directory_def by (rule create_node_ok) (use none diff parent0 in simp_all)
  have "\<exists>t2. build_staging ho NoRestoreFault raw (parent @ [sname]) (parent @ [name]) m prepared ?t1 =
      (Inr (restore_report_of m prepared), t2) \<and>
    (\<forall>q. map_of t2 q =
       (if path_prefix (parent @ [sname]) q then None
        else if path_prefix (parent @ [name]) q
        then restored_node ho (parent @ [sname]) m prepared (drop (Suc (length parent)) q)
        else map_of ?t1 q))"
  proof (rule build_staging_ok [OF load_manifest_valid [OF load] prepared_files [OF load_manifest_valid [OF load] prep]
        tree1 diff(2)])
    show "is_directory (parent @ [sname]) ?t1" by (simp add: is_directory_iff)
    show "map_of ?t1 ((parent @ [sname]) @ r) = None" if "r \<noteq> []" for r
      using that diff tree_ok_below [OF tree none(3), of r] by simp
    show "map_of ?t1 (parent @ [name]) = None" using none diff by simp
  qed
  then obtain t2 where b: "build_staging ho NoRestoreFault raw (parent @ [sname]) (parent @ [name]) m prepared ?t1 =
      (Inr (restore_report_of m prepared), t2)"
    and t2: "\<And>q. map_of t2 q =
       (if path_prefix (parent @ [sname]) q then None
        else if path_prefix (parent @ [name]) q
        then restored_node ho (parent @ [sname]) m prepared (drop (Suc (length parent)) q)
        else map_of ?t1 q)" by blast
  have run: "workspace_restore X C B ho s raw bt t =
      (Inr (restore_report_of m prepared), host_remove (parent @ [lname]) t2)"
    unfolding workspace_restore_def restore_with_fault_def Let_def load rbind.simps prep dest prod.case sum.case sp lp
      with_restore_lock_def node_def [symmetric] lock
    by (simp add: hbind_def exists with_staging_def stage b)
  have "map_of (host_remove (parent @ [lname]) t2) q =
       (if path_prefix (parent @ [name]) q
        then restored_node ho (parent @ [sname]) m prepared (drop (Suc (length parent)) q)
        else map_of t q)" for q
  proof (cases "path_prefix (parent @ [sname]) q")
    case True
    then obtain r where "q = (parent @ [sname]) @ r" by (auto simp: path_prefix_iff)
    with tree_ok_below [OF tree none(3), of r] diff t2 show ?thesis by (auto simp: path_prefix_def)
  next
    case False
    with t2 none diff show ?thesis by (auto simp: path_prefix_def)
  qed
  with run show ?thesis unfolding sp by blast
qed

end
