(* ===== verification/Epoch_Workspace_Capture.thy ===== *)
theory Epoch_Workspace_Capture
  imports Epoch_Workspace_Proofs
begin

text \<open>
  What a walk of the source collects: exactly one entry for every visible node, each describing its
  node, with the bytes of every file readable in the blob store.
\<close>

section \<open>Visible nodes\<close>

text \<open>A relative path is clear of the directories the walk leaves out: \<open>.epoch\<close> and the blob root.\<close>

definition clear :: "workspace_backend \<Rightarrow> path \<Rightarrow> path \<Rightarrow> bool" where
  "clear B source r \<longleftrightarrow>
     (\<forall>i < length r. r ! i \<noteq> ''.epoch'' \<and> source @ take (Suc i) r \<noteq> wb_blob_root B)"

definition visible :: "workspace_backend \<Rightarrow> host_fs \<Rightarrow> path \<Rightarrow> path \<Rightarrow> bool" where
  "visible B t source r \<longleftrightarrow> map_of t (source @ r) \<noteq> None \<and> clear B source r"

lemma clear_Nil [simp]: "clear B source []"
  by (simp add: clear_def)

lemma clear_snoc: "clear B source (r @ [a]) \<longleftrightarrow>
    clear B source r \<and> a \<noteq> ''.epoch'' \<and> source @ r @ [a] \<noteq> wb_blob_root B"
  unfolding clear_def by (auto simp: nth_append less_Suc_eq all_conj_distrib)

lemma clear_append: "clear B source (r @ s) \<Longrightarrow> clear B source r"
proof (induction s rule: rev_induct)
  case (snoc a s)
  then show ?case using clear_snoc [of B source "r @ s" a] by simp
qed simp

text \<open>Names as the kernel has them.\<close>

definition names_ok :: "host_fs \<Rightarrow> bool" where
  "names_ok t \<longleftrightarrow> (\<forall>p. map_of t p \<noteq> None \<longrightarrow> (\<forall>a \<in> set p. a \<noteq> [] \<and> CHR ''/'' \<notin> set a))"

text \<open>The digests of the files of the tree are not shared by other contents.\<close>

definition no_collision :: "externals \<Rightarrow> host_fs \<Rightarrow> bool" where
  "no_collision X t \<longleftrightarrow>
     (\<forall>p st bs c. map_of t p = Some (HostFile st bs) \<and> blob_hash_digest X c = blob_hash_digest X bs \<longrightarrow> c = bs)"

definition polite_hosts :: "externals \<Rightarrow> (path \<Rightarrow> put_host) \<Rightarrow> bool" where
  "polite_hosts X ho \<longleftrightarrow>
     (\<forall>p bs. polite {temporary_path X (blob_hash_digest X bs) (fst (ph_uuids (ho p))),
        temporary_path X (blob_hash_digest X bs) (snd (ph_uuids (ho p)))} (ph_env (ho p)))"

section \<open>Descriptions\<close>

definition describes ::
  "externals \<Rightarrow> blob_store \<Rightarrow> host_fs \<Rightarrow> path \<Rightarrow> fs \<Rightarrow> workspace_entry \<Rightarrow> path \<Rightarrow> bool" where
  "describes X st t source bt e r \<longleftrightarrow>
     we_path e = join_with (CHR ''/'') r \<and>
     (case map_of t (source @ r) of
        Some (HostDir mode) \<Rightarrow> we_kind e = EntryDirectory (metadata_mode mode)
      | Some (HostFile stat bs) \<Rightarrow>
          we_kind e = EntryRegular (metadata_mode (fs_mode stat)) (is_executable (metadata_mode (fs_mode stat)))
            (of_nat (length bs)) (blob_hash_digest X bs) \<and>
          blob_read X st (blob_hash_digest X bs) bt = Inr bs
      | Some (HostLink target) \<Rightarrow> we_kind e = EntrySymlink target
      | _ \<Rightarrow> False)"

definition covers ::
  "externals \<Rightarrow> blob_store \<Rightarrow> host_fs \<Rightarrow> path \<Rightarrow> fs \<Rightarrow> workspace_entry list \<Rightarrow> path set \<Rightarrow> bool" where
  "covers X st t source bt es R \<longleftrightarrow>
     (\<exists>rs. list_all2 (describes X st t source bt) es rs \<and> distinct rs \<and> set rs = R)"

lemma describes_grows: "grows bt bt' \<Longrightarrow> describes X st t source bt e r \<Longrightarrow> describes X st t source bt' e r"
  by (auto simp: describes_def blob_read_grows split: option.splits host_node.splits)

lemma covers_grows: "grows bt bt' \<Longrightarrow> covers X st t source bt es R \<Longrightarrow> covers X st t source bt' es R"
  unfolding covers_def by (auto intro: list_all2_mono describes_grows)

lemma covers_Nil: "covers X st t source bt [] {}"
  by (simp add: covers_def)

lemma covers_one: "describes X st t source bt e r \<Longrightarrow> covers X st t source bt [e] {r}"
  unfolding covers_def by (intro exI [of _ "[r]"] conjI list.rel_intros) simp_all

lemma covers_append:
  assumes "covers X st t source bt es R" and "covers X st t source bt es' R'" and "R \<inter> R' = {}"
  shows "covers X st t source bt (es @ es') (R \<union> R')"
proof -
  obtain rs rs' where "list_all2 (describes X st t source bt) es rs" "distinct rs" "set rs = R"
    "list_all2 (describes X st t source bt) es' rs'" "distinct rs'" "set rs' = R'"
    using assms(1,2) unfolding covers_def by blast
  then show ?thesis unfolding covers_def
    using assms(3) by (intro exI [of _ "rs @ rs'"] conjI list_all2_appendI) simp_all
qed

section \<open>One child\<close>

lemma path_to_manifest_loop_Inr:
  assumes "path_to_manifest_loop d (map Normal cs) out = Inr mp" and "list_all (\<lambda>c. c \<noteq> []) cs" and "out \<noteq> []"
  shows "mp = join_with (CHR ''/'') (out # cs)"
  using assms
proof (induction cs arbitrary: out)
  case Nil
  then show ?case by simp
next
  case (Cons c cs)
  then have "mp = join_with (CHR ''/'') ((out @ ''/'' @ c) # cs)" by (auto split: if_splits)
  then show ?case by (cases cs) simp_all
qed

lemma path_to_manifest_Inr:
  assumes "path_to_manifest p = Inr mp" and "p \<noteq> []" and "list_all (\<lambda>c. c \<noteq> []) p"
  shows "mp = join_with (CHR ''/'') p"
proof -
  obtain c cs where p: "p = c # cs" using assms(2) by (cases p) simp_all
  with assms have "path_to_manifest_loop (join_with (CHR ''/'') p) (map Normal cs) c = Inr mp" "c \<noteq> []"
    "list_all (\<lambda>c. c \<noteq> []) cs"
    by (auto simp: path_to_manifest_def split: if_splits)
  with path_to_manifest_loop_Inr show ?thesis unfolding p by blast
qed

lemma read_regular_file_Inr:
  assumes "read_regular_file p (st, length bs) (HostFile st bs) bs (st, length bs) maximum = Inr (bytes, after)"
  shows "bytes = bs" "after = (st, length bs)"
proof -
  from assms have b: "bytes = take (unat maximum + 1) bs" "length bs = length bytes" "after = (st, length bs)"
    by (auto simp: read_regular_file_def Let_def result_simps split: if_splits)
  then show "bytes = bs" "after = (st, length bs)" by (auto simp: min_def split: if_splits)
qed

lemma capture_file_Inr:
  assumes run: "capture_file X B ph p mp st bs c bt = (Inr c', bt')"
    and polite: "polite {temporary_path X (blob_hash_digest X bs) (fst (ph_uuids ph)),
        temporary_path X (blob_hash_digest X bs) (snd (ph_uuids ph))} (ph_env ph)"
    and coll: "\<And>k. blob_hash_digest X k = blob_hash_digest X bs \<Longrightarrow> k = bs"
  shows "grows bt bt'" "blob_read X (wb_store B) (blob_hash_digest X bs) bt' = Inr bs"
    "ca_entries c' = ca_entries c @ [\<lparr>we_path = mp, we_kind = EntryRegular (metadata_mode (fs_mode st))
        (is_executable (metadata_mode (fs_mode st))) (of_nat (length bs)) (blob_hash_digest X bs)\<rparr>]"
proof -
  obtain bytes opened running m where
      read: "read_regular_file p (st, length bs) (HostFile st bs) bs (st, length bs) (max_file_bytes (wb_limits B)) =
        Inr (bytes, opened)"
    and put0: "blob_put X (wb_store B) (ph_env ph) (ph_clock ph) (fst (ph_uuids ph)) (snd (ph_uuids ph))
      bytes file_media_type bt = (Inr m, bt')"
    and c': "c' = push_entry mp (EntryRegular (metadata_mode (fs_mode (fst opened)))
        (is_executable (metadata_mode (fs_mode (fst opened)))) (m_length m) (m_hash m)) (c\<lparr>ca_total_bytes := running\<rparr>)"
    using run unfolding capture_file_def Let_def
    by (auto simp: result_simps split: sum.splits prod.splits)
  have put: "blob_put X (wb_store B) (ph_env ph) (ph_clock ph) (fst (ph_uuids ph)) (snd (ph_uuids ph))
      bs file_media_type bt = (Inr m, bt')"
    using put0 read_regular_file_Inr(1) [OF read] by simp
  have es: "ca_entries c' = ca_entries c @ [\<lparr>we_path = mp, we_kind = EntryRegular (metadata_mode (fs_mode st))
        (is_executable (metadata_mode (fs_mode st))) (m_length m) (m_hash m)\<rparr>]"
    using read_regular_file_Inr(2) [OF read] by (simp add: c' push_entry_def)
  have m: "m_length m = of_nat (length bs)" "m_hash m = blob_hash_digest X bs"
    by (rule blob_put_Inr [OF put], simp)+
  show "grows bt bt'" by (rule preservingD [OF preserving_put [OF polite] put])
  have "blob_stored X (wb_store B) bt bs bt'" unfolding blob_stored_def using put polite by blast
  from blobs.read_back [OF this grows_refl coll]
  show "blob_read X (wb_store B) (blob_hash_digest X bs) bt' = Inr bs" .
  show "ca_entries c' = ca_entries c @ [\<lparr>we_path = mp, we_kind = EntryRegular (metadata_mode (fs_mode st))
        (is_executable (metadata_mode (fs_mode st))) (of_nat (length bs)) (blob_hash_digest X bs)\<rparr>]"
    by (simp add: es m)
qed

text \<open>What a turn of the loop that goes on with the next name has added.\<close>

abbreviation below :: "workspace_backend \<Rightarrow> host_fs \<Rightarrow> path \<Rightarrow> path \<Rightarrow> string \<Rightarrow> path set" where
  "below B t source relative name \<equiv> {relative @ name # s | s. visible B t source (relative @ name # s)}"

definition capture_setting :: "externals \<Rightarrow> (path \<Rightarrow> put_host) \<Rightarrow> host_fs \<Rightarrow> bool" where
  "capture_setting X ho t \<longleftrightarrow> tree_ok t \<and> names_ok t \<and> no_collision X t \<and> polite_hosts X ho"

lemma below_leaf:
  assumes "tree_ok t" and "\<not> is_directory (source @ relative @ [name]) t"
    and "visible B t source (relative @ [name])"
  shows "below B t source relative name = {relative @ [name]}"
proof -
  have "s = []" if "visible B t source (relative @ name # s)" for s
    using tree_ok_prefix [OF assms(1), of "source @ relative @ [name]" s] assms(2) that
    by (auto simp: visible_def)
  with assms(3) show ?thesis by auto
qed

lemma below_hidden: "\<not> clear B source (relative @ [name]) \<Longrightarrow> below B t source relative name = {}"
  using clear_append [of B source "relative @ [name]"] by (auto simp: visible_def)

lemma visit_child_Inr:
  assumes "visit_child X B ho t source relative depth name c bt = (Inr v, bt')"
    and "capture_setting X ho t" and "clear B source relative"
  shows "(name = ''.epoch'' \<or> source @ relative @ [name] = wb_blob_root B) \<and> v = Continue c \<and> bt' = bt \<or>
    (\<exists>e n. clear B source (relative @ [name]) \<and> map_of t (source @ relative @ [name]) = Some n \<and>
       describes X (wb_store B) t source bt' e (relative @ [name]) \<and> grows bt bt' \<and>
       (\<exists>c'. v = (if is_directory (source @ relative @ [name]) t then Descend c' else Continue c') \<and>
          ca_entries c' = ca_entries c @ [e]))"
proof (cases "name = ''.epoch'' \<or> source @ relative @ [name] = wb_blob_root B")
  case True
  with assms(1) show ?thesis
    by (auto simp: visit_child_def Let_def split: if_splits sum.splits)
next
  case False
  let ?child = "relative @ [name]"
  obtain mp n where mp: "path_to_manifest ?child = Inr mp" and n: "map_of t (source @ ?child) = Some n"
    and node: "(case n of
        HostDir mode \<Rightarrow> (Inr (Descend (push_entry mp (EntryDirectory (metadata_mode mode)) c)), bt)
      | HostLink target \<Rightarrow>
          if \<not> is_utf8 target then (Inl (WUnsupported NonUtf8SymlinkTarget), bt)
          else (case validate_symlink_target mp target (wb_limits B) of
              Inl e \<Rightarrow> (Inl e, bt)
            | Inr _ \<Rightarrow> (Inr (Continue (push_entry mp (EntrySymlink target) c)), bt))
      | HostFile st bs \<Rightarrow>
          (case capture_file X B (ho ?child) (source @ ?child) mp st bs c bt of
             (Inl e, bt') \<Rightarrow> (Inl e, bt')
           | (Inr c', bt') \<Rightarrow> (Inr (Continue c'), bt'))
      | HostSpecial k \<Rightarrow> (Inl (WUnsupported (SpecialFile mp (special_file_kind k))), bt)) = (Inr v, bt')"
    using assms(1) False unfolding visit_child_def Let_def
    by (auto simp: result_simps split: if_splits sum.splits option.splits)
  have "list_all (\<lambda>a. a \<noteq> []) ?child"
  proof -
    have "\<forall>a \<in> set (source @ ?child). a \<noteq> []"
      using assms(2) n unfolding capture_setting_def names_ok_def by blast
    then show ?thesis by (simp add: list_all_iff)
  qed
  then have mp': "mp = join_with (CHR ''/'') ?child" using path_to_manifest_Inr [OF mp] by simp
  have cl: "clear B source ?child" using False assms(3) by (simp add: clear_snoc)
  show ?thesis
  proof (cases n)
    case (HostDir mode)
    with node n cl show ?thesis
      by (auto simp: describes_def is_directory_iff push_entry_def mp' intro!: disjI2)
  next
    case (HostFile st bs)
    then obtain c' where cap: "capture_file X B (ho ?child) (source @ ?child) mp st bs c bt = (Inr c', bt')"
      and v: "v = Continue c'" using node by (auto split: prod.splits sum.splits)
    have "\<And>k. blob_hash_digest X k = blob_hash_digest X bs \<Longrightarrow> k = bs"
      using assms(2) n HostFile unfolding capture_setting_def no_collision_def by blast
    from capture_file_Inr [OF cap _ this] assms(2) n v cl HostFile show ?thesis
      by (auto simp: capture_setting_def polite_hosts_def describes_def is_directory_iff mp' intro!: disjI2)
  next
    case (HostLink target)
    with node n cl show ?thesis
      by (auto simp: describes_def is_directory_iff push_entry_def mp' intro!: disjI2 split: if_splits sum.splits)
  next
    case (HostSpecial k)
    with node show ?thesis by simp
  qed
qed

section \<open>The walk\<close>

text \<open>What a walk has added to the capture.\<close>

definition collected ::
  "externals \<Rightarrow> workspace_backend \<Rightarrow> host_fs \<Rightarrow> path \<Rightarrow> capture_state \<Rightarrow> fs \<Rightarrow> capture_state \<Rightarrow> fs \<Rightarrow> path set \<Rightarrow> bool" where
  "collected X B t source c bt c' bt' R \<longleftrightarrow>
     grows bt bt' \<and> (\<exists>es. ca_entries c' = ca_entries c @ es \<and> covers X (wb_store B) t source bt' es R)"

lemma collected_refl: "collected X B t source c bt c bt {}"
  by (simp add: collected_def covers_Nil)

lemma collected_trans:
  assumes "collected X B t source c bt c1 bt1 R" and "collected X B t source c1 bt1 c2 bt2 R'" and "R \<inter> R' = {}"
  shows "collected X B t source c bt c2 bt2 (R \<union> R')"
proof -
  obtain es es' where "grows bt bt1" "grows bt1 bt2" "ca_entries c1 = ca_entries c @ es"
    "ca_entries c2 = ca_entries c1 @ es'" "covers X (wb_store B) t source bt1 es R"
    "covers X (wb_store B) t source bt2 es' R'"
    using assms(1,2) unfolding collected_def by blast
  then show ?thesis unfolding collected_def
    using covers_append [OF covers_grows _ assms(3)] grows_trans by fastforce
qed

lemma collected_one:
  "grows bt bt' \<Longrightarrow> describes X (wb_store B) t source bt' e r \<Longrightarrow> ca_entries c' = ca_entries c @ [e] \<Longrightarrow>
     collected X B t source c bt c' bt' {r}"
  unfolding collected_def by (intro conjI exI [of _ "[e]"] covers_one)

lemma walk_collects:
  assumes "capture_setting X ho t"
  shows "walk X B ho t source relative depth c bt = (Inr c', bt') \<Longrightarrow> clear B source relative \<Longrightarrow>
      collected X B t source c bt c' bt' {relative @ s | s. s \<noteq> [] \<and> visible B t source (relative @ s)}"
    and "walk_children X B ho t source relative depth names c bt = (Inr c', bt') \<Longrightarrow> clear B source relative \<Longrightarrow>
      distinct names \<Longrightarrow>
      collected X B t source c bt c' bt' (\<Union>n \<in> set names. below B t source relative n)"
  using assms
proof (induction X B ho t source relative depth c bt and X B ho t source relative depth names c bt
    arbitrary: c' bt' and c' bt' rule: walk_walk_children.induct)
  case (1 X B ho t source relative depth c bt)
  then have dir: "is_directory (source @ relative) t"
    and run: "walk_children X B ho t source relative depth (child_names (source @ relative) t) c bt = (Inr c', bt')"
    by (auto split: if_splits)
  have "(\<Union>n \<in> set (child_names (source @ relative) t). below B t source relative n) =
      {relative @ s | s. s \<noteq> [] \<and> visible B t source (relative @ s)}"
  proof -
    have "n \<in> set (child_names (source @ relative) t)" if "visible B t source (relative @ n # s)" for n s
    proof -
      have "map_of t ((source @ relative @ [n]) @ s) \<noteq> None" using that by (simp add: visible_def)
      moreover have "tree_ok t" using "1.prems"(3) by (simp add: capture_setting_def)
      ultimately have "map_of t (source @ relative @ [n]) \<noteq> None" by (metis tree_ok_below)
      then show ?thesis by (simp add: child_names_iff)
    qed
    then show ?thesis by (auto simp: neq_Nil_conv)
  qed
  with "1.IH" [OF _ run "1.prems"(2) child_names_sorted(2) "1.prems"(3)] dir show ?case by simp
next
  case (2 X B ho t source relative depth c bt)
  then show ?case by (simp add: collected_refl)
next
  case (3 X B ho t source relative depth name names c bt)
  obtain r bt1 where v: "visit_child X B ho t source relative depth name c bt = (r, bt1)"
    by (cases "visit_child X B ho t source relative depth name c bt")
  with "3.prems"(1) obtain v1 where r: "r = Inr v1" by (cases r) auto
  note visit = visit_child_Inr [OF v [unfolded r] "3.prems"(4,2)]
  have apart: "below B t source relative name \<inter> (\<Union>n \<in> set names. below B t source relative n) = {}"
    using "3.prems"(3) by auto
  let ?rest = "\<Union>n \<in> set names. below B t source relative n"
  have all: "(\<Union>n \<in> set (name # names). below B t source relative n) = below B t source relative name \<union> ?rest" by simp
  show ?case
  proof (cases v1)
    case (Continue c1)
    have run: "walk_children X B ho t source relative depth names c1 bt1 = (Inr c', bt')"
      using "3.prems"(1) by (simp add: v r Continue)
    have "collected X B t source c1 bt1 c' bt' ?rest"
      by (rule "3.IH"(1) [OF v [symmetric] r Continue run "3.prems"(2) _ "3.prems"(4)]) (use "3.prems"(3) in simp)
    moreover have "collected X B t source c bt c1 bt1 (below B t source relative name)"
    proof (cases "clear B source (relative @ [name])")
      case False
      with visit Continue have "c1 = c" "bt1 = bt" by auto
      with False show ?thesis using collected_refl by (simp add: below_hidden)
    next
      case True
      then have "name \<noteq> ''.epoch''" "source @ relative @ [name] \<noteq> wb_blob_root B" by (simp_all add: clear_snoc)
      with visit Continue obtain e where e: "map_of t (source @ relative @ [name]) \<noteq> None"
          "describes X (wb_store B) t source bt1 e (relative @ [name])" "grows bt bt1"
          "\<not> is_directory (source @ relative @ [name]) t" "ca_entries c1 = ca_entries c @ [e]"
        by (auto split: if_splits)
      have "below B t source relative name = {relative @ [name]}"
        by (rule below_leaf) (use "3.prems"(4) True e in \<open>simp_all add: visible_def capture_setting_def\<close>)
      with collected_one [OF e(3,2,5)] show ?thesis by simp
    qed
    ultimately show ?thesis unfolding all using collected_trans apart by blast
  next
    case (Descend c1)
    obtain c2 bt2 where w: "walk X B ho t source (relative @ [name]) (depth + 1) c1 bt1 = (Inr c2, bt2)"
      and run: "walk_children X B ho t source relative depth names c2 bt2 = (Inr c', bt')"
      using "3.prems"(1) by (auto simp: v r Descend split: prod.splits sum.splits)
    obtain e where e: "clear B source (relative @ [name])" "map_of t (source @ relative @ [name]) \<noteq> None"
        "describes X (wb_store B) t source bt1 e (relative @ [name])" "grows bt bt1" "ca_entries c1 = ca_entries c @ [e]"
      using visit Descend by (auto split: if_splits)
    let ?deep = "{(relative @ [name]) @ s | s. s \<noteq> [] \<and> visible B t source ((relative @ [name]) @ s)}"
    have "collected X B t source c1 bt1 c2 bt2 ?deep"
      by (rule "3.IH"(2) [OF v [symmetric] r Descend w e(1) "3.prems"(4)])
    from collected_trans [OF collected_one [OF e(4,3,5)] this]
    have "collected X B t source c bt c2 bt2 ({relative @ [name]} \<union> ?deep)" by simp
    moreover have "{relative @ [name]} \<union> ?deep = below B t source relative name"
    proof -
      have "visible B t source (relative @ [name])" using e(1,2) by (simp add: visible_def)
      then show ?thesis by (auto simp: neq_Nil_conv)
    qed
    ultimately have "collected X B t source c bt c2 bt2 (below B t source relative name)" by simp
    moreover have "collected X B t source c2 bt2 c' bt' ?rest"
      by (rule "3.IH"(3) [OF v [symmetric] r Descend w [symmetric] refl run "3.prems"(2) _ "3.prems"(4)]) (use "3.prems"(3) in simp)
    ultimately show ?thesis unfolding all using collected_trans apart by blast
  qed
qed

section \<open>From a snapshot back to a tree\<close>

text \<open>What a workspace shows of a node, and what a snapshot keeps of it.\<close>

datatype node_view = ViewDir u32 | ViewFile u32 string | ViewLink string | ViewSpecial

fun view :: "host_node \<Rightarrow> node_view" where
  "view (HostDir mode) = ViewDir mode"
| "view (HostFile st bs) = ViewFile (fs_mode st) bs"
| "view (HostLink target) = ViewLink target"
| "view (HostSpecial k) = ViewSpecial"

fun captured_view :: "host_node \<Rightarrow> node_view" where
  "captured_view (HostDir mode) = ViewDir (metadata_mode mode)"
| "captured_view (HostFile st bs) = ViewFile (metadata_mode (fs_mode st)) bs"
| "captured_view (HostLink target) = ViewLink target"
| "captured_view (HostSpecial k) = ViewSpecial"

text \<open>What the backend relies on: the derived deserializer reads back what the serializer wrote, and
  no other content has the digest of a manifest.\<close>

definition manifest_codec_ok :: "manifest_codec \<Rightarrow> bool" where
  "manifest_codec_ok C \<longleftrightarrow> (\<forall>m b. manifest_to_vec C m = Inr b \<longrightarrow> manifest_from_slice C b = Inr m)"

definition manifests_collision_free :: "externals \<Rightarrow> manifest_codec \<Rightarrow> bool" where
  "manifests_collision_free X C \<longleftrightarrow>
     (\<forall>m b k. manifest_to_vec C m = Inr b \<and> blob_hash_digest X k = blob_hash_digest X b \<longrightarrow> k = b)"

lemma u64_of_usize_small:
  assumes "n < 2 ^ 64" shows "u64_of_usize n = of_nat n"
proof -
  have "int n < 2 ^ 64" using assms by (metis of_nat_less_iff of_nat_numeral of_nat_power)
  then show ?thesis by (simp add: u64_of_usize_def)
qed

lemma blob_read_length: "blob_read X st h bt = Inr bs \<Longrightarrow> length bs < 2 ^ 64"
  using unsigned_less [of "max_blob_bytes st", where 'a = nat] by (fastforce simp: blob_read_Inr)

lemma prepare_files_ok:
  assumes "\<And>e mode x len h. e \<in> set es \<Longrightarrow> we_kind e = EntryRegular mode x len h \<Longrightarrow>
      \<exists>bs. blob_read X st h bt = Inr bs \<and> u64_of_usize (length bs) = len"
  shows "\<exists>files. prepare_files X st es bt = Inr files"
  using assms
proof (induction es)
  case Nil
  show ?case by simp
next
  case (Cons e es)
  have "\<exists>files. prepare_files X st es bt = Inr files" by (rule Cons.IH, rule Cons.prems) simp_all
  then show ?case using Cons.prems [of e] by (cases "we_kind e") auto
qed

text \<open>The entries of a capture and the visible nodes, path by path.\<close>

definition described ::
  "externals \<Rightarrow> blob_store \<Rightarrow> host_fs \<Rightarrow> path \<Rightarrow> fs \<Rightarrow> workspace_entry set \<Rightarrow> path set \<Rightarrow> bool" where
  "described X st t source bt E R \<longleftrightarrow>
     (\<forall>e \<in> E. \<exists>r \<in> R. describes X st t source bt e r) \<and> (\<forall>r \<in> R. \<exists>e \<in> E. describes X st t source bt e r)"

lemma covers_described: "covers X st t source bt es R \<Longrightarrow> described X st t source bt (set es) R"
  using list_all2_image list_all2_witness unfolding covers_def described_def by blast

lemma described_grows:
  "grows bt bt' \<Longrightarrow> described X st t source bt E R \<Longrightarrow> described X st t source bt' E R"
  unfolding described_def by (meson describes_grows)

lemma describes_path:
  assumes "describes X st t source bt e r" and "names_ok t" and "r \<noteq> []"
  shows "entry_path e = r"
proof -
  have "map_of t (source @ r) \<noteq> None" using assms(1) by (auto simp: describes_def split: option.splits)
  then have "\<forall>a \<in> set (source @ r). CHR ''/'' \<notin> set a" using assms(2) unfolding names_ok_def by blast
  then have "list_all (\<lambda>a. CHR ''/'' \<notin> set a) r" by (simp add: list_all_iff)
  with split_join [OF assms(3)] assms(1) show ?thesis by (simp add: describes_def manifest_path_def)
qed

lemma describes_regular:
  assumes "describes X st t source bt e r" and "we_kind e = EntryRegular mode x len h"
  shows "\<exists>bs. blob_read X st h bt = Inr bs \<and> u64_of_usize (length bs) = len"
  using assms blob_read_length
  by (auto simp: describes_def u64_of_usize_small split: option.splits host_node.splits)

lemma describes_node:
  assumes "describes X st t source bt e r"
    and "\<And>mode x len h. we_kind e = EntryRegular mode x len h \<Longrightarrow>
      \<exists>bs. map_of prepared (we_path e) = Some bs \<and> blob_read X st h bt = Inr bs"
  shows "map_option captured_view (map_of t (source @ r)) = Some (view (entry_node ho staging prepared e))"
  using assms by (auto simp: describes_def entry_node_def split: option.splits host_node.splits)

lemma snapshot_Inr:
  assumes "workspace_snapshot X C B ho t cwd source bt = (Inr s, bt')"
    and "source_root B t cwd source = Inr (canonical, mode)"
  obtains c bt1 encoded where
    "walk X B ho t canonical [] 0 \<lparr>ca_entries = [], ca_total_bytes = 0\<rparr> bt = (Inr c, bt1)"
    "encode_manifest C (wb_limits B) (build_manifest mode c) = Inr encoded"
    "\<exists>m. blob_put X (wb_store B) (ph_env (ho [])) (ph_clock (ho [])) (fst (ph_uuids (ho [])))
       (snd (ph_uuids (ho []))) encoded manifest_media_type bt1 = (Inr m, bt')"
    "s = \<lparr>ws_manifest_hash = blob_hash_digest X encoded, ws_manifest_length = of_nat (length encoded)\<rparr>"
    "length encoded \<le> unat (max_blob_bytes (wb_store B))"
proof -
  obtain c bt1 encoded m where w: "walk X B ho t canonical [] 0 \<lparr>ca_entries = [], ca_total_bytes = 0\<rparr> bt = (Inr c, bt1)"
    and e: "encode_manifest C (wb_limits B) (build_manifest mode c) = Inr encoded"
    and p: "blob_put X (wb_store B) (ph_env (ho [])) (ph_clock (ho [])) (fst (ph_uuids (ho [])))
       (snd (ph_uuids (ho []))) encoded manifest_media_type bt1 = (Inr m, bt')"
    and s: "s = \<lparr>ws_manifest_hash = m_hash m, ws_manifest_length = m_length m\<rparr>"
    using assms by (auto simp: workspace_snapshot_def split: sum.splits prod.splits)
  have m: "m_hash m = blob_hash_digest X encoded" "m_length m = of_nat (length encoded)"
    "length encoded \<le> unat (max_blob_bytes (wb_store B))"
    by (rule blob_put_Inr [OF p], simp)+
  show ?thesis by (rule that [OF w e]) (use p s m in auto)
qed

lemma load_encoded:
  assumes "encode_manifest C (wb_limits B) m = Inr encoded" and "manifest_codec_ok C"
    and "wm_schema_version m = workspace_schema_version"
    and "blob_read X (wb_store B) (blob_hash_digest X encoded) bt = Inr encoded"
  shows "load_manifest X C B \<lparr>ws_manifest_hash = blob_hash_digest X encoded,
      ws_manifest_length = of_nat (length encoded)\<rparr> bt = Inr m"
proof -
  from assms(1) have v: "validate_manifest m (wb_limits B) = Inr ()" "manifest_to_vec C m = Inr encoded"
    "enforce_limit LimitManifestBytes (u64_of_usize (length encoded)) (max_manifest_bytes (wb_limits B)) = Inr ()"
    by (auto simp: encode_manifest_def result_simps)
  with assms(2) have "manifest_from_slice C encoded = Inr m" unfolding manifest_codec_ok_def by blast
  with v assms(3,4) u64_of_usize_small [OF blob_read_length [OF assms(4)]] show ?thesis
    by (simp add: load_manifest_def)
qed

lemma source_root_Inr:
  assumes "source_root B t cwd source = Inr (canonical, mode)"
  shows "map_of t canonical = Some (HostDir mode)"
proof -
  have "lstat t cwd (path_components source) = Inr (canonical, HostDir mode)"
    using assms by (auto simp: source_root_def split: sum.splits prod.splits host_node.splits if_splits)
  then show ?thesis
    by (auto simp: lstat_def result_simps split: path_component.splits if_splits option.splits)
qed

lemma restored_views:
  assumes cov: "described X st t source bt (set (wm_entries m)) {r. r \<noteq> [] \<and> visible B t source r}"
    and names: "names_ok t" and valid: "validate_manifest m l = Inr ()"
    and prep: "prepare_files X st (wm_entries m) bt = Inr files" and r: "r \<noteq> []"
  shows "map_option view (restored_node ho staging m files r) =
    (if visible B t source r then map_option captured_view (map_of t (source @ r)) else None)"
proof -
  note d = validate_manifestD [OF valid]
  have paths: "distinct (map entry_path (wm_entries m))"
    using d(1) by (simp add: distinct_map inj_on_def entry_path_inj)
  show ?thesis
  proof (cases "visible B t source r")
    case True
    then obtain e where e: "e \<in> set (wm_entries m)" "describes X st t source bt e r"
      using cov r by (auto simp: described_def)
    have "entry_path e = r" by (rule describes_path [OF e(2) names r])
    with e(1) r have "restored_node ho staging m files r = Some (entry_node ho staging files e)"
      by (auto simp: restored_node_def map_of_keyed(1) [OF paths])
    moreover have "map_option captured_view (map_of t (source @ r)) = Some (view (entry_node ho staging files e))"
      by (rule describes_node [OF e(2)]) (use prepare_files_Inr [OF prep d(1) e(1)] in blast)
    ultimately show ?thesis using True by (metis option.map(2))
  next
    case False
    have "r \<notin> entry_path ` set (wm_entries m)"
    proof
      assume "r \<in> entry_path ` set (wm_entries m)"
      then obtain e where e: "e \<in> set (wm_entries m)" "r = entry_path e" by blast
      obtain r' where r': "r' \<noteq> []" "visible B t source r'" "describes X st t source bt e r'"
        using cov e(1) by (auto simp: described_def)
      from describes_path [OF r'(3) names r'(1)] e(2) False r'(2) show False by simp
    qed
    with r False show ?thesis by (simp add: restored_node_def map_of_keyed(2))
  qed
qed

lemma snapshot_restores:
  assumes snap: "workspace_snapshot X C B ho t cwd source bt = (Inr s, bt1)"
    and root: "source_root B t cwd source = Inr (canonical, mode)"
    and set: "capture_setting X ho t" and codec: "manifest_codec_ok C" "manifests_collision_free X C"
    and later: "grows bt1 bt2"
  shows "\<exists>m files. load_manifest X C B s bt2 = Inr m \<and> prepare_files X (wb_store B) (wm_entries m) bt2 = Inr files \<and>
    (\<forall>rho staging r. map_option view (restored_node rho staging m files r) =
       (if visible B t canonical r then map_option captured_view (map_of t (canonical @ r)) else None))"
proof -
  obtain c bt0 encoded where w: "walk X B ho t canonical [] 0 \<lparr>ca_entries = [], ca_total_bytes = 0\<rparr> bt = (Inr c, bt0)"
    and enc: "encode_manifest C (wb_limits B) (build_manifest mode c) = Inr encoded"
    and put: "\<exists>m. blob_put X (wb_store B) (ph_env (ho [])) (ph_clock (ho [])) (fst (ph_uuids (ho [])))
       (snd (ph_uuids (ho []))) encoded manifest_media_type bt0 = (Inr m, bt1)"
    and s: "s = \<lparr>ws_manifest_hash = blob_hash_digest X encoded, ws_manifest_length = of_nat (length encoded)\<rparr>"
    by (rule snapshot_Inr [OF snap root])
  let ?m = "build_manifest mode c" and ?R = "{r. r \<noteq> [] \<and> visible B t canonical r}"
  have polite: "polite {temporary_path X (blob_hash_digest X encoded) (fst (ph_uuids (ho []))),
      temporary_path X (blob_hash_digest X encoded) (snd (ph_uuids (ho [])))} (ph_env (ho []))"
    using set unfolding capture_setting_def polite_hosts_def by blast
  then have stored: "blob_stored X (wb_store B) bt0 encoded bt1" using put unfolding blob_stored_def by blast
  have vec: "manifest_to_vec C ?m = Inr encoded" and valid: "validate_manifest ?m (wb_limits B) = Inr ()"
    using enc by (auto simp: encode_manifest_def result_simps)
  have "blob_read X (wb_store B) (blob_hash_digest X encoded) bt2 = Inr encoded"
    by (rule blobs.read_back [OF stored later])
      (use codec(2) vec in \<open>unfold manifests_collision_free_def, blast\<close>)
  then have load: "load_manifest X C B s bt2 = Inr ?m"
    unfolding s by (intro load_encoded [OF enc codec(1)]) (simp_all add: build_manifest_def)
  have "collected X B t canonical \<lparr>ca_entries = [], ca_total_bytes = 0\<rparr> bt c bt0 ?R"
    using walk_collects(1) [OF set w] by simp
  then have "covers X (wb_store B) t canonical bt0 (ca_entries c) ?R" by (auto simp: collected_def)
  then have "described X (wb_store B) t canonical bt0 (set (wm_entries ?m)) ?R"
    using covers_described by (simp add: build_manifest_def)
  moreover have "grows bt0 bt2" using blobs.stores_keeps [OF stored] later by (rule grows_trans)
  ultimately have cov: "described X (wb_store B) t canonical bt2 (set (wm_entries ?m)) ?R"
    by (rule described_grows [rotated])
  have "\<exists>files. prepare_files X (wb_store B) (wm_entries ?m) bt2 = Inr files"
  proof (rule prepare_files_ok)
    fix e md x len h
    assume "e \<in> set (wm_entries ?m)" "we_kind e = EntryRegular md x len h"
    with cov describes_regular show "\<exists>bs. blob_read X (wb_store B) h bt2 = Inr bs \<and> u64_of_usize (length bs) = len"
      unfolding described_def by blast
  qed
  then obtain files where files: "prepare_files X (wb_store B) (wm_entries ?m) bt2 = Inr files" by blast
  have "names_ok t" using set by (simp add: capture_setting_def)
  note views = restored_views [OF cov this valid files]
  have "map_option view (restored_node rho staging ?m files r) =
      (if visible B t canonical r then map_option captured_view (map_of t (canonical @ r)) else None)" for rho staging r
  proof (cases "r = []")
    case True
    then show ?thesis using source_root_Inr [OF root]
      by (simp add: restored_node_def visible_def build_manifest_def)
  qed (rule views)
  with load files show ?thesis by blast
qed

end
