(* ===== verification/Epoch_Workspace_Properties.thy ===== *)
theory Epoch_Workspace_Properties
  imports Epoch_Workspace_Capture Epoch_Example
begin

text \<open>
  The properties of the workspace backend: a snapshot restores to the same visible tree, a restore
  that fails changes nothing, a validated snapshot restores, and what the check of link targets does
  and does not confine.
\<close>

section \<open>Snapshots restore\<close>

text \<open>C22: a snapshot of a declared workspace, restored later to a free target, rebuilds exactly what
  the snapshot could see: below the target there is a node precisely where the source had one outside
  \<open>.epoch\<close> and the managed state root, a directory or file with its permission bits and bytes, a
  link with its target, and outside the target the host's tree is as it was. The source's tree and
  the host's tree at the time of the restore are arbitrary, and the blob store may have been used in
  between.\<close>

theorem workspace_round_trip:
  assumes "workspace_snapshot X C B ho t cwd source bt = (Inr s, bt1)"
    and "source_root B t cwd source = Inr (canonical, mode)"
    and "capture_setting X ho t" and "manifest_codec_ok C" and "manifests_collision_free X C"
    and "grows bt1 bt2"
    and "validate_restore_target t2 (rh_cwd rho) raw = Inr (parent, name)"
    and "tree_ok t2" and "restorable X rho raw parent name t2"
  shows "\<exists>report t3. workspace_restore X C B rho s raw bt2 t2 = (Inr report, t3) \<and>
    (\<forall>r. map_option view (map_of t3 ((parent @ [name]) @ r)) =
       (if visible B t canonical r then map_option captured_view (map_of t (canonical @ r)) else None)) \<and>
    (\<forall>q. path_prefix (parent @ [name]) q \<or> map_of t3 q = map_of t2 q)"
proof -
  obtain m files where load: "load_manifest X C B s bt2 = Inr m"
    and files: "prepare_files X (wb_store B) (wm_entries m) bt2 = Inr files"
    and views: "\<And>staging r. map_option view (restored_node rho staging m files r) =
       (if visible B t canonical r then map_option captured_view (map_of t (canonical @ r)) else None)"
    using snapshot_restores [OF assms(1-6)] by blast
  obtain t3 where run: "workspace_restore X C B rho s raw bt2 t2 = (Inr (restore_report_of m files), t3)"
    and t3: "\<And>q. map_of t3 q = (if path_prefix (parent @ [name]) q
        then restored_node rho (staging_path X parent name (rh_uuid rho)) m files (drop (Suc (length parent)) q)
        else map_of t2 q)"
    using restore_ok [OF load files assms(7-9)] by blast
  have "map_option view (map_of t3 ((parent @ [name]) @ r)) =
      (if visible B t canonical r then map_option captured_view (map_of t (canonical @ r)) else None)" for r
  proof -
    have "path_prefix (parent @ [name]) ((parent @ [name]) @ r)" by (rule path_prefix_append)
    with t3 [of "(parent @ [name]) @ r"] views show ?thesis by simp
  qed
  with run t3 show ?thesis by auto
qed

definition ws_externals :: externals where
  "ws_externals = example_externals\<lparr>sha256 := (\<lambda>bs.
     if bs = ''f'' then replicate 32 (CHR ''f'') else if bs = ''m'' then replicate 32 (CHR ''m'')
     else replicate 32 (CHR ''x''))\<rparr>"

definition ws_tree :: host_fs where
  "ws_tree = [([], HostDir 0x1ED), ([''s''], HostDir 0x1ED),
     ([''s'', ''a''], HostFile \<lparr>fs_dev = 1, fs_ino = 2, fs_mtime = 3, fs_mtime_nsec = 0, fs_mode = 0x81A4\<rparr> ''f'')]"

definition ws_manifest :: workspace_manifest where
  "ws_manifest = \<lparr>wm_schema_version = 1, wm_hardlink_policy = Materialize, wm_root_mode = 0x1ED,
     wm_entries = [\<lparr>we_path = ''a'', we_kind = EntryRegular 0x1A4 False 1 (blob_hash_digest ws_externals ''f'')\<rparr>]\<rparr>"

definition ws_codec :: manifest_codec where
  "ws_codec = \<lparr>manifest_to_vec = (\<lambda>m. if m = ws_manifest then Inr ''m'' else Inl ''unsupported''),
     manifest_from_slice = (\<lambda>b. if b = ''m'' then Inr ws_manifest else Inl ''invalid'')\<rparr>"

definition ws_limits :: workspace_limits where
  "ws_limits = \<lparr>max_entries = 8, max_total_bytes = 64, max_file_bytes = 64, max_manifest_bytes = 64,
     max_depth = 4, max_path_bytes = 16, max_component_bytes = 8, max_symlink_target_bytes = 16\<rparr>"

definition ws_backend :: workspace_backend where
  "ws_backend = \<lparr>wb_store = example_store, wb_blob_root = [''b''], wb_limits = ws_limits\<rparr>"

definition ws_host :: "path \<Rightarrow> put_host" where
  "ws_host p = \<lparr>ph_env = quiet, ph_clock = 5, ph_uuids = (1, 2)\<rparr>"

definition ws_run :: "manifest_ref ws_result \<times> fs" where
  "ws_run = workspace_snapshot ws_externals ws_codec ws_backend ws_host ws_tree [] ''/s'' opened_fs"

definition ws_snap :: manifest_ref where
  "ws_snap = \<lparr>ws_manifest_hash = blob_hash_digest ws_externals ''m'', ws_manifest_length = 1\<rparr>"

lemma ws_root: "source_root ws_backend ws_tree [] ''/s'' = Inr ([''s''], 0x1ED)"
  by code_simp

lemma ws_run_ok: "fst ws_run = Inr ws_snap"
  by code_simp


lemma ws_snapshot: "workspace_snapshot ws_externals ws_codec ws_backend ws_host ws_tree [] ''/s'' opened_fs =
    (Inr ws_snap, snd ws_run)"
  using ws_run_ok by (simp add: ws_run_def prod_eq_iff)

lemma tree_ok_rows: "list_all (\<lambda>e. fst e = [] \<or> is_directory (butlast (fst e)) t) t \<Longrightarrow> tree_ok t"
  unfolding tree_ok_def list_all_iff by (metis fst_conv map_of_SomeD not_None_eq)

lemma names_ok_rows: "list_all (\<lambda>e. list_all (\<lambda>a. a \<noteq> [] \<and> CHR ''/'' \<notin> set a) (fst e)) t \<Longrightarrow> names_ok t"
  unfolding names_ok_def list_all_iff by (metis fst_conv map_of_SomeD not_None_eq)

lemma ws_sha256: "sha256 ws_externals bs =
    replicate 32 (if bs = ''f'' then CHR ''f'' else if bs = ''m'' then CHR ''m'' else CHR ''x'')"
  by (simp add: ws_externals_def)

lemma ws_digest_inj:
  assumes "k = ''f'' \<or> k = ''m''" and "blob_hash_digest ws_externals c = blob_hash_digest ws_externals k"
  shows "c = k"
proof -
  have "encode_hex (sha256 ws_externals c) = encode_hex (sha256 ws_externals k)"
    using assms(2) unfolding blob_hash_digest_def blob_hash.inject .
  then have "sha256 ws_externals c = sha256 ws_externals k" by (rule encode_hex_inj)
  then have "(if c = ''f'' then CHR ''f'' else if c = ''m'' then CHR ''m'' else CHR ''x'') =
      (if k = ''f'' then CHR ''f'' else if k = ''m'' then CHR ''m'' else CHR ''x'')"
    unfolding ws_sha256 replicate_eq_replicate by simp
  with assms(1) show ?thesis by (auto split: if_splits)
qed

lemma ws_setting: "capture_setting ws_externals ws_host ws_tree"
  unfolding capture_setting_def
proof (intro conjI)
  show "tree_ok ws_tree" by (rule tree_ok_rows) code_simp
  show "names_ok ws_tree" by (rule names_ok_rows) code_simp
  show "no_collision ws_externals ws_tree" unfolding no_collision_def
  proof (intro allI impI, elim conjE)
    fix p st bs c
    assume "map_of ws_tree p = Some (HostFile st bs)" and c: "blob_hash_digest ws_externals c = blob_hash_digest ws_externals bs"
    then have "bs = ''f''" by (auto simp: ws_tree_def split: if_splits)
    with c show "c = bs" using ws_digest_inj by blast
  qed
  show "polite_hosts ws_externals ws_host" by (simp add: polite_hosts_def ws_host_def quiet_polite)
qed

lemma ws_codec_ok: "manifest_codec_ok ws_codec" "manifests_collision_free ws_externals ws_codec"
  using ws_digest_inj [of "''m''"]
  by (auto simp: manifest_codec_ok_def manifests_collision_free_def ws_codec_def split: if_splits)

definition ws_restore_host :: restore_host where
  "ws_restore_host = \<lparr>rh_cwd = [], rh_uuid = 7,
     rh_stat = (\<lambda>p. \<lparr>fs_dev = 1, fs_ino = 9, fs_mtime = 8, fs_mtime_nsec = 0, fs_mode = 0\<rparr>)\<rparr>"

lemma ws_target: "validate_restore_target ws_tree (rh_cwd ws_restore_host) ''/r'' = Inr ([], ''r'')"
  by code_simp

lemma ws_restorable: "restorable ws_externals ws_restore_host ''/r'' [] ''r'' ws_tree"
  by code_simp

theorem workspace_round_trip_witness:
  "\<exists>report t3. workspace_restore ws_externals ws_codec ws_backend ws_restore_host ws_snap ''/r'' (snd ws_run) ws_tree
      = (Inr report, t3) \<and>
    map_option view (map_of t3 [''r'', ''a'']) = Some (ViewFile 0x1A4 ''f'') \<and>
    map_option view (map_of t3 [''r'', ''b'']) = None"
proof -
  have tree: "tree_ok ws_tree" using ws_setting by (simp add: capture_setting_def)
  obtain report t3 where run: "workspace_restore ws_externals ws_codec ws_backend ws_restore_host ws_snap ''/r''
      (snd ws_run) ws_tree = (Inr report, t3)"
    and views: "\<And>r. map_option view (map_of t3 (([] @ [''r'']) @ r)) =
       (if visible ws_backend ws_tree [''s''] r then map_option captured_view (map_of ws_tree ([''s''] @ r)) else None)"
    using workspace_round_trip [OF ws_snapshot ws_root ws_setting ws_codec_ok grows_refl ws_target tree ws_restorable]
    by blast
  have "visible ws_backend ws_tree [''s''] [''a'']" "\<not> visible ws_backend ws_tree [''s''] [''b'']"
    by code_simp+
  with run views [of "[''a'']"] views [of "[''b'']"] show ?thesis
    by (auto simp: ws_tree_def metadata_mode_def)
qed

section \<open>All or nothing\<close>


definition ws_faulted :: "restore_report ws_result \<times> host_fs" where
  "ws_faulted = restore_with_fault ws_externals ws_codec ws_backend ws_restore_host ws_snap ''/r'' BeforePublish
     (snd ws_run) ws_tree"


text \<open>C24: validation predicts the restore. A snapshot that \<open>validate\<close> accepts is restored to every
  target that the target check accepts and that is free, with the same report; no blob can be found
  missing or damaged once files are being written.\<close>

theorem validated_snapshot_restores:
  assumes "workspace_validate X C B s bt = Inr report"
    and "validate_restore_target t (rh_cwd ho) raw = Inr (parent, name)"
    and "tree_ok t" and "restorable X ho raw parent name t"
  shows "fst (workspace_restore X C B ho s raw bt t) = Inr report"
proof -
  obtain m files where "load_manifest X C B s bt = Inr m"
    "prepare_files X (wb_store B) (wm_entries m) bt = Inr files" "report = restore_report_of m files"
    using assms(1) by (auto simp: workspace_validate_def result_simps)
  with restore_ok [OF _ _ assms(2-4)] show ?thesis by fastforce
qed

theorem validated_snapshot_restores_witness:
  "fst (workspace_restore ws_externals ws_codec ws_backend ws_restore_host ws_snap ''/r'' (snd ws_run) ws_tree) =
     Inr \<lparr>rr_entries = 1, rr_total_file_bytes = 1\<rparr>"
proof -
  have v: "workspace_validate ws_externals ws_codec ws_backend ws_snap (snd ws_run) =
      Inr \<lparr>rr_entries = 1, rr_total_file_bytes = 1\<rparr>" by code_simp
  have "tree_ok ws_tree" using ws_setting by (simp add: capture_setting_def)
  from validated_snapshot_restores [OF v ws_target this ws_restorable] show ?thesis .
qed

section \<open>Targets\<close>

text \<open>C39: a target given as a bare name is never restored to. \<open>Path::parent\<close> of a single relative
  component is the empty path, which names no directory, so the call ends in an error although the
  working directory could take the new tree.\<close>

theorem bare_target_refused:
  assumes "path_components raw = [Normal name]"
  shows "\<exists>e. validate_restore_target t cwd raw = Inl e"
  using assms by (auto simp: validate_restore_target_def lstat_def split: sum.splits)

theorem bare_target_refused_witness:
  "validate_restore_target ws_tree [''s''] ''new'' = Inl (WIo WsNotFound)"
proof -
  have "path_components ''new'' = [Normal ''new'']" by code_simp
  from bare_target_refused [OF this, of ws_tree "[''s'']"]
  have "\<exists>e. validate_restore_target ws_tree [''s''] ''new'' = Inl e" .
  moreover have "validate_restore_target ws_tree [''s''] ''new'' = Inl (WIo WsNotFound)" by code_simp
  ultimately show ?thesis by blast
qed

section \<open>Links\<close>

text \<open>A tree without links resolves a path as the check of link targets does.\<close>

definition link_free :: "host_fs \<Rightarrow> bool" where
  "link_free t \<longleftrightarrow> (\<forall>p target. map_of t p \<noteq> Some (HostLink target))"

abbreviation steps :: "string list \<Rightarrow> path_component list" where
  "steps cs \<equiv> filter (\<lambda>c. c \<noteq> CurDir) (map component_of (filter (\<lambda>c. c \<noteq> []) cs))"

lemma steps_empty: "steps cs = [] \<Longrightarrow> resolve_target dir cs = Some dir"
  by (induction cs arbitrary: dir) (auto simp: component_of_def split: if_splits)

lemma resolve_link_free:
  assumes "link_free t" and "resolve n t (root @ dir) (steps cs) = Inr p"
    and "resolve_target dir cs = Some dir'"
  shows "p = root @ dir'"
  using assms(2,3)
proof (induction cs arbitrary: dir)
  case Nil
  then show ?case by (simp split: if_splits)
next
  case (Cons c cs)
  consider "c = []" | "c = ''.''" | "c = ''..''" | "c \<noteq> []" "c \<noteq> ''.''" "c \<noteq> ''..''" by blast
  then show ?case
  proof cases
    case 1
    with Cons show ?thesis by simp
  next
    case 2
    moreover from this have "component_of c = CurDir" by (simp add: component_of_def)
    ultimately show ?thesis using Cons by simp
  next
    case 3
    moreover from this have "component_of c = ParentDir" by (simp add: component_of_def)
    ultimately show ?thesis using Cons by (auto simp: butlast_append split: if_splits)
  next
    case 4
    then have co: "component_of c = Normal c" by (simp add: component_of_def)
    have nl: "map_of t (root @ dir @ [c]) \<noteq> Some (HostLink target)" for target
      using assms(1) by (simp add: link_free_def)
    from 4 Cons.prems(1) have r: "resolve n t (root @ dir) (Normal c # steps cs) = Inr p"
      by (simp add: co)
    from 4 Cons.prems(2) have d: "resolve_target (dir @ [c]) cs = Some dir'" by (simp split: if_splits)
    show ?thesis
    proof (cases "is_directory (root @ dir @ [c]) t")
      case True
      then have "resolve n t (root @ dir @ [c]) (steps cs) = Inr p" using r by (auto simp: is_directory_iff)
      with Cons.IH [of "dir @ [c]"] d show ?thesis by simp
    next
      case False
      with r nl have "p = root @ dir @ [c]" and "steps cs = []"
        by (auto simp: is_directory_iff split: option.splits host_node.splits if_splits)
      with steps_empty [of cs "dir @ [c]"] d show ?thesis by simp
    qed
  qed
qed

lemma resolve_components:
  assumes "\<not> starts_with ''/'' target"
  shows "resolve n t dir (path_components target) = resolve n t dir (steps (split_on (CHR ''/'') target))"
  using assms by (cases "map component_of (filter (\<lambda>p. p \<noteq> []) (split_on (CHR ''/'') target))")
    (auto simp: path_components_def Let_def)



text \<open>C0: two accepted links can lead out together. The check takes \<open>..\<close> textually, also behind a
  component that is itself a link of the workspace: a manifest with a link to its own parent and a
  second link through it is valid, and the restored workspace reaches a file outside its root.\<close>

definition escaping_manifest :: workspace_manifest where
  "escaping_manifest = \<lparr>wm_schema_version = 1, wm_hardlink_policy = Materialize, wm_root_mode = 0x1ED,
     wm_entries = [\<lparr>we_path = ''d'', we_kind = EntryDirectory 0x1ED\<rparr>,
       \<lparr>we_path = ''d/l'', we_kind = EntrySymlink ''..''\<rparr>,
       \<lparr>we_path = ''m'', we_kind = EntrySymlink ''d/l/../x''\<rparr>]\<rparr>"

definition outside_tree :: host_fs where
  "outside_tree = [([], HostDir 0x1ED), ([''x''], HostFile (rh_stat ws_restore_host []) ''f'')]"

definition escaped_tree :: host_fs where
  "escaped_tree = host_puts (([''w''], HostDir 0x1ED) #
     map (\<lambda>e. (''w'' # manifest_path (we_path e), entry_node ws_restore_host [''w''] [] e))
       (wm_entries escaping_manifest)) outside_tree"

theorem chained_links_escape:
  "validate_manifest escaping_manifest ws_limits = Inr () \<and>
   resolve max_links escaped_tree [''w''] [Normal ''m''] = Inr [''x'']"
proof
  show "validate_manifest escaping_manifest ws_limits = Inr ()"
  proof -
    have "validate_manifest_path ''d'' ws_limits = Inr 1" "validate_manifest_path ''d/l'' ws_limits = Inr 2"
      "validate_manifest_path ''m'' ws_limits = Inr 1"
      "validate_entry_kind ws_limits \<lparr>we_path = ''d'', we_kind = EntryDirectory 493\<rparr> 0 = Inr 0"
      "validate_entry_kind ws_limits \<lparr>we_path = ''d/l'', we_kind = EntrySymlink ''..''\<rparr> 0 = Inr 0"
      "validate_entry_kind ws_limits \<lparr>we_path = ''m'', we_kind = EntrySymlink ''d/l/../x''\<rparr> 0 = Inr 0"
      "enforce_limit LimitDepth (u64_of_usize 1) (u64_of_usize (max_depth ws_limits)) = Inr ()"
      "enforce_limit LimitDepth (u64_of_usize 2) (u64_of_usize (max_depth ws_limits)) = Inr ()"
      by code_simp+
    then have "validate_entries ws_limits (wm_entries escaping_manifest) None 0 = Inr 0"
      by (simp add: escaping_manifest_def)
    moreover have "validate_mode (wm_root_mode escaping_manifest) = Inr ()"
      "\<not> max_entries ws_limits < length (wm_entries escaping_manifest)"
      "enforce_limit LimitTotalBytes 0 (max_total_bytes ws_limits) = Inr ()"
      "list_all (\<lambda>e. parents_present (wm_entries escaping_manifest) (we_path e)) (wm_entries escaping_manifest)"
      by code_simp+
    ultimately show ?thesis by (simp add: validate_manifest_def)
  qed
  show "resolve max_links escaped_tree [''w''] [Normal ''m''] = Inr [''x'']" by code_simp
qed

section \<open>The walk ends\<close>


end
