(* ===== verification/Epoch_Diff.thy ===== *)
theory Epoch_Diff
  imports Epoch_Checkpoint "HOL-Library.Char_ord" "HOL-Library.List_Lexorder"
begin

text \<open>
  The crate \<open>epoch-diff\<close>: the semantic difference of two application checkpoints, both restored and
  validated first. A \<open>BTreeMap\<close> is the list of its entries in ascending order of keys, a \<open>BTreeSet\<close>
  the ascending list of its members.
\<close>

section \<open>Ordered maps and sets\<close>

fun btree_insert :: "'k :: linorder \<Rightarrow> 'v \<Rightarrow> ('k \<times> 'v) list \<Rightarrow> ('k \<times> 'v) list" where
  "btree_insert k v [] = [(k, v)]"
| "btree_insert k v ((k', v') # m) =
     (if k < k' then (k, v) # (k', v') # m
      else if k = k' then (k, v) # m
      else (k', v') # btree_insert k v m)"

definition btree_of :: "('k :: linorder \<times> 'v) list \<Rightarrow> ('k \<times> 'v) list" where
  "btree_of kvs = fold (\<lambda>(k, v). btree_insert k v) kvs []"

definition btree_set :: "'k :: linorder list \<Rightarrow> 'k list" where
  "btree_set ks = sort (remdups ks)"

lemma btree_insert_lookup: "map_of (btree_insert k v m) = (map_of m)(k \<mapsto> v)"
  by (induction m) (auto simp: fun_eq_iff)

lemma btree_of_lookup: "map_of (btree_of kvs) = map_of (rev kvs)"
proof -
  have "map_of (fold (\<lambda>(k, v). btree_insert k v) kvs m) = map_of m ++ map_of (rev kvs)" for m
  proof (induction kvs arbitrary: m)
    case Nil
    show ?case by simp
  next
    case (Cons kv kvs)
    show ?case by (cases kv) (simp add: Cons.IH btree_insert_lookup fun_eq_iff map_add_def split: option.splits)
  qed
  from this [of "[]"] show ?thesis by (simp add: btree_of_def)
qed

lemma btree_set_set [simp]: "set (btree_set ks) = set ks"
  by (simp add: btree_set_def)

lemma btree_set_eq: "btree_set as = btree_set bs \<longleftrightarrow> set as = set bs"
proof
  assume "set as = set bs"
  then show "btree_set as = btree_set bs"
    unfolding btree_set_def by (intro sorted_distinct_set_unique) simp_all
qed (metis btree_set_set)

section \<open>Changes\<close>

datatype semantic_section =
    SecApplication | SecCursors | SecMessages | SecMemoryReferences | SecPendingModelRequests
  | SecPendingTasks | SecPendingToolCalls | SecToolRegistry | SecCapabilities | SecEffectFrontier
  | SecWorkspaceFiles

datatype change_classification = Added | Removed | Changed

record semantic_change =
  sc_section :: semantic_section
  sc_path :: string
  sc_classification :: change_classification
  sc_before :: "json option"
  sc_after :: "json option"

record unsupported_section =
  us_section :: semantic_section
  us_reason :: string

record application_semantic_diff =
  ad_schema_version :: u16
  ad_before_component_hash :: blob_hash
  ad_after_component_hash :: blob_hash
  ad_identical :: bool
  ad_unsupported_sections :: "unsupported_section list"
  ad_changes :: "semantic_change list"

datatype diff_side = SideBefore | SideAfter

datatype diff_error_kind = UnsupportedSchemaDiff | UnsupportedCheckpointDiff | InvalidCheckpointDiff

record diff_error =
  de_side :: diff_side
  de_kind :: diff_error_kind
  de_code :: string
  de_detail :: failure_detail

definition semantic_diff_schema_version :: u16 where "semantic_diff_schema_version = 1"

definition context_v1_unsupported_reason :: string where
  "context_v1_unsupported_reason = ''not represented by application context schema 1''"

definition unsupported_application_sections :: "unsupported_section list" where
  "unsupported_application_sections =
     map (\<lambda>s. \<lparr>us_section = s, us_reason = context_v1_unsupported_reason\<rparr>)
       [SecCapabilities, SecEffectFrontier, SecWorkspaceFiles]"

text \<open>The derived orders: the position of the variant.\<close>

fun section_rank :: "semantic_section \<Rightarrow> nat" where
  "section_rank SecApplication = 0"
| "section_rank SecCursors = 1"
| "section_rank SecMessages = 2"
| "section_rank SecMemoryReferences = 3"
| "section_rank SecPendingModelRequests = 4"
| "section_rank SecPendingTasks = 5"
| "section_rank SecPendingToolCalls = 6"
| "section_rank SecToolRegistry = 7"
| "section_rank SecCapabilities = 8"
| "section_rank SecEffectFrontier = 9"
| "section_rank SecWorkspaceFiles = 10"

fun classification_rank :: "change_classification \<Rightarrow> nat" where
  "classification_rank Added = 0"
| "classification_rank Removed = 1"
| "classification_rank Changed = 2"

section \<open>Values\<close>

definition json_u64 :: "u64 \<Rightarrow> json" where "json_u64 v = JNumber (PosInt v)"

definition json_hash :: "blob_hash \<Rightarrow> json" where "json_hash h = JString (hash_str h)"

definition json_option :: "('a \<Rightarrow> json) \<Rightarrow> 'a option \<Rightarrow> json" where
  "json_option f m = (case m of None \<Rightarrow> JNull | Some x \<Rightarrow> f x)"

fun role_name :: "message_role \<Rightarrow> string" where
  "role_name RoleSystem = ''system''"
| "role_name RoleUser = ''user''"
| "role_name RoleAssistant = ''assistant''"
| "role_name RoleTool = ''tool''"

definition json_role :: "message_role \<Rightarrow> json" where "json_role r = JString (role_name r)"

definition json_message :: "observable_message \<Rightarrow> json" where
  "json_message m = JObject
     [(''content_hash'', json_hash (om_content_hash m)), (''message_id'', JString (om_message_id m)),
      (''role'', json_role (om_role m))]"

definition json_task :: "pending_task \<Rightarrow> json" where
  "json_task t = JObject
     [(''payload_hash'', json_option json_hash (pt_payload_hash t)), (''task_id'', JString (pt_task_id t)),
      (''task_type'', JString (pt_task_type t))]"

definition json_strings :: "string list \<Rightarrow> json" where "json_strings ss = JArray (map JString ss)"

section \<open>Comparison\<close>

definition replace_char :: "char \<Rightarrow> string \<Rightarrow> string \<Rightarrow> string" where
  "replace_char c r s = concat (map (\<lambda>x. if x = c then r else [x]) s)"

definition json_pointer_token :: "string \<Rightarrow> string" where
  "json_pointer_token v = replace_char (CHR ''/'') ''~1'' (replace_char (CHR ''~'') ''~0'' v)"

definition entity_path :: "string \<Rightarrow> string \<Rightarrow> string" where
  "entity_path root i = root @ ''/'' @ json_pointer_token i"

definition added :: "semantic_section \<Rightarrow> string \<Rightarrow> json \<Rightarrow> semantic_change" where
  "added s p v = \<lparr>sc_section = s, sc_path = p, sc_classification = Added, sc_before = None, sc_after = Some v\<rparr>"

definition removed :: "semantic_section \<Rightarrow> string \<Rightarrow> json \<Rightarrow> semantic_change" where
  "removed s p v = \<lparr>sc_section = s, sc_path = p, sc_classification = Removed, sc_before = Some v, sc_after = None\<rparr>"

definition changed_value ::
  "semantic_section \<Rightarrow> string \<Rightarrow> ('a \<Rightarrow> json) \<Rightarrow> 'a \<Rightarrow> 'a \<Rightarrow> semantic_change list" where
  "changed_value s p enc before after =
     (if before \<noteq> after
      then [\<lparr>sc_section = s, sc_path = p, sc_classification = Changed, sc_before = Some (enc before),
             sc_after = Some (enc after)\<rparr>]
      else [])"

definition compare_string_map ::
  "semantic_section \<Rightarrow> string \<Rightarrow> (string \<times> string) list \<Rightarrow> (string \<times> string) list \<Rightarrow> semantic_change list" where
  "compare_string_map s root before after =
     concat (map (\<lambda>(i, v). case map_of after i of
         Some w \<Rightarrow> changed_value s (entity_path root i) JString v w
       | None \<Rightarrow> [removed s (entity_path root i) (JString v)]) before) @
     concat (map (\<lambda>(i, w). if map_of before i = None then [added s (entity_path root i) (JString w)] else []) after)"

definition compare_stable_id_order ::
  "semantic_section \<Rightarrow> string \<Rightarrow> string list \<Rightarrow> string list \<Rightarrow> semantic_change list" where
  "compare_stable_id_order s p before after =
     (if before = after then []
      else if btree_set before = btree_set after then changed_value s p json_strings before after
      else [])"

definition compare_messages :: "observable_message list \<Rightarrow> observable_message list \<Rightarrow> semantic_change list" where
  "compare_messages before after =
     (let before_by_id = btree_of (map (\<lambda>m. (om_message_id m, m)) before);
          after_by_id = btree_of (map (\<lambda>m. (om_message_id m, m)) after) in
      compare_stable_id_order SecMessages ''/messages/order'' (map om_message_id before) (map om_message_id after) @
      concat (map (\<lambda>(i, m).
        let root = entity_path ''/messages'' i in
        case map_of after_by_id i of
          Some m' \<Rightarrow>
            changed_value SecMessages (root @ ''/role'') json_role (om_role m) (om_role m') @
            changed_value SecMessages (root @ ''/content_hash'') json_hash (om_content_hash m) (om_content_hash m')
        | None \<Rightarrow> [removed SecMessages root (json_message m)]) before_by_id) @
      concat (map (\<lambda>(i, m).
        if map_of before_by_id i = None then [added SecMessages (entity_path ''/messages'' i) (json_message m)]
        else []) after_by_id))"

definition compare_tasks :: "pending_task list \<Rightarrow> pending_task list \<Rightarrow> semantic_change list" where
  "compare_tasks before after =
     (let before_by_id = btree_of (map (\<lambda>t. (pt_task_id t, t)) before);
          after_by_id = btree_of (map (\<lambda>t. (pt_task_id t, t)) after) in
      compare_stable_id_order SecPendingTasks ''/pending_tasks/order'' (map pt_task_id before) (map pt_task_id after) @
      concat (map (\<lambda>(i, t).
        let root = entity_path ''/pending_tasks'' i in
        case map_of after_by_id i of
          Some t' \<Rightarrow>
            changed_value SecPendingTasks (root @ ''/task_type'') JString (pt_task_type t) (pt_task_type t') @
            changed_value SecPendingTasks (root @ ''/payload_hash'') (json_option json_hash) (pt_payload_hash t) (pt_payload_hash t')
        | None \<Rightarrow> [removed SecPendingTasks root (json_task t)]) before_by_id) @
      concat (map (\<lambda>(i, t).
        if map_of before_by_id i = None then [added SecPendingTasks (entity_path ''/pending_tasks'' i) (json_task t)]
        else []) after_by_id))"

definition compare_id_collection ::
  "semantic_section \<Rightarrow> string \<Rightarrow> string list \<Rightarrow> string list \<Rightarrow> semantic_change list" where
  "compare_id_collection s root before after =
     map (\<lambda>i. removed s (entity_path root i) (JString i)) (filter (\<lambda>i. i \<notin> set after) (btree_set before)) @
     map (\<lambda>i. added s (entity_path root i) (JString i)) (filter (\<lambda>i. i \<notin> set before) (btree_set after))"

definition compare_contexts :: "application_context \<Rightarrow> application_context \<Rightarrow> semantic_change list" where
  "compare_contexts a b =
     changed_value SecApplication ''/safe_point_id'' JString (cx_safe_point_id a) (cx_safe_point_id b) @
     changed_value SecApplication ''/deterministic_seed'' json_u64 (cx_deterministic_seed a) (cx_deterministic_seed b) @
     changed_value SecApplication ''/context_revision'' json_u64 (cx_context_revision a) (cx_context_revision b) @
     changed_value SecApplication ''/model_identifier'' JString (cx_model_identifier a) (cx_model_identifier b) @
     changed_value SecCursors ''/cursors/boundary_sequence'' json_u64
       (rc_boundary_sequence (cx_cursors a)) (rc_boundary_sequence (cx_cursors b)) @
     changed_value SecCursors ''/cursors/message_cursor'' json_u64
       (rc_message_cursor (cx_cursors a)) (rc_message_cursor (cx_cursors b)) @
     changed_value SecCursors ''/cursors/tool_cursor'' json_u64
       (rc_tool_cursor (cx_cursors a)) (rc_tool_cursor (cx_cursors b)) @
     changed_value SecCursors ''/cursors/task_cursor'' json_u64
       (rc_task_cursor (cx_cursors a)) (rc_task_cursor (cx_cursors b)) @
     compare_string_map SecToolRegistry ''/tool_registry'' (cx_tool_registry a) (cx_tool_registry b) @
     compare_messages (cx_messages a) (cx_messages b) @
     compare_tasks (cx_pending_tasks a) (cx_pending_tasks b) @
     compare_id_collection SecPendingModelRequests ''/pending_model_request_ids''
       (cx_pending_model_request_ids a) (cx_pending_model_request_ids b) @
     compare_id_collection SecPendingToolCalls ''/pending_tool_call_ids''
       (cx_pending_tool_call_ids a) (cx_pending_tool_call_ids b) @
     changed_value SecMemoryReferences ''/user_visible_summary_hash'' (json_option json_hash)
       (cx_user_visible_summary_hash a) (cx_user_visible_summary_hash b)"

section \<open>Checkpoints\<close>

fun failure_code_name :: "failure_code \<Rightarrow> string" where
  "failure_code_name InvalidContext = ''invalid_context''"
| "failure_code_name MissingReference = ''missing_reference''"
| "failure_code_name Storage = ''storage''"
| "failure_code_name Integrity = ''integrity''"
| "failure_code_name Decode = ''decode''"
| "failure_code_name NonCanonical = ''non_canonical''"
| "failure_code_name MetadataMismatch = ''metadata_mismatch''"

definition validated_context ::
  "externals \<Rightarrow> context_codec \<Rightarrow> blob_store \<Rightarrow> fs \<Rightarrow> application_checkpoint \<Rightarrow> diff_side \<Rightarrow>
   (diff_error, application_context) result" where
  "validated_context X C st t a side =
     (case restore X C st a t of
        Supported c \<Rightarrow> Inr c
      | Unsupported code detail \<Rightarrow>
          (case code of
             SchemaVersion \<Rightarrow> Inl \<lparr>de_side = side, de_kind = UnsupportedSchemaDiff, de_code = ''schema_version'', de_detail = Detail detail\<rparr>
           | CooperationRequired \<Rightarrow> Inl \<lparr>de_side = side, de_kind = UnsupportedCheckpointDiff, de_code = ''cooperation_required'', de_detail = Detail detail\<rparr>)
      | FailedAt stage code detail \<Rightarrow>
          Inl \<lparr>de_side = side, de_kind = InvalidCheckpointDiff, de_code = failure_code_name code, de_detail = detail\<rparr>)"

text \<open>\<open>sort_by\<close> on path, then classification, then section, as stable sorts from the last key on.\<close>

definition sort_changes :: "semantic_change list \<Rightarrow> semantic_change list" where
  "sort_changes cs =
     sort_key sc_path (sort_key (classification_rank \<circ> sc_classification) (sort_key (section_rank \<circ> sc_section) cs))"

definition diff_application_checkpoints ::
  "externals \<Rightarrow> context_codec \<Rightarrow> blob_store \<Rightarrow> fs \<Rightarrow> application_checkpoint \<Rightarrow> application_checkpoint \<Rightarrow>
   (diff_error, application_semantic_diff) result" where
  "diff_application_checkpoints X C st t before after =
     rbind (validated_context X C st t before SideBefore) (\<lambda>a.
     rbind (validated_context X C st t after SideAfter) (\<lambda>b.
     let changes = sort_changes (compare_contexts a b) in
     Inr \<lparr>ad_schema_version = semantic_diff_schema_version, ad_before_component_hash = ck_component_hash before,
          ad_after_component_hash = ck_component_hash after, ad_identical = (changes = []),
          ad_unsupported_sections = unsupported_application_sections, ad_changes = changes\<rparr>))"

end
