(* ===== verification/Epoch_Diff_Properties.thy ===== *)
theory Epoch_Diff_Properties
  imports Epoch_Diff Epoch_Checkpoint_Properties
begin

text \<open>
  The semantic diff is exact: it is empty precisely for contexts with the same meaning, and each
  reported path names one entity.
\<close>

section \<open>Paths\<close>

lemma replace_char_simps [simp]:
  "replace_char c r [] = []" "replace_char c r (x # s) = (if x = c then r else [x]) @ replace_char c r s"
  by (simp_all add: replace_char_def)

lemma json_pointer_token_simps:
  "json_pointer_token [] = []"
  "json_pointer_token (c # s) =
     (if c = CHR ''~'' then ''~0'' else if c = CHR ''/'' then ''~1'' else [c]) @ json_pointer_token s"
  by (simp_all add: json_pointer_token_def)

lemma json_pointer_token_cancel: "json_pointer_token a = json_pointer_token b \<Longrightarrow> a = b"
proof (induction a arbitrary: b)
  case Nil
  then show ?case by (cases b) (auto simp: json_pointer_token_simps split: if_splits)
next
  case (Cons c a)
  then obtain d b' where b: "b = d # b'" by (cases b) (auto simp: json_pointer_token_simps split: if_splits)
  with Cons.prems have "c = d" "json_pointer_token a = json_pointer_token b'"
    by (auto simp: json_pointer_token_simps split: if_splits)
  with Cons.IH b show ?case by simp
qed

text \<open>A path of the diff names one entity: the escaping of identifiers in paths is injective and its
  result contains no separator, so two identifiers never share the path of an entity.\<close>

theorem entity_path_names_one:
  "(entity_path root i = entity_path root j \<longleftrightarrow> i = j) \<and> CHR ''/'' \<notin> set (json_pointer_token i)"
proof
  show "entity_path root i = entity_path root j \<longleftrightarrow> i = j"
    using json_pointer_token_cancel by (auto simp: entity_path_def)
  show "CHR ''/'' \<notin> set (json_pointer_token i)"
    by (induction i) (auto simp: json_pointer_token_simps)
qed

section \<open>Empty comparisons\<close>

lemma changed_value_empty: "changed_value s p enc a b = [] \<longleftrightarrow> a = b"
  by (simp add: changed_value_def)

lemma compare_string_map_empty:
  assumes "distinct (map fst before)" and "distinct (map fst after)"
  shows "compare_string_map s root before after = [] \<longleftrightarrow> map_of before = map_of after"
proof -
  have "compare_string_map s root before after = [] \<longleftrightarrow>
      (\<forall>(i, v) \<in> set before. map_of after i = Some v) \<and> (\<forall>(i, w) \<in> set after. map_of before i \<noteq> None)"
    unfolding compare_string_map_def changed_value_def append_is_Nil_conv concat_eq_Nil_conv
    by (intro conj_cong; auto split: option.splits if_splits; force)
  also have "\<dots> \<longleftrightarrow> map_of before = map_of after"
  proof (intro iffI ext)
    fix i
    assume "(\<forall>(i, v) \<in> set before. map_of after i = Some v) \<and> (\<forall>(i, w) \<in> set after. map_of before i \<noteq> None)"
    then show "map_of before i = map_of after i"
      by (cases "map_of before i"; cases "map_of after i") (fastforce dest: map_of_SomeD)+
  next
    assume eq: "map_of before = map_of after"
    have "map_of after i = Some v" if "(i, v) \<in> set before" for i v
      using map_of_is_SomeI [OF assms(1) that] eq by simp
    moreover have "map_of before i = Some w" if "(i, w) \<in> set after" for i w
      using map_of_is_SomeI [OF assms(2) that] eq by simp
    ultimately show "(\<forall>(i, v) \<in> set before. map_of after i = Some v) \<and> (\<forall>(i, w) \<in> set after. map_of before i \<noteq> None)"
      by auto
  qed
  finally show ?thesis .
qed

lemma compare_id_collection_empty: "compare_id_collection s root a b = [] \<longleftrightarrow> set a = set b"
  by (auto simp: compare_id_collection_def filter_empty_conv)

text \<open>
  The shape messages and tasks share: entities keyed by an identifier, compared by field, added and
  removed as a whole, and a change of order reported when the identifiers are the same.
\<close>

definition entity_changes ::
  "semantic_section \<Rightarrow> string \<Rightarrow> ('a \<Rightarrow> string) \<Rightarrow> ('a \<Rightarrow> json) \<Rightarrow> (string \<Rightarrow> 'a \<Rightarrow> 'a \<Rightarrow> semantic_change list) \<Rightarrow>
   'a list \<Rightarrow> 'a list \<Rightarrow> semantic_change list" where
  "entity_changes s root ident enc fields_of before after =
     (let before_by_id = btree_of (map (\<lambda>m. (ident m, m)) before);
          after_by_id = btree_of (map (\<lambda>m. (ident m, m)) after) in
      compare_stable_id_order s (root @ ''/order'') (map ident before) (map ident after) @
      concat (map (\<lambda>(i, m). case map_of after_by_id i of
          Some m' \<Rightarrow> fields_of (entity_path root i) m m'
        | None \<Rightarrow> [removed s (entity_path root i) (enc m)]) before_by_id) @
      concat (map (\<lambda>(i, m). if map_of before_by_id i = None then [added s (entity_path root i) (enc m)] else [])
        after_by_id))"

lemma compare_messages_entity:
  "compare_messages = entity_changes SecMessages ''/messages'' om_message_id json_message (\<lambda>p m m'.
     changed_value SecMessages (p @ ''/role'') json_role (om_role m) (om_role m') @
     changed_value SecMessages (p @ ''/content_hash'') json_hash (om_content_hash m) (om_content_hash m'))"
  by (simp add: fun_eq_iff compare_messages_def entity_changes_def Let_def)

lemma compare_tasks_entity:
  "compare_tasks = entity_changes SecPendingTasks ''/pending_tasks'' pt_task_id json_task (\<lambda>p t t'.
     changed_value SecPendingTasks (p @ ''/task_type'') JString (pt_task_type t) (pt_task_type t') @
     changed_value SecPendingTasks (p @ ''/payload_hash'') (json_option json_hash) (pt_payload_hash t) (pt_payload_hash t'))"
  by (simp add: fun_eq_iff compare_tasks_def entity_changes_def Let_def)

lemma btree_of_keyed:
  assumes "distinct (map k xs)"
  shows "map_of (btree_of (map (\<lambda>x. (k x, x)) xs)) i = Some x \<longleftrightarrow> x \<in> set xs \<and> k x = i"
proof -
  have "distinct (map fst (rev (map (\<lambda>x. (k x, x)) xs)))" using assms by (simp add: comp_def rev_map [symmetric])
  then show ?thesis by (auto simp: btree_of_lookup map_of_eq_Some_iff)
qed

lemma btree_of_keys:
  fixes k :: "'a \<Rightarrow> string"
  shows "(i, x) \<in> set (btree_of (map (\<lambda>x. (k x, x)) xs)) \<Longrightarrow> x \<in> set xs \<and> k x = i"
proof -
  have "set (btree_insert a b m) \<subseteq> insert (a, b) (set m)" for a :: string and b :: 'a and m
    by (induction m) (auto split: if_splits)
  then have "set (fold (\<lambda>(k, v). btree_insert k v) kvs m) \<subseteq> set kvs \<union> set m" for kvs :: "(string \<times> 'a) list" and m
    by (induction kvs arbitrary: m) fastforce+
  from this [of "map (\<lambda>x. (k x, x)) xs" "[]"]
  show "(i, x) \<in> set (btree_of (map (\<lambda>x. (k x, x)) xs)) \<Longrightarrow> x \<in> set xs \<and> k x = i"
    by (auto simp: btree_of_def)
qed

lemma entity_changes_empty:
  assumes "distinct (map ident before)" and "distinct (map ident after)"
    and fields_of: "\<And>p m m'. ident m = ident m' \<Longrightarrow> fields_of p m m' = [] \<longleftrightarrow> m = m'"
  shows "entity_changes s root ident enc fields_of before after = [] \<longleftrightarrow> before = after"
proof
  let ?b = "btree_of (map (\<lambda>m. (ident m, m)) before)" and ?a = "btree_of (map (\<lambda>m. (ident m, m)) after)"
  assume empty: "entity_changes s root ident enc fields_of before after = []"
  then have e1: "(case map_of ?a i of Some m' \<Rightarrow> fields_of (entity_path root i) m m'
      | None \<Rightarrow> [removed s (entity_path root i) (enc m)]) = []" if "(i, m) \<in> set ?b" for i m
    using that unfolding entity_changes_def Let_def append_is_Nil_conv concat_eq_Nil_conv by auto
  from empty have e2: "map_of ?b i \<noteq> None" if "(i, m) \<in> set ?a" for i m
    using that unfolding entity_changes_def Let_def append_is_Nil_conv concat_eq_Nil_conv
    by (force split: if_splits)
  have both: "m \<in> set after" if m: "m \<in> set before" for m
  proof -
    have "(ident m, m) \<in> set ?b" by (rule map_of_SomeD) (use btree_of_keyed [OF assms(1)] m in blast)
    from e1 [OF this] obtain m' where "map_of ?a (ident m) = Some m'" "fields_of (entity_path root (ident m)) m m' = []"
      by (auto split: option.splits)
    moreover from this have "m' \<in> set after \<and> ident m' = ident m" using btree_of_keyed [OF assms(2)] by blast
    ultimately show ?thesis using fields_of [of m m'] by simp
  qed
  have covered: "ident m \<in> ident ` set before" if m: "m \<in> set after" for m
  proof -
    have "(ident m, m) \<in> set ?a" by (rule map_of_SomeD) (use btree_of_keyed [OF assms(2)] m in blast)
    from e2 [OF this] obtain m' where "map_of ?b (ident m) = Some m'" by auto
    then have "m' \<in> set before \<and> ident m' = ident m" using btree_of_keyed [OF assms(1)] by blast
    then show ?thesis by (metis imageI)
  qed
  have ids: "set (map ident before) = set (map ident after)" using both covered by auto
  from empty have "compare_stable_id_order s (root @ ''/order'') (map ident before) (map ident after) = []"
    by (simp add: entity_changes_def Let_def)
  with ids have order: "map ident before = map ident after"
    by (simp add: compare_stable_id_order_def btree_set_eq changed_value_def split: if_splits)
  show "before = after"
  proof (rule nth_equalityI)
    show len: "length before = length after" using order by (metis length_map)
    fix i
    assume i: "i < length before"
    have "ident (before ! i) = ident (after ! i)" using order i len by (metis nth_map)
    moreover have "before ! i \<in> set after" using both i by simp
    moreover have "after ! i \<in> set after" using i len by simp
    ultimately show "before ! i = after ! i" using distinct_key_eq [OF assms(2)] by blast
  qed
next
  let ?b = "btree_of (map (\<lambda>m. (ident m, m)) before)"
  assume "before = after"
  moreover have "map_of ?b i = Some m" if "(i, m) \<in> set ?b" for i m
    using btree_of_keys [OF that] btree_of_keyed [OF assms(1)] by blast
  ultimately show "entity_changes s root ident enc fields_of before after = []"
    using fields_of by (fastforce simp: entity_changes_def Let_def compare_stable_id_order_def)
qed

section \<open>Same meaning\<close>

text \<open>Contexts with the same meaning: equal up to the order of the two sets of pending identifiers. The
  schema version is left out: restoring has checked it on both sides.\<close>

definition same_meaning :: "application_context \<Rightarrow> application_context \<Rightarrow> bool" where
  "same_meaning a b \<longleftrightarrow>
     set (cx_pending_model_request_ids a) = set (cx_pending_model_request_ids b) \<and>
     set (cx_pending_tool_call_ids a) = set (cx_pending_tool_call_ids b) \<and>
     a = b\<lparr>cx_schema_version := cx_schema_version a,
           cx_pending_model_request_ids := cx_pending_model_request_ids a,
           cx_pending_tool_call_ids := cx_pending_tool_call_ids a\<rparr>"

lemma same_meaning_fields:
  "same_meaning a b \<longleftrightarrow>
     cx_safe_point_id a = cx_safe_point_id b \<and> cx_deterministic_seed a = cx_deterministic_seed b \<and>
     cx_context_revision a = cx_context_revision b \<and> cx_model_identifier a = cx_model_identifier b \<and>
     rc_boundary_sequence (cx_cursors a) = rc_boundary_sequence (cx_cursors b) \<and>
     rc_message_cursor (cx_cursors a) = rc_message_cursor (cx_cursors b) \<and>
     rc_tool_cursor (cx_cursors a) = rc_tool_cursor (cx_cursors b) \<and>
     rc_task_cursor (cx_cursors a) = rc_task_cursor (cx_cursors b) \<and>
     cx_tool_registry a = cx_tool_registry b \<and> cx_messages a = cx_messages b \<and>
     cx_pending_tasks a = cx_pending_tasks b \<and>
     set (cx_pending_model_request_ids a) = set (cx_pending_model_request_ids b) \<and>
     set (cx_pending_tool_call_ids a) = set (cx_pending_tool_call_ids b) \<and>
     cx_user_visible_summary_hash a = cx_user_visible_summary_hash b"
proof -
  have "x = y \<longleftrightarrow> rc_boundary_sequence x = rc_boundary_sequence y \<and> rc_message_cursor x = rc_message_cursor y \<and>
      rc_tool_cursor x = rc_tool_cursor y \<and> rc_task_cursor x = rc_task_cursor y" for x y :: resume_cursors
    by (cases x; cases y) simp
  then show ?thesis by (cases a; cases b) (auto simp: same_meaning_def)
qed

text \<open>A tool registry is a map: its entries ascend by name.\<close>

definition registry_sorted :: "application_context \<Rightarrow> bool" where
  "registry_sorted c \<longleftrightarrow> sorted_wrt (<) (map fst (cx_tool_registry c))"

lemma unique_ids_Inr: "unique_ids field is seen = Inr u \<longleftrightarrow> distinct is \<and> set is \<inter> seen = {}"
  by (induction "is" arbitrary: seen) auto

lemma shape_unique:
  assumes "validate_context_shape c = Inr ()"
  shows "distinct (map om_message_id (cx_messages c))" "distinct (map pt_task_id (cx_pending_tasks c))"
proof -
  have "unique_ids ''messages.message_id'' (map om_message_id (cx_messages c)) {} = Inr ()"
    "unique_ids ''pending_tasks.task_id'' (map pt_task_id (cx_pending_tasks c)) {} = Inr ()"
    using assms unfolding validate_context_shape_def check_each_Inr by simp_all
  then show "distinct (map om_message_id (cx_messages c))" "distinct (map pt_task_id (cx_pending_tasks c))"
    by (simp_all add: unique_ids_Inr)
qed

lemma registry_eq:
  assumes "registry_sorted a" and "registry_sorted b"
  shows "map_of (cx_tool_registry a) = map_of (cx_tool_registry b) \<longleftrightarrow> cx_tool_registry a = cx_tool_registry b"
proof
  let ?a = "cx_tool_registry a" and ?b = "cx_tool_registry b"
  have s: "sorted (map fst ?a)" "distinct (map fst ?a)" "sorted (map fst ?b)" "distinct (map fst ?b)"
    using assms by (simp_all add: registry_sorted_def strict_sorted_iff)
  assume "map_of ?a = map_of ?b"
  then have "set ?a = set ?b" using s map_of_inject_set by blast
  with s show "?a = ?b" by (intro map_sorted_distinct_set_unique [where f = fst]) (simp_all add: distinct_map)
qed simp

lemma compare_contexts_empty:
  assumes "validate_context_shape a = Inr ()" "validate_context_shape b = Inr ()"
    and "registry_sorted a" "registry_sorted b"
  shows "compare_contexts a b = [] \<longleftrightarrow> same_meaning a b"
proof -
  have m: "compare_messages (cx_messages a) (cx_messages b) = [] \<longleftrightarrow> cx_messages a = cx_messages b"
    unfolding compare_messages_entity
    by (rule entity_changes_empty [OF shape_unique(1) [OF assms(1)] shape_unique(1) [OF assms(2)]])
      (auto simp: changed_value_empty intro: observable_message.equality)
  have t: "compare_tasks (cx_pending_tasks a) (cx_pending_tasks b) = [] \<longleftrightarrow> cx_pending_tasks a = cx_pending_tasks b"
    unfolding compare_tasks_entity
    by (rule entity_changes_empty [OF shape_unique(2) [OF assms(1)] shape_unique(2) [OF assms(2)]])
      (auto simp: changed_value_empty intro: pending_task.equality)
  have r: "compare_string_map SecToolRegistry ''/tool_registry'' (cx_tool_registry a) (cx_tool_registry b) = [] \<longleftrightarrow>
      cx_tool_registry a = cx_tool_registry b"
    using compare_string_map_empty registry_eq [OF assms(3,4)] assms(3,4)
    by (simp add: registry_sorted_def strict_sorted_iff)
  show ?thesis
    unfolding compare_contexts_def append_is_Nil_conv changed_value_empty m t r compare_id_collection_empty
      same_meaning_fields by blast
qed

lemma validated_context_Inr: "validated_context X C st t a side = Inr c \<longleftrightarrow> restore X C st a t = Supported c"
  by (auto simp: validated_context_def split: backend_outcome.splits unsupported_code.splits)



end
