(* ===== verification/Epoch_Recovery.thy ===== *)
theory Epoch_Recovery
  imports Epoch_Events Epoch_Protocol Epoch_Workspace Epoch_Diff
begin

text \<open>
  \<open>recovery.rs\<close> of \<open>epoch-supervisor\<close>: composite checkpoints of a completed run (its application context
  and its workspace) as epochs of the trusted database, their loading with every check of the code,
  restore, status and diff.

  The supervisor works on the blob tree, the database and the host's file tree. What it takes from
  its host (clocks, fresh identifiers, whether the database opens, interference with the blob tree)
  is the record \<open>recovery_host\<close>, the derived serializers and SQLite's \<open>json_extract\<close> are the record
  \<open>recovery_codec\<close>. The detail of an issue keeps the underlying error instead of its text, and the fixed
  part of a message without the identifiers and states formatted into it.
\<close>

section \<open>Tables\<close>

definition epoch_check :: "epoch_row \<Rightarrow> bool" where
  "epoch_check r \<longleftrightarrow>
     0 \<le> e_sequence r \<and> e_sequence r \<le> i64_max \<and> e_status r \<in> {''creating'', ''committed'', ''failed''} \<and>
     0 \<le> e_policy_revision r \<and> 0 \<le> e_effect_frontier r \<and> 0 \<le> e_created_at r \<and>
     null_or (\<lambda>c. e_created_at r \<le> c) (e_committed_at r) \<and> 0 \<le> e_capability_frontier r \<and>
     (e_status r = ''committed'' \<longleftrightarrow> e_committed_at r \<noteq> None)"

definition epoch_insert_ok :: "db \<Rightarrow> epoch_row list \<Rightarrow> epoch_row \<Rightarrow> bool" where
  "epoch_insert_ok d rows r \<longleftrightarrow>
     epoch_check r \<and> e_id r \<notin> set (map e_id rows) \<and>
     (e_branch_id r, e_sequence r) \<notin> set (map (\<lambda>e. (e_branch_id e, e_sequence e)) rows) \<and>
     branch_exists d (e_branch_id r) (e_session_id r) \<and>
     null_or (\<lambda>p. list_ex (\<lambda>e. e_id e = p \<and> e_branch_id e = e_branch_id r \<and> e_session_id e = e_session_id r)
       (rows @ [r])) (e_parent_epoch_id r) \<and>
     null_or (blob_registered d) (e_manifest_hash r)"

definition component_insert_ok :: "externals \<Rightarrow> db \<Rightarrow> component_row list \<Rightarrow> component_row \<Rightarrow> bool" where
  "component_insert_ok X d rows r \<longleftrightarrow>
     length_between (k_kind r) 1 128 \<and> k_status r \<in> {''staged'', ''committed'', ''failed''} \<and>
     length_between (k_backend r) 1 128 \<and> is_sha256_hex (k_checksum r) \<and> 0 \<le> k_byte_length r \<and>
     sqlite_json_valid X (k_metadata_json r) \<and> 0 \<le> k_staged_at r \<and>
     null_or (\<lambda>c. k_staged_at r \<le> c) (k_committed_at r) \<and>
     (k_epoch_id r, k_kind r) \<notin> set (map (\<lambda>c. (k_epoch_id c, k_kind c)) rows) \<and>
     k_epoch_id r \<in> set (map e_id (t_epochs d)) \<and> null_or (blob_registered d) (k_blob_hash r) \<and>
     (k_status r = ''committed'' \<longrightarrow> k_blob_hash r \<noteq> None \<and> k_committed_at r \<noteq> None)"

section \<open>Issues and outcomes\<close>

datatype recovery_code =
    RcBranchNameConflict | RcBranchRequired | RcDecode | RcIntegrity | RcInvalidCapture
  | RcInvalidBranchName | RcInvalidContext | RcMetadataMismatch | RcMissingReference | RcNonCanonical
  | RcNotFound | RcNoCooperativeSafePoint | RcPersistence | RcSchemaVersion | RcStorage
  | RcTargetExists | RcUnsupportedMode

fun recovery_code_as_str :: "recovery_code \<Rightarrow> string" where
  "recovery_code_as_str RcBranchNameConflict = ''branch_name_conflict''"
| "recovery_code_as_str RcBranchRequired = ''branch_required''"
| "recovery_code_as_str RcDecode = ''decode''"
| "recovery_code_as_str RcIntegrity = ''integrity''"
| "recovery_code_as_str RcInvalidCapture = ''invalid_capture''"
| "recovery_code_as_str RcInvalidBranchName = ''invalid_branch_name''"
| "recovery_code_as_str RcInvalidContext = ''invalid_context''"
| "recovery_code_as_str RcMetadataMismatch = ''metadata_mismatch''"
| "recovery_code_as_str RcMissingReference = ''missing_reference''"
| "recovery_code_as_str RcNonCanonical = ''non_canonical''"
| "recovery_code_as_str RcNotFound = ''not_found''"
| "recovery_code_as_str RcNoCooperativeSafePoint = ''no_cooperative_safe_point''"
| "recovery_code_as_str RcPersistence = ''persistence''"
| "recovery_code_as_str RcSchemaVersion = ''schema_version''"
| "recovery_code_as_str RcStorage = ''storage''"
| "recovery_code_as_str RcTargetExists = ''target_exists''"
| "recovery_code_as_str RcUnsupportedMode = ''unsupported_mode''"

datatype issue_detail =
    IssueText string
  | IssueCheckpoint failure_detail
  | IssueJournal journal_error
  | IssueWorkspace ws_error
  | IssueBlob blob_error
  | IssueProtocol protocol_error
  | IssueDiff diff_side failure_detail
  | IssueSerde string
  | IssueStore
  | IssueSql
  | IssueNumber
  | IssueId string
  | IssueClock string

record recovery_issue =
  ri_code :: recovery_code
  ri_detail :: issue_detail

datatype 'a recovery_outcome =
    RSupported 'a
  | RUnsupported recovery_issue
  | RFailed recovery_issue

datatype recovery_rejection = RejUnsupported recovery_issue | RejFailed recovery_issue

fun into_outcome :: "recovery_rejection \<Rightarrow> 'a recovery_outcome" where
  "into_outcome (RejUnsupported i) = RUnsupported i"
| "into_outcome (RejFailed i) = RFailed i"

definition recovery_issue_new :: "recovery_code \<Rightarrow> issue_detail \<Rightarrow> recovery_issue" where
  "recovery_issue_new code detail = \<lparr>ri_code = code, ri_detail = detail\<rparr>"

definition failed :: "recovery_code \<Rightarrow> issue_detail \<Rightarrow> 'a recovery_outcome" where
  "failed code detail = RFailed (recovery_issue_new code detail)"

definition failed_rejection :: "recovery_code \<Rightarrow> issue_detail \<Rightarrow> recovery_rejection" where
  "failed_rejection code detail = RejFailed (recovery_issue_new code detail)"

definition unsupported_rejection :: "recovery_code \<Rightarrow> issue_detail \<Rightarrow> recovery_rejection" where
  "unsupported_rejection code detail = RejUnsupported (recovery_issue_new code detail)"

definition map_unsupported :: "unsupported_code \<Rightarrow> string \<Rightarrow> recovery_issue" where
  "map_unsupported code detail =
     recovery_issue_new (case code of SchemaVersion \<Rightarrow> RcSchemaVersion | CooperationRequired \<Rightarrow> RcNoCooperativeSafePoint)
       (IssueText detail)"

definition map_failure :: "failure_code \<Rightarrow> failure_detail \<Rightarrow> recovery_issue" where
  "map_failure code detail =
     recovery_issue_new (case code of
         InvalidContext \<Rightarrow> RcInvalidContext
       | MissingReference \<Rightarrow> RcMissingReference
       | Storage \<Rightarrow> RcStorage
       | Integrity \<Rightarrow> RcIntegrity
       | Decode \<Rightarrow> RcDecode
       | NonCanonical \<Rightarrow> RcNonCanonical
       | MetadataMismatch \<Rightarrow> RcMetadataMismatch) (IssueCheckpoint detail)"

definition map_diff_error :: "diff_error \<Rightarrow> 'a recovery_outcome" where
  "map_diff_error e =
     (let code =
        (if de_code e = ''cooperation_required'' then RcNoCooperativeSafePoint
         else if de_code e = ''decode'' then RcDecode
         else if de_code e = ''integrity'' then RcIntegrity
         else if de_code e = ''metadata_mismatch'' then RcMetadataMismatch
         else if de_code e = ''missing_reference'' then RcMissingReference
         else if de_code e = ''non_canonical'' then RcNonCanonical
         else if de_code e = ''schema_version'' then RcSchemaVersion
         else if de_code e = ''storage'' then RcStorage
         else RcInvalidContext);
          i = recovery_issue_new code (IssueDiff (de_side e) (de_detail e)) in
      case de_kind e of
        InvalidCheckpointDiff \<Rightarrow> RFailed i
      | _ \<Rightarrow> RUnsupported i)"

definition map_workspace_error :: "ws_error \<Rightarrow> 'a recovery_outcome" where
  "map_workspace_error e =
     (let code =
        (case e of
           WTargetExists _ \<Rightarrow> RcTargetExists
         | WFutureSchema _ _ \<Rightarrow> RcSchemaVersion
         | WUnsupportedSchema _ \<Rightarrow> RcSchemaVersion
         | WBlob (BNotFound _) \<Rightarrow> RcMissingReference
         | WBlob (BHashMismatch _ _) \<Rightarrow> RcIntegrity
         | WManifestLengthMismatch _ _ \<Rightarrow> RcIntegrity
         | WReferencedBlobLengthMismatch _ _ _ \<Rightarrow> RcIntegrity
         | WNonCanonicalManifest \<Rightarrow> RcNonCanonical
         | WInvalidManifest _ \<Rightarrow> RcNonCanonical
         | WUnsafeManifestPath _ \<Rightarrow> RcNonCanonical
         | WUnsafeRestoreTarget _ \<Rightarrow> RcNonCanonical
         | WInvalidSourceRoot \<Rightarrow> RcInvalidCapture
         | WStateRootOverlapsWorkspace \<Rightarrow> RcInvalidCapture
         | WInvalidLimits \<Rightarrow> RcInvalidCapture
         | WLimitExceeded _ _ _ \<Rightarrow> RcInvalidCapture
         | WSourceChanged _ \<Rightarrow> RcInvalidCapture
         | WUnsupported _ \<Rightarrow> RcUnsupportedMode
         | _ \<Rightarrow> RcStorage);
          i = recovery_issue_new code (IssueWorkspace e) in
      case e of
        WFutureSchema _ _ \<Rightarrow> RUnsupported i
      | WUnsupportedSchema _ \<Rightarrow> RUnsupported i
      | WUnsupported _ \<Rightarrow> RUnsupported i
      | _ \<Rightarrow> RFailed i)"

section \<open>Constants\<close>

definition application_component_kind :: string where "application_component_kind = ''application_context''"
definition application_backend_name :: string where "application_backend_name = ''cooperative-w02-v1''"
definition workspace_component_kind :: string where "workspace_component_kind = ''workspace''"
definition workspace_backend_name :: string where "workspace_backend_name = ''full-copy-cas-v1''"
definition composite_backend :: string where "composite_backend = ''cooperative-w02-v1+full-copy-cas-v1''"
definition max_label_bytes :: nat where "max_label_bytes = 255"

datatype restore_scope = ApplicationContextOnly | ApplicationAndWorkspace

datatype application_restore_mode = Activate | Inspect

section \<open>Stored and captured data\<close>

record captured_state =
  cs_seed :: u64
  cs_scenario :: string
  cs_model_response_hash :: blob_hash
  cs_files :: "(string \<times> blob_hash) list"
  cs_memory :: "(nat \<times> blob_hash) option"
  cs_child :: "(int \<times> blob_hash) option"
  cs_network :: "(blob_hash \<times> blob_hash) option"
  cs_completed_tools :: "string list"

record captured_run_summary =
  cr_state :: captured_state
  cr_state_hash :: blob_hash
  cr_normalized_trace_hash :: blob_hash
  cr_event_count :: u64
  cr_checkpoint_context :: application_context

record stored_application_metadata =
  sm_schema_version :: u16
  sm_safe_point_id :: string
  sm_context_revision :: u64
  sm_boundary_sequence :: u64
  sm_restore_scope :: restore_scope
  sm_label :: "string option"

record stored_workspace_metadata =
  sw_schema_version :: u32
  sw_source :: string
  sw_restore_scope :: restore_scope

record recovery_codec =
  rk_context :: context_codec
  rk_manifest :: manifest_codec
  rk_bytes_from_value :: "json \<Rightarrow> string option"
  rk_summary_from_slice :: "string \<Rightarrow> captured_run_summary option"
  rk_state_to_vec :: "captured_state \<Rightarrow> (string, string) result"
  rk_app_to_string :: "stored_application_metadata \<Rightarrow> (string, string) result"
  rk_app_from_str :: "string \<Rightarrow> (string, stored_application_metadata) result"
  rk_ws_to_string :: "stored_workspace_metadata \<Rightarrow> (string, string) result"
  rk_ws_from_str :: "string \<Rightarrow> (string, stored_workspace_metadata) result"
  rk_json_boundary :: "string \<Rightarrow> i64 option"
  rk_wire :: wire

record supervisor =
  sv_journal_store :: blob_store
  sv_blob_root :: path

record recovery_world =
  rw_blobs :: fs
  rw_db :: db
  rw_host :: host_fs

record recovery_host =
  vh_store_open :: bool
  vh_poisoned :: bool
  vh_clock :: "(string, i64) result"
  vh_fs_clock :: i64
  vh_cwd :: path
  vh_epoch_id :: epoch_id
  vh_branch_id :: branch_id
  vh_capture :: put_host
  vh_snapshot :: "path \<Rightarrow> put_host"
  vh_restore :: restore_host
  vh_journal :: journal_host

text \<open>\<open>Value::get\<close> and indexing by a key.\<close>

definition json_at :: "string \<Rightarrow> json \<Rightarrow> json" where
  "json_at k v = (case v of JObject m \<Rightarrow> (case map_of m k of Some x \<Rightarrow> x | None \<Rightarrow> JNull) | _ \<Rightarrow> JNull)"

definition open_store :: "recovery_host \<Rightarrow> (recovery_issue, unit) result" where
  "open_store ho = (if vh_store_open ho then Inr () else Inl (recovery_issue_new RcPersistence IssueStore))"

text \<open>The two backends open the blob store again, with the limits each of them uses.\<close>

definition application_backend ::
  "externals \<Rightarrow> recovery_host \<Rightarrow> fs \<Rightarrow> (recovery_issue, blob_store) result \<times> fs" where
  "application_backend X ho t =
     (case blob_open X (vh_fs_clock ho) default_max_blob_bytes t of
        (Inl e, t') \<Rightarrow> (Inl (recovery_issue_new RcStorage (IssueBlob e)), t')
      | (Inr st, t') \<Rightarrow> (Inr st, t'))"

definition open_workspace_backend ::
  "externals \<Rightarrow> supervisor \<Rightarrow> recovery_host \<Rightarrow> fs \<Rightarrow> (recovery_issue, workspace_backend) result \<times> fs" where
  "open_workspace_backend X sv ho t =
     (case workspace_open X (vh_fs_clock ho) (sv_blob_root sv) default_limits t of
        (Inl e, t') \<Rightarrow> (Inl (recovery_issue_new RcStorage (IssueWorkspace e)), t')
      | (Inr B, t') \<Rightarrow> (Inr B, t'))"

section \<open>Branches and the captured context\<close>

definition resolve_branch ::
  "externals \<Rightarrow> recovery_host \<Rightarrow> session_id \<Rightarrow> branch_id option \<Rightarrow> db \<Rightarrow> (recovery_rejection, branch_id) result" where
  "resolve_branch X ho session requested d =
     rbind (map_err RejFailed (open_store ho)) (\<lambda>_.
     let branches = sort (map b_id (filter (\<lambda>b. b_session_id b = id_to_string X session) (t_branches d))) in
     if branches = [] then Inl (failed_rejection RcNotFound (IssueText ''session was not found''))
     else case requested of
       Some branch \<Rightarrow>
         if id_to_string X branch \<in> set branches then Inr branch
         else Inl (failed_rejection RcNotFound (IssueText ''branch does not belong to session''))
     | None \<Rightarrow>
         if length branches \<noteq> 1
         then Inl (unsupported_rejection RcBranchRequired (IssueText ''session has several branches; select one explicitly''))
         else ok_or (id_parse X (hd branches)) (failed_rejection RcPersistence (IssueId (hd branches))))"

text \<open>The events of a kind on a branch, in their order.\<close>

definition events_of_kind ::
  "externals \<Rightarrow> recovery_host \<Rightarrow> session_id \<Rightarrow> branch_id \<Rightarrow> string \<Rightarrow> db \<Rightarrow> (issue_detail, event list) result" where
  "events_of_kind X ho session branch kind d =
     rbind (map_err (\<lambda>_. IssueText ''invalid event kind'') (event_kind_new kind)) (\<lambda>k.
     map_err IssueJournal (query_events X (vh_poisoned ho)
       \<lparr>eq_session_id = session, eq_branch_id = Some branch, eq_kind = Some k, eq_sequence = None\<rparr> d))"

definition declared_workspace ::
  "externals \<Rightarrow> supervisor \<Rightarrow> recovery_host \<Rightarrow> session_id \<Rightarrow> branch_id \<Rightarrow> fs \<Rightarrow> db \<Rightarrow>
   (recovery_rejection, string) result" where
  "declared_workspace X sv ho session branch t d =
     rbind (map_err (failed_rejection RcPersistence) (events_of_kind X ho session branch ''supervisor.run_started'' d))
       (\<lambda>events.
     case events of
       [] \<Rightarrow> Inl (failed_rejection RcInvalidCapture (IssueText ''run has no declared workload workspace''))
     | event # rest \<Rightarrow>
         if rest \<noteq> [] then Inl (failed_rejection RcMetadataMismatch (IssueText ''run has multiple workspace declarations''))
         else
           rbind (map_err (\<lambda>e. failed_rejection RcPersistence (IssueJournal e)) (read_payload X (sv_journal_store sv) event t))
             (\<lambda>payload.
           rbind (ok_or (as_str (json_at ''working_directory'' payload))
               (failed_rejection RcInvalidCapture (IssueText ''run-start record has no declared workload workspace''))) (\<lambda>source.
           if source = [] \<or> CHR 0x00 \<in> set source
           then Inl (failed_rejection RcMetadataMismatch (IssueText ''declared workload workspace path is invalid''))
           else Inr source)))"

record validated_boundary =
  vb_safe_sequence :: u64
  vb_safe_point_id :: string
  vb_context_revision :: u64

definition last_event :: "string \<Rightarrow> event list \<Rightarrow> (issue_detail, event) result" where
  "last_event missing events = (if events = [] then Inl (IssueText missing) else Inr (last events))"

definition validate_boundary ::
  "externals \<Rightarrow> supervisor \<Rightarrow> recovery_host \<Rightarrow> session_id \<Rightarrow> branch_id \<Rightarrow> blob_hash \<Rightarrow> fs \<Rightarrow> db \<Rightarrow>
   (issue_detail, validated_boundary) result" where
  "validate_boundary X sv ho session branch computed t d =
     rbind (events_of_kind X ho session branch ''safe_point'' d) (\<lambda>safe_events.
     rbind (last_event ''run has no durable cooperative safe point'' safe_events) (\<lambda>safe_event.
     rbind (map_err IssueJournal (read_payload X (sv_journal_store sv) safe_event t)) (\<lambda>safe_payload.
     rbind (ok_or (as_u64 (json_at ''sequence'' safe_payload)) (IssueText ''safe point has no protocol sequence'')) (\<lambda>safe_sequence.
     rbind (ok_or (as_str (json_at ''safe_point_id'' (json_at ''payload'' safe_payload)))
         (IssueText ''safe point has no identifier'')) (\<lambda>safe_point_id.
     rbind (ok_or (Option.bind (as_str (json_at ''context_hash'' (json_at ''payload'' safe_payload))) blob_hash_from_str)
         (IssueText ''safe point has no canonical context hash'')) (\<lambda>safe_hash.
     if safe_hash \<noteq> computed then Inl (IssueText ''safe point hash does not match captured raw W02 state'')
     else
       rbind (events_of_kind X ho session branch ''context.update'' d) (\<lambda>context_events.
       rbind (last_event ''run has no durable final context update'' context_events) (\<lambda>context_event.
       if event_sequence safe_event \<le> event_sequence context_event
       then Inl (IssueText ''final context update is not causally before the safe point'')
       else
         rbind (map_err IssueJournal (read_payload X (sv_journal_store sv) context_event t)) (\<lambda>update_payload.
         rbind (ok_or (as_u64 (json_at ''revision'' (json_at ''payload'' update_payload)))
             (IssueText ''context update has no revision'')) (\<lambda>revision.
         rbind (ok_or (Option.bind (as_str (json_at ''context_hash'' (json_at ''payload'' update_payload))) blob_hash_from_str)
             (IssueText ''context update has no canonical context hash'')) (\<lambda>update_hash.
         if update_hash \<noteq> computed then Inl (IssueText ''final context update does not match captured raw W02 state'')
         else Inr \<lparr>vb_safe_sequence = safe_sequence, vb_safe_point_id = safe_point_id,
                   vb_context_revision = revision\<rparr>)))))))))))"

definition expected_tools :: "string list \<Rightarrow> (string \<times> string) list" where
  "expected_tools completed = btree_of (map (\<lambda>tool. (tool, ''fixture-v1'')) completed)"

definition validate_capture ::
  "externals \<Rightarrow> recovery_codec \<Rightarrow> supervisor \<Rightarrow> recovery_host \<Rightarrow> session_id \<Rightarrow> branch_id \<Rightarrow> captured_run_summary \<Rightarrow>
   fs \<Rightarrow> db \<Rightarrow> (issue_detail, unit) result" where
  "validate_capture X K sv ho session branch cr t d =
     rbind (map_err IssueSerde (rk_state_to_vec K (cr_state cr))) (\<lambda>state_bytes.
     let computed = blob_hash_digest X state_bytes; c = cr_checkpoint_context cr;
         completed = length (cs_completed_tools (cr_state cr)) in
     if computed \<noteq> cr_state_hash cr
     then Inl (IssueText ''captured W02 state hash does not match its raw state bytes'')
     else
       rbind (validate_boundary X sv ho session branch computed t d) (\<lambda>boundary.
       if cx_safe_point_id c \<noteq> vb_safe_point_id boundary
       then Inl (IssueText ''checkpoint context safe-point ID does not match the boundary'')
       else if cx_context_revision c \<noteq> vb_context_revision boundary
       then Inl (IssueText ''checkpoint revision does not match the final context update'')
       else if rc_boundary_sequence (cx_cursors c) \<noteq> vb_safe_sequence boundary
       then Inl (IssueText ''checkpoint boundary cursor does not match the safe point'')
       else if cx_deterministic_seed c \<noteq> cs_seed (cr_state cr)
       then Inl (IssueText ''checkpoint seed does not match captured W02 state'')
       else if rc_message_cursor (cx_cursors c) \<noteq> 2
       then Inl (IssueText ''checkpoint model cursor does not match the completed W02 exchange'')
       else if cr_event_count cr < 2 \<or> cr_event_count cr - 2 \<noteq> vb_safe_sequence boundary
       then Inl (IssueText ''checkpoint event count does not end at completion after safe point'')
       else if \<not> int completed < 2 ^ 64 then Inl IssueNumber
       else if rc_tool_cursor (cx_cursors c) \<noteq> of_nat completed \<or> rc_task_cursor (cx_cursors c) \<noteq> of_nat completed
       then Inl (IssueText ''checkpoint tool/task cursors do not match captured W02 state'')
       else if cx_tool_registry c \<noteq> expected_tools (cs_completed_tools (cr_state cr))
       then Inl (IssueText ''checkpoint tool registry does not match captured W02 state'')
       else Inr ()))"

definition capture_w02_context ::
  "externals \<Rightarrow> recovery_codec \<Rightarrow> supervisor \<Rightarrow> recovery_host \<Rightarrow> session_id \<Rightarrow> branch_id \<Rightarrow> fs \<Rightarrow> db \<Rightarrow>
   (recovery_rejection, application_context) result" where
  "capture_w02_context X K sv ho session branch t d =
     (let not_a_summary = unsupported_rejection RcNoCooperativeSafePoint
            (IssueText ''captured stderr is not a W02 checkpoint summary'') in
      rbind (map_err (failed_rejection RcPersistence) (events_of_kind X ho session branch ''process.stderr'' d)) (\<lambda>events.
      if events = []
      then Inl (unsupported_rejection RcNoCooperativeSafePoint
        (IssueText ''run did not publish a captured W02 checkpoint summary''))
      else
        rbind (map_err (\<lambda>e. failed_rejection RcPersistence (IssueJournal e))
          (read_payload X (sv_journal_store sv) (last events) t)) (\<lambda>payload.
        rbind (ok_or (rk_bytes_from_value K (json_at ''bytes'' payload)) not_a_summary) (\<lambda>bytes.
        rbind (ok_or (rk_summary_from_slice K bytes) not_a_summary) (\<lambda>captured.
        rbind (map_err (failed_rejection RcInvalidCapture) (validate_capture X K sv ho session branch captured t d)) (\<lambda>_.
        Inr (cr_checkpoint_context captured)))))))"

section \<open>Persisting an epoch\<close>

type_synonym 'a persisted = "(recovery_issue, 'a) result"

definition sql_stmt :: "'a option \<Rightarrow> 'a persisted" where
  "sql_stmt m = ok_or m (recovery_issue_new RcPersistence IssueSql)"

definition number :: "'a option \<Rightarrow> 'a persisted" where
  "number m = ok_or m (recovery_issue_new RcPersistence IssueNumber)"

definition session_branch :: "db \<Rightarrow> string \<Rightarrow> string \<Rightarrow> (session_row \<times> branch_row) option" where
  "session_branch d session branch =
     (case by_key s_id session (t_sessions d) of
        None \<Rightarrow> None
      | Some s \<Rightarrow> map_option (Pair s)
          (find (\<lambda>b. b_session_id b = s_id s \<and> b_id b = branch) (t_branches d)))"

definition ensure_completed_scope :: "externals \<Rightarrow> session_id \<Rightarrow> branch_id \<Rightarrow> db \<Rightarrow> unit persisted" where
  "ensure_completed_scope X session branch d =
     (case session_branch d (id_to_string X session) (id_to_string X branch) of
        Some (s, b) \<Rightarrow>
          if s_state s = ''completed'' \<and> b_state b = ''completed'' then Inr ()
          else Inl (recovery_issue_new RcInvalidCapture (IssueText ''checkpoint requires completed W02 state''))
      | None \<Rightarrow> Inl (recovery_issue_new RcNotFound (IssueText ''session branch was not found'')))"

text \<open>\<open>INSERT .. ON CONFLICT(hash) DO NOTHING\<close> and the check that what is registered agrees.\<close>

definition register_checked_blob ::
  "string \<Rightarrow> blob_hash \<Rightarrow> u64 \<Rightarrow> string \<Rightarrow> i64 \<Rightarrow> db \<Rightarrow> db persisted" where
  "register_checked_blob conflict h len media_type now d =
     rbind (number (i64_of_u64 len)) (\<lambda>bytes.
     let row = \<lparr>bl_hash = hash_str h, bl_byte_length = bytes, bl_media_type = media_type, bl_created_at = now\<rparr> in
     rbind (if blob_row_check row then Inr () else Inl (recovery_issue_new RcPersistence IssueSql)) (\<lambda>_.
     let d' = (if blob_registered d (hash_str h) then d else d\<lparr>t_blobs := t_blobs d @ [row]\<rparr>) in
     if list_ex (\<lambda>b. bl_hash b = hash_str h \<and> bl_byte_length b = bytes \<and> bl_media_type b = media_type) (t_blobs d')
     then Inr d' else Inl (recovery_issue_new RcMetadataMismatch (IssueText conflict))))"

definition register_component_blob :: "application_checkpoint \<Rightarrow> i64 \<Rightarrow> db \<Rightarrow> db persisted" where
  "register_component_blob a now d =
     register_checked_blob ''registered blob metadata conflicts with checkpoint component''
       (ck_component_hash a) (ck_byte_length a) application_context_media_type now d"

definition register_workspace_blob :: "manifest_ref \<Rightarrow> i64 \<Rightarrow> db \<Rightarrow> db persisted" where
  "register_workspace_blob s now d =
     register_checked_blob ''registered blob metadata conflicts with workspace component''
       (ws_manifest_hash s) (ws_manifest_length s) manifest_media_type now d"

definition next_epoch :: "externals \<Rightarrow> branch_id \<Rightarrow> db \<Rightarrow> (i64 \<times> string option) persisted" where
  "next_epoch X branch d =
     (let committed = sort_key e_sequence
            (filter (\<lambda>e. e_branch_id e = id_to_string X branch \<and> e_status e = ''committed'') (t_epochs d)) in
      if committed = [] then Inr (0, None)
      else if e_sequence (last committed) + 1 \<le> i64_max
      then Inr (e_sequence (last committed) + 1, Some (e_id (last committed)))
      else Inl (recovery_issue_new RcPersistence (IssueText ''epoch sequence overflow'')))"

definition security_frontiers :: "externals \<Rightarrow> session_id \<Rightarrow> branch_id \<Rightarrow> db \<Rightarrow> i64 \<times> i64" where
  "security_frontiers X session branch d =
     (let s = id_to_string X session; b = id_to_string X branch in
      (int (length (filter (\<lambda>c. c_session_id c = s \<and> c_branch_id c = b) (t_capabilities d))) +
       int (length (filter (\<lambda>z. d_session_id z = s \<and> d_branch_id z = b) (t_decisions d))),
       int (length (filter (\<lambda>h. list_ex (\<lambda>i. i_id i = h_effect_id h \<and> i_session_id i = s \<and> i_branch_id i = b)
         (t_intents d)) (t_transitions d)))))"

definition persisted_checkpoint :: "epoch_id \<Rightarrow> i64 \<Rightarrow> i64 \<Rightarrow> (epoch_id \<times> u64 \<times> u64) persisted" where
  "persisted_checkpoint epoch capability effect =
     rbind (number (u64_of_i64 capability)) (\<lambda>c.
     rbind (number (u64_of_i64 effect)) (\<lambda>e. Inr (epoch, c, e)))"

definition commit_composite_epoch :: "externals \<Rightarrow> epoch_id \<Rightarrow> i64 \<Rightarrow> db \<Rightarrow> db persisted" where
  "commit_composite_epoch X epoch now d =
     rbind (sql_stmt (sql_update (\<lambda>_. epoch_check) (\<lambda>e. e_id e = id_to_string X epoch \<and> e_status e = ''creating'')
         (\<lambda>e. e\<lparr>e_status := ''committed'', e_committed_at := Some now\<rparr>) (t_epochs d))) (\<lambda>(n, rows).
     if n = 1 then Inr (d\<lparr>t_epochs := rows\<rparr>)
     else Inl (recovery_issue_new RcPersistence (IssueText ''composite epoch did not transition atomically to committed'')))"

definition insert_component ::
  "externals \<Rightarrow> epoch_id \<Rightarrow> string \<Rightarrow> string \<Rightarrow> blob_hash \<Rightarrow> u64 \<Rightarrow> string \<Rightarrow> i64 \<Rightarrow> db \<Rightarrow> db persisted" where
  "insert_component X epoch kind backend h len metadata now d =
     rbind (number (i64_of_u64 len)) (\<lambda>bytes.
     rbind (sql_stmt (sql_insert (component_insert_ok X d)
       \<lparr>k_epoch_id = id_to_string X epoch, k_kind = kind, k_status = ''committed'', k_backend = backend,
        k_blob_hash = Some (hash_str h), k_checksum = hash_str h, k_byte_length = bytes,
        k_metadata_json = metadata, k_staged_at = now, k_committed_at = Some now\<rparr> (t_components d))) (\<lambda>rows.
     Inr (d\<lparr>t_components := rows\<rparr>)))"

definition persist_in_transaction ::
  "externals \<Rightarrow> recovery_codec \<Rightarrow> epoch_id \<Rightarrow> i64 \<Rightarrow> session_id \<Rightarrow> branch_id \<Rightarrow> application_checkpoint \<Rightarrow>
   manifest_ref \<Rightarrow> string \<Rightarrow> string option \<Rightarrow> db \<Rightarrow> ((i64 \<times> i64) \<times> db) persisted" where
  "persist_in_transaction X K epoch now session branch artifact snapshot source label d =
     rbind (ensure_completed_scope X session branch d) (\<lambda>_.
     rbind (register_component_blob artifact now d) (\<lambda>d1.
     rbind (register_workspace_blob snapshot now d1) (\<lambda>d2.
     rbind (next_epoch X branch d2) (\<lambda>(sequence, parent).
     let (capability, effect) = security_frontiers X session branch d2 in
     rbind (sql_stmt (map_option s_policy_revision (by_key s_id (id_to_string X session) (t_sessions d2)))) (\<lambda>policy.
     rbind (sql_stmt (sql_insert (epoch_insert_ok d2)
       \<lparr>e_id = id_to_string X epoch, e_session_id = id_to_string X session, e_branch_id = id_to_string X branch,
        e_parent_epoch_id = parent, e_sequence = sequence, e_status = ''creating'', e_backend = Some composite_backend,
        e_policy_revision = policy, e_effect_frontier = effect, e_manifest_hash = None, e_created_at = now,
        e_committed_at = None, e_capability_frontier = capability\<rparr> (t_epochs d2))) (\<lambda>epochs.
     rbind (map_err (\<lambda>e. recovery_issue_new RcPersistence (IssueSerde e)) (rk_app_to_string K
       \<lparr>sm_schema_version = ck_schema_version artifact, sm_safe_point_id = cm_safe_point_id (ck_metadata artifact),
        sm_context_revision = cm_context_revision (ck_metadata artifact),
        sm_boundary_sequence = cm_boundary_sequence (ck_metadata artifact),
        sm_restore_scope = ApplicationAndWorkspace, sm_label = label\<rparr>)) (\<lambda>metadata.
     rbind (map_err (\<lambda>e. recovery_issue_new RcPersistence (IssueSerde e)) (rk_ws_to_string K
       \<lparr>sw_schema_version = workspace_schema_version, sw_source = source, sw_restore_scope = ApplicationAndWorkspace\<rparr>)) (\<lambda>ws_metadata.
     rbind (insert_component X epoch workspace_component_kind workspace_backend_name (ws_manifest_hash snapshot)
       (ws_manifest_length snapshot) ws_metadata now (d2\<lparr>t_epochs := epochs\<rparr>)) (\<lambda>d3.
     rbind (insert_component X epoch application_component_kind application_backend_name (ck_component_hash artifact)
       (ck_byte_length artifact) metadata now d3) (\<lambda>d4.
     rbind (commit_composite_epoch X epoch now d4) (\<lambda>d5.
     Inr ((capability, effect), d5))))))))))))"

definition persist_checkpoint ::
  "externals \<Rightarrow> recovery_codec \<Rightarrow> recovery_host \<Rightarrow> session_id \<Rightarrow> branch_id \<Rightarrow> application_checkpoint \<Rightarrow>
   manifest_ref \<Rightarrow> string \<Rightarrow> string option \<Rightarrow> db \<Rightarrow> (epoch_id \<times> u64 \<times> u64) persisted \<times> db" where
  "persist_checkpoint X K ho session branch artifact snapshot source label d =
     (case rbind (map_err (\<lambda>e. recovery_issue_new RcPersistence (IssueClock e)) (vh_clock ho)) (\<lambda>now.
           rbind (open_store ho) (\<lambda>_. Inr now)) of
        Inl e \<Rightarrow> (Inl e, d)
      | Inr now \<Rightarrow>
          (case run_tx (persist_in_transaction X K (vh_epoch_id ho) now session branch artifact snapshot source label d) d of
             (Inl e, d') \<Rightarrow> (Inl e, d')
           | (Inr (capability, effect), d') \<Rightarrow> (persisted_checkpoint (vh_epoch_id ho) capability effect, d')))"

section \<open>Checkpointing\<close>

record workspace_checkpoint_report =
  wr_backend :: string
  wr_manifest_hash :: blob_hash
  wr_manifest_length :: u64
  wr_source :: string

record application_checkpoint_report =
  cp_epoch_id :: epoch_id
  cp_session_id :: session_id
  cp_branch_id :: branch_id
  cp_component_hash :: blob_hash
  cp_schema_version :: u16
  cp_safe_point_id :: string
  cp_context_revision :: u64
  cp_boundary_sequence :: u64
  cp_process_checkpointed :: bool
  cp_capability_frontier :: u64
  cp_effect_frontier :: u64
  cp_workspace :: workspace_checkpoint_report
  cp_restore_scope :: restore_scope

definition checkpoint_report ::
  "session_id \<Rightarrow> branch_id \<Rightarrow> application_checkpoint \<Rightarrow> manifest_ref \<Rightarrow> string \<Rightarrow> epoch_id \<times> u64 \<times> u64 \<Rightarrow>
   application_checkpoint_report" where
  "checkpoint_report session branch artifact snapshot source = (\<lambda>(epoch, capability, effect).
     \<lparr>cp_epoch_id = epoch, cp_session_id = session, cp_branch_id = branch,
      cp_component_hash = ck_component_hash artifact, cp_schema_version = ck_schema_version artifact,
      cp_safe_point_id = cm_safe_point_id (ck_metadata artifact),
      cp_context_revision = cm_context_revision (ck_metadata artifact),
      cp_boundary_sequence = cm_boundary_sequence (ck_metadata artifact), cp_process_checkpointed = False,
      cp_capability_frontier = capability, cp_effect_frontier = effect,
      cp_workspace = \<lparr>wr_backend = workspace_backend_name, wr_manifest_hash = ws_manifest_hash snapshot,
        wr_manifest_length = ws_manifest_length snapshot, wr_source = source\<rparr>,
      cp_restore_scope = ApplicationAndWorkspace\<rparr>)"

text \<open>From the captured context on: both components stored, then the epoch persisted.\<close>

definition checkpoint_components ::
  "externals \<Rightarrow> recovery_codec \<Rightarrow> supervisor \<Rightarrow> recovery_host \<Rightarrow> session_id \<Rightarrow> branch_id \<Rightarrow> string option \<Rightarrow>
   application_context \<Rightarrow> recovery_world \<Rightarrow> application_checkpoint_report recovery_outcome \<times> recovery_world" where
  "checkpoint_components X K sv ho session branch label context w =
     (case application_backend X ho (rw_blobs w) of
        (Inl e, t1) \<Rightarrow> (RFailed e, w\<lparr>rw_blobs := t1\<rparr>)
      | (Inr st, t1) \<Rightarrow>
     (case capture X (rk_context K) st (ph_env (vh_capture ho)) (ph_clock (vh_capture ho))
             (fst (ph_uuids (vh_capture ho))) (snd (ph_uuids (vh_capture ho))) context t1 of
        (Unsupported code detail, t2) \<Rightarrow> (RUnsupported (map_unsupported code detail), w\<lparr>rw_blobs := t2\<rparr>)
      | (FailedAt _ code detail, t2) \<Rightarrow> (RFailed (map_failure code detail), w\<lparr>rw_blobs := t2\<rparr>)
      | (Supported artifact, t2) \<Rightarrow>
     (case declared_workspace X sv ho session branch t2 (rw_db w) of
        Inl rejection \<Rightarrow> (into_outcome rejection, w\<lparr>rw_blobs := t2\<rparr>)
      | Inr source \<Rightarrow>
     (case open_workspace_backend X sv ho t2 of
        (Inl e, t3) \<Rightarrow> (RFailed e, w\<lparr>rw_blobs := t3\<rparr>)
      | (Inr B, t3) \<Rightarrow>
     (case workspace_snapshot X (rk_manifest K) B (vh_snapshot ho) (rw_host w) (vh_cwd ho) source t3 of
        (Inl e, t4) \<Rightarrow> (map_workspace_error e, w\<lparr>rw_blobs := t4\<rparr>)
      | (Inr snapshot, t4) \<Rightarrow>
     (case persist_checkpoint X K ho session branch artifact snapshot source label (rw_db w) of
        (Inl e, d) \<Rightarrow> (RFailed e, w\<lparr>rw_blobs := t4, rw_db := d\<rparr>)
      | (Inr persisted, d) \<Rightarrow>
          (RSupported (checkpoint_report session branch artifact snapshot source persisted),
           w\<lparr>rw_blobs := t4, rw_db := d\<rparr>)))))))"

definition checkpoint_application ::
  "externals \<Rightarrow> recovery_codec \<Rightarrow> supervisor \<Rightarrow> recovery_host \<Rightarrow> session_id \<Rightarrow> branch_id option \<Rightarrow> string option \<Rightarrow>
   recovery_world \<Rightarrow> application_checkpoint_report recovery_outcome \<times> recovery_world" where
  "checkpoint_application X K sv ho session requested label w =
     (if (case label of None \<Rightarrow> False | Some l \<Rightarrow> max_label_bytes < length l \<or> CHR 0x00 \<in> set l)
      then (failed RcInvalidCapture (IssueText ''checkpoint label must be at most 255 bytes''), w)
      else case resolve_branch X ho session requested (rw_db w) of
        Inl rejection \<Rightarrow> (into_outcome rejection, w)
      | Inr branch \<Rightarrow>
          (case capture_w02_context X K sv ho session branch (rw_blobs w) (rw_db w) of
             Inl rejection \<Rightarrow> (into_outcome rejection, w)
           | Inr context \<Rightarrow> checkpoint_components X K sv ho session branch label context w))"

section \<open>Loading an epoch\<close>

record loaded_epoch =
  le_epoch_id :: epoch_id
  le_session_id :: session_id
  le_branch_id :: branch_id
  le_artifact :: application_checkpoint
  le_workspace :: manifest_ref
  le_workspace_source :: string
  le_capability_frontier :: u64
  le_effect_frontier :: u64

text \<open>The components of an epoch of a kind, joined with their registered blobs.\<close>

definition component_rows :: "db \<Rightarrow> string \<Rightarrow> string \<Rightarrow> (component_row \<times> blob_row) list" where
  "component_rows d epoch kind =
     concat (map (\<lambda>c. map (Pair c) (filter (\<lambda>b. k_blob_hash c = Some (bl_hash b)) (t_blobs d)))
       (filter (\<lambda>c. k_epoch_id c = epoch \<and> k_kind c = kind) (t_components d)))"

definition load_application_epoch_row ::
  "externals \<Rightarrow> epoch_id \<Rightarrow> db \<Rightarrow> (recovery_rejection, (epoch_row \<times> string \<times> component_row \<times> blob_row) option) result" where
  "load_application_epoch_row X epoch d =
     (case by_key e_id (id_to_string X epoch) (t_epochs d) of
        None \<Rightarrow> Inr None
      | Some e \<Rightarrow>
          (case component_rows d (e_id e) application_component_kind of
             [] \<Rightarrow> Inr None
           | (c, b) # _ \<Rightarrow>
               (case e_backend e of
                  None \<Rightarrow> Inl (failed_rejection RcPersistence IssueSql)
                | Some backend \<Rightarrow> Inr (Some (e, backend, c, b)))))"

definition mismatch :: "issue_detail \<Rightarrow> recovery_rejection" where
  "mismatch detail = failed_rejection RcMetadataMismatch detail"

definition parse_application_component ::
  "externals \<Rightarrow> string \<Rightarrow> string \<Rightarrow> string \<Rightarrow> i64 \<Rightarrow>
   (recovery_rejection, session_id \<times> branch_id \<times> blob_hash \<times> u64) result" where
  "parse_application_component X session branch h len =
     rbind (ok_or (id_parse X session) (mismatch (IssueId session))) (\<lambda>s.
     rbind (ok_or (id_parse X branch) (mismatch (IssueId branch))) (\<lambda>b.
     rbind (ok_or (blob_hash_from_str h) (mismatch (IssueId h))) (\<lambda>bh.
     rbind (ok_or (u64_of_i64 len) (mismatch IssueNumber)) (\<lambda>l. Inr (s, b, bh, l)))))"

definition component_hash_text :: "component_row \<Rightarrow> string" where
  "component_hash_text c = (case k_blob_hash c of Some h \<Rightarrow> h | None \<Rightarrow> [])"

definition load_workspace_component ::
  "externals \<Rightarrow> recovery_codec \<Rightarrow> epoch_id \<Rightarrow> db \<Rightarrow> (recovery_rejection, manifest_ref \<times> string) result" where
  "load_workspace_component X K epoch d =
     (if length (filter (\<lambda>c. k_epoch_id c = id_to_string X epoch) (t_components d)) \<noteq> 2
      then Inl (mismatch (IssueText ''composite epoch must contain exactly application and workspace components''))
      else case component_rows d (id_to_string X epoch) workspace_component_kind of
        [] \<Rightarrow> Inl (mismatch (IssueText ''composite epoch has no workspace component''))
      | (c, b) # _ \<Rightarrow>
          if k_status c \<noteq> ''committed'' \<or> k_backend c \<noteq> workspace_backend_name \<or>
             component_hash_text c \<noteq> k_checksum c \<or> k_byte_length c \<noteq> bl_byte_length b \<or>
             bl_media_type b \<noteq> manifest_media_type
          then Inl (mismatch (IssueText ''workspace epoch metadata is inconsistent''))
          else
            rbind (map_err (\<lambda>e. mismatch (IssueSerde e)) (rk_ws_from_str K (k_metadata_json c))) (\<lambda>metadata.
            if sw_schema_version metadata \<noteq> workspace_schema_version \<or>
               sw_restore_scope metadata \<noteq> ApplicationAndWorkspace \<or> sw_source metadata = []
            then Inl (mismatch (IssueText ''workspace epoch component metadata is invalid''))
            else
              rbind (ok_or (blob_hash_from_str (component_hash_text c)) (mismatch (IssueId (component_hash_text c)))) (\<lambda>h.
              rbind (ok_or (u64_of_i64 (k_byte_length c)) (mismatch IssueNumber)) (\<lambda>len.
              Inr (\<lparr>ws_manifest_hash = h, ws_manifest_length = len\<rparr>, sw_source metadata)))))"

definition load_epoch ::
  "externals \<Rightarrow> recovery_codec \<Rightarrow> recovery_host \<Rightarrow> epoch_id \<Rightarrow> db \<Rightarrow> (recovery_rejection, loaded_epoch) result" where
  "load_epoch X K ho epoch d =
     rbind (map_err RejFailed (open_store ho)) (\<lambda>_.
     rbind (load_application_epoch_row X epoch d) (\<lambda>row.
     case row of
       None \<Rightarrow> Inl (failed_rejection RcNotFound (IssueText ''committed application epoch was not found''))
     | Some (e, backend, c, b) \<Rightarrow>
         if e_status e \<noteq> ''committed'' \<or> backend \<noteq> composite_backend \<or> k_status c \<noteq> ''committed'' \<or>
            k_backend c \<noteq> application_backend_name \<or> k_checksum c \<noteq> component_hash_text c \<or>
            k_byte_length c \<noteq> bl_byte_length b \<or> bl_media_type b \<noteq> application_context_media_type
         then Inl (mismatch (IssueText ''application epoch metadata is inconsistent''))
         else
           rbind (map_err (\<lambda>err. mismatch (IssueSerde err)) (rk_app_from_str K (k_metadata_json c))) (\<lambda>metadata.
           if sm_restore_scope metadata \<noteq> ApplicationAndWorkspace
           then Inl (mismatch (IssueText ''application epoch has an invalid restore scope''))
           else
             rbind (parse_application_component X (e_session_id e) (e_branch_id e) (component_hash_text c) (k_byte_length c))
               (\<lambda>(session, branch, h, len).
             rbind (load_workspace_component X K epoch d) (\<lambda>(workspace, source).
             rbind (ok_or (u64_of_i64 (e_capability_frontier e)) (mismatch IssueNumber)) (\<lambda>capability.
             rbind (ok_or (u64_of_i64 (e_effect_frontier e)) (mismatch IssueNumber)) (\<lambda>effect.
             Inr \<lparr>le_epoch_id = epoch, le_session_id = session, le_branch_id = branch,
                  le_artifact = \<lparr>ck_component_hash = h, ck_byte_length = len,
                    ck_schema_version = sm_schema_version metadata,
                    ck_metadata = \<lparr>cm_safe_point_id = sm_safe_point_id metadata,
                      cm_context_revision = sm_context_revision metadata,
                      cm_boundary_sequence = sm_boundary_sequence metadata\<rparr>\<rparr>,
                  le_workspace = workspace, le_workspace_source = source,
                  le_capability_frontier = capability, le_effect_frontier = effect\<rparr>)))))))"

section \<open>Restoring\<close>

record application_restore_report =
  ar_epoch_id :: epoch_id
  ar_session_id :: session_id
  ar_branch_id :: branch_id
  ar_component_hash :: blob_hash
  ar_context :: application_context
  ar_activated :: bool
  ar_process_restored :: bool
  ar_workspace_restored :: bool
  ar_workspace_target :: "string option"
  ar_restore_scope :: restore_scope

definition scope_name :: "restore_scope \<Rightarrow> string" where
  "scope_name s = (case s of ApplicationContextOnly \<Rightarrow> ''application_context_only''
     | ApplicationAndWorkspace \<Rightarrow> ''application_and_workspace'')"

definition activation_payload ::
  "externals \<Rightarrow> loaded_epoch \<Rightarrow> application_context \<Rightarrow> string option \<Rightarrow> json" where
  "activation_payload X l c target = JObject
     [(''boundary_sequence'', json_u64 (rc_boundary_sequence (cx_cursors c))),
      (''context_revision'', json_u64 (cx_context_revision c)),
      (''epoch_id'', JString (id_to_string X (le_epoch_id l))),
      (''process_restored'', JBool False),
      (''restore_scope'', JString (scope_name ApplicationAndWorkspace)),
      (''safe_point_id'', JString (cx_safe_point_id c)),
      (''workspace_restored'', JBool True),
      (''workspace_source'', JString (le_workspace_source l)),
      (''workspace_target'', json_option JString target)]"

definition record_activation ::
  "externals \<Rightarrow> supervisor \<Rightarrow> recovery_host \<Rightarrow> loaded_epoch \<Rightarrow> application_context \<Rightarrow> string option \<Rightarrow>
   fs \<times> db \<Rightarrow> unit persisted \<times> (fs \<times> db)" where
  "record_activation X sv ho l c target s =
     (case rbind (map_err (\<lambda>_. recovery_issue_new RcPersistence (IssueText ''invalid event kind''))
             (event_kind_new ''application.context_restored'')) (\<lambda>kind.
           rbind (map_err (\<lambda>e. recovery_issue_new RcPersistence (IssueClock e)) (vh_clock ho)) (\<lambda>now. Inr (kind, now))) of
        Inl e \<Rightarrow> (Inl e, s)
      | Inr (kind, now) \<Rightarrow>
          (let (r, s') = append_event X (sv_journal_store sv) (vh_journal ho)
             \<lparr>ne_session_id = le_session_id l, ne_branch_id = le_branch_id l, ne_epoch_id = Some (le_epoch_id l),
              ne_causal_parent = None, ne_monotonic_ns = 0, ne_occurred_at = now, ne_actor = Supervisor,
              ne_kind = kind, ne_input_hash = None, ne_output_hash = Some (ck_component_hash (le_artifact l)),
              ne_status = Succeeded, ne_payload = activation_payload X l c target\<rparr> s in
           (map_err (\<lambda>e. recovery_issue_new RcPersistence (IssueJournal e)) (rbind r (\<lambda>_. Inr ())), s')))"

text \<open>Loading, and both components validated: what every use of an epoch begins with.\<close>

definition validated_epoch ::
  "externals \<Rightarrow> recovery_codec \<Rightarrow> supervisor \<Rightarrow> recovery_host \<Rightarrow> epoch_id \<Rightarrow> fs \<Rightarrow> db \<Rightarrow>
   (loaded_epoch \<times> application_context \<times> workspace_backend) recovery_outcome \<times> fs" where
  "validated_epoch X K sv ho epoch t d =
     (case load_epoch X K ho epoch d of
        Inl rejection \<Rightarrow> (into_outcome rejection, t)
      | Inr l \<Rightarrow>
     (case application_backend X ho t of
        (Inl e, t1) \<Rightarrow> (RFailed e, t1)
      | (Inr st, t1) \<Rightarrow>
     (case restore X (rk_context K) st (le_artifact l) t1 of
        Unsupported code detail \<Rightarrow> (RUnsupported (map_unsupported code detail), t1)
      | FailedAt _ code detail \<Rightarrow> (RFailed (map_failure code detail), t1)
      | Supported c \<Rightarrow>
     (case open_workspace_backend X sv ho t1 of
        (Inl e, t2) \<Rightarrow> (RFailed e, t2)
      | (Inr B, t2) \<Rightarrow>
     (case workspace_validate X (rk_manifest K) B (le_workspace l) t2 of
        Inl e \<Rightarrow> (map_workspace_error e, t2)
      | Inr _ \<Rightarrow> (RSupported (l, c, B), t2))))))"

definition restore_report_from ::
  "loaded_epoch \<Rightarrow> application_context \<Rightarrow> bool \<Rightarrow> string option \<Rightarrow> application_restore_report" where
  "restore_report_from l c activated target =
     \<lparr>ar_epoch_id = le_epoch_id l, ar_session_id = le_session_id l, ar_branch_id = le_branch_id l,
      ar_component_hash = ck_component_hash (le_artifact l), ar_context = c, ar_activated = activated,
      ar_process_restored = False, ar_workspace_restored = activated, ar_workspace_target = target,
      ar_restore_scope = ApplicationAndWorkspace\<rparr>"

definition restore_application ::
  "externals \<Rightarrow> recovery_codec \<Rightarrow> supervisor \<Rightarrow> recovery_host \<Rightarrow> epoch_id \<Rightarrow> application_restore_mode \<Rightarrow>
   string option \<Rightarrow> recovery_world \<Rightarrow> application_restore_report recovery_outcome \<times> recovery_world" where
  "restore_application X K sv ho epoch mode target w =
     (case validated_epoch X K sv ho epoch (rw_blobs w) (rw_db w) of
        (RUnsupported i, t) \<Rightarrow> (RUnsupported i, w\<lparr>rw_blobs := t\<rparr>)
      | (RFailed i, t) \<Rightarrow> (RFailed i, w\<lparr>rw_blobs := t\<rparr>)
      | (RSupported (l, c, B), t) \<Rightarrow>
          if mode = Inspect then (RSupported (restore_report_from l c False target), w\<lparr>rw_blobs := t\<rparr>)
          else (case target of
              None \<Rightarrow> (failed RcInvalidCapture (IssueText ''strict composite restore requires --workspace-target''),
                w\<lparr>rw_blobs := t\<rparr>)
            | Some raw \<Rightarrow>
                (case workspace_restore X (rk_manifest K) B (vh_restore ho) (le_workspace l) raw t (rw_host w) of
                   (Inl e, h) \<Rightarrow> (map_workspace_error e, w\<lparr>rw_blobs := t, rw_host := h\<rparr>)
                 | (Inr _, h) \<Rightarrow>
                     (case record_activation X sv ho l c target (t, rw_db w) of
                        (Inl e, (t', d)) \<Rightarrow> (RFailed e, \<lparr>rw_blobs = t', rw_db = d, rw_host = h\<rparr>)
                      | (Inr _, (t', d)) \<Rightarrow>
                          (RSupported (restore_report_from l c True target), \<lparr>rw_blobs = t', rw_db = d, rw_host = h\<rparr>)))))"

section \<open>Comparing epochs\<close>

record workspace_epoch_diff =
  wd_identical :: bool
  wd_before_manifest_hash :: blob_hash
  wd_after_manifest_hash :: blob_hash

record security_frontier_diff =
  fd_before_frontier :: u64
  fd_after_frontier :: u64
  fd_current_before_scope :: u64
  fd_current_after_scope :: u64
  fd_changed_between_epochs :: bool
  fd_advanced_since_before :: bool
  fd_advanced_since_after :: bool

record application_epoch_diff_report =
  dr_before_epoch_id :: epoch_id
  dr_after_epoch_id :: epoch_id
  dr_diff :: application_semantic_diff
  dr_workspace :: workspace_epoch_diff
  dr_capabilities :: security_frontier_diff
  dr_effects :: security_frontier_diff

definition frontier_diff :: "u64 \<Rightarrow> u64 \<Rightarrow> u64 \<Rightarrow> u64 \<Rightarrow> security_frontier_diff" where
  "frontier_diff before after current_before current_after =
     \<lparr>fd_before_frontier = before, fd_after_frontier = after, fd_current_before_scope = current_before,
      fd_current_after_scope = current_after, fd_changed_between_epochs = (before \<noteq> after),
      fd_advanced_since_before = (before < current_before), fd_advanced_since_after = (after < current_after)\<rparr>"

definition current_security_frontiers ::
  "externals \<Rightarrow> recovery_host \<Rightarrow> session_id \<Rightarrow> branch_id \<Rightarrow> db \<Rightarrow> (u64 \<times> u64) persisted" where
  "current_security_frontiers X ho session branch d =
     rbind (open_store ho) (\<lambda>_.
     let (capabilities, effects) = security_frontiers X session branch d in
     rbind (number (u64_of_i64 capabilities)) (\<lambda>c.
     rbind (number (u64_of_i64 effects)) (\<lambda>e. Inr (c, e))))"

definition workspace_diff :: "manifest_ref \<Rightarrow> manifest_ref \<Rightarrow> workspace_epoch_diff" where
  "workspace_diff before after =
     \<lparr>wd_identical = (ws_manifest_hash before = ws_manifest_hash after),
      wd_before_manifest_hash = ws_manifest_hash before, wd_after_manifest_hash = ws_manifest_hash after\<rparr>"

text \<open>What is read before the checkpoints are compared: both epochs, then the frontiers of both scopes.\<close>

definition load_pair ::
  "externals \<Rightarrow> recovery_codec \<Rightarrow> recovery_host \<Rightarrow> epoch_id \<Rightarrow> epoch_id \<Rightarrow> db \<Rightarrow>
   (recovery_rejection, (loaded_epoch \<times> u64 \<times> u64) \<times> (loaded_epoch \<times> u64 \<times> u64)) result" where
  "load_pair X K ho before_id after_id d =
     rbind (load_epoch X K ho before_id d) (\<lambda>before.
     rbind (load_epoch X K ho after_id d) (\<lambda>after.
     rbind (map_err RejFailed (current_security_frontiers X ho (le_session_id before) (le_branch_id before) d)) (\<lambda>fb.
     rbind (map_err RejFailed (current_security_frontiers X ho (le_session_id after) (le_branch_id after) d)) (\<lambda>fa.
     Inr ((before, fb), (after, fa))))))"

definition diff_application_epochs ::
  "externals \<Rightarrow> recovery_codec \<Rightarrow> recovery_host \<Rightarrow> epoch_id \<Rightarrow> epoch_id \<Rightarrow> recovery_world \<Rightarrow>
   application_epoch_diff_report recovery_outcome \<times> recovery_world" where
  "diff_application_epochs X K ho before_id after_id w =
     (case load_pair X K ho before_id after_id (rw_db w) of
        Inl rejection \<Rightarrow> (into_outcome rejection, w)
      | Inr ((before, cb, eb), (after, ca, ea)) \<Rightarrow>
     (case application_backend X ho (rw_blobs w) of
        (Inl e, t) \<Rightarrow> (RFailed e, w\<lparr>rw_blobs := t\<rparr>)
      | (Inr st, t) \<Rightarrow>
          ((case diff_application_checkpoints X (rk_context K) st t (le_artifact before) (le_artifact after) of
              Inl e \<Rightarrow> map_diff_error e
            | Inr diff \<Rightarrow> RSupported
                \<lparr>dr_before_epoch_id = before_id, dr_after_epoch_id = after_id, dr_diff = diff,
                 dr_workspace = workspace_diff (le_workspace before) (le_workspace after),
                 dr_capabilities = frontier_diff (le_capability_frontier before) (le_capability_frontier after) cb ca,
                 dr_effects = frontier_diff (le_effect_frontier before) (le_effect_frontier after) eb ea\<rparr>),
           w\<lparr>rw_blobs := t\<rparr>)))"

section \<open>Status of a branch\<close>

record application_source =
  va_epoch_id :: epoch_id
  va_session_id :: session_id
  va_branch_id :: branch_id
  va_component_hash :: blob_hash
  va_context :: application_context
  va_effect_frontier :: u64

definition source_of :: "loaded_epoch \<Rightarrow> application_context \<Rightarrow> application_source" where
  "source_of l c =
     \<lparr>va_epoch_id = le_epoch_id l, va_session_id = le_session_id l, va_branch_id = le_branch_id l,
      va_component_hash = ck_component_hash (le_artifact l), va_context = c,
      va_effect_frontier = le_effect_frontier l\<rparr>"

definition validated_application_source ::
  "externals \<Rightarrow> recovery_codec \<Rightarrow> supervisor \<Rightarrow> recovery_host \<Rightarrow> epoch_id \<Rightarrow> fs \<Rightarrow> db \<Rightarrow>
   application_source recovery_outcome \<times> fs" where
  "validated_application_source X K sv ho epoch t d =
     (case validated_epoch X K sv ho epoch t d of
        (RUnsupported i, t') \<Rightarrow> (RUnsupported i, t')
      | (RFailed i, t') \<Rightarrow> (RFailed i, t')
      | (RSupported (l, c, B), t') \<Rightarrow> (RSupported (source_of l c), t'))"

record application_status_report =
  st_session_id :: session_id
  st_branch_id :: branch_id
  st_session_state :: string
  st_current_epoch_id :: "epoch_id option"
  st_context :: "application_context option"
  st_inherited_from_parent :: bool
  st_restore_scope :: restore_scope

definition status_report ::
  "session_id \<Rightarrow> branch_id \<Rightarrow> string \<Rightarrow> (epoch_id \<times> application_context) option \<Rightarrow> bool \<Rightarrow> application_status_report" where
  "status_report session branch state current inherited =
     \<lparr>st_session_id = session, st_branch_id = branch, st_session_state = state,
      st_current_epoch_id = map_option fst current, st_context = map_option snd current,
      st_inherited_from_parent = inherited, st_restore_scope = ApplicationAndWorkspace\<rparr>"

definition lineage_matches ::
  "externals \<Rightarrow> session_id \<Rightarrow> string \<Rightarrow> string \<Rightarrow> u64 \<Rightarrow> application_source \<Rightarrow> bool" where
  "lineage_matches X session parent component point source \<longleftrightarrow>
     va_session_id source = session \<and> id_to_string X (va_branch_id source) = parent \<and>
     hash_str (va_component_hash source) = component \<and>
     rc_boundary_sequence (cx_cursors (va_context source)) = point"

definition status_without_activation ::
  "externals \<Rightarrow> recovery_codec \<Rightarrow> supervisor \<Rightarrow> recovery_host \<Rightarrow> session_id \<Rightarrow> branch_id \<Rightarrow> string \<Rightarrow> branch_row \<Rightarrow>
   recovery_world \<Rightarrow> application_status_report recovery_outcome \<times> recovery_world" where
  "status_without_activation X K sv ho session branch state b w =
     (case (b_parent_branch_id b, b_fork_epoch_id b, b_fork_point_sequence b, b_fork_component_hash b) of
        (Some parent, Some epoch_text, Some point, Some component) \<Rightarrow>
          (case id_parse X epoch_text of
             None \<Rightarrow> (failed RcMetadataMismatch (IssueId epoch_text), w)
           | Some epoch \<Rightarrow>
               (case validated_application_source X K sv ho epoch (rw_blobs w) (rw_db w) of
                  (RUnsupported i, t) \<Rightarrow> (RUnsupported i, w\<lparr>rw_blobs := t\<rparr>)
                | (RFailed i, t) \<Rightarrow> (RFailed i, w\<lparr>rw_blobs := t\<rparr>)
                | (RSupported source, t) \<Rightarrow>
                    (case u64_of_i64 point of
                       None \<Rightarrow> (failed RcMetadataMismatch IssueNumber, w\<lparr>rw_blobs := t\<rparr>)
                     | Some expected \<Rightarrow>
                         (if lineage_matches X session parent component expected source
                          then (RSupported (status_report session branch state
                            (Some (epoch, va_context source)) True), w\<lparr>rw_blobs := t\<rparr>)
                          else (failed RcMetadataMismatch
                            (IssueText ''fork lineage does not match its validated application checkpoint''),
                            w\<lparr>rw_blobs := t\<rparr>)))))
      | (None, None, None, None) \<Rightarrow> (RSupported (status_report session branch state None False), w)
      | _ \<Rightarrow> (failed RcMetadataMismatch (IssueText ''branch has partial fork lineage''), w))"

text \<open>The latest activation on a branch, validated again.\<close>

definition status_of_activation ::
  "externals \<Rightarrow> recovery_codec \<Rightarrow> supervisor \<Rightarrow> recovery_host \<Rightarrow> session_id \<Rightarrow> branch_id \<Rightarrow> string \<Rightarrow> event \<Rightarrow>
   recovery_world \<Rightarrow> application_status_report recovery_outcome \<times> recovery_world" where
  "status_of_activation X K sv ho session branch state event w =
     (case read_payload X (sv_journal_store sv) event (rw_blobs w) of
        Inl e \<Rightarrow> (failed RcPersistence (IssueJournal e), w)
      | Inr payload \<Rightarrow>
     (case Option.bind (as_str (json_at ''epoch_id'' payload)) (id_parse X) of
        None \<Rightarrow> (failed RcMetadataMismatch (IssueText ''restored application event has no valid epoch ID''), w)
      | Some epoch \<Rightarrow>
     (case restore_application X K sv ho epoch Inspect None w of
        (RUnsupported i, w') \<Rightarrow> (RUnsupported i, w')
      | (RFailed i, w') \<Rightarrow> (RFailed i, w')
      | (RSupported restored, w') \<Rightarrow>
          (if ar_session_id restored \<noteq> session \<or> ar_branch_id restored \<noteq> branch
           then (failed RcMetadataMismatch (IssueText ''restored application event points outside its branch''), w')
           else (RSupported (status_report session branch state (Some (epoch, ar_context restored)) False), w')))))"

definition application_status ::
  "externals \<Rightarrow> recovery_codec \<Rightarrow> supervisor \<Rightarrow> recovery_host \<Rightarrow> session_id \<Rightarrow> branch_id option \<Rightarrow>
   recovery_world \<Rightarrow> application_status_report recovery_outcome \<times> recovery_world" where
  "application_status X K sv ho session requested w =
     (case resolve_branch X ho session requested (rw_db w) of
        Inl rejection \<Rightarrow> (into_outcome rejection, w)
      | Inr branch \<Rightarrow>
     (case rbind (open_store ho) (\<lambda>_. sql_stmt (session_branch (rw_db w) (id_to_string X session) (id_to_string X branch))) of
        Inl i \<Rightarrow> (RFailed i, w)
      | Inr (s, b) \<Rightarrow>
     (case events_of_kind X ho session branch ''application.context_restored'' (rw_db w) of
        Inl detail \<Rightarrow> (failed RcPersistence detail, w)
      | Inr events \<Rightarrow>
          (if events = [] then status_without_activation X K sv ho session branch (s_state s) b w
           else status_of_activation X K sv ho session branch (s_state s) (last events) w))))"

end
