(* ===== verification/Epoch_Fork.thy ===== *)
theory Epoch_Fork
  imports Epoch_Recovery
begin

text \<open>
  \<open>fork.rs\<close> of \<open>epoch-supervisor\<close> with the constraints and triggers of \<open>0005_durable_branch_forks.sql\<close>:
  a logical child branch made from a validated committed epoch, its inspection after a restart, and
  the recorded results the fork could replay.
\<close>

section \<open>The table of branches\<close>

definition is_name_byte :: "char \<Rightarrow> bool" where
  "is_name_byte c \<longleftrightarrow> is_ascii_lowercase c \<or> is_ascii_digit c \<or> c \<in> {CHR ''.'', CHR ''_'', CHR ''-''}"

text \<open>SQLite's \<open>length\<close>, \<open>substr\<close> and \<open>GLOB\<close> read a text up to its first NUL.\<close>

definition stored_name_ok :: "string \<Rightarrow> bool" where
  "stored_name_ok name \<longleftrightarrow>
     length_between name 1 64 \<and>
     (case takeWhile (\<lambda>c. byte c \<noteq> 0) name of
        [] \<Rightarrow> False
      | c # rest \<Rightarrow> (is_ascii_lowercase c \<or> is_ascii_digit c) \<and> list_all is_name_byte (c # rest))"

definition branch_check :: "branch_row \<Rightarrow> bool" where
  "branch_check r \<longleftrightarrow>
     b_state r \<in> {''created'', ''running'', ''suspended'', ''completed'', ''promoted'', ''abandoned'', ''failed''} \<and>
     0 \<le> b_next_event_sequence r \<and> 0 \<le> b_created_at r \<and> b_created_at r \<le> b_updated_at r \<and>
     null_or stored_name_ok (b_name r) \<and> null_or (\<lambda>p. 0 \<le> p) (b_fork_point_sequence r) \<and>
     null_or is_sha256_hex (b_fork_component_hash r)"

text \<open>\<open>branches_validate_fork_lineage_insert\<close>.\<close>

definition lineage_complete :: "branch_row \<Rightarrow> bool" where
  "lineage_complete r \<longleftrightarrow>
     (b_parent_branch_id r = None) = (b_fork_epoch_id r = None) \<and>
     (b_parent_branch_id r = None) = (b_name r = None) \<and>
     (b_parent_branch_id r = None) = (b_fork_point_sequence r = None) \<and>
     (b_parent_branch_id r = None) = (b_fork_component_hash r = None)"

text \<open>The query of \<open>ensure_source_unchanged\<close> and of the trigger \<open>branches_validate_fork_source_insert\<close>.\<close>

definition committed_source ::
  "recovery_codec \<Rightarrow> db \<Rightarrow> string \<Rightarrow> string \<Rightarrow> string \<Rightarrow> string \<Rightarrow> i64 \<Rightarrow> bool" where
  "committed_source K d epoch session branch component point \<longleftrightarrow>
     list_ex (\<lambda>e. e_id e = epoch \<and> e_session_id e = session \<and> e_branch_id e = branch \<and> e_status e = ''committed'' \<and>
       list_ex (\<lambda>c. k_epoch_id c = e_id e \<and> k_kind c = application_component_kind \<and> k_status c = ''committed'' \<and>
         k_blob_hash c = Some component \<and> rk_json_boundary K (k_metadata_json c) = Some point) (t_components d))
       (t_epochs d)"

definition fork_source_ok :: "recovery_codec \<Rightarrow> db \<Rightarrow> branch_row \<Rightarrow> bool" where
  "fork_source_ok K d r \<longleftrightarrow>
     (case (b_fork_epoch_id r, b_parent_branch_id r, b_fork_component_hash r, b_fork_point_sequence r) of
        (None, _) \<Rightarrow> True
      | (Some epoch, Some parent, Some component, Some point) \<Rightarrow>
          committed_source K d epoch (b_session_id r) parent component point
      | _ \<Rightarrow> False)"

definition branch_insert_ok :: "recovery_codec \<Rightarrow> db \<Rightarrow> branch_row list \<Rightarrow> branch_row \<Rightarrow> bool" where
  "branch_insert_ok K d rows r \<longleftrightarrow>
     branch_check r \<and> lineage_complete r \<and> fork_source_ok K d r \<and> b_id r \<notin> set (map b_id rows) \<and>
     null_or (\<lambda>n. \<not> list_ex (\<lambda>b. b_session_id b = b_session_id r \<and> b_name b = Some n) rows) (b_name r) \<and>
     list_ex (\<lambda>s. s_id s = b_session_id r) (t_sessions d) \<and>
     null_or (\<lambda>p. list_ex (\<lambda>b. b_id b = p \<and> b_session_id b = b_session_id r) (rows @ [r])) (b_parent_branch_id r) \<and>
     null_or (\<lambda>p. list_ex (\<lambda>e. e_id e = p \<and> e_session_id e = b_session_id r) (t_epochs d)) (b_fork_epoch_id r) \<and>
     null_or (blob_registered d) (b_fork_component_hash r)"

section \<open>Reports\<close>

definition max_branch_name_bytes :: nat where "max_branch_name_bytes = 64"

datatype boundary_outcome = BoundaryUnsupported

record unsupported_boundary =
  ub_outcome :: boundary_outcome
  ub_code :: string
  ub_detail :: string

record recorded_model_result =
  rm_protocol_sequence :: u64
  rm_request_id :: string
  rm_output_hash_claim :: blob_hash

record recorded_tool_result =
  rt_protocol_sequence :: u64
  rt_call_id :: string
  rt_outcome :: tool_outcome
  rt_output_hash_claim :: "blob_hash option"

record replay =
  rp_resume_cursor :: resume_cursors
  rp_model :: "recorded_model_result list"
  rp_tool :: "recorded_tool_result list"
  rp_continuation :: unsupported_boundary

record effect_frontier_boundary =
  fb_outcome :: boundary_outcome
  fb_source_epoch_frontier :: u64
  fb_inherited_frontier :: "u64 option"
  fb_code :: string
  fb_detail :: string

record fork_branch_report =
  fk_session_id :: session_id
  fk_branch_id :: branch_id
  fk_name :: string
  fk_state :: string
  fk_parent_branch_id :: branch_id
  fk_fork_epoch_id :: epoch_id
  fk_fork_point_sequence :: u64
  fk_component_hash :: blob_hash
  fk_next_event_sequence :: u64
  fk_created_at :: i64
  fk_updated_at :: i64
  fk_replay :: replay
  fk_effect_frontier :: effect_frontier_boundary

record stored_fork =
  sf_session_id :: session_id
  sf_parent_branch_id :: branch_id
  sf_fork_epoch_id :: epoch_id
  sf_name :: string
  sf_fork_point_sequence :: u64
  sf_component_hash :: blob_hash
  sf_state :: string
  sf_next_event_sequence :: u64
  sf_created_at :: i64
  sf_updated_at :: i64

definition valid_branch_name :: "string \<Rightarrow> bool" where
  "valid_branch_name name \<longleftrightarrow>
     (case name of
        [] \<Rightarrow> False
      | first # _ \<Rightarrow> length name \<le> max_branch_name_bytes \<and> (is_ascii_lowercase first \<or> is_ascii_digit first) \<and>
          list_all is_name_byte name)"

definition continuation :: unsupported_boundary where
  "continuation = \<lparr>ub_outcome = BoundaryUnsupported, ub_code = ''agent_resume_adapter_unavailable'',
     ub_detail = ''recorded result hashes are inspectable, but result bytes and an agent resume adapter are not represented by application context schema v1''\<rparr>"

definition fork_report ::
  "application_source \<Rightarrow> stored_fork \<Rightarrow> branch_id \<Rightarrow> replay \<Rightarrow> fork_branch_report" where
  "fork_report source sf branch replay =
     \<lparr>fk_session_id = sf_session_id sf, fk_branch_id = branch, fk_name = sf_name sf, fk_state = sf_state sf,
      fk_parent_branch_id = sf_parent_branch_id sf, fk_fork_epoch_id = sf_fork_epoch_id sf,
      fk_fork_point_sequence = sf_fork_point_sequence sf, fk_component_hash = sf_component_hash sf,
      fk_next_event_sequence = sf_next_event_sequence sf, fk_created_at = sf_created_at sf,
      fk_updated_at = sf_updated_at sf, fk_replay = replay,
      fk_effect_frontier = \<lparr>fb_outcome = BoundaryUnsupported, fb_source_epoch_frontier = va_effect_frontier source,
        fb_inherited_frontier = None, fb_code = ''effect_frontier_not_integrated'',
        fb_detail = ''effect history remains durable and non-rollbackable, but fork inheritance and frontier comparison are not integrated''\<rparr>\<rparr>"

section \<open>Recorded results\<close>

definition persistence :: "issue_detail \<Rightarrow> recovery_issue" where
  "persistence detail = recovery_issue_new RcPersistence detail"

datatype replay_result = ReplayModel recorded_model_result | ReplayTool recorded_tool_result

text \<open>One stored event: nothing, or the result it records at or before the boundary.\<close>

definition replay_event ::
  "externals \<Rightarrow> recovery_codec \<Rightarrow> supervisor \<Rightarrow> u64 \<Rightarrow> fs \<Rightarrow> event \<Rightarrow> (recovery_issue, replay_result option) result" where
  "replay_event X K sv boundary t event =
     (if kind_as_str (event_kind_of event) \<notin> {''model.response'', ''tool.result''} then Inr None
      else
        rbind (map_err (\<lambda>e. persistence (IssueJournal e)) (read_payload X (sv_journal_store sv) event t)) (\<lambda>payload.
        rbind (map_err (\<lambda>e. recovery_issue_new RcMetadataMismatch (IssueProtocol e)) (decode_line (rk_wire K) (json_to_string X payload))) (\<lambda>env.
        if boundary < env_sequence env then Inr None
        else case env_message env of
          ModelResponse r \<Rightarrow> Inr (Some (ReplayModel \<lparr>rm_protocol_sequence = env_sequence env,
            rm_request_id = mp_request_id r, rm_output_hash_claim = mp_output_hash r\<rparr>))
        | ToolResult r \<Rightarrow> Inr (Some (ReplayTool \<lparr>rt_protocol_sequence = env_sequence env, rt_call_id = tr_call_id r,
            rt_outcome = tr_outcome r, rt_output_hash_claim = tr_output_hash r\<rparr>))
        | _ \<Rightarrow> Inl (recovery_issue_new RcMetadataMismatch (IssueText ''stored replay event kind does not match its payload'')))))"

fun model_results :: "replay_result option list \<Rightarrow> recorded_model_result list" where
  "model_results [] = []"
| "model_results (Some (ReplayModel r) # rest) = r # model_results rest"
| "model_results (_ # rest) = model_results rest"

fun tool_results :: "replay_result option list \<Rightarrow> recorded_tool_result list" where
  "tool_results [] = []"
| "tool_results (Some (ReplayTool r) # rest) = r # tool_results rest"
| "tool_results (_ # rest) = tool_results rest"

definition replay_report ::
  "externals \<Rightarrow> recovery_codec \<Rightarrow> supervisor \<Rightarrow> recovery_host \<Rightarrow> application_source \<Rightarrow> fs \<Rightarrow> db \<Rightarrow>
   (recovery_issue, replay) result" where
  "replay_report X K sv ho source t d =
     rbind (map_err (\<lambda>e. persistence (IssueJournal e)) (query_events X (vh_poisoned ho) (query_for_session (va_session_id source)) d))
       (\<lambda>events.
     let cursors = cx_cursors (va_context source) in
     rbind (list_try (replay_event X K sv (rc_boundary_sequence cursors) t)
       (filter (\<lambda>e. event_branch_id e = va_branch_id source) events)) (\<lambda>results.
     Inr \<lparr>rp_resume_cursor = cursors, rp_model = sort_key rm_protocol_sequence (model_results results),
          rp_tool = sort_key rt_protocol_sequence (tool_results results), rp_continuation = continuation\<rparr>))"

section \<open>Forking\<close>

definition ensure_name_available :: "externals \<Rightarrow> session_id \<Rightarrow> string \<Rightarrow> db \<Rightarrow> unit persisted" where
  "ensure_name_available X session name d =
     (if list_ex (\<lambda>b. b_session_id b = id_to_string X session \<and> b_name b = Some name) (t_branches d)
      then Inl (recovery_issue_new RcBranchNameConflict (IssueText ''branch name already exists in session'')) else Inr ())"

definition ensure_source_unchanged ::
  "externals \<Rightarrow> recovery_codec \<Rightarrow> application_source \<Rightarrow> db \<Rightarrow> unit persisted" where
  "ensure_source_unchanged X K source d =
     rbind (ok_or (i64_of_u64 (rc_boundary_sequence (cx_cursors (va_context source)))) (persistence IssueNumber)) (\<lambda>boundary.
     if committed_source K d (id_to_string X (va_epoch_id source)) (id_to_string X (va_session_id source))
          (id_to_string X (va_branch_id source)) (hash_str (va_component_hash source)) boundary
     then Inr ()
     else Inl (recovery_issue_new RcMetadataMismatch (IssueText ''source epoch changed while the fork was being created'')))"

definition fork_row ::
  "externals \<Rightarrow> application_source \<Rightarrow> branch_id \<Rightarrow> string \<Rightarrow> i64 \<Rightarrow> i64 \<Rightarrow> branch_row" where
  "fork_row X source branch name point now =
     \<lparr>b_id = id_to_string X branch, b_session_id = id_to_string X (va_session_id source),
      b_parent_branch_id = Some (id_to_string X (va_branch_id source)),
      b_fork_epoch_id = Some (id_to_string X (va_epoch_id source)), b_state = ''created'', b_next_event_sequence = 0,
      b_created_at = now, b_updated_at = now, b_name = Some name, b_fork_point_sequence = Some point,
      b_fork_component_hash = Some (hash_str (va_component_hash source))\<rparr>"

definition persist_fork ::
  "externals \<Rightarrow> recovery_codec \<Rightarrow> recovery_host \<Rightarrow> application_source \<Rightarrow> branch_id \<Rightarrow> string \<Rightarrow> i64 \<Rightarrow> db \<Rightarrow>
   unit persisted \<times> db" where
  "persist_fork X K ho source branch name now d =
     (case rbind (ok_or (i64_of_u64 (rc_boundary_sequence (cx_cursors (va_context source)))) (persistence IssueNumber))
             (\<lambda>point. rbind (open_store ho) (\<lambda>_. Inr point)) of
        Inl e \<Rightarrow> (Inl e, d)
      | Inr point \<Rightarrow>
          run_tx (rbind (ensure_name_available X (va_session_id source) name d) (\<lambda>_.
                  rbind (ensure_source_unchanged X K source d) (\<lambda>_.
                  rbind (sql_stmt (sql_insert (branch_insert_ok K d) (fork_row X source branch name point now) (t_branches d)))
                    (\<lambda>rows. Inr ((), d\<lparr>t_branches := rows\<rparr>))))) d)"

definition new_fork :: "application_source \<Rightarrow> string \<Rightarrow> i64 \<Rightarrow> stored_fork" where
  "new_fork source name now =
     \<lparr>sf_session_id = va_session_id source, sf_parent_branch_id = va_branch_id source,
      sf_fork_epoch_id = va_epoch_id source, sf_name = name,
      sf_fork_point_sequence = rc_boundary_sequence (cx_cursors (va_context source)),
      sf_component_hash = va_component_hash source, sf_state = ''created'', sf_next_event_sequence = 0,
      sf_created_at = now, sf_updated_at = now\<rparr>"

definition fork_application_epoch ::
  "externals \<Rightarrow> recovery_codec \<Rightarrow> supervisor \<Rightarrow> recovery_host \<Rightarrow> epoch_id \<Rightarrow> string \<Rightarrow> recovery_world \<Rightarrow>
   fork_branch_report recovery_outcome \<times> recovery_world" where
  "fork_application_epoch X K sv ho epoch name w =
     (if \<not> valid_branch_name name
      then (failed RcInvalidBranchName (IssueText ''branch name must be 1-64 bytes of lowercase ASCII letters, digits, dot, underscore or dash, beginning with a letter or digit''), w)
      else case validated_application_source X K sv ho epoch (rw_blobs w) (rw_db w) of
        (RUnsupported i, t) \<Rightarrow> (RUnsupported i, w\<lparr>rw_blobs := t\<rparr>)
      | (RFailed i, t) \<Rightarrow> (RFailed i, w\<lparr>rw_blobs := t\<rparr>)
      | (RSupported source, t) \<Rightarrow>
     (case rbind (replay_report X K sv ho source t (rw_db w)) (\<lambda>replay.
           rbind (map_err (\<lambda>e. persistence (IssueClock e)) (vh_clock ho)) (\<lambda>now. Inr (replay, now))) of
        Inl i \<Rightarrow> (RFailed i, w\<lparr>rw_blobs := t\<rparr>)
      | Inr (replay, now) \<Rightarrow>
     (case persist_fork X K ho source (vh_branch_id ho) name now (rw_db w) of
        (Inl i, d) \<Rightarrow> (RFailed i, w\<lparr>rw_blobs := t, rw_db := d\<rparr>)
      | (Inr _, d) \<Rightarrow>
          (RSupported (fork_report source (new_fork source name now) (vh_branch_id ho) replay),
           w\<lparr>rw_blobs := t, rw_db := d\<rparr>))))"

section \<open>Inspecting a fork\<close>

definition parse_stored_fork ::
  "externals \<Rightarrow> branch_row \<Rightarrow> string \<Rightarrow> string \<Rightarrow> string \<Rightarrow> i64 \<Rightarrow> string \<Rightarrow> (issue_detail, stored_fork) result" where
  "parse_stored_fork X row parent epoch name point component =
     rbind (ok_or (id_parse X (b_session_id row)) (IssueId (b_session_id row))) (\<lambda>session.
     rbind (ok_or (id_parse X parent) (IssueId parent)) (\<lambda>parent_id.
     rbind (ok_or (id_parse X epoch) (IssueId epoch)) (\<lambda>epoch_id.
     rbind (ok_or (u64_of_i64 point) IssueNumber) (\<lambda>fork_point.
     rbind (ok_or (blob_hash_from_str component) (IssueId component)) (\<lambda>h.
     rbind (ok_or (u64_of_i64 (b_next_event_sequence row)) IssueNumber) (\<lambda>next_event.
     Inr \<lparr>sf_session_id = session, sf_parent_branch_id = parent_id, sf_fork_epoch_id = epoch_id, sf_name = name,
          sf_fork_point_sequence = fork_point, sf_component_hash = h, sf_state = b_state row,
          sf_next_event_sequence = next_event, sf_created_at = b_created_at row, sf_updated_at = b_updated_at row\<rparr>))))))"

definition load_stored_fork ::
  "externals \<Rightarrow> recovery_host \<Rightarrow> branch_id \<Rightarrow> db \<Rightarrow> (recovery_rejection, stored_fork) result" where
  "load_stored_fork X ho branch d =
     rbind (map_err RejFailed (open_store ho)) (\<lambda>_.
     case by_key b_id (id_to_string X branch) (t_branches d) of
       None \<Rightarrow> Inl (failed_rejection RcNotFound (IssueText ''branch was not found''))
     | Some row \<Rightarrow>
         (case (b_parent_branch_id row, b_fork_epoch_id row, b_name row, b_fork_point_sequence row, b_fork_component_hash row) of
            (Some parent, Some epoch, Some name, Some point, Some component) \<Rightarrow>
              map_err (failed_rejection RcMetadataMismatch) (parse_stored_fork X row parent epoch name point component)
          | _ \<Rightarrow> Inl (unsupported_rejection RcUnsupportedMode (IssueText ''branch is not a fork''))))"

definition inspect_fork_branch ::
  "externals \<Rightarrow> recovery_codec \<Rightarrow> supervisor \<Rightarrow> recovery_host \<Rightarrow> branch_id \<Rightarrow> recovery_world \<Rightarrow>
   fork_branch_report recovery_outcome \<times> recovery_world" where
  "inspect_fork_branch X K sv ho branch w =
     (case load_stored_fork X ho branch (rw_db w) of
        Inl rejection \<Rightarrow> (into_outcome rejection, w)
      | Inr sf \<Rightarrow>
     (case validated_application_source X K sv ho (sf_fork_epoch_id sf) (rw_blobs w) (rw_db w) of
        (RUnsupported i, t) \<Rightarrow> (RUnsupported i, w\<lparr>rw_blobs := t\<rparr>)
      | (RFailed i, t) \<Rightarrow> (RFailed i, w\<lparr>rw_blobs := t\<rparr>)
      | (RSupported source, t) \<Rightarrow>
          if va_session_id source \<noteq> sf_session_id sf \<or> va_branch_id source \<noteq> sf_parent_branch_id sf \<or>
             va_component_hash source \<noteq> sf_component_hash sf \<or>
             rc_boundary_sequence (cx_cursors (va_context source)) \<noteq> sf_fork_point_sequence sf
          then (failed RcMetadataMismatch
            (IssueText ''stored fork lineage does not match its validated source checkpoint''), w\<lparr>rw_blobs := t\<rparr>)
          else (case replay_report X K sv ho source t (rw_db w) of
              Inl i \<Rightarrow> (RFailed i, w\<lparr>rw_blobs := t\<rparr>)
            | Inr replay \<Rightarrow> (RSupported (fork_report source sf branch replay), w\<lparr>rw_blobs := t\<rparr>))))"

end
