(* ===== verification/Epoch_Recovery_Proofs.thy ===== *)
theory Epoch_Recovery_Proofs
  imports Epoch_Fork Epoch_Event_Proofs Epoch_Checkpoint_Properties Epoch_Workspace_Capture
begin

text \<open>
  What the transaction of \<open>persist_checkpoint\<close> writes, that the epoch it leaves loads again with exactly
  the checkpointed components, and that later operations keep it.
\<close>

section \<open>Statements of the transaction\<close>

lemma sql_number_Inr [result_simps]:
  "sql_stmt m = Inr x \<longleftrightarrow> m = Some x" "number m = Inr x \<longleftrightarrow> m = Some x"
  by (simp_all add: sql_stmt_def number_def result_simps)

text \<open>Rows are only appended, under new hashes.\<close>

definition blobs_kept :: "blob_row list \<Rightarrow> blob_row list \<Rightarrow> bool" where
  "blobs_kept rows rows' \<longleftrightarrow> (\<exists>extra. rows' = rows @ extra \<and> distinct (map bl_hash extra) \<and>
     (\<forall>r \<in> set rows. \<forall>b \<in> set extra. bl_hash r \<noteq> bl_hash b))"

lemma blobs_kept_refl [simp]: "blobs_kept rows rows"
  by (simp add: blobs_kept_def)

lemma blobs_kept_trans: "blobs_kept a b \<Longrightarrow> blobs_kept b c \<Longrightarrow> blobs_kept a c"
  unfolding blobs_kept_def by (elim exE conjE, rule_tac x = "extra @ extraa" in exI) auto

lemma blobs_kept_mem: "blobs_kept rows rows' \<Longrightarrow> b \<in> set rows \<Longrightarrow> b \<in> set rows'"
  by (auto simp: blobs_kept_def)

lemma blobs_kept_distinct: "blobs_kept rows rows' \<Longrightarrow> distinct (map bl_hash rows) \<Longrightarrow> distinct (map bl_hash rows')"
  by (auto simp: blobs_kept_def)

lemma blobs_kept_one: "\<forall>b \<in> set rows. bl_hash b \<noteq> bl_hash r \<Longrightarrow> blobs_kept rows (rows @ [r])"
  by (auto simp: blobs_kept_def)

lemma blobs_kept_filter:
  assumes "blobs_kept rows rows'" and "h \<in> set (map bl_hash rows)"
  shows "filter (\<lambda>b. Some h = Some (bl_hash b)) rows' = filter (\<lambda>b. Some h = Some (bl_hash b)) rows"
  using assms by (auto simp: blobs_kept_def filter_empty_conv)

definition registered_as :: "blob_row list \<Rightarrow> blob_hash \<Rightarrow> i64 \<Rightarrow> string \<Rightarrow> bool" where
  "registered_as rows h bytes media \<longleftrightarrow>
     (\<exists>b \<in> set rows. bl_hash b = hash_str h \<and> bl_byte_length b = bytes \<and> bl_media_type b = media)"

lemma registered_as_kept: "blobs_kept rows rows' \<Longrightarrow> registered_as rows h n m \<Longrightarrow> registered_as rows' h n m"
  unfolding registered_as_def using blobs_kept_mem by blast

lemma register_checked_blob_Inr:
  assumes "register_checked_blob conflict h len media now d = Inr d'"
  obtains bytes rows where "i64_of_u64 len = Some bytes" "d' = d\<lparr>t_blobs := rows\<rparr>" "blobs_kept (t_blobs d) rows"
    "registered_as rows h bytes media" "is_sha256_hex (hash_str h)"
proof -
  obtain bytes where bytes: "i64_of_u64 len = Some bytes"
    using assms by (auto simp: register_checked_blob_def result_simps)
  let ?row = "\<lparr>bl_hash = hash_str h, bl_byte_length = bytes, bl_media_type = media, bl_created_at = now\<rparr>"
  let ?d = "if blob_registered d (hash_str h) then d else d\<lparr>t_blobs := t_blobs d @ [?row]\<rparr>"
  have check: "blob_row_check ?row" and d': "d' = ?d"
    and reg: "list_ex (\<lambda>b. bl_hash b = hash_str h \<and> bl_byte_length b = bytes \<and> bl_media_type b = media) (t_blobs ?d)"
    using assms bytes
    by (auto simp: register_checked_blob_def result_simps Let_def split: if_split_asm)
  have "blobs_kept (t_blobs d) (t_blobs ?d)"
    using blobs_kept_one [of "t_blobs d" ?row] by (auto simp: blob_registered_def list_ex_iff)
  moreover have "registered_as (t_blobs ?d) h bytes media"
    using reg by (auto simp: registered_as_def list_ex_iff)
  moreover have "is_sha256_hex (hash_str h)" using check by (simp add: blob_row_check_def)
  moreover have "d' = d\<lparr>t_blobs := t_blobs ?d\<rparr>" using d' by simp
  ultimately show ?thesis using that bytes by blast
qed

definition component_row_of ::
  "externals \<Rightarrow> epoch_id \<Rightarrow> string \<Rightarrow> string \<Rightarrow> blob_hash \<Rightarrow> i64 \<Rightarrow> string \<Rightarrow> i64 \<Rightarrow> component_row" where
  "component_row_of X epoch kind backend h bytes metadata now =
     \<lparr>k_epoch_id = id_to_string X epoch, k_kind = kind, k_status = ''committed'', k_backend = backend,
      k_blob_hash = Some (hash_str h), k_checksum = hash_str h, k_byte_length = bytes,
      k_metadata_json = metadata, k_staged_at = now, k_committed_at = Some now\<rparr>"

lemma insert_component_Inr:
  assumes "insert_component X epoch kind backend h len metadata now d = Inr d'"
  obtains bytes where "i64_of_u64 len = Some bytes"
    "component_insert_ok X d (t_components d) (component_row_of X epoch kind backend h bytes metadata now)"
    "d' = d\<lparr>t_components := t_components d @ [component_row_of X epoch kind backend h bytes metadata now]\<rparr>"
  using assms by (auto simp: insert_component_def component_row_of_def result_simps table_simps)

definition committed_row ::
  "externals \<Rightarrow> epoch_id \<Rightarrow> session_id \<Rightarrow> branch_id \<Rightarrow> i64 \<Rightarrow> string option \<Rightarrow> i64 \<Rightarrow> i64 \<Rightarrow> i64 \<Rightarrow> i64 \<Rightarrow> epoch_row" where
  "committed_row X epoch session branch sequence parent policy capability effect now =
     \<lparr>e_id = id_to_string X epoch, e_session_id = id_to_string X session, e_branch_id = id_to_string X branch,
      e_parent_epoch_id = parent, e_sequence = sequence, e_status = ''committed'', e_backend = Some composite_backend,
      e_policy_revision = policy, e_effect_frontier = effect, e_manifest_hash = None, e_created_at = now,
      e_committed_at = Some now, e_capability_frontier = capability\<rparr>"

lemma committed_row_simps [simp]:
  "e_id (committed_row X ep s b sq p pol c f n) = id_to_string X ep"
  "e_session_id (committed_row X ep s b sq p pol c f n) = id_to_string X s"
  "e_branch_id (committed_row X ep s b sq p pol c f n) = id_to_string X b"
  "e_parent_epoch_id (committed_row X ep s b sq p pol c f n) = p"
  "e_sequence (committed_row X ep s b sq p pol c f n) = sq"
  "e_status (committed_row X ep s b sq p pol c f n) = ''committed''"
  "e_backend (committed_row X ep s b sq p pol c f n) = Some composite_backend"
  "e_capability_frontier (committed_row X ep s b sq p pol c f n) = c"
  "e_effect_frontier (committed_row X ep s b sq p pol c f n) = f"
  by (simp_all add: committed_row_def)

lemma component_row_of_simps [simp]:
  "k_epoch_id (component_row_of X ep kd bk h n md now) = id_to_string X ep"
  "k_kind (component_row_of X ep kd bk h n md now) = kd"
  "k_status (component_row_of X ep kd bk h n md now) = ''committed''"
  "k_backend (component_row_of X ep kd bk h n md now) = bk"
  "k_blob_hash (component_row_of X ep kd bk h n md now) = Some (hash_str h)"
  "k_checksum (component_row_of X ep kd bk h n md now) = hash_str h"
  "k_byte_length (component_row_of X ep kd bk h n md now) = n"
  "k_metadata_json (component_row_of X ep kd bk h n md now) = md"
  by (simp_all add: component_row_of_def)

lemma commit_appended:
  assumes "commit_composite_epoch X epoch now d = Inr d'" and "t_epochs d = rows @ [r]"
    and "id_to_string X epoch \<notin> set (map e_id rows)"
    and "e_id r = id_to_string X epoch" and "e_status r = ''creating''"
  shows "d' = d\<lparr>t_epochs := rows @ [r\<lparr>e_status := ''committed'', e_committed_at := Some now\<rparr>]\<rparr>"
proof -
  let ?P = "\<lambda>e. e_id e = id_to_string X epoch \<and> e_status e = ''creating''"
  let ?f = "\<lambda>e. e\<lparr>e_status := ''committed'', e_committed_at := Some now\<rparr>"
  have "d' = d\<lparr>t_epochs := map (\<lambda>e. if ?P e then ?f e else e) (t_epochs d)\<rparr>"
    using assms(1) by (auto simp: commit_composite_epoch_def result_simps table_simps split: if_split_asm)
  moreover have "map (\<lambda>e. if ?P e then ?f e else e) rows = rows"
    by (rule map_idI) (use assms(3) in force)
  ultimately show ?thesis using assms(2,4,5) by simp
qed

section \<open>The transaction\<close>

definition application_metadata :: "application_checkpoint \<Rightarrow> string option \<Rightarrow> stored_application_metadata" where
  "application_metadata artifact label =
     \<lparr>sm_schema_version = ck_schema_version artifact, sm_safe_point_id = cm_safe_point_id (ck_metadata artifact),
      sm_context_revision = cm_context_revision (ck_metadata artifact),
      sm_boundary_sequence = cm_boundary_sequence (ck_metadata artifact),
      sm_restore_scope = ApplicationAndWorkspace, sm_label = label\<rparr>"

definition workspace_metadata :: "string \<Rightarrow> stored_workspace_metadata" where
  "workspace_metadata source =
     \<lparr>sw_schema_version = workspace_schema_version, sw_source = source, sw_restore_scope = ApplicationAndWorkspace\<rparr>"

lemma persist_tx_Inr:
  assumes "persist_in_transaction X K epoch now session branch artifact snapshot source label d = Inr ((cap, eff), d')"
  obtains blobs sequence parent policy metadata ws_metadata abytes wbytes where
    "ensure_completed_scope X session branch d = Inr ()"
    "next_epoch X branch d = Inr (sequence, parent)" "security_frontiers X session branch d = (cap, eff)"
    "rk_app_to_string K (application_metadata artifact label) = Inr metadata"
    "rk_ws_to_string K (workspace_metadata source) = Inr ws_metadata"
    "i64_of_u64 (ck_byte_length artifact) = Some abytes" "i64_of_u64 (ws_manifest_length snapshot) = Some wbytes"
    "blobs_kept (t_blobs d) blobs"
    "registered_as blobs (ck_component_hash artifact) abytes application_context_media_type"
    "registered_as blobs (ws_manifest_hash snapshot) wbytes manifest_media_type"
    "is_sha256_hex (hash_str (ck_component_hash artifact))" "is_sha256_hex (hash_str (ws_manifest_hash snapshot))"
    "id_to_string X epoch \<notin> set (map e_id (t_epochs d))"
    "0 \<le> cap" "0 \<le> eff" "sequence \<le> i64_max"
    "(id_to_string X branch, sequence) \<notin> set (map (\<lambda>e. (e_branch_id e, e_sequence e)) (t_epochs d))"
    "d' = d\<lparr>t_blobs := blobs,
       t_epochs := t_epochs d @ [committed_row X epoch session branch sequence parent policy cap eff now],
       t_components := t_components d @
         [component_row_of X epoch workspace_component_kind workspace_backend_name (ws_manifest_hash snapshot) wbytes ws_metadata now,
          component_row_of X epoch application_component_kind application_backend_name (ck_component_hash artifact) abytes metadata now]\<rparr>"
proof -
  obtain d1 d2 sequence parent policy epochs metadata ws_metadata d3 d4 where
    scope: "ensure_completed_scope X session branch d = Inr ()"
    and r1: "register_component_blob artifact now d = Inr d1" and r2: "register_workspace_blob snapshot now d1 = Inr d2"
    and next2: "next_epoch X branch d2 = Inr (sequence, parent)"
    and front2: "security_frontiers X session branch d2 = (cap, eff)"
    and ins: "sql_insert (epoch_insert_ok d2)
       \<lparr>e_id = id_to_string X epoch, e_session_id = id_to_string X session, e_branch_id = id_to_string X branch,
        e_parent_epoch_id = parent, e_sequence = sequence, e_status = ''creating'', e_backend = Some composite_backend,
        e_policy_revision = policy, e_effect_frontier = eff, e_manifest_hash = None, e_created_at = now,
        e_committed_at = None, e_capability_frontier = cap\<rparr> (t_epochs d2) = Some epochs"
    and meta: "rk_app_to_string K (application_metadata artifact label) = Inr metadata"
    and wmeta: "rk_ws_to_string K (workspace_metadata source) = Inr ws_metadata"
    and i3: "insert_component X epoch workspace_component_kind workspace_backend_name (ws_manifest_hash snapshot)
       (ws_manifest_length snapshot) ws_metadata now (d2\<lparr>t_epochs := epochs\<rparr>) = Inr d3"
    and i4: "insert_component X epoch application_component_kind application_backend_name (ck_component_hash artifact)
       (ck_byte_length artifact) metadata now d3 = Inr d4"
    and com: "commit_composite_epoch X epoch now d4 = Inr d'"
    using assms unfolding persist_in_transaction_def application_metadata_def workspace_metadata_def
    by (force simp only: rbind_eq_Inr map_err_eq_Inr sql_number_Inr Let_def split_beta sum.inject prod.inject
        prod.collapse fst_conv snd_conv surjective_pairing [symmetric])
  obtain abytes b1 where a: "i64_of_u64 (ck_byte_length artifact) = Some abytes" and d1: "d1 = d\<lparr>t_blobs := b1\<rparr>"
    and kept1: "blobs_kept (t_blobs d) b1"
    and reg1: "registered_as b1 (ck_component_hash artifact) abytes application_context_media_type"
    and hex1: "is_sha256_hex (hash_str (ck_component_hash artifact))"
    by (rule register_checked_blob_Inr [OF r1 [unfolded register_component_blob_def]])
  obtain wbytes b2 where w: "i64_of_u64 (ws_manifest_length snapshot) = Some wbytes" and d2: "d2 = d1\<lparr>t_blobs := b2\<rparr>"
    and kept2: "blobs_kept (t_blobs d1) b2"
    and reg2: "registered_as b2 (ws_manifest_hash snapshot) wbytes manifest_media_type"
    and hex2: "is_sha256_hex (hash_str (ws_manifest_hash snapshot))"
    by (rule register_checked_blob_Inr [OF r2 [unfolded register_workspace_blob_def]])
  have kept12: "blobs_kept b1 b2" using kept2 d1 by simp
  let ?e = "\<lparr>e_id = id_to_string X epoch, e_session_id = id_to_string X session, e_branch_id = id_to_string X branch,
        e_parent_epoch_id = parent, e_sequence = sequence, e_status = ''creating'', e_backend = Some composite_backend,
        e_policy_revision = policy, e_effect_frontier = eff, e_manifest_hash = None, e_created_at = now,
        e_committed_at = None, e_capability_frontier = cap\<rparr>"
  have ok: "epoch_insert_ok d2 (t_epochs d2) ?e"
    and epochs: "epochs = t_epochs d2 @ [?e]"
    using ins by (simp_all add: sql_insert_eq_Some)
  have ok': "id_to_string X epoch \<notin> set (map e_id (t_epochs d))" "0 \<le> cap" "0 \<le> eff" "sequence \<le> i64_max"
    "(id_to_string X branch, sequence) \<notin> set (map (\<lambda>e. (e_branch_id e, e_sequence e)) (t_epochs d))"
    using ok d1 d2 by (simp_all add: epoch_insert_ok_def epoch_check_def)
  have d3: "d3 = d2\<lparr>t_epochs := epochs, t_components := t_components d @
      [component_row_of X epoch workspace_component_kind workspace_backend_name (ws_manifest_hash snapshot) wbytes ws_metadata now]\<rparr>"
    by (rule insert_component_Inr [OF i3]) (use w d1 d2 in simp)
  have d4: "d4 = d3\<lparr>t_components := t_components d3 @
      [component_row_of X epoch application_component_kind application_backend_name (ck_component_hash artifact) abytes metadata now]\<rparr>"
    by (rule insert_component_Inr [OF i4]) (use a in simp)
  have "d' = d4\<lparr>t_epochs := t_epochs d @ [?e\<lparr>e_status := ''committed'', e_committed_at := Some now\<rparr>]\<rparr>"
    by (rule commit_appended [OF com]) (use ok'(1) d1 d2 d3 d4 epochs in simp_all)
  then have d': "d' = d\<lparr>t_blobs := b2,
       t_epochs := t_epochs d @ [committed_row X epoch session branch sequence parent policy cap eff now],
       t_components := t_components d @
         [component_row_of X epoch workspace_component_kind workspace_backend_name (ws_manifest_hash snapshot) wbytes ws_metadata now,
          component_row_of X epoch application_component_kind application_backend_name (ck_component_hash artifact) abytes metadata now]\<rparr>"
    using d1 d2 d3 d4 by (simp add: committed_row_def)
  have "next_epoch X branch d = Inr (sequence, parent)" using next2 d1 d2 by (simp add: next_epoch_def)
  moreover have "security_frontiers X session branch d = (cap, eff)"
    using front2 d1 d2 by (simp add: security_frontiers_def)
  ultimately show thesis
    by (rule that [OF scope _ _ meta wmeta a w blobs_kept_trans [OF kept1 kept12] registered_as_kept [OF kept12 reg1]
        reg2 hex1 hex2 ok' d'])
qed

section \<open>Loading what was persisted\<close>

text \<open>What the primary and foreign keys of the three tables promise.\<close>

definition recovery_tables :: "db \<Rightarrow> bool" where
  "recovery_tables d \<longleftrightarrow> distinct (map bl_hash (t_blobs d)) \<and> distinct (map e_id (t_epochs d)) \<and>
     list_all (\<lambda>c. k_epoch_id c \<in> set (map e_id (t_epochs d)) \<and>
       null_or (\<lambda>h. h \<in> set (map bl_hash (t_blobs d))) (k_blob_hash c)) (t_components d)"

text \<open>The derived serializers and deserializers of the stored metadata agree.\<close>

definition recovery_codec_ok :: "recovery_codec \<Rightarrow> bool" where
  "recovery_codec_ok K \<longleftrightarrow>
     (\<forall>m s. rk_app_to_string K m = Inr s \<longrightarrow> rk_app_from_str K s = Inr m) \<and>
     (\<forall>m s. rk_ws_to_string K m = Inr s \<longrightarrow> rk_ws_from_str K s = Inr m)"

lemma recovery_codec_okD:
  assumes "recovery_codec_ok K"
  shows "rk_app_to_string K m = Inr s \<Longrightarrow> rk_app_from_str K s = Inr m"
    and "rk_ws_to_string K m' = Inr s \<Longrightarrow> rk_ws_from_str K s = Inr m'"
  using assms by (auto simp: recovery_codec_ok_def)

lemma registered_unique:
  assumes "distinct (map bl_hash blobs)" and "registered_as blobs h n m"
  obtains b where "filter (\<lambda>b. hash_str h = bl_hash b) blobs = [b]" "bl_byte_length b = n" "bl_media_type b = m"
proof -
  obtain b where b: "b \<in> set blobs" "bl_hash b = hash_str h" "bl_byte_length b = n" "bl_media_type b = m"
    using assms(2) by (auto simp: registered_as_def)
  have "by_key bl_hash (hash_str h) blobs = Some b" using b by (simp add: by_key_eq_Some [OF assms(1)])
  with filter_by_key [OF assms(1), of "hash_str h"] have "filter (\<lambda>b. bl_hash b = hash_str h) blobs = [b]" by simp
  then show ?thesis using that [of b] b by (simp add: eq_commute)
qed

lemma fresh_epoch_components:
  assumes "recovery_tables d" and "id_to_string X epoch \<notin> set (map e_id (t_epochs d))"
  shows "filter (\<lambda>c. k_epoch_id c = id_to_string X epoch) (t_components d) = []"
  using assms unfolding recovery_tables_def list_all_iff filter_empty_conv by metis

lemma component_rows_of:
  assumes "filter (\<lambda>c. k_epoch_id c = ep) old = []" and "t_components d = old @ new"
    and "filter (\<lambda>c. k_epoch_id c = ep \<and> k_kind c = kind) new = [c]" and "k_blob_hash c = Some (hash_str h)"
    and "filter (\<lambda>b. hash_str h = bl_hash b) (t_blobs d) = [b]"
  shows "component_rows d ep kind = [(c, b)]"
proof -
  have "filter (\<lambda>c. k_epoch_id c = ep \<and> k_kind c = kind) old = []"
    using assms(1) by (auto simp: filter_empty_conv)
  with assms show ?thesis by (simp add: component_rows_def)
qed

definition loaded_of ::
  "epoch_id \<Rightarrow> session_id \<Rightarrow> branch_id \<Rightarrow> application_checkpoint \<Rightarrow> manifest_ref \<Rightarrow> string \<Rightarrow> u64 \<Rightarrow> u64 \<Rightarrow> loaded_epoch" where
  "loaded_of epoch session branch artifact snapshot source cap eff =
     \<lparr>le_epoch_id = epoch, le_session_id = session, le_branch_id = branch, le_artifact = artifact,
      le_workspace = snapshot, le_workspace_source = source, le_capability_frontier = cap, le_effect_frontier = eff\<rparr>"

lemma kinds_differ [simp]: "application_component_kind \<noteq> workspace_component_kind"
    "workspace_component_kind \<noteq> application_component_kind"
  by (simp_all add: application_component_kind_def workspace_component_kind_def)

lemma load_persisted:
  assumes tx: "persist_in_transaction X K epoch now session branch artifact snapshot source label d = Inr ((cap, eff), d')"
    and tables: "recovery_tables d" and codec: "recovery_codec_ok K" "uuid_codec X"
    and source: "source \<noteq> []" and "open": "vh_store_open ho"
  shows "load_epoch X K ho epoch d' =
      Inr (loaded_of epoch session branch artifact snapshot source (word_of_int cap) (word_of_int eff))"
proof -
  obtain blobs sequence parent policy metadata ws_metadata abytes wbytes where
    meta: "rk_app_to_string K (application_metadata artifact label) = Inr metadata"
    "rk_ws_to_string K (workspace_metadata source) = Inr ws_metadata"
    and bytes: "i64_of_u64 (ck_byte_length artifact) = Some abytes" "i64_of_u64 (ws_manifest_length snapshot) = Some wbytes"
    and kept: "blobs_kept (t_blobs d) blobs"
    and reg: "registered_as blobs (ck_component_hash artifact) abytes application_context_media_type"
    "registered_as blobs (ws_manifest_hash snapshot) wbytes manifest_media_type"
    and hex: "is_sha256_hex (hash_str (ck_component_hash artifact))" "is_sha256_hex (hash_str (ws_manifest_hash snapshot))"
    and fresh: "id_to_string X epoch \<notin> set (map e_id (t_epochs d))" and sign: "0 \<le> cap" "0 \<le> eff"
    and d': "d' = d\<lparr>t_blobs := blobs,
       t_epochs := t_epochs d @ [committed_row X epoch session branch sequence parent policy cap eff now],
       t_components := t_components d @
         [component_row_of X epoch workspace_component_kind workspace_backend_name (ws_manifest_hash snapshot) wbytes ws_metadata now,
          component_row_of X epoch application_component_kind application_backend_name (ck_component_hash artifact) abytes metadata now]\<rparr>"
    by (rule persist_tx_Inr [OF tx])
  let ?ep = "id_to_string X epoch"
  let ?cw = "component_row_of X epoch workspace_component_kind workspace_backend_name (ws_manifest_hash snapshot) wbytes ws_metadata now"
  let ?ca = "component_row_of X epoch application_component_kind application_backend_name (ck_component_hash artifact) abytes metadata now"
  have blobs: "distinct (map bl_hash blobs)" using kept tables by (simp add: blobs_kept_distinct recovery_tables_def)
  note none = fresh_epoch_components [OF tables fresh]
  have comps: "t_components d' = t_components d @ [?cw, ?ca]" and bl: "t_blobs d' = blobs"
    and ep: "t_epochs d' = t_epochs d @ [committed_row X epoch session branch sequence parent policy cap eff now]"
    using d' by simp_all
  obtain ba where ba: "filter (\<lambda>b. hash_str (ck_component_hash artifact) = bl_hash b) blobs = [ba]" "bl_byte_length ba = abytes"
    "bl_media_type ba = application_context_media_type"
    by (rule registered_unique [OF blobs reg(1)])
  obtain bw where bw: "filter (\<lambda>b. hash_str (ws_manifest_hash snapshot) = bl_hash b) blobs = [bw]" "bl_byte_length bw = wbytes"
    "bl_media_type bw = manifest_media_type"
    by (rule registered_unique [OF blobs reg(2)])
  have rows_a: "component_rows d' ?ep application_component_kind = [(?ca, ba)]"
    by (rule component_rows_of [OF none comps]) (use ba(1) bl in simp_all)
  have rows_w: "component_rows d' ?ep workspace_component_kind = [(?cw, bw)]"
    by (rule component_rows_of [OF none comps]) (use bw(1) bl in simp_all)
  have two: "length (filter (\<lambda>c. k_epoch_id c = ?ep) (t_components d')) = 2" using none by (simp add: comps)
  have key: "by_key e_id ?ep (t_epochs d') = Some (committed_row X epoch session branch sequence parent policy cap eff now)"
    using fresh unfolding ep by_key_append by (simp add: by_key_eq_None [THEN iffD2])
  have hashes: "blob_hash_from_str (hash_str (ck_component_hash artifact)) = Some (ck_component_hash artifact)"
    "blob_hash_from_str (hash_str (ws_manifest_hash snapshot)) = Some (ws_manifest_hash snapshot)"
    using hex by (simp_all add: blob_hash_from_str_def is_sha256_hex_def)
  have lens: "u64_of_i64 abytes = Some (ck_byte_length artifact)" "u64_of_i64 wbytes = Some (ws_manifest_length snapshot)"
    by (rule u64_of_i64_of_u64 [OF bytes(1)], rule u64_of_i64_of_u64 [OF bytes(2)])
  have fronts: "u64_of_i64 cap = Some (word_of_int cap)" "u64_of_i64 eff = Some (word_of_int eff)"
    using sign by (simp_all add: u64_of_i64_def)
  have ws: "load_workspace_component X K epoch d' = Inr (snapshot, source)"
    unfolding load_workspace_component_def
    by (simp add: two rows_w bw component_hash_text_def recovery_codec_okD(2) [OF codec(1) meta(2)] workspace_metadata_def
        source hashes lens)
  have row: "load_application_epoch_row X epoch d' =
      Inr (Some (committed_row X epoch session branch sequence parent policy cap eff now, composite_backend, ?ca, ba))"
    by (simp add: load_application_epoch_row_def key rows_a)
  show ?thesis
    unfolding load_epoch_def row
    by (simp add: "open" open_store_def component_hash_text_def ba recovery_codec_okD(1) [OF codec(1) meta(1)] application_metadata_def
        parse_application_component_def codec(2) id_parse_to_string hashes lens ws fronts loaded_of_def)
qed

section \<open>Epochs are kept\<close>

text \<open>Epochs, components and blobs are only appended: components under new epochs, blobs under new
  hashes.\<close>

definition recovery_extends :: "db \<Rightarrow> db \<Rightarrow> bool" where
  "recovery_extends d d' \<longleftrightarrow> blobs_kept (t_blobs d) (t_blobs d') \<and>
     (\<exists>es cs. t_epochs d' = t_epochs d @ es \<and> t_components d' = t_components d @ cs \<and>
        (\<forall>e \<in> set (t_epochs d). \<forall>c \<in> set cs. e_id e \<noteq> k_epoch_id c))"

lemma recovery_extends_refl: "recovery_extends d d"
  by (simp add: recovery_extends_def)

lemma recovery_extends_trans:
  assumes "recovery_extends a b" and "recovery_extends b c"
  shows "recovery_extends a c"
proof -
  obtain es cs where b: "t_epochs b = t_epochs a @ es" "t_components b = t_components a @ cs"
    "\<forall>e \<in> set (t_epochs a). \<forall>c \<in> set cs. e_id e \<noteq> k_epoch_id c"
    using assms(1) unfolding recovery_extends_def by blast
  obtain es' cs' where c: "t_epochs c = t_epochs b @ es'" "t_components c = t_components b @ cs'"
    "\<forall>e \<in> set (t_epochs b). \<forall>c \<in> set cs'. e_id e \<noteq> k_epoch_id c"
    using assms(2) unfolding recovery_extends_def by blast
  have "t_epochs c = t_epochs a @ (es @ es')" "t_components c = t_components a @ (cs @ cs')"
    "\<forall>e \<in> set (t_epochs a). \<forall>c \<in> set (cs @ cs'). e_id e \<noteq> k_epoch_id c"
    using b c by auto
  moreover have "blobs_kept (t_blobs a) (t_blobs c)"
    using assms blobs_kept_trans unfolding recovery_extends_def by blast
  ultimately show ?thesis unfolding recovery_extends_def by blast
qed

lemma extends_components:
  assumes "recovery_extends d d'" and "recovery_tables d" and "epoch \<in> set (map e_id (t_epochs d))"
  shows "component_rows d' epoch kind = component_rows d epoch kind"
    and "filter (\<lambda>c. k_epoch_id c = epoch) (t_components d') = filter (\<lambda>c. k_epoch_id c = epoch) (t_components d)"
proof -
  obtain cs where cs: "t_components d' = t_components d @ cs" "\<forall>e \<in> set (t_epochs d). \<forall>c \<in> set cs. e_id e \<noteq> k_epoch_id c"
    and kept: "blobs_kept (t_blobs d) (t_blobs d')"
    using assms(1) unfolding recovery_extends_def by blast
  have none: "filter (\<lambda>c. k_epoch_id c = epoch) cs = []" using cs(2) assms(3) unfolding filter_empty_conv set_map by (metis image_iff)
  then show "filter (\<lambda>c. k_epoch_id c = epoch) (t_components d') = filter (\<lambda>c. k_epoch_id c = epoch) (t_components d)"
    by (simp add: cs(1))
  have none': "filter (\<lambda>c. k_epoch_id c = epoch \<and> k_kind c = kind) cs = []"
    using none by (auto simp: filter_empty_conv)
  have "filter (\<lambda>b. k_blob_hash c = Some (bl_hash b)) (t_blobs d') =
      filter (\<lambda>b. k_blob_hash c = Some (bl_hash b)) (t_blobs d)"
    if "c \<in> set (t_components d)" for c
  proof (cases "k_blob_hash c")
    case (Some h)
    with that assms(2) have "h \<in> set (map bl_hash (t_blobs d))"
      by (auto simp: recovery_tables_def list_all_iff)
    with blobs_kept_filter [OF kept] Some show ?thesis by simp
  qed simp
  then show "component_rows d' epoch kind = component_rows d epoch kind"
    unfolding component_rows_def cs(1) filter_append none' append_Nil2
    by (intro arg_cong [of _ _ concat] map_cong) auto
qed

lemma find_append_hit: "\<exists>x \<in> set xs. P x \<Longrightarrow> find P (xs @ ys) = find P xs"
  by (induction xs) auto

lemma extends_epoch:
  assumes "recovery_extends d d'" and "epoch \<in> set (map e_id (t_epochs d))"
  shows "by_key e_id epoch (t_epochs d') = by_key e_id epoch (t_epochs d)"
proof -
  obtain es where es: "t_epochs d' = t_epochs d @ es" using assms(1) unfolding recovery_extends_def by blast
  have "\<exists>e \<in> set (t_epochs d). e_id e = epoch" using assms(2) by auto
  then show ?thesis unfolding by_key_def es by (rule find_append_hit)
qed

lemma load_epoch_known:
  assumes "load_epoch X K ho epoch d = Inr l"
  shows "id_to_string X epoch \<in> set (map e_id (t_epochs d))"
proof -
  obtain e where "by_key e_id (id_to_string X epoch) (t_epochs d) = Some e"
    using assms unfolding load_epoch_def load_application_epoch_row_def
    by (cases "by_key e_id (id_to_string X epoch) (t_epochs d)") (auto simp: result_simps)
  from by_key_eq_SomeD [OF this] show ?thesis by (metis image_eqI set_map)
qed

lemma load_extends:
  assumes "recovery_extends d d'" and "recovery_tables d" and "load_epoch X K ho epoch d = Inr l"
  shows "load_epoch X K ho epoch d' = Inr l"
proof -
  note known = load_epoch_known [OF assms(3)]
  note same = extends_epoch [OF assms(1) known] extends_components [OF assms(1,2) known]
  have "by_key e_id (id_to_string X epoch) (t_epochs d) = Some e \<Longrightarrow> e_id e = id_to_string X epoch" for e
    by (drule by_key_eq_SomeD) simp
  then have "load_application_epoch_row X epoch d' = load_application_epoch_row X epoch d"
    unfolding load_application_epoch_row_def same(1) using same(2)
    by (cases "by_key e_id (id_to_string X epoch) (t_epochs d)") simp_all
  moreover have "load_workspace_component X K epoch d' = load_workspace_component X K epoch d"
    unfolding load_workspace_component_def same ..
  ultimately have "load_epoch X K ho epoch d' = load_epoch X K ho epoch d" by (simp only: load_epoch_def)
  then show ?thesis using assms(3) by simp
qed

section \<open>Every operation of the supervisor\<close>

lemma persist_tx_extends:
  assumes "persist_in_transaction X K epoch now session branch artifact snapshot source label d = Inr ((cap, eff), d')"
  shows "recovery_extends d d'" and "recovery_tables d \<Longrightarrow> recovery_tables d'"
proof -
  obtain blobs sequence parent policy metadata ws_metadata abytes wbytes where
    kept: "blobs_kept (t_blobs d) blobs"
    and reg: "registered_as blobs (ck_component_hash artifact) abytes application_context_media_type"
    "registered_as blobs (ws_manifest_hash snapshot) wbytes manifest_media_type"
    and fresh: "id_to_string X epoch \<notin> set (map e_id (t_epochs d))"
    and d': "d' = d\<lparr>t_blobs := blobs,
       t_epochs := t_epochs d @ [committed_row X epoch session branch sequence parent policy cap eff now],
       t_components := t_components d @
         [component_row_of X epoch workspace_component_kind workspace_backend_name (ws_manifest_hash snapshot) wbytes ws_metadata now,
          component_row_of X epoch application_component_kind application_backend_name (ck_component_hash artifact) abytes metadata now]\<rparr>"
    by (rule persist_tx_Inr [OF assms])
  have new: "\<forall>e \<in> set (t_epochs d). e_id e \<noteq> id_to_string X epoch" using fresh by (metis image_eqI set_map)
  then show "recovery_extends d d'" using kept unfolding recovery_extends_def d' by simp
  have hashes: "hash_str (ck_component_hash artifact) \<in> set (map bl_hash blobs)"
    "hash_str (ws_manifest_hash snapshot) \<in> set (map bl_hash blobs)"
    using reg unfolding registered_as_def set_map by (metis image_eqI)+
  assume t: "recovery_tables d"
  have "null_or (\<lambda>h. h \<in> set (map bl_hash blobs)) (k_blob_hash c)"
    if "null_or (\<lambda>h. h \<in> set (map bl_hash (t_blobs d))) (k_blob_hash c)" for c
    using that kept by (cases "k_blob_hash c") (auto simp: blobs_kept_def)
  with t have old: "list_all (\<lambda>c. k_epoch_id c \<in> set (map e_id (t_epochs d @ [e])) \<and>
       null_or (\<lambda>h. h \<in> set (map bl_hash blobs)) (k_blob_hash c)) (t_components d)" for e
    unfolding recovery_tables_def list_all_iff by (metis Un_iff map_append set_append)
  show "recovery_tables d'"
    using t old [of "committed_row X epoch session branch sequence parent policy cap eff now"] hashes fresh blobs_kept_distinct [OF kept] unfolding recovery_tables_def d' by simp
qed

lemma persist_extends:
  assumes "persist_checkpoint X K ho session branch artifact snapshot source label d = (r, d')"
  shows "recovery_extends d d'" and "recovery_tables d \<Longrightarrow> recovery_tables d'"
proof -
  have "d' = d \<or> (\<exists>now cap eff. persist_in_transaction X K (vh_epoch_id ho) now session branch artifact snapshot source label d
      = Inr ((cap, eff), d'))"
    using assms unfolding persist_checkpoint_def
    by (auto simp: run_tx_eq split: sum.splits prod.splits)
  then show "recovery_extends d d'" and "recovery_tables d \<Longrightarrow> recovery_tables d'"
    by (elim disjE exE; simp add: recovery_extends_refl persist_tx_extends)+
qed

lemma register_blob_kept:
  assumes "register_blob m now d = Inr d'"
  shows "blobs_kept (t_blobs d) (t_blobs d') \<and> t_epochs d' = t_epochs d \<and> t_components d' = t_components d"
proof (cases "by_key bl_hash (hash_str (m_hash m)) (t_blobs d)")
  case None
  then have "\<forall>b \<in> set (t_blobs d). bl_hash b \<noteq> hash_str (m_hash m)" unfolding by_key_eq_None by (metis image_eqI)
  with None assms show ?thesis
    by (auto simp: register_blob_def result_simps Let_def split: if_split_asm intro!: blobs_kept_one)
next
  case (Some r)
  with assms show ?thesis by (auto simp: register_blob_def result_simps Let_def split: if_split_asm)
qed

lemma blobs_extend:
  assumes "blobs_kept (t_blobs d) (t_blobs d') \<and> t_epochs d' = t_epochs d \<and> t_components d' = t_components d"
  shows "recovery_extends d d'" and "recovery_tables d \<Longrightarrow> recovery_tables d'"
proof -
  show "recovery_extends d d'" using assms by (simp add: recovery_extends_def)
  have "null_or (\<lambda>h. h \<in> set (map bl_hash (t_blobs d'))) (k_blob_hash c)"
    if "null_or (\<lambda>h. h \<in> set (map bl_hash (t_blobs d))) (k_blob_hash c)" for c
    using that assms by (cases "k_blob_hash c") (auto simp: blobs_kept_def)
  then show "recovery_tables d'" if "recovery_tables d"
    using that assms blobs_kept_distinct unfolding recovery_tables_def list_all_iff by metis
qed

lemma append_extends:
  assumes "append_inner X st ho ne fault (t, d) = (r, (t', d'))"
  shows "blobs_kept (t_blobs d) (t_blobs d') \<and> t_epochs d' = t_epochs d \<and> t_components d' = t_components d"
proof (cases r)
  case (Inl e)
  with assms append_Inl have "d' = d" by blast
  then show ?thesis by simp
next
  case (Inr ev)
  with assms obtain mono payload where tx: "append_in_transaction X ho ne fault mono payload d = Inr (ev, d')"
    by (auto simp: append_inner_def rbind_eq_Inr rbind_eq_Inl run_tx_eq split: sum.splits prod.splits if_splits)
  from tx obtain d1 sequence d2 where
    refs: "validate_append_references X ne (pp_external payload) d = Inr d1"
    and alloc: "allocate_sequence X (ne_session_id ne) (ne_branch_id ne) d1 = Inr (sequence, d2)"
    and ins: "insert_event X (jh_event_id ho) ne sequence mono payload d2 = Inr (ev, d')"
    by (auto simp: append_in_transaction_def rbind_eq_Inr split: if_splits)
  have "blobs_kept (t_blobs d) (t_blobs d1) \<and> t_epochs d1 = t_epochs d \<and> t_components d1 = t_components d"
    using refs register_blob_kept
    by (auto simp: validate_append_references_def rbind_eq_Inr split: option.splits)
  moreover have "t_blobs d2 = t_blobs d1" "t_epochs d2 = t_epochs d1" "t_components d2 = t_components d1"
    using allocate_sequence_Inr(1) [OF alloc] by simp_all
  moreover have "t_blobs d' = t_blobs d2" "t_epochs d' = t_epochs d2" "t_components d' = t_components d2"
    using ins by (auto simp: insert_event_def Let_def rbind_eq_Inr)
  ultimately show ?thesis by simp
qed

section \<open>The chain of epochs of a branch\<close>

fun chain :: "string option \<Rightarrow> i64 \<Rightarrow> epoch_row list \<Rightarrow> bool" where
  "chain parent n [] \<longleftrightarrow> True"
| "chain parent n (e # es) \<longleftrightarrow> e_parent_epoch_id e = parent \<and> e_sequence e = n \<and> e_status e = ''committed'' \<and>
     chain (Some (e_id e)) (n + 1) es"

definition branch_epochs :: "string \<Rightarrow> db \<Rightarrow> epoch_row list" where
  "branch_epochs branch d = filter (\<lambda>e. e_branch_id e = branch) (t_epochs d)"

lemma chain_snoc:
  "chain p n (es @ [e]) \<longleftrightarrow> chain p n es \<and> e_sequence e = n + int (length es) \<and> e_status e = ''committed'' \<and>
     e_parent_epoch_id e = (if es = [] then p else Some (e_id (last es)))"
  by (induction es arbitrary: p n) (auto simp: algebra_simps)

lemma chain_all: "chain p n es \<Longrightarrow> \<forall>e \<in> set es. e_status e = ''committed'' \<and> n \<le> e_sequence e"
  by (induction es arbitrary: p n) fastforce+

lemma chain_sorted: "chain p n es \<Longrightarrow> sorted (map e_sequence es)"
proof (induction es arbitrary: p n)
  case (Cons e es)
  from Cons.prems have "chain (Some (e_id e)) (n + 1) es" by simp
  with chain_all [OF this] Cons show ?case by fastforce
qed simp

lemma chain_last: "chain p n es \<Longrightarrow> es \<noteq> [] \<Longrightarrow> e_sequence (last es) = n + int (length es) - 1"
  by (induction es rule: rev_induct) (auto simp: chain_snoc)

lemma next_epoch_chain:
  assumes "chain None 0 (branch_epochs (id_to_string X branch) d)" and "next_epoch X branch d = Inr (sequence, parent)"
  shows "sequence = int (length (branch_epochs (id_to_string X branch) d))"
    and "parent = (if branch_epochs (id_to_string X branch) d = [] then None
      else Some (e_id (last (branch_epochs (id_to_string X branch) d))))"
proof -
  let ?es = "branch_epochs (id_to_string X branch) d"
  have "filter (\<lambda>e. e_branch_id e = id_to_string X branch \<and> e_status e = ''committed'') (t_epochs d) = ?es"
    using chain_all [OF assms(1)] unfolding branch_epochs_def by (auto intro: filter_cong)
  then have "sort_key e_sequence (filter (\<lambda>e. e_branch_id e = id_to_string X branch \<and> e_status e = ''committed'') (t_epochs d)) = ?es"
    using sorted_sort_id chain_sorted [OF assms(1)] by (simp add: sort_key_id_if_sorted)
  with assms(2) have "(sequence, parent) = (if ?es = [] then (0, None) else (e_sequence (last ?es) + 1, Some (e_id (last ?es))))"
    unfolding next_epoch_def Let_def by (auto split: if_split_asm)
  then show "sequence = int (length ?es)" "parent = (if ?es = [] then None else Some (e_id (last ?es)))"
    using chain_last [OF assms(1)] by (auto split: if_split_asm)
qed

definition recovery_inv :: "db \<Rightarrow> bool" where
  "recovery_inv d \<longleftrightarrow> recovery_tables d \<and> (\<forall>br. chain None 0 (branch_epochs br d))"

lemma persist_chain:
  assumes "persist_in_transaction X K epoch now session branch artifact snapshot source label d = Inr ((cap, eff), d')"
    and "\<forall>br. chain None 0 (branch_epochs br d)"
  shows "chain None 0 (branch_epochs br d')"
proof -
  obtain sequence parent policy where next_: "next_epoch X branch d = Inr (sequence, parent)"
    and d': "t_epochs d' = t_epochs d @ [committed_row X epoch session branch sequence parent policy cap eff now]"
    by (rule persist_tx_Inr [OF assms(1)]) simp
  note n = next_epoch_chain [OF spec [OF assms(2)] next_]
  show ?thesis
  proof (cases "br = id_to_string X branch")
    case True
    then have "branch_epochs br d' = branch_epochs br d @ [committed_row X epoch session branch sequence parent policy cap eff now]"
      by (simp add: branch_epochs_def d')
    then show ?thesis using assms(2) n True by (simp add: chain_snoc)
  next
    case False
    then have "branch_epochs br d' = branch_epochs br d" by (simp add: branch_epochs_def d')
    then show ?thesis using assms(2) by simp
  qed
qed

section \<open>The supervisor as a machine\<close>

datatype recovery_op =
    OpCheckpoint recovery_host session_id "branch_id option" "string option"
  | OpRestore recovery_host epoch_id application_restore_mode "string option"
  | OpDiff recovery_host epoch_id epoch_id
  | OpStatus recovery_host session_id "branch_id option"
  | OpFork recovery_host epoch_id string
  | OpInspect recovery_host branch_id

fun recovery_step :: "externals \<Rightarrow> recovery_codec \<Rightarrow> supervisor \<Rightarrow> recovery_op \<Rightarrow> recovery_world \<Rightarrow> recovery_world" where
  "recovery_step X K sv (OpCheckpoint ho session branch label) w = snd (checkpoint_application X K sv ho session branch label w)"
| "recovery_step X K sv (OpRestore ho epoch mode target) w = snd (restore_application X K sv ho epoch mode target w)"
| "recovery_step X K sv (OpDiff ho before after) w = snd (diff_application_epochs X K ho before after w)"
| "recovery_step X K sv (OpStatus ho session branch) w = snd (application_status X K sv ho session branch w)"
| "recovery_step X K sv (OpFork ho epoch name) w = snd (fork_application_epoch X K sv ho epoch name w)"
| "recovery_step X K sv (OpInspect ho branch) w = snd (inspect_fork_branch X K sv ho branch w)"

lemma checkpoint_db:
  "rw_db (snd (checkpoint_application X K sv ho session requested label w)) = rw_db w \<or>
   (\<exists>branch artifact snapshot source r. persist_checkpoint X K ho session branch artifact snapshot source label (rw_db w) =
      (r, rw_db (snd (checkpoint_application X K sv ho session requested label w))))"
  unfolding checkpoint_application_def checkpoint_components_def
  by (auto split: sum.splits prod.splits backend_outcome.splits)

lemma inspect_db: "rw_db (snd (restore_application X K sv ho epoch Inspect target w)) = rw_db w"
  unfolding restore_application_def by (auto split: prod.splits recovery_outcome.splits)

lemma record_activation_db:
  assumes "record_activation X sv ho l c target (t, d) = (r, (t', d'))"
  shows "blobs_kept (t_blobs d) (t_blobs d') \<and> t_epochs d' = t_epochs d \<and> t_components d' = t_components d"
  using assms append_extends unfolding record_activation_def append_event_def
  by (auto split: sum.splits prod.splits)

lemma restore_db:
  "blobs_kept (t_blobs (rw_db w)) (t_blobs (rw_db (snd (restore_application X K sv ho epoch mode target w)))) \<and>
   t_epochs (rw_db (snd (restore_application X K sv ho epoch mode target w))) = t_epochs (rw_db w) \<and>
   t_components (rw_db (snd (restore_application X K sv ho epoch mode target w))) = t_components (rw_db w)"
  unfolding restore_application_def
  by (auto split: sum.splits prod.splits recovery_outcome.splits option.splits dest: record_activation_db)

lemma status_db: "rw_db (snd (application_status X K sv ho session requested w)) = rw_db w"
proof -
  have "rw_db (snd (status_without_activation X K sv ho session branch state b w)) = rw_db w" for branch state b
    unfolding status_without_activation_def by (auto split: prod.splits option.splits recovery_outcome.splits)
  moreover have "rw_db (snd (status_of_activation X K sv ho session branch state e w)) = rw_db w" for branch state e
    unfolding status_of_activation_def using inspect_db [where w = w and X = X and K = K and sv = sv and ho = ho]
    by (auto split: prod.splits option.splits sum.splits recovery_outcome.splits) (metis snd_conv)+
  ultimately show ?thesis unfolding application_status_def by (auto split: sum.splits prod.splits)
qed

lemma diff_db: "rw_db (snd (diff_application_epochs X K ho before after w)) = rw_db w"
  unfolding diff_application_epochs_def by (auto split: sum.splits prod.splits)

lemma fork_inspect_db: "rw_db (snd (inspect_fork_branch X K sv ho branch w)) = rw_db w"
  unfolding inspect_fork_branch_def by (auto split: sum.splits prod.splits recovery_outcome.splits)

lemma persist_fork_db:
  assumes "persist_fork X K ho source branch name now d = (r, d')"
  shows "d' = d\<lparr>t_branches := t_branches d'\<rparr>"
  using assms unfolding persist_fork_def
  by (auto simp: run_tx_eq result_simps table_simps split: sum.splits)

lemma fork_db:
  "\<exists>rows. rw_db (snd (fork_application_epoch X K sv ho epoch name w)) = (rw_db w)\<lparr>t_branches := rows\<rparr>"
proof -
  have same: "\<exists>rows. rw_db w = (rw_db w)\<lparr>t_branches := rows\<rparr>" by (rule exI [of _ "t_branches (rw_db w)"]) simp
  show ?thesis unfolding fork_application_epoch_def
    by (auto simp: same split: sum.splits prod.splits recovery_outcome.splits dest: persist_fork_db)
qed

lemma untouched_inv:
  assumes "blobs_kept (t_blobs d) (t_blobs d') \<and> t_epochs d' = t_epochs d \<and> t_components d' = t_components d"
    and "recovery_inv d"
  shows "recovery_inv d'" and "recovery_extends d d'"
  using assms blobs_extend [OF assms(1)] by (simp_all add: recovery_inv_def branch_epochs_def)

lemma persist_inv:
  assumes "persist_checkpoint X K ho session branch artifact snapshot source label d = (r, d')" and "recovery_inv d"
  shows "recovery_inv d'"
proof -
  have "d' = d \<or> (\<exists>now cap eff. persist_in_transaction X K (vh_epoch_id ho) now session branch artifact snapshot source label d
      = Inr ((cap, eff), d'))"
    using assms(1) unfolding persist_checkpoint_def
    by (auto simp: run_tx_eq split: sum.splits prod.splits)
  then show ?thesis
    using assms(2) persist_extends(2) [OF assms(1)] persist_chain unfolding recovery_inv_def by blast
qed

lemma recovery_step_keeps:
  assumes "recovery_inv (rw_db w)"
  shows "recovery_inv (rw_db (recovery_step X K sv a w)) \<and> recovery_extends (rw_db w) (rw_db (recovery_step X K sv a w))"
proof (cases a)
  case (OpCheckpoint ho session requested label)
  from checkpoint_db [of X K sv ho session requested label w] show ?thesis
    using assms persist_inv persist_extends(1) recovery_extends_refl unfolding OpCheckpoint recovery_step.simps by metis
next
  case (OpRestore ho epoch mode target)
  from untouched_inv [OF restore_db assms] show ?thesis unfolding OpRestore recovery_step.simps by blast
next
  case (OpFork ho epoch name)
  obtain rows where "rw_db (recovery_step X K sv a w) = (rw_db w)\<lparr>t_branches := rows\<rparr>"
    using fork_db unfolding OpFork recovery_step.simps by metis
  with untouched_inv [of "rw_db w" "rw_db (recovery_step X K sv a w)"] assms show ?thesis by simp
qed (simp_all add: assms diff_db status_db fork_inspect_db recovery_extends_refl)

interpretation recovery: machine "recovery_step X K sv" "\<lambda>w. recovery_inv (rw_db w)"
  "\<lambda>w w'. recovery_extends (rw_db w) (rw_db w')" for X K sv
  by unfold_locales (auto simp: recovery_step_keeps recovery_extends_refl intro: recovery_extends_trans)

abbreviation recovery_run ::
  "externals \<Rightarrow> recovery_codec \<Rightarrow> supervisor \<Rightarrow> recovery_op list \<Rightarrow> recovery_world \<Rightarrow> recovery_world" where
  "recovery_run X K sv ops w \<equiv> run_ops (recovery_step X K sv) ops w"

lemma run_keeps_loaded:
  assumes "recovery_inv (rw_db w)" and "load_epoch X K ho epoch (rw_db w) = Inr l"
  shows "load_epoch X K ho epoch (rw_db (recovery_run X K sv ops w)) = Inr l"
  by (rule load_extends [OF recovery.run_evolves [OF assms(1)] _ assms(2)])
    (use assms(1) in \<open>simp add: recovery_inv_def\<close>)

section \<open>A checkpoint, taken apart\<close>

lemma preserving_cleanup: "preserving (cleanup_loop X cutoff entries n)"
proof (induction entries arbitrary: n)
  case (Cons e entries)
  obtain name node where e: "e = (name, node)" by (cases e)
  have "preserving (fdo (fs_remove (temp_directory @ [name])))"
    by (auto simp: preserving_def fdo_def grows_def published_def temp_directory_def)
  with Cons.IH show ?case unfolding e cleanup_loop.simps
    by (auto intro!: preserving_intros split: node.splits)
qed (auto intro: preserving_intros)

lemma preserving_open: "preserving (blob_open X now maximum)"
proof -
  have "preserving (\<lambda>t. cleanup_loop X (now - age) (dir_entries temp_directory t) 0 t)" for age
    using preserving_cleanup by (simp add: preserving_def)
  then show ?thesis unfolding blob_open_def cleanup_stale_temporary_files_def
    by (intro preserving_intros)
qed

lemma application_backend_Inr:
  assumes "application_backend X ho t = (Inr st, t')"
  shows "st = \<lparr>max_blob_bytes = default_max_blob_bytes\<rparr>" and "grows t t'"
proof -
  have o: "blob_open X (vh_fs_clock ho) default_max_blob_bytes t = (Inr st, t')"
    using assms unfolding application_backend_def by (auto split: prod.splits sum.splits)
  show "grows t t'" by (rule preservingD [OF preserving_open o])
  show "st = \<lparr>max_blob_bytes = default_max_blob_bytes\<rparr>"
    using o unfolding blob_open_def by (auto simp: fbind_Inr fok_Inr)
qed

lemma workspace_backend_Inr:
  assumes "open_workspace_backend X sv ho t = (Inr B, t')"
  shows "B = \<lparr>wb_store = \<lparr>max_blob_bytes = max (max_file_bytes default_limits) (max_manifest_bytes default_limits)\<rparr>,
      wb_blob_root = sv_blob_root sv, wb_limits = default_limits\<rparr>" and "grows t t'"
proof -
  let ?m = "max (max_file_bytes default_limits) (max_manifest_bytes default_limits)"
  obtain st where o: "blob_open X (vh_fs_clock ho) ?m t = (Inr st, t')"
    and B: "B = \<lparr>wb_store = st, wb_blob_root = sv_blob_root sv, wb_limits = default_limits\<rparr>"
    using assms unfolding open_workspace_backend_def workspace_open_def by (auto split: prod.splits sum.splits)
  show "grows t t'" by (rule preservingD [OF preserving_open o])
  have "st = \<lparr>max_blob_bytes = ?m\<rparr>" using o unfolding blob_open_def by (auto simp: fbind_Inr fok_Inr)
  with B show "B = \<lparr>wb_store = \<lparr>max_blob_bytes = ?m\<rparr>, wb_blob_root = sv_blob_root sv, wb_limits = default_limits\<rparr>" by simp
qed

lemma outcomes_not_supported [simp]:
  "into_outcome r \<noteq> RSupported x" "failed code detail \<noteq> RSupported x" "map_workspace_error e \<noteq> RSupported x"
  "map_diff_error e' \<noteq> RSupported x"
  by (cases r; simp) (auto simp: failed_def map_workspace_error_def map_diff_error_def Let_def
      split: ws_error.split diff_error_kind.split)

definition snapshot_backend :: "supervisor \<Rightarrow> workspace_backend" where
  "snapshot_backend sv = \<lparr>wb_store = \<lparr>max_blob_bytes = max (max_file_bytes default_limits) (max_manifest_bytes default_limits)\<rparr>,
      wb_blob_root = sv_blob_root sv, wb_limits = default_limits\<rparr>"

definition context_backend :: blob_store where
  "context_backend = \<lparr>max_blob_bytes = default_max_blob_bytes\<rparr>"

definition capture_context ::
  "externals \<Rightarrow> recovery_codec \<Rightarrow> recovery_host \<Rightarrow> application_context \<Rightarrow> fs \<Rightarrow> application_checkpoint backend_outcome \<times> fs" where
  "capture_context X K ho c = capture X (rk_context K) context_backend (ph_env (vh_capture ho)) (ph_clock (vh_capture ho))
     (fst (ph_uuids (vh_capture ho))) (snd (ph_uuids (vh_capture ho))) c"

lemma persist_checkpoint_Inr:
  assumes "persist_checkpoint X K ho session branch artifact snapshot source label d = (Inr (epoch, c, e), d')"
  obtains now cap eff where
    "persist_in_transaction X K (vh_epoch_id ho) now session branch artifact snapshot source label d = Inr ((cap, eff), d')"
    "epoch = vh_epoch_id ho" "c = word_of_int cap" "e = word_of_int eff"
proof -
  obtain now cap eff where run: "run_tx (persist_in_transaction X K (vh_epoch_id ho) now session branch artifact snapshot source label d) d =
      (Inr (cap, eff), d')" and p: "persisted_checkpoint (vh_epoch_id ho) cap eff = Inr (epoch, c, e)"
    using assms unfolding persist_checkpoint_def by (auto split: sum.splits prod.splits)
  have "persist_in_transaction X K (vh_epoch_id ho) now session branch artifact snapshot source label d = Inr ((cap, eff), d')"
    using run by (simp add: run_tx_Inr)
  moreover have "u64_of_i64 cap = Some c" "u64_of_i64 eff = Some e" "epoch = vh_epoch_id ho"
    using p by (auto simp: persisted_checkpoint_def result_simps)
  ultimately show ?thesis using that by (auto simp: u64_of_i64_def split: if_split_asm)
qed

lemma checkpoint_Supported:
  assumes "checkpoint_application X K sv ho session requested label w = (RSupported report, w1)"
  obtains branch cx t1 artifact t2 source t3 snapshot now cap eff where
    "capture_w02_context X K sv ho session branch (rw_blobs w) (rw_db w) = Inr cx"
    "grows (rw_blobs w) t1" "capture_context X K ho cx t1 = (Supported artifact, t2)"
    "declared_workspace X sv ho session branch t2 (rw_db w) = Inr source" "grows t2 t3"
    "workspace_snapshot X (rk_manifest K) (snapshot_backend sv) (vh_snapshot ho) (rw_host w) (vh_cwd ho) source t3 =
       (Inr snapshot, rw_blobs w1)"
    "persist_in_transaction X K (vh_epoch_id ho) now session branch artifact snapshot source label (rw_db w) =
       Inr ((cap, eff), rw_db w1)"
    "report = checkpoint_report session branch artifact snapshot source (vh_epoch_id ho, word_of_int cap, word_of_int eff)"
    "rw_host w1 = rw_host w"
proof -
  obtain branch cx where ctx: "capture_w02_context X K sv ho session branch (rw_blobs w) (rw_db w) = Inr cx"
    and comp: "checkpoint_components X K sv ho session branch label cx w = (RSupported report, w1)"
    using assms unfolding checkpoint_application_def by (auto split: if_split_asm sum.splits)
  note unf = checkpoint_components_def
  obtain r1 t1 where r1: "application_backend X ho (rw_blobs w) = (r1, t1)" by (rule prod.exhaust)
  from comp r1 obtain st where st: "r1 = Inr st" by (cases r1) (auto simp: unf)
  obtain r2 t2 where r2: "capture X (rk_context K) st (ph_env (vh_capture ho)) (ph_clock (vh_capture ho))
             (fst (ph_uuids (vh_capture ho))) (snd (ph_uuids (vh_capture ho))) cx t1 = (r2, t2)" by (rule prod.exhaust)
  from comp r1 st r2 obtain artifact where art: "r2 = Supported artifact" by (cases r2) (auto simp: unf)
  from comp r1 st r2 art obtain source where dec: "declared_workspace X sv ho session branch t2 (rw_db w) = Inr source"
    by (cases "declared_workspace X sv ho session branch t2 (rw_db w)") (auto simp: unf)
  obtain r3 t3 where r3: "open_workspace_backend X sv ho t2 = (r3, t3)" by (rule prod.exhaust)
  from comp r1 st r2 art dec r3 obtain B where B: "r3 = Inr B" by (cases r3) (auto simp: unf)
  obtain r4 t4 where r4: "workspace_snapshot X (rk_manifest K) B (vh_snapshot ho) (rw_host w) (vh_cwd ho) source t3 = (r4, t4)"
    by (rule prod.exhaust)
  from comp r1 st r2 art dec r3 B r4 obtain snapshot where snap: "r4 = Inr snapshot" by (cases r4) (auto simp: unf)
  obtain r5 d where r5: "persist_checkpoint X K ho session branch artifact snapshot source label (rw_db w) = (r5, d)"
    by (rule prod.exhaust)
  from comp r1 st r2 art dec r3 B r4 snap r5 obtain persisted where per': "r5 = Inr persisted"
    and rep: "report = checkpoint_report session branch artifact snapshot source persisted"
    and w1: "w1 = w\<lparr>rw_blobs := t4, rw_db := d\<rparr>"
    by (cases r5) (auto simp: unf)
  note app = r1 [unfolded st] and cap' = r2 [unfolded art] and wsb = r3 [unfolded B] and snap' = r4 [unfolded snap]
    and per = r5 [unfolded per']
  obtain epoch c e where persisted: "persisted = (epoch, c, e)" by (cases persisted)
  obtain now cap eff where tx: "persist_in_transaction X K (vh_epoch_id ho) now session branch artifact snapshot source label (rw_db w) =
      Inr ((cap, eff), d)" and parts: "epoch = vh_epoch_id ho" "c = word_of_int cap" "e = word_of_int eff"
    by (rule persist_checkpoint_Inr [OF per [unfolded persisted]])
  note a = application_backend_Inr [OF app] and b = workspace_backend_Inr [OF wsb]
  show ?thesis
    by (rule that [OF ctx a(2) _ dec b(2)])
      (use cap' snap' tx rep w1 a b parts persisted in \<open>simp_all add: capture_context_def context_backend_def snapshot_backend_def\<close>)
qed

section \<open>A checkpoint restores\<close>

text \<open>The setting of a checkpoint: serializers that read back what they wrote, no two different
  serialized values with one digest, and a host that leaves the files of the blob store and of the workspace alone while they
  are read.\<close>

definition polite_capture :: "externals \<Rightarrow> put_host \<Rightarrow> bool" where
  "polite_capture X p \<longleftrightarrow> (\<forall>h. polite {temporary_path X h (fst (ph_uuids p)), temporary_path X h (snd (ph_uuids p))} (ph_env p))"

definition context_codec_ok :: "externals \<Rightarrow> context_codec \<Rightarrow> bool" where
  "context_codec_ok X C \<longleftrightarrow> (\<forall>c. context_reads_back C c) \<and>
     (\<forall>c bytes other. context_to_vec C c = Inr bytes \<and> blob_hash_digest X other = blob_hash_digest X bytes \<longrightarrow> other = bytes)"

definition recovery_setting :: "externals \<Rightarrow> recovery_codec \<Rightarrow> recovery_host \<Rightarrow> host_fs \<Rightarrow> bool" where
  "recovery_setting X K ho t \<longleftrightarrow> uuid_codec X \<and> recovery_codec_ok K \<and> context_codec_ok X (rk_context K) \<and>
     manifest_codec_ok (rk_manifest K) \<and> manifests_collision_free X (rk_manifest K) \<and>
     polite_capture X (vh_capture ho) \<and> capture_setting X (vh_snapshot ho) t"

lemma declared_workspace_Inr:
  assumes "declared_workspace X sv ho session branch t d = Inr source"
  shows "source \<noteq> []"
proof -
  obtain events where "events_of_kind X ho session branch ''supervisor.run_started'' d = Inr events"
    using assms by (auto simp: declared_workspace_def result_simps)
  with assms show ?thesis
    by (cases events) (auto simp: declared_workspace_def result_simps split: if_split_asm)
qed

lemma snapshot_grows:
  assumes "workspace_snapshot X C B ho t cwd source bt = (Inr s, bt1)"
    and "source_root B t cwd source = Inr (canonical, mode)" and "capture_setting X ho t"
  shows "grows bt bt1"
proof -
  obtain c bt0 encoded where w: "walk X B ho t canonical [] 0 \<lparr>ca_entries = [], ca_total_bytes = 0\<rparr> bt = (Inr c, bt0)"
    and put: "\<exists>m. blob_put X (wb_store B) (ph_env (ho [])) (ph_clock (ho [])) (fst (ph_uuids (ho [])))
       (snd (ph_uuids (ho []))) encoded manifest_media_type bt0 = (Inr m, bt1)"
    by (rule snapshot_Inr [OF assms(1,2)])
  have "grows bt bt0" using walk_collects(1) [OF assms(3) w] by (simp add: collected_def)
  moreover have "polite {temporary_path X (blob_hash_digest X encoded) (fst (ph_uuids (ho []))),
      temporary_path X (blob_hash_digest X encoded) (snd (ph_uuids (ho [])))} (ph_env (ho []))"
    using assms(3) unfolding capture_setting_def polite_hosts_def by blast
  with put have "grows bt0 bt1" by (auto intro: preservingD [OF preserving_put])
  ultimately show ?thesis by (rule grows_trans)
qed

lemma captured_of_setting:
  assumes "context_codec_ok X (rk_context K)" and "polite_capture X (vh_capture ho)"
    and "capture_context X K ho cx t1 = (Supported artifact, t2)"
  shows "captured X (rk_context K) context_backend t1 cx artifact t2"
proof -
  obtain bytes where "context_to_vec (rk_context K) cx = Inr bytes"
    by (rule capture_Supported [OF assms(3) [unfolded capture_context_def]])
  with assms show ?thesis
    unfolding captured_def capture_context_def context_codec_ok_def polite_capture_def by blast
qed

lemma validated_epoch_ok:
  assumes "load_epoch X K ho epoch d = Inr l" and "application_backend X ho t = (Inr st, t1)"
    and "restore X (rk_context K) context_backend (le_artifact l) t1 = Supported cx"
    and "open_workspace_backend X sv ho t1 = (Inr B, t2)"
    and "workspace_validate X (rk_manifest K) (snapshot_backend sv) (le_workspace l) t2 = Inr r"
  shows "validated_epoch X K sv ho epoch t d = (RSupported (l, cx, snapshot_backend sv), t2)"
proof -
  have "st = context_backend" "B = snapshot_backend sv"
    using application_backend_Inr(1) [OF assms(2)] workspace_backend_Inr(1) [OF assms(4)]
    by (simp_all add: context_backend_def snapshot_backend_def)
  with assms show ?thesis by (simp add: validated_epoch_def)
qed

text \<open>What a reported checkpoint leaves: the epoch as it loads, the captured context, and the workspace
  as the blob store describes it.\<close>

definition holds_checkpoint ::
  "externals \<Rightarrow> recovery_codec \<Rightarrow> supervisor \<Rightarrow> recovery_host \<Rightarrow> epoch_id \<Rightarrow> application_context \<Rightarrow> loaded_epoch \<Rightarrow>
   host_fs \<Rightarrow> path \<Rightarrow> recovery_world \<Rightarrow> fs \<Rightarrow> bool" where
  "holds_checkpoint X K sv ho epoch cx l source canonical w2 t2 \<longleftrightarrow>
     validated_epoch X K sv ho epoch (rw_blobs w2) (rw_db w2) = (RSupported (l, cx, snapshot_backend sv), t2) \<and>
     (\<exists>m files. load_manifest X (rk_manifest K) (snapshot_backend sv) (le_workspace l) t2 = Inr m \<and>
        prepare_files X (wb_store (snapshot_backend sv)) (wm_entries m) t2 = Inr files \<and>
        (\<forall>rho staging r. map_option view (restored_node rho staging m files r) =
           (if visible (snapshot_backend sv) source canonical r
            then map_option captured_view (map_of source (canonical @ r)) else None)))"

lemma checkpoint_held:
  assumes run: "checkpoint_application X K sv ho session requested label w = (RSupported report, w1)"
    and tables: "recovery_tables (rw_db w)" and setting: "recovery_setting X K ho (rw_host w)"
    and later: "recovery_extends (rw_db w1) (rw_db w2)" "grows (rw_blobs w1) (rw_blobs w2)"
    and opens: "vh_store_open ho2" "application_backend X ho2 (rw_blobs w2) = (Inr st, t1)"
      "open_workspace_backend X sv ho2 t1 = (Inr B, t2)"
  shows "\<exists>cx l canonical mode.
    capture_w02_context X K sv ho session (cp_branch_id report) (rw_blobs w) (rw_db w) = Inr cx \<and>
    source_root (snapshot_backend sv) (rw_host w) (vh_cwd ho) (wr_source (cp_workspace report)) = Inr (canonical, mode) \<and>
    holds_checkpoint X K sv ho2 (cp_epoch_id report) cx l (rw_host w) canonical w2 t2 \<and>
    le_epoch_id l = cp_epoch_id report \<and> le_session_id l = cp_session_id report \<and> le_branch_id l = cp_branch_id report \<and>
    ck_component_hash (le_artifact l) = cp_component_hash report"
proof -
  obtain branch cx ta artifact tb source tc snapshot now cap eff where
    ctx: "capture_w02_context X K sv ho session branch (rw_blobs w) (rw_db w) = Inr cx"
    and capt: "capture_context X K ho cx ta = (Supported artifact, tb)"
    and dec: "declared_workspace X sv ho session branch tb (rw_db w) = Inr source" and grow: "grows tb tc"
    and snap: "workspace_snapshot X (rk_manifest K) (snapshot_backend sv) (vh_snapshot ho) (rw_host w) (vh_cwd ho) source tc =
       (Inr snapshot, rw_blobs w1)"
    and tx: "persist_in_transaction X K (vh_epoch_id ho) now session branch artifact snapshot source label (rw_db w) =
       Inr ((cap, eff), rw_db w1)"
    and rep: "report = checkpoint_report session branch artifact snapshot source (vh_epoch_id ho, word_of_int cap, word_of_int eff)"
    by (rule checkpoint_Supported [OF run])
  have set: "recovery_codec_ok K" "uuid_codec X" "context_codec_ok X (rk_context K)" "polite_capture X (vh_capture ho)"
    "capture_setting X (vh_snapshot ho) (rw_host w)" "manifest_codec_ok (rk_manifest K)" "manifests_collision_free X (rk_manifest K)"
    using setting by (simp_all add: recovery_setting_def)
  let ?l = "loaded_of (vh_epoch_id ho) session branch artifact snapshot source (word_of_int cap) (word_of_int eff)"
  have load: "load_epoch X K ho2 (vh_epoch_id ho) (rw_db w2) = Inr ?l"
    by (rule load_extends [OF later(1) persist_tx_extends(2) [OF tx tables]
          load_persisted [OF tx tables set(1,2) declared_workspace_Inr [OF dec] opens(1)]])
  obtain canonical mode where root: "source_root (snapshot_backend sv) (rw_host w) (vh_cwd ho) source = Inr (canonical, mode)"
    using snap unfolding workspace_snapshot_def by (auto split: sum.splits prod.splits)
  have grows12: "grows (rw_blobs w1) t1" "grows (rw_blobs w1) t2"
    using later(2) application_backend_Inr(2) [OF opens(2)] workspace_backend_Inr(2) [OF opens(3)] grows_trans by blast+
  obtain m files where ws: "load_manifest X (rk_manifest K) (snapshot_backend sv) snapshot t2 = Inr m"
    "prepare_files X (wb_store (snapshot_backend sv)) (wm_entries m) t2 = Inr files"
    "\<forall>rho staging r. map_option view (restored_node rho staging m files r) =
       (if visible (snapshot_backend sv) (rw_host w) canonical r
        then map_option captured_view (map_of (rw_host w) (canonical @ r)) else None)"
    using snapshot_restores [OF snap root set(5,6,7) grows12(2)] by blast
  have "grows tb (rw_blobs w1)" using grow snapshot_grows [OF snap root set(5)] by (rule grows_trans)
  then have "grows tb t1" using grows12(1) grows_trans by blast
  then have "restore X (rk_context K) context_backend artifact t1 = Supported cx"
    by (rule application.captured_restores [OF captured_of_setting [OF set(3,4) capt]])
  moreover have "workspace_validate X (rk_manifest K) (snapshot_backend sv) snapshot t2 = Inr (restore_report_of m files)"
    using ws by (simp add: workspace_validate_def)
  ultimately have "validated_epoch X K sv ho2 (vh_epoch_id ho) (rw_blobs w2) (rw_db w2) =
      (RSupported (?l, cx, snapshot_backend sv), t2)"
    by (intro validated_epoch_ok [OF load opens(2) _ opens(3)]) (simp_all add: loaded_of_def)
  with ws ctx root show ?thesis
    unfolding holds_checkpoint_def by (intro exI [of _ cx] exI [of _ ?l] exI [of _ canonical] exI [of _ mode])
      (simp add: loaded_of_def rep checkpoint_report_def)
qed

end
