(* ===== verification/Epoch_Recovery_Example.thy ===== *)
theory Epoch_Recovery_Example
  imports Epoch_Recovery_Proofs Epoch_Workspace_Properties Epoch_Protocol_Properties
begin

text \<open>
  A concrete run for the witnesses: a completed session with the four events a checkpoint reads, a
  workspace of one file, and codecs for the values that occur in it.
\<close>

definition rx_state_hash :: string where "rx_state_hash = encode_hex (replicate 32 (CHR ''z''))"

definition rx_externals :: externals where
  "rx_externals = example_externals
     \<lparr>sha256 := (\<lambda>bs. replicate 32 (if length bs = 1 then hd bs else CHR ''x'')),
      json_from_slice := (\<lambda>s.
        if s = ''start'' then Some (JObject [(''working_directory'', JString ''/s'')])
        else if s = ''update'' then Some (JObject [(''payload'', JObject [(''revision'', JNumber (PosInt 2)),
          (''context_hash'', JString (rx_state_hash))])])
        else if s = ''safe'' then Some (JObject [(''sequence'', JNumber (PosInt 5)),
          (''payload'', JObject [(''safe_point_id'', JString ''p1''),
             (''context_hash'', JString (rx_state_hash))])])
        else if s = ''stderr'' then Some (JObject [(''bytes'', JString ''summary'')])
        else Some JNull)\<rparr>"

definition rx_context :: application_context where
  "rx_context = example_context\<lparr>cx_cursors := \<lparr>rc_boundary_sequence = 5, rc_message_cursor = 2, rc_tool_cursor = 0,
     rc_task_cursor = 0\<rparr>\<rparr>"

definition rx_summary :: captured_run_summary where
  "rx_summary =
     \<lparr>cr_state = \<lparr>cs_seed = 7, cs_scenario = ''s'', cs_model_response_hash = BlobHash ''h'', cs_files = [], cs_memory = None,
        cs_child = None, cs_network = None, cs_completed_tools = []\<rparr>,
      cr_state_hash = blob_hash_digest rx_externals ''z'', cr_normalized_trace_hash = BlobHash ''h'', cr_event_count = 7,
      cr_checkpoint_context = rx_context\<rparr>"

definition rx_manifest :: workspace_manifest where
  "rx_manifest = \<lparr>wm_schema_version = 1, wm_hardlink_policy = Materialize, wm_root_mode = 0x1ED,
     wm_entries = [\<lparr>we_path = ''a'', we_kind = EntryRegular 0x1A4 False 1 (blob_hash_digest rx_externals ''f'')\<rparr>]\<rparr>"

definition rx_app :: stored_application_metadata where
  "rx_app = \<lparr>sm_schema_version = 1, sm_safe_point_id = ''p1'', sm_context_revision = 2, sm_boundary_sequence = 5,
     sm_restore_scope = ApplicationAndWorkspace, sm_label = None\<rparr>"

definition rx_ws :: stored_workspace_metadata where
  "rx_ws = \<lparr>sw_schema_version = 1, sw_source = ''/s'', sw_restore_scope = ApplicationAndWorkspace\<rparr>"

text \<open>A codec of one value.\<close>

definition only :: "'a \<Rightarrow> string \<Rightarrow> 'a \<Rightarrow> (string, string) result" where
  "only x s y = (if y = x then Inr s else Inl ''unsupported'')"

definition rx_codec :: recovery_codec where
  "rx_codec =
     \<lparr>rk_context = \<lparr>context_to_vec = only rx_context ''c'', context_from_slice = (\<lambda>_. Inr rx_context),
        version_probe = (\<lambda>_. Inr 1)\<rparr>,
      rk_manifest = \<lparr>manifest_to_vec = only rx_manifest ''m'', manifest_from_slice = (\<lambda>_. Inr rx_manifest)\<rparr>,
      rk_bytes_from_value = as_str, rk_summary_from_slice = (\<lambda>_. Some rx_summary), rk_state_to_vec = (\<lambda>_. Inr ''z''),
      rk_app_to_string = only rx_app ''app'', rk_app_from_str = (\<lambda>_. Inr rx_app),
      rk_ws_to_string = only rx_ws ''ws'', rk_ws_from_str = (\<lambda>_. Inr rx_ws),
      rk_json_boundary = (\<lambda>_. Some 5), rk_wire = example_wire\<rparr>"

definition rx_event :: "string \<Rightarrow> i64 \<Rightarrow> string \<Rightarrow> string \<Rightarrow> event_row" where
  "rx_event i n kind payload =
     \<lparr>ev_id = i, ev_session_id = ''1'', ev_branch_id = ''01'', ev_sequence = n, ev_epoch_id = None, ev_causal_parent_id = None,
      ev_monotonic_ns = 0, ev_occurred_at = 0, ev_actor = ''supervisor'', ev_kind = kind, ev_input_hash = None,
      ev_output_hash = None, ev_status = ''succeeded'', ev_payload_json = payload, ev_payload_blob_hash = None\<rparr>"

definition rx_db :: db where
  "rx_db = example_db
     \<lparr>t_sessions := map (\<lambda>s. s\<lparr>s_state := ''completed''\<rparr>) (t_sessions example_db),
      t_branches := map (\<lambda>b. b\<lparr>b_state := ''completed'', b_next_event_sequence := 4\<rparr>) (t_branches example_db),
      t_events := [rx_event ''001'' 0 ''supervisor.run_started'' ''start'', rx_event ''101'' 1 ''context.update'' ''update'',
        rx_event ''011'' 2 ''safe_point'' ''safe'', rx_event ''111'' 3 ''process.stderr'' ''stderr'']\<rparr>"

definition rx_world :: recovery_world where
  "rx_world = \<lparr>rw_blobs = opened_fs, rw_db = rx_db, rw_host = ws_tree\<rparr>"

text \<open>The host, with the answer of its clock.\<close>

definition rx_host_at :: "(string, i64) result \<Rightarrow> recovery_host" where
  "rx_host_at now = \<lparr>vh_store_open = True, vh_poisoned = False, vh_clock = now, vh_fs_clock = 9, vh_cwd = [],
     vh_epoch_id = DomainId 3, vh_branch_id = DomainId 4, vh_capture = ws_host [], vh_snapshot = ws_host,
     vh_restore = ws_restore_host,
     vh_journal = \<lparr>jh_poisoned = False, jh_event_id = DomainId 9, jh_env = quiet, jh_uuids = (3, 4), jh_fs_clock = 9\<rparr>\<rparr>"

abbreviation rx_host :: recovery_host where "rx_host \<equiv> rx_host_at (Inr 9)"

definition rx_supervisor :: supervisor where
  "rx_supervisor = \<lparr>sv_journal_store = \<lparr>max_blob_bytes = default_max_blob_bytes\<rparr>, sv_blob_root = [''b'']\<rparr>"

definition rx_read :: "u64 \<Rightarrow> uuid \<Rightarrow> string \<Rightarrow> string \<Rightarrow> event" where
  "rx_read n i kind payload =
     \<lparr>event_id = DomainId i, event_sequence = n, event_session_id = example_session, event_branch_id = example_branch,
      event_epoch_id = None, event_causal_parent = None, event_monotonic_ns = 0, event_occurred_at = 0,
      event_actor_of = Supervisor, event_kind_of = EventKind kind, event_input_hash = None, event_output_hash = None,
      event_status_of = Succeeded, event_payload_json = payload, event_payload_blob_hash = None\<rparr>"

lemma rx_rows:
  "filter (event_matches rx_externals \<lparr>eq_session_id = example_session, eq_branch_id = Some example_branch,
      eq_kind = Some (EventKind ''supervisor.run_started''), eq_sequence = None\<rparr> 0 i64_max) (t_events rx_db) =
     [rx_event ''001'' 0 ''supervisor.run_started'' ''start'']"
  "filter (event_matches rx_externals \<lparr>eq_session_id = example_session, eq_branch_id = Some example_branch,
      eq_kind = Some (EventKind ''context.update''), eq_sequence = None\<rparr> 0 i64_max) (t_events rx_db) =
     [rx_event ''101'' 1 ''context.update'' ''update'']"
  "filter (event_matches rx_externals \<lparr>eq_session_id = example_session, eq_branch_id = Some example_branch,
      eq_kind = Some (EventKind ''safe_point''), eq_sequence = None\<rparr> 0 i64_max) (t_events rx_db) =
     [rx_event ''011'' 2 ''safe_point'' ''safe'']"
  "filter (event_matches rx_externals \<lparr>eq_session_id = example_session, eq_branch_id = Some example_branch,
      eq_kind = Some (EventKind ''process.stderr''), eq_sequence = None\<rparr> 0 i64_max) (t_events rx_db) =
     [rx_event ''111'' 3 ''process.stderr'' ''stderr'']"
  by code_simp+

lemma rx_kinds: "event_kind_new ''supervisor.run_started'' = Inr (EventKind ''supervisor.run_started'')"
  "event_kind_new ''context.update'' = Inr (EventKind ''context.update'')"
  "event_kind_new ''safe_point'' = Inr (EventKind ''safe_point'')"
  "event_kind_new ''process.stderr'' = Inr (EventKind ''process.stderr'')"
  by code_simp+

lemma rx_scope: "query_scope rx_externals False \<lparr>eq_session_id = example_session, eq_branch_id = Some example_branch,
      eq_kind = k, eq_sequence = None\<rparr> rx_db = Inr ()"
proof -
  have "ensure_session_exists rx_externals example_session rx_db = Inr ()"
    "ensure_branch_scope rx_externals example_session example_branch rx_db = Inr ()" by code_simp+
  then show ?thesis by (simp add: query_scope_def journal_lock_def when_some_def)
qed

lemma rx_decode:
  assumes "0 \<le> n" and "event_kind_new kind = Inr (EventKind kind)"
  shows "decode_event rx_externals (rx_event i n kind payload) =
    Inr (rx_read (word_of_int n) (of_nat (nat_of_bits i)) kind payload)"
proof -
  have "parse_actor ''supervisor'' = Inr Supervisor" "parse_status ''succeeded'' = Inr Succeeded"
    by code_simp+
  moreover have "uuid_parse rx_externals s = Some (of_nat (nat_of_bits s))" for s
    by (simp add: rx_externals_def example_externals_def)
  ultimately show ?thesis using assms
    by (simp add: decode_event_def rx_event_def rx_read_def u64_of_i64_def parse_stored_id_def id_parse_def
      example_session_def example_branch_def)
qed

lemma rx_query:
  assumes "event_kind_new kind = Inr (EventKind kind)" and "0 \<le> n"
    and "filter (event_matches rx_externals \<lparr>eq_session_id = example_session, eq_branch_id = Some example_branch,
      eq_kind = Some (EventKind kind), eq_sequence = None\<rparr> 0 i64_max) (t_events rx_db) = [rx_event i n kind payload]"
  shows "events_of_kind rx_externals (rx_host_at now) example_session example_branch kind rx_db =
    Inr [rx_read (word_of_int n) (of_nat (nat_of_bits i)) kind payload]"
  using assms
  by (simp add: events_of_kind_def query_events_def sequence_bounds_def query_rows_def rx_decode rx_host_at_def rx_scope)

lemma rx_events:
  "events_of_kind rx_externals (rx_host_at now) example_session example_branch ''supervisor.run_started'' rx_db =
     Inr [rx_read 0 4 ''supervisor.run_started'' ''start'']"
  "events_of_kind rx_externals (rx_host_at now) example_session example_branch ''context.update'' rx_db =
     Inr [rx_read 1 5 ''context.update'' ''update'']"
  "events_of_kind rx_externals (rx_host_at now) example_session example_branch ''safe_point'' rx_db =
     Inr [rx_read 2 6 ''safe_point'' ''safe'']"
  "events_of_kind rx_externals (rx_host_at now) example_session example_branch ''process.stderr'' rx_db =
     Inr [rx_read 3 7 ''process.stderr'' ''stderr'']"
  using rx_query [OF rx_kinds(1) _ rx_rows(1)] rx_query [OF rx_kinds(2) _ rx_rows(2)]
    rx_query [OF rx_kinds(3) _ rx_rows(3)] rx_query [OF rx_kinds(4) _ rx_rows(4)]
  by simp_all

lemma rx_reads: "read_payload rx_externals st (rx_read n i kind payload) t =
    ok_or (json_from_slice rx_externals payload) JJson"
  by (simp add: read_payload_def rx_read_def)

lemma rx_payloads:
  "json_from_slice rx_externals ''start'' = Some (JObject [(''working_directory'', JString ''/s'')])"
  "json_from_slice rx_externals ''update'' = Some (JObject [(''payload'', JObject [(''revision'', JNumber (PosInt 2)),
          (''context_hash'', JString (rx_state_hash))])])"
  "json_from_slice rx_externals ''safe'' = Some (JObject [(''sequence'', JNumber (PosInt 5)),
          (''payload'', JObject [(''safe_point_id'', JString ''p1''),
             (''context_hash'', JString (rx_state_hash))])])"
  "json_from_slice rx_externals ''stderr'' = Some (JObject [(''bytes'', JString ''summary'')])"
  by (simp_all add: rx_externals_def)

lemma rx_hash: "blob_hash_from_str (rx_state_hash) = Some (blob_hash_digest rx_externals ''z'')"
  by code_simp

lemma rx_sequence: "event_sequence (rx_read n i kind payload) = n"
  by (simp add: rx_read_def)

lemma rx_boundary: "validate_boundary rx_externals rx_supervisor (rx_host_at now) example_session example_branch
    (blob_hash_digest rx_externals ''z'') t rx_db =
    Inr \<lparr>vb_safe_sequence = 5, vb_safe_point_id = ''p1'', vb_context_revision = 2\<rparr>"
proof -
  have "\<not> (2 :: u64) \<le> 1" by code_simp
  then show ?thesis
    by (simp add: validate_boundary_def rx_events rx_reads last_event_def rx_payloads json_at_def rx_sequence rx_hash)
qed

lemma rx_captured: "capture_w02_context rx_externals rx_codec rx_supervisor (rx_host_at now) example_session example_branch t rx_db =
    Inr rx_context"
proof -
  have "validate_capture rx_externals rx_codec rx_supervisor (rx_host_at now) example_session example_branch rx_summary t rx_db = Inr ()"
    using rx_boundary [of now t]
    by (simp add: validate_capture_def rx_codec_def rx_summary_def rx_context_def example_context_def Let_def
      expected_tools_def btree_of_def)
  then show ?thesis
    by (simp add: capture_w02_context_def rx_events rx_reads rx_payloads json_at_def Let_def)
      (simp add: rx_codec_def rx_summary_def)
qed

lemma rx_declared: "declared_workspace rx_externals rx_supervisor (rx_host_at now) example_session example_branch t rx_db = Inr ''/s''"
  by (simp add: declared_workspace_def rx_events rx_reads rx_payloads json_at_def)

lemma rx_branch: "resolve_branch rx_externals (rx_host_at now) example_session None rx_db = Inr example_branch"
  by code_simp

end
