(* ===== verification/Epoch_Recovery_Runs.thy ===== *)
theory Epoch_Recovery_Runs
  imports Epoch_Recovery_Example
begin

text \<open>
  The steps of the concrete checkpoint, each evaluated on what its predecessor left.
\<close>

section \<open>The blobs and the snapshot\<close>

definition rx_artifact :: application_checkpoint where
  "rx_artifact = \<lparr>ck_component_hash = blob_hash_digest rx_externals ''c'', ck_byte_length = 1, ck_schema_version = 1,
     ck_metadata = \<lparr>cm_safe_point_id = ''p1'', cm_context_revision = 2, cm_boundary_sequence = 5\<rparr>\<rparr>"

definition rx_snapshot :: manifest_ref where
  "rx_snapshot = \<lparr>ws_manifest_hash = blob_hash_digest rx_externals ''m'', ws_manifest_length = 1\<rparr>"

text \<open>The blob store after each of the three puts.\<close>

definition rx_fs1 :: fs where
  "rx_fs1 =
     [([''sha256'', ''63'', ''6363636363636363636363636363636363636363636363636363636363636363.media-type''],
      Regular 384 application_context_media_type 5),
     ([''sha256'', ''63'', ''6363636363636363636363636363636363636363636363636363636363636363''],
      Regular 384 ''c'' 5),
     ([''sha256'', ''63''], Dir 448)] @ opened_fs"

definition rx_fs2 :: fs where
  "rx_fs2 =
     [([''sha256'', ''66'', ''6666666666666666666666666666666666666666666666666666666666666666.media-type''],
      Regular 384 file_media_type 5),
     ([''sha256'', ''66'', ''6666666666666666666666666666666666666666666666666666666666666666''],
      Regular 384 ''f'' 5),
     ([''sha256'', ''66''], Dir 448)] @ rx_fs1"

definition rx_fs3 :: fs where
  "rx_fs3 =
     [([''sha256'', ''6d'', ''6d6d6d6d6d6d6d6d6d6d6d6d6d6d6d6d6d6d6d6d6d6d6d6d6d6d6d6d6d6d6d6d.media-type''],
      Regular 384 manifest_media_type 5),
     ([''sha256'', ''6d'', ''6d6d6d6d6d6d6d6d6d6d6d6d6d6d6d6d6d6d6d6d6d6d6d6d6d6d6d6d6d6d6d6d''],
      Regular 384 ''m'' 5),
     ([''sha256'', ''6d''], Dir 448)] @ rx_fs2"


lemma rx_digests: "blob_hash_digest rx_externals ''c'' = BlobHash ''6363636363636363636363636363636363636363636363636363636363636363''"
  "blob_hash_digest rx_externals ''f'' = BlobHash ''6666666666666666666666666666666666666666666666666666666666666666''"
  "blob_hash_digest rx_externals ''m'' = BlobHash ''6d6d6d6d6d6d6d6d6d6d6d6d6d6d6d6d6d6d6d6d6d6d6d6d6d6d6d6d6d6d6d6d''"
  by (simp_all add: blob_hash_digest_def encode_hex_def rx_externals_def numeral_eq_Suc hex_digit_def)


lemma rx_limits: "length bs < 10 \<Longrightarrow> \<not> unat (max_blob_bytes context_backend) < length bs"
  "length bs < 10 \<Longrightarrow> \<not> unat (max_blob_bytes (wb_store (snapshot_backend sv))) < length bs"
  "0 < unat (max_blob_bytes context_backend)" "0 < unat (max_blob_bytes (wb_store (snapshot_backend sv)))"
  by (simp_all add: context_backend_def snapshot_backend_def default_max_blob_bytes_def default_limits_def max_def)

lemmas rx_files = fbind_def fok_def ferr_def fpure_def fdo_def ensure_secure_directory_def validate_directory_def
  validate_unix_permissions_def private_directory_mode_def private_file_mode_def secure_regular_file_exists_def
  fs_put_def fs_remove_def with_temporary_def create_temporary_def publish_no_clobber_def hard_link_def
  discard_temporary_def shard_directory_def blob_path_def media_type_path_def temporary_path_def temp_directory_def

lemma rx_put_context:
  "blob_put rx_externals context_backend (ph_env (ws_host [])) 5 1 2 ''c'' application_context_media_type opened_fs =
   (Inr \<lparr>m_hash = blob_hash_digest rx_externals ''c'', m_length = 1, m_media_type = application_context_media_type\<rparr>, rx_fs1)"
proof -
  have "validate_media_type application_context_media_type = Inr ()" 
    by (simp add: validate_media_type_def valid_media_type_def application_context_media_type_def is_ascii_control_def)
  then show ?thesis
    by (simp add: blob_put_def rx_limits store_bytes_def ensure_media_type_def rx_digests rx_files Let_def rx_fs1_def opened_fs_def
        ws_host_def application_context_media_type_def)
qed

lemma rx_open:
  assumes "map_of t [] = Some (Dir 448)" "map_of t [''sha256''] = Some (Dir 448)" "map_of t [''sha256'', ''.tmp''] = Some (Dir 448)"
    and "dir_entries temp_directory t = []"
  shows "blob_open X now n t = (Inr \<lparr>max_blob_bytes = n\<rparr>, t)"
  using assms by (simp add: blob_open_def rx_files cleanup_stale_temporary_files_def symlink_metadata_def)

lemma rx_opens: "t \<in> {opened_fs, rx_fs1, rx_fs3} \<Longrightarrow> blob_open X now n t = (Inr \<lparr>max_blob_bytes = n\<rparr>, t)"
  by (rule rx_open) (auto simp: opened_fs_def rx_fs1_def rx_fs2_def rx_fs3_def dir_entries_def temp_directory_def)

lemma rx_application_opens: "t \<in> {opened_fs, rx_fs1, rx_fs3} \<Longrightarrow> application_backend X ho t = (Inr context_backend, t)"
  by (simp add: application_backend_def rx_opens context_backend_def)

lemma rx_workspace_opens:
  "t \<in> {opened_fs, rx_fs1, rx_fs3} \<Longrightarrow> open_workspace_backend X sv ho t = (Inr (snapshot_backend sv), t)"
proof -
  assume "t \<in> {opened_fs, rx_fs1, rx_fs3}"
  moreover have "validate_limits default_limits = Inr ()" by (simp add: validate_limits_def default_limits_def)
  ultimately show ?thesis by (simp add: open_workspace_backend_def workspace_open_def rx_opens snapshot_backend_def)
qed

lemma rx_put_manifest:
  "blob_put rx_externals (wb_store (snapshot_backend rx_supervisor)) (ph_env (ws_host [])) 5 1 2 ''m'' manifest_media_type rx_fs2 =
   (Inr \<lparr>m_hash = blob_hash_digest rx_externals ''m'', m_length = 1, m_media_type = manifest_media_type\<rparr>, rx_fs3)"
proof -
  have "validate_media_type manifest_media_type = Inr ()"
    by (simp add: validate_media_type_def valid_media_type_def manifest_media_type_def is_ascii_control_def)
  then show ?thesis
    by (simp add: blob_put_def rx_limits store_bytes_def ensure_media_type_def rx_digests rx_files Let_def rx_fs3_def rx_fs2_def rx_fs1_def opened_fs_def
        ws_host_def manifest_media_type_def)
qed

lemma rx_root: "source_root (snapshot_backend rx_supervisor) ws_tree [] ''/s'' = Inr ([''s''], 0x1ED)"
proof -
  have "path_components ''/s'' = [RootDir, Normal ''s'']" by code_simp
  then show ?thesis by (simp add: source_root_def lstat_def ws_tree_def snapshot_backend_def rx_supervisor_def max_links_def metadata_mode_def path_prefix_def is_directory_def)
qed


lemma rx_put_file:
  "blob_put rx_externals (wb_store (snapshot_backend rx_supervisor)) (ph_env (ws_host [''a''])) 5 1 2 ''f'' file_media_type rx_fs1 =
   (Inr \<lparr>m_hash = blob_hash_digest rx_externals ''f'', m_length = 1, m_media_type = file_media_type\<rparr>, rx_fs2)"
proof -
  have "validate_media_type file_media_type = Inr ()"
    by (simp add: validate_media_type_def valid_media_type_def file_media_type_def is_ascii_control_def)
  then show ?thesis
    by (simp add: blob_put_def rx_limits store_bytes_def ensure_media_type_def rx_digests rx_files Let_def rx_fs2_def rx_fs1_def opened_fs_def
        ws_host_def file_media_type_def)
qed

lemma rx_walk:
  "walk rx_externals (snapshot_backend rx_supervisor) ws_host ws_tree [''s''] [] 0 \<lparr>ca_entries = [], ca_total_bytes = 0\<rparr> rx_fs1 =
   (Inr \<lparr>ca_entries = wm_entries rx_manifest, ca_total_bytes = 1\<rparr>, rx_fs2)"
proof -
  have limits: "wb_limits (snapshot_backend rx_supervisor) = default_limits" "wb_blob_root (snapshot_backend rx_supervisor) = [''b'']"
    by (simp_all add: snapshot_backend_def rx_supervisor_def)
  have utf8: "is_utf8 ''a''" by code_simp
  have path: "path_to_manifest [''a''] = Inr ''a''" "enforce_path_limits ''a'' (Suc 0) default_limits = Inr ()"
    "child_names [''s''] ws_tree = [''a'']"
    by (simp_all add: path_to_manifest_def utf8 enforce_path_limits_def enforce_limit_def u64_of_usize_def default_limits_def
        child_names_def ws_tree_def)
  have host: "ph_clock (ws_host [''a'']) = 5" "fst (ph_uuids (ws_host [''a''])) = 1" "snd (ph_uuids (ws_host [''a''])) = 2"
    by (simp_all add: ws_host_def)
  let ?st = "\<lparr>fs_dev = 1, fs_ino = 2, fs_mtime = 3, fs_mtime_nsec = 0, fs_mode = 0x81A4\<rparr>"
  have "capture_file rx_externals (snapshot_backend rx_supervisor) (ws_host [''a'']) [''s'', ''a''] ''a'' ?st ''f''
      \<lparr>ca_entries = [], ca_total_bytes = 0\<rparr> rx_fs1 = (Inr \<lparr>ca_entries = wm_entries rx_manifest, ca_total_bytes = 1\<rparr>, rx_fs2)"
    using rx_put_file
    by (simp add: capture_file_def read_regular_file_def limits host same_file_def default_limits_def enforce_limit_def
        u64_of_usize_def checked_add_u64_def push_entry_def rx_manifest_def metadata_mode_def is_executable_def)
  moreover have "map_of ws_tree [''s'', ''a''] = Some (HostFile ?st ''f'')" "is_directory [''s''] ws_tree"
    by (simp_all add: ws_tree_def is_directory_def)
  moreover have "add_entry default_limits \<lparr>ca_entries = [], ca_total_bytes = 0\<rparr> = Inr ()"
    by (simp add: add_entry_def default_limits_def)
  ultimately show ?thesis
    by (simp add: visit_child_def path limits utf8)
qed

lemma rx_built: "build_manifest 0x1ED \<lparr>ca_entries = wm_entries rx_manifest, ca_total_bytes = 1\<rparr> = rx_manifest"
  by (simp add: build_manifest_def rx_manifest_def workspace_schema_version_def metadata_mode_def)

lemma rx_encode: "encode_manifest (rk_manifest rx_codec) default_limits rx_manifest = Inr ''m''"
proof -
  have "validate_manifest rx_manifest default_limits = Inr ()"
    by (simp add: validate_manifest_def rx_manifest_def default_limits_def validate_mode_def validate_manifest_path_def
        has_drive_letter_def enforce_path_limits_def enforce_limit_def u64_of_usize_def validate_entry_kind_def
        is_executable_def checked_add_u64_def parents_present_def starts_with_def Let_def)
  then show ?thesis by (simp add: encode_manifest_def rx_codec_def only_def enforce_limit_def u64_of_usize_def default_limits_def)
qed

lemma rx_restorable: "restorable rx_externals ws_restore_host ''/r'' [] ''r'' ws_tree"
  by (simp add: restorable_def restore_lock_path_def staging_path_def ws_tree_def Let_def)

lemma rx_tables: "recovery_tables rx_db"
  by (simp add: recovery_tables_def rx_db_def example_db_def)

lemma rx_capture:
  "capture rx_externals (rk_context rx_codec) context_backend (ph_env (ws_host [])) 5 1 2 rx_context opened_fs =
   (Supported rx_artifact, rx_fs1)"
proof -
  have "validate_context_shape rx_context = Inr ()"
  proof -
    have "trim ''p1'' \<noteq> []" "trim ''m'' \<noteq> []" "trim ''r'' \<noteq> []" by code_simp+
    then show ?thesis
      by (simp add: validate_context_shape_def rx_context_def example_context_def bounded_identifier_def bounded_name_def
          check_string_def max_identifier_bytes_def max_name_bytes_def check_integer_def max_signed_integer_def
          bounded_collection_def max_collection_items_def)
  qed
  moreover have "validate_references rx_externals context_backend opened_fs rx_context = Inr ()" 
    by (simp add: validate_references_def context_references_def rx_context_def example_context_def)
  moreover have "context_to_vec (rk_context rx_codec) rx_context = Inr ''c''" by (simp add: rx_codec_def only_def)
  ultimately show ?thesis
    using rx_put_context by (simp add: capture_def rx_artifact_def application_context_schema_version_def)
     (simp add: rx_context_def example_context_def)
qed

lemma rx_workspace_snapshot:
  "workspace_snapshot rx_externals (rk_manifest rx_codec) (snapshot_backend rx_supervisor) ws_host ws_tree [] ''/s'' rx_fs1 =
   (Inr rx_snapshot, rx_fs3)"
proof -
  have host: "ph_clock (ws_host []) = 5" "fst (ph_uuids (ws_host [])) = 1" "snd (ph_uuids (ws_host [])) = 2"
    by (simp_all add: ws_host_def)
  have limits: "wb_limits (snapshot_backend rx_supervisor) = default_limits" by (simp add: snapshot_backend_def)
  show ?thesis
    unfolding workspace_snapshot_def rx_root sum.case prod.case rx_walk limits rx_built rx_encode host rx_put_manifest
    by (simp add: rx_snapshot_def)
qed

section \<open>The transaction\<close>

definition rx_blob_rows :: "blob_row list" where
  "rx_blob_rows = [\<lparr>bl_hash = hash_str (blob_hash_digest rx_externals ''c''), bl_byte_length = 1,
       bl_media_type = application_context_media_type, bl_created_at = 9\<rparr>,
     \<lparr>bl_hash = hash_str (blob_hash_digest rx_externals ''m''), bl_byte_length = 1,
       bl_media_type = manifest_media_type, bl_created_at = 9\<rparr>]"

definition rx_component :: "string \<Rightarrow> string \<Rightarrow> string \<Rightarrow> string \<Rightarrow> component_row" where
  "rx_component kind backend bytes metadata =
     \<lparr>k_epoch_id = ''11'', k_kind = kind, k_status = ''committed'', k_backend = backend,
      k_blob_hash = Some (hash_str (blob_hash_digest rx_externals bytes)),
      k_checksum = hash_str (blob_hash_digest rx_externals bytes), k_byte_length = 1,
      k_metadata_json = metadata, k_staged_at = 9, k_committed_at = Some 9\<rparr>"

definition rx_epoch :: epoch_row where
  "rx_epoch = \<lparr>e_id = ''11'', e_session_id = ''1'', e_branch_id = ''01'', e_parent_epoch_id = None, e_sequence = 0,
     e_status = ''creating'', e_backend = Some composite_backend, e_policy_revision = 0, e_effect_frontier = 0,
     e_manifest_hash = None, e_created_at = 9, e_committed_at = None, e_capability_frontier = 0\<rparr>"

definition rx_staged :: "blob_row list \<Rightarrow> epoch_row list \<Rightarrow> component_row list \<Rightarrow> db" where
  "rx_staged blobs epochs components = rx_db\<lparr>t_blobs := blobs, t_epochs := epochs, t_components := components\<rparr>"

definition rx_components :: "component_row list" where
  "rx_components = [rx_component workspace_component_kind workspace_backend_name ''m'' ''ws'',
     rx_component application_component_kind application_backend_name ''c'' ''app'']"

definition rx_committed :: db where
  "rx_committed = rx_staged rx_blob_rows [rx_epoch\<lparr>e_status := ''committed'', e_committed_at := Some 9\<rparr>] rx_components"

lemma rx_hex: "is_sha256_hex (hash_str (blob_hash_digest rx_externals k))"
proof -
  have "sha256_sized rx_externals" by (simp add: sha256_sized_def rx_externals_def)
  from is_sha256_hex_sha256_hex [OF this, of k] show ?thesis by (simp add: blob_hash_digest_def sha256_hex_def)
qed

lemma rx_distinct: "hash_str (blob_hash_digest rx_externals ''m'') \<noteq> hash_str (blob_hash_digest rx_externals ''c'')"
  by code_simp

lemma rx_numbers: "i64_of_u64 1 = Some 1" by code_simp

lemma rx_ids: "id_to_string rx_externals (DomainId 3) = ''11''" "id_to_string rx_externals example_session = ''1''"
  "id_to_string rx_externals example_branch = ''01''"
  by (simp_all add: id_to_string_def rx_externals_def example_externals_def example_session_def example_branch_def bits_of_nat.simps) 

lemma rx_scoped: "ensure_completed_scope rx_externals example_session example_branch rx_db = Inr ()"
  by (simp add: ensure_completed_scope_def session_branch_def by_key_def rx_staged_def rx_db_def example_db_def rx_ids)

lemma rx_blob1: "register_component_blob rx_artifact 9 rx_db = Inr (rx_staged (take (Suc 0) rx_blob_rows) [] [])"
  by (simp add: register_component_blob_def register_checked_blob_def rx_artifact_def rx_numbers number_def blob_row_check_def rx_hex blob_registered_def rx_blob_rows_def application_context_media_type_def length_between_def sql_length_def Let_def rx_staged_def rx_db_def example_db_def)

lemma rx_blob2: "register_workspace_blob rx_snapshot 9 (rx_staged (take (Suc 0) rx_blob_rows) [] []) = Inr (rx_staged rx_blob_rows [] [])"
  by (simp add: register_workspace_blob_def register_checked_blob_def rx_snapshot_def rx_numbers number_def blob_row_check_def rx_hex blob_registered_def rx_blob_rows_def manifest_media_type_def length_between_def sql_length_def Let_def rx_staged_def rx_db_def example_db_def rx_distinct rx_distinct [symmetric])

lemma rx_next: "next_epoch rx_externals example_branch (rx_staged rx_blob_rows [] []) = Inr (0, None)"
  by (simp add: next_epoch_def rx_staged_def rx_db_def example_db_def rx_ids)

lemma rx_frontiers: "security_frontiers rx_externals example_session example_branch (rx_staged rx_blob_rows [] []) = (0, 0)"
  by (simp add: security_frontiers_def Let_def rx_staged_def rx_db_def example_db_def rx_ids)

lemma rx_policy: "map_option s_policy_revision (by_key s_id ''1'' (t_sessions (rx_staged rx_blob_rows [] []))) = Some 0"
  by (simp add: by_key_def rx_staged_def rx_db_def example_db_def rx_ids)

lemma rx_insert: "sql_insert (epoch_insert_ok (rx_staged rx_blob_rows [] [])) rx_epoch (t_epochs (rx_staged rx_blob_rows [] [])) = Some [rx_epoch]"
  by (simp add: sql_insert_def epoch_insert_ok_def epoch_check_def rx_epoch_def branch_exists_def i64_max_def rx_staged_def rx_db_def example_db_def rx_ids)

lemma rx_comp1: "insert_component rx_externals (DomainId 3) workspace_component_kind workspace_backend_name (ws_manifest_hash rx_snapshot)
     (ws_manifest_length rx_snapshot) ''ws'' 9 (rx_staged rx_blob_rows [rx_epoch] []) =
     Inr (rx_staged rx_blob_rows [rx_epoch] (take (Suc 0) rx_components))"
  by (simp add: rx_snapshot_def insert_component_def number_def sql_stmt_def sql_insert_def component_insert_ok_def rx_numbers rx_hex rx_components_def rx_component_def rx_blob_rows_def blob_registered_def length_between_def sql_length_def rx_epoch_def workspace_component_kind_def workspace_backend_name_def application_component_kind_def application_backend_name_def rx_staged_def rx_db_def example_db_def rx_ids) (simp add: rx_externals_def example_externals_def)

lemma rx_comp2: "insert_component rx_externals (DomainId 3) application_component_kind application_backend_name (ck_component_hash rx_artifact)
     (ck_byte_length rx_artifact) ''app'' 9 (rx_staged rx_blob_rows [rx_epoch] (take (Suc 0) rx_components)) =
     Inr (rx_staged rx_blob_rows [rx_epoch] rx_components)"
  by (simp add: rx_artifact_def insert_component_def number_def sql_stmt_def sql_insert_def component_insert_ok_def rx_numbers rx_hex rx_components_def rx_component_def rx_blob_rows_def blob_registered_def length_between_def sql_length_def rx_epoch_def workspace_component_kind_def workspace_backend_name_def application_component_kind_def application_backend_name_def rx_staged_def rx_db_def example_db_def rx_ids) (simp add: rx_externals_def example_externals_def)

lemma rx_commit: "commit_composite_epoch rx_externals (DomainId 3) 9 (rx_staged rx_blob_rows [rx_epoch] rx_components) = Inr rx_committed"
  by (simp add: commit_composite_epoch_def sql_stmt_def sql_update_def epoch_check_def rx_epoch_def i64_max_def rx_committed_def rx_staged_def rx_db_def example_db_def rx_ids)

lemma rx_metadata:
  "rk_app_to_string rx_codec \<lparr>sm_schema_version = ck_schema_version rx_artifact,
     sm_safe_point_id = cm_safe_point_id (ck_metadata rx_artifact),
     sm_context_revision = cm_context_revision (ck_metadata rx_artifact),
     sm_boundary_sequence = cm_boundary_sequence (ck_metadata rx_artifact),
     sm_restore_scope = ApplicationAndWorkspace, sm_label = None\<rparr> = Inr ''app''"
  "rk_ws_to_string rx_codec \<lparr>sw_schema_version = workspace_schema_version, sw_source = ''/s'',
     sw_restore_scope = ApplicationAndWorkspace\<rparr> = Inr ''ws''"
  by (simp_all add: rx_codec_def only_def rx_app_def rx_ws_def rx_artifact_def workspace_schema_version_def)

lemma rx_inserted: "(rx_staged rx_blob_rows [] [])\<lparr>t_epochs := [rx_epoch]\<rparr> = rx_staged rx_blob_rows [rx_epoch] []"
  by (simp add: rx_staged_def)

lemma rx_transaction:
  "persist_in_transaction rx_externals rx_codec (DomainId 3) 9 example_session example_branch rx_artifact rx_snapshot ''/s''
     None rx_db = Inr ((0, 0), rx_committed)"
  unfolding persist_in_transaction_def
  by (simp add: rx_scoped rx_blob1 rx_blob2 rx_next rx_frontiers rx_policy rx_insert rx_comp1 rx_comp2 rx_commit
      rx_metadata rx_inserted rx_ids sql_stmt_def rx_epoch_def [symmetric])

lemma rx_persisted:
  "persist_checkpoint rx_externals rx_codec rx_host example_session example_branch rx_artifact rx_snapshot ''/s'' None rx_db =
   (Inr (DomainId 3, 0, 0), rx_committed)"
proof -
  have "vh_epoch_id rx_host = DomainId 3" "vh_clock rx_host = Inr 9" "open_store rx_host = Inr ()"
    by (simp_all add: rx_host_at_def open_store_def)
  then show ?thesis
    by (simp add: persist_checkpoint_def rx_transaction run_tx_def persisted_checkpoint_def number_def u64_of_i64_def)
qed

definition rx_after :: recovery_world where
  "rx_after = \<lparr>rw_blobs = rx_fs3, rw_db = rx_committed, rw_host = ws_tree\<rparr>"

definition rx_report :: application_checkpoint_report where
  "rx_report = checkpoint_report example_session example_branch rx_artifact rx_snapshot ''/s'' (DomainId 3, 0, 0)"

lemma rx_host: "ph_env (vh_capture (rx_host_at now)) = ph_env (ws_host [])" "ph_clock (vh_capture (rx_host_at now)) = 5"
    "fst (ph_uuids (vh_capture (rx_host_at now))) = 1" "snd (ph_uuids (vh_capture (rx_host_at now))) = 2"
    "vh_snapshot (rx_host_at now) = ws_host" "vh_cwd (rx_host_at now) = []"
  by (simp_all add: rx_host_at_def ws_host_def)

lemma rx_worlds: "rw_blobs rx_world = opened_fs" "rw_db rx_world = rx_db" "rw_host rx_world = ws_tree"
    "rx_world\<lparr>rw_blobs := rx_fs3, rw_db := rx_committed\<rparr> = rx_after"
  by (simp_all add: rx_world_def rx_after_def)

lemma rx_checkpoint:
  "checkpoint_application rx_externals rx_codec rx_supervisor rx_host example_session None None rx_world =
   (RSupported rx_report, rx_after)"
  by (simp add: checkpoint_application_def checkpoint_components_def rx_host rx_worlds rx_branch rx_captured rx_declared
      rx_application_opens rx_capture rx_workspace_opens rx_workspace_snapshot rx_persisted rx_report_def)

lemma rx_checkpoint_without_clock:
  "checkpoint_application rx_externals rx_codec rx_supervisor (rx_host_at (Inl ''clock'')) example_session None None rx_world =
   (RFailed (recovery_issue_new RcPersistence (IssueClock ''clock'')), rx_world\<lparr>rw_blobs := rx_fs3, rw_db := rx_db\<rparr>)"
proof -
  have "persist_checkpoint rx_externals rx_codec (rx_host_at (Inl ''clock'')) example_session example_branch rx_artifact rx_snapshot
      ''/s'' None rx_db = (Inl (recovery_issue_new RcPersistence (IssueClock ''clock'')), rx_db)"
    by (simp add: persist_checkpoint_def) (simp add: rx_host_at_def)
  then show ?thesis
    by (simp add: checkpoint_application_def checkpoint_components_def rx_host rx_worlds rx_branch rx_captured rx_declared
      rx_application_opens rx_capture rx_workspace_opens rx_workspace_snapshot)
qed

section \<open>The setting of the run\<close>

lemma rx_digest_inj:
  assumes "length k = 1" and "k \<noteq> ''x''" and "blob_hash_digest rx_externals c = blob_hash_digest rx_externals k"
  shows "c = k"
proof -
  have "encode_hex (sha256 rx_externals c) = encode_hex (sha256 rx_externals k)"
    using assms(3) unfolding blob_hash_digest_def blob_hash.inject .
  then have "sha256 rx_externals c = sha256 rx_externals k" by (rule encode_hex_inj)
  then have "(if length c = 1 then hd c else CHR ''x'') = hd k"
    using assms(1) by (simp add: rx_externals_def replicate_eq_replicate)
  with assms(1,2) show ?thesis by (cases c; cases k) (auto split: if_splits)
qed

lemma rx_setting: "recovery_setting rx_externals rx_codec rx_host ws_tree"
  unfolding recovery_setting_def
proof (intro conjI)
  show "uuid_codec rx_externals" using example_codec by (simp add: uuid_codec_def rx_externals_def)
  show "recovery_codec_ok rx_codec"
    by (auto simp: recovery_codec_ok_def rx_codec_def only_def split: if_splits)
  show "context_codec_ok rx_externals (rk_context rx_codec)"
    using rx_digest_inj [of "''c''"]
    by (auto simp: context_codec_ok_def context_reads_back_def rx_codec_def only_def rx_context_def example_context_def
      split: if_splits)
  show "manifest_codec_ok (rk_manifest rx_codec)" "manifests_collision_free rx_externals (rk_manifest rx_codec)"
    using rx_digest_inj [of "''m''"]
    by (auto simp: manifest_codec_ok_def manifests_collision_free_def rx_codec_def only_def split: if_splits)
  show "polite_capture rx_externals (vh_capture rx_host)"
    by (simp add: polite_capture_def rx_host_at_def ws_host_def quiet_polite)
  show "capture_setting rx_externals (vh_snapshot rx_host) ws_tree"
    unfolding capture_setting_def
  proof (intro conjI)
    show "tree_ok ws_tree" "names_ok ws_tree" using ws_setting by (simp_all add: capture_setting_def)
    show "no_collision rx_externals ws_tree" unfolding no_collision_def
      using rx_digest_inj [of "''f''"] by (auto simp: ws_tree_def split: if_splits)
    show "polite_hosts rx_externals (vh_snapshot rx_host)"
      by (simp add: polite_hosts_def rx_host_at_def ws_host_def quiet_polite)
  qed
qed

section \<open>The database after it\<close>

lemma rx_inv: "recovery_inv rx_db" "recovery_inv rx_committed"
proof -
  show i: "recovery_inv rx_db"
    using rx_tables by (simp add: recovery_inv_def branch_epochs_def) (simp add: rx_db_def example_db_def)
  have "recovery_inv (rw_db (recovery_step rx_externals rx_codec rx_supervisor (OpCheckpoint rx_host example_session None None) rx_world))"
    using recovery_step_keeps i rx_worlds(2) by metis
  then show "recovery_inv rx_committed" by (simp add: rx_checkpoint) (simp add: rx_after_def)
qed

definition rx_loaded :: loaded_epoch where
  "rx_loaded = loaded_of (DomainId 3) example_session example_branch rx_artifact rx_snapshot ''/s'' 0 0"

lemma rx_loads: "load_epoch rx_externals rx_codec rx_host (DomainId 3) rx_committed = Inr rx_loaded"
proof -
  have "uuid_codec rx_externals" "recovery_codec_ok rx_codec" using rx_setting by (simp_all add: recovery_setting_def)
  moreover have "vh_store_open rx_host" by (simp add: rx_host_at_def)
  ultimately show ?thesis
    using load_persisted [OF rx_transaction rx_tables] by (simp add: rx_loaded_def)
qed

end
