(* ===== verification/Epoch_Recovery_Properties.thy ===== *)
theory Epoch_Recovery_Properties
  imports Epoch_Recovery_Runs
begin

text \<open>
  The properties of composite epochs and forks: a reported checkpoint restores, epochs survive every
  later operation and stay chained, a refused checkpoint leaves the database alone, and a fork reads
  back as it was made.
\<close>

section \<open>Checkpoints restore\<close>

lemma record_activation_Inl:
  assumes "record_activation X sv ho l c target s = (Inl i, s')"
  shows "ri_code i = RcPersistence"
  using assms unfolding record_activation_def recovery_issue_new_def
  by (auto simp: result_simps split: sum.splits prod.splits)

lemma held_activates:
  assumes "holds_checkpoint X K sv ho epoch cx l source canonical w t"
    and "validate_restore_target (rw_host w) (rh_cwd (vh_restore ho)) raw = Inr (parent, name)"
    and "tree_ok (rw_host w)" and "restorable X (vh_restore ho) raw parent name (rw_host w)"
  shows "\<exists>outcome w'. restore_application X K sv ho epoch Activate (Some raw) w = (outcome, w') \<and>
    (outcome = RSupported (restore_report_from l cx True (Some raw)) \<or>
     (\<exists>i. outcome = RFailed i \<and> ri_code i = RcPersistence)) \<and>
    (\<forall>r. map_option view (map_of (rw_host w') ((parent @ [name]) @ r)) =
       (if visible (snapshot_backend sv) source canonical r
        then map_option captured_view (map_of source (canonical @ r)) else None)) \<and>
    (\<forall>q. path_prefix (parent @ [name]) q \<or> map_of (rw_host w') q = map_of (rw_host w) q)"
proof -
  obtain m files where val: "validated_epoch X K sv ho epoch (rw_blobs w) (rw_db w) = (RSupported (l, cx, snapshot_backend sv), t)"
    and load: "load_manifest X (rk_manifest K) (snapshot_backend sv) (le_workspace l) t = Inr m"
    and files: "prepare_files X (wb_store (snapshot_backend sv)) (wm_entries m) t = Inr files"
    and views: "\<And>rho staging r. map_option view (restored_node rho staging m files r) =
       (if visible (snapshot_backend sv) source canonical r
        then map_option captured_view (map_of source (canonical @ r)) else None)"
    using assms(1) unfolding holds_checkpoint_def by blast
  obtain h where run: "workspace_restore X (rk_manifest K) (snapshot_backend sv) (vh_restore ho) (le_workspace l) raw t (rw_host w) =
      (Inr (restore_report_of m files), h)"
    and h: "\<And>q. map_of h q = (if path_prefix (parent @ [name]) q
        then restored_node (vh_restore ho) (staging_path X parent name (rh_uuid (vh_restore ho))) m files (drop (Suc (length parent)) q)
        else map_of (rw_host w) q)"
    using restore_ok [OF load files assms(2-4)] by blast
  obtain r t' d where act: "record_activation X sv ho l cx (Some raw) (t, rw_db w) = (r, (t', d))" by (metis prod.collapse)
  let ?outcome = "case r of Inl e \<Rightarrow> RFailed e | Inr _ \<Rightarrow> RSupported (restore_report_from l cx True (Some raw))"
  have "restore_application X K sv ho epoch Activate (Some raw) w = (?outcome, \<lparr>rw_blobs = t', rw_db = d, rw_host = h\<rparr>)"
    unfolding restore_application_def by (cases r) (simp_all add: val run act)
  moreover have "?outcome = RSupported (restore_report_from l cx True (Some raw)) \<or>
      (\<exists>i. ?outcome = RFailed i \<and> ri_code i = RcPersistence)"
    using record_activation_Inl [of X sv ho l cx "Some raw" "(t, rw_db w)"] act by (cases r) auto
  moreover have "map_option view (map_of h ((parent @ [name]) @ r)) =
      (if visible (snapshot_backend sv) source canonical r
       then map_option captured_view (map_of source (canonical @ r)) else None)" for r
  proof -
    have "path_prefix (parent @ [name]) ((parent @ [name]) @ r)" by (rule path_prefix_append)
    with h [of "(parent @ [name]) @ r"] views show ?thesis by simp
  qed
  moreover have "path_prefix (parent @ [name]) q \<or> map_of h q = map_of (rw_host w) q" for q by (simp add: h)
  ultimately show ?thesis by auto
qed

text \<open>C16: a checkpoint the supervisor has reported can be restored. Let a run be checkpointed, let the
  database and the blob store be used further (epochs, components and blobs only added), and let
  the epoch be activated at a free target later, by whatever host, once the stores open. Then the
  context handed back is the one captured from the run, the report names the checkpoint's session,
  branch and component, the tree below the target is exactly what the workspace showed when it was
  checkpointed, and nothing outside the target changes. The only refusal left is the journal's, when
  the activation itself cannot be recorded.\<close>

theorem checkpoint_restores:
  assumes "checkpoint_application X K sv ho session requested label w = (RSupported report, w1)"
    and "recovery_tables (rw_db w)" and "recovery_setting X K ho (rw_host w)"
    and "recovery_extends (rw_db w1) (rw_db w2)" and "grows (rw_blobs w1) (rw_blobs w2)"
    and "vh_store_open ho2" and "application_backend X ho2 (rw_blobs w2) = (Inr st, t1)"
    and "open_workspace_backend X sv ho2 t1 = (Inr B, t2)"
    and "validate_restore_target (rw_host w2) (rh_cwd (vh_restore ho2)) raw = Inr (parent, name)"
    and "tree_ok (rw_host w2)" and "restorable X (vh_restore ho2) raw parent name (rw_host w2)"
  shows "\<exists>cx canonical mode outcome w3.
    capture_w02_context X K sv ho session (cp_branch_id report) (rw_blobs w) (rw_db w) = Inr cx \<and>
    source_root (snapshot_backend sv) (rw_host w) (vh_cwd ho) (wr_source (cp_workspace report)) = Inr (canonical, mode) \<and>
    restore_application X K sv ho2 (cp_epoch_id report) Activate (Some raw) w2 = (outcome, w3) \<and>
    ((\<exists>r. outcome = RSupported r \<and> ar_context r = cx \<and> ar_session_id r = cp_session_id report \<and>
        ar_branch_id r = cp_branch_id report \<and> ar_component_hash r = cp_component_hash report) \<or>
     (\<exists>i. outcome = RFailed i \<and> ri_code i = RcPersistence)) \<and>
    (\<forall>r. map_option view (map_of (rw_host w3) ((parent @ [name]) @ r)) =
       (if visible (snapshot_backend sv) (rw_host w) canonical r
        then map_option captured_view (map_of (rw_host w) (canonical @ r)) else None)) \<and>
    (\<forall>q. path_prefix (parent @ [name]) q \<or> map_of (rw_host w3) q = map_of (rw_host w2) q)"
proof -
  obtain cx l canonical mode where
    ctx: "capture_w02_context X K sv ho session (cp_branch_id report) (rw_blobs w) (rw_db w) = Inr cx"
    and root: "source_root (snapshot_backend sv) (rw_host w) (vh_cwd ho) (wr_source (cp_workspace report)) = Inr (canonical, mode)"
    and held: "holds_checkpoint X K sv ho2 (cp_epoch_id report) cx l (rw_host w) canonical w2 t2"
    and l: "le_session_id l = cp_session_id report" "le_branch_id l = cp_branch_id report"
      "ck_component_hash (le_artifact l) = cp_component_hash report"
    using checkpoint_held [OF assms(1-8)] by blast
  have "ar_context (restore_report_from l cx True (Some raw)) = cx"
    "ar_session_id (restore_report_from l cx True (Some raw)) = cp_session_id report"
    "ar_branch_id (restore_report_from l cx True (Some raw)) = cp_branch_id report"
    "ar_component_hash (restore_report_from l cx True (Some raw)) = cp_component_hash report"
    using l by (simp_all add: restore_report_from_def)
  with held_activates [OF held assms(9-11)] ctx root show ?thesis by blast
qed

theorem checkpoint_restores_witness:
  "\<exists>outcome w3. restore_application rx_externals rx_codec rx_supervisor rx_host (DomainId 3) Activate (Some ''/r'') rx_after =
       (outcome, w3) \<and>
     ((\<exists>r. outcome = RSupported r \<and> ar_context r = rx_context) \<or> (\<exists>i. outcome = RFailed i \<and> ri_code i = RcPersistence)) \<and>
     map_option view (map_of (rw_host w3) [''r'', ''a'']) = Some (ViewFile 0x1A4 ''f'') \<and>
     map_option view (map_of (rw_host w3) [''r'', ''b'']) = None"
proof -
  have after: "rw_blobs rx_after = rx_fs3" "rw_db rx_world = rx_db" "rw_host rx_world = ws_tree" "rw_host rx_after = ws_tree"
    "vh_restore rx_host = ws_restore_host" "vh_cwd rx_host = []" "vh_store_open rx_host" "rw_blobs rx_world = opened_fs"
    by (simp_all add: rx_after_def rx_world_def rx_host_at_def)
  have report: "cp_epoch_id rx_report = DomainId 3" "cp_branch_id rx_report = example_branch"
    "wr_source (cp_workspace rx_report) = ''/s''"
    by (simp_all add: rx_report_def checkpoint_report_def)
  have tree: "tree_ok (rw_host rx_after)" using ws_setting by (simp add: after capture_setting_def)
  have tables: "recovery_tables (rw_db rx_world)" and setting: "recovery_setting rx_externals rx_codec rx_host (rw_host rx_world)"
    by (simp_all only: after rx_tables rx_setting)
  have opens: "application_backend rx_externals rx_host (rw_blobs rx_after) = (Inr context_backend, rx_fs3)"
    "open_workspace_backend rx_externals rx_supervisor rx_host rx_fs3 = (Inr (snapshot_backend rx_supervisor), rx_fs3)"
    by (simp_all add: after rx_application_opens rx_workspace_opens)
  have target: "validate_restore_target (rw_host rx_after) (rh_cwd (vh_restore rx_host)) ''/r'' = Inr ([], ''r'')"
    and free: "restorable rx_externals (vh_restore rx_host) ''/r'' [] ''r'' (rw_host rx_after)"
    by (simp_all only: after ws_target rx_restorable)
  note restores = checkpoint_restores [OF rx_checkpoint tables setting recovery_extends_refl grows_refl after(7) opens target
      tree free, unfolded after report]
  obtain cx canonical mode outcome w3 where
    run: "restore_application rx_externals rx_codec rx_supervisor rx_host (DomainId 3) Activate (Some ''/r'') rx_after = (outcome, w3)"
    and cx: "capture_w02_context rx_externals rx_codec rx_supervisor rx_host example_session example_branch opened_fs rx_db = Inr cx"
    and root: "source_root (snapshot_backend rx_supervisor) ws_tree [] ''/s'' = Inr (canonical, mode)"
    and out: "(\<exists>r. outcome = RSupported r \<and> ar_context r = cx) \<or>
       (\<exists>i. outcome = RFailed i \<and> ri_code i = RcPersistence)"
    and views: "\<And>r. map_option view (map_of (rw_host w3) (([] @ [''r'']) @ r)) =
       (if visible (snapshot_backend rx_supervisor) ws_tree canonical r
        then map_option captured_view (map_of ws_tree (canonical @ r)) else None)"
    using restores by blast
  have "cx = rx_context" using cx rx_captured by simp
  moreover have "canonical = [''s'']" using root rx_root by simp
  moreover have "visible (snapshot_backend rx_supervisor) ws_tree [''s''] [''a'']"
    "\<not> visible (snapshot_backend rx_supervisor) ws_tree [''s''] [''b'']"
    by (simp_all add: visible_def clear_def ws_tree_def snapshot_backend_def rx_supervisor_def)
  ultimately show ?thesis
    using run out views [of "[''a'']"] views [of "[''b'']"] by (auto simp: ws_tree_def metadata_mode_def)
qed

section \<open>Epochs survive\<close>

text \<open>C17: no operation of the supervisor alters an epoch. An epoch that loads, loads with the same
  session, branch, application artifact, workspace manifest, source and security frontiers after any
  sequence of checkpoints, restores, diffs, status requests, forks and inspections, with arbitrary
  arguments and hosts, whether they succeed or fail.\<close>

theorem epochs_survive:
  assumes "recovery_inv (rw_db w)" and "load_epoch X K ho epoch (rw_db w) = Inr l"
  shows "load_epoch X K ho epoch (rw_db (recovery_run X K sv ops w)) = Inr l"
  by (rule run_keeps_loaded [OF assms])

definition rx_operations :: "recovery_op list" where
  "rx_operations = [OpCheckpoint rx_host example_session None None, OpRestore rx_host (DomainId 3) Activate (Some ''/r''),
     OpFork rx_host (DomainId 3) ''fork'']"

theorem epochs_survive_witness:
  "load_epoch rx_externals rx_codec rx_host (DomainId 3)
     (rw_db (recovery_run rx_externals rx_codec rx_supervisor rx_operations rx_after)) = Inr rx_loaded"
  by (rule epochs_survive) (simp_all add: rx_after_def rx_inv rx_loads)

text \<open>C18: the epochs of a branch stay a chain: in the order they were committed they are numbered
  0, 1, 2, .., every one is committed (no half-written epoch is ever left), and each names its
  predecessor as its parent, after any sequence of supervisor operations.\<close>

theorem epochs_stay_chained:
  assumes "recovery_inv (rw_db w)"
  shows "chain None 0 (branch_epochs br (rw_db (recovery_run X K sv ops w)))"
  using recovery.run_inv [OF assms] by (simp add: recovery_inv_def)

theorem epochs_stay_chained_witness:
  "chain None 0 (branch_epochs ''01'' (rw_db (recovery_run rx_externals rx_codec rx_supervisor rx_operations rx_after))) \<and>
   map e_id (branch_epochs ''01'' (rw_db rx_after)) = [''11'']"
proof
  show "chain None 0 (branch_epochs ''01'' (rw_db (recovery_run rx_externals rx_codec rx_supervisor rx_operations rx_after)))"
    by (rule epochs_stay_chained) (simp add: rx_after_def rx_inv)
  show "map e_id (branch_epochs ''01'' (rw_db rx_after)) = [''11'']"
    by (simp add: rx_after_def branch_epochs_def rx_committed_def rx_staged_def rx_epoch_def)
qed

lemma persist_checkpoint_Inl:
  assumes "persist_checkpoint X K ho session branch artifact snapshot source label d = (Inl e, d')"
  shows "d' = d"
proof (rule ccontr)
  assume "d' \<noteq> d"
  with assms obtain now cap eff where
    tx: "persist_in_transaction X K (vh_epoch_id ho) now session branch artifact snapshot source label d = Inr ((cap, eff), d')"
    and bad: "persisted_checkpoint (vh_epoch_id ho) cap eff = Inl e"
    unfolding persist_checkpoint_def by (auto simp: run_tx_eq split: sum.splits prod.splits)
  have "0 \<le> cap" "0 \<le> eff" by (rule persist_tx_Inr [OF tx], simp)+
  with bad show False by (simp add: persisted_checkpoint_def number_def u64_of_i64_def)
qed

lemma checkpoint_outcome:
  "(\<exists>report. fst (checkpoint_application X K sv ho session requested label w) = RSupported report) \<or>
   rw_db (snd (checkpoint_application X K sv ho session requested label w)) = rw_db w \<or>
   (\<exists>branch artifact snapshot source e. persist_checkpoint X K ho session branch artifact snapshot source label (rw_db w) =
      (Inl e, rw_db (snd (checkpoint_application X K sv ho session requested label w))))"
  unfolding checkpoint_application_def checkpoint_components_def
  by (auto split: sum.splits prod.splits backend_outcome.splits)

lemma checkpoint_host: "rw_host (snd (checkpoint_application X K sv ho session requested label w)) = rw_host w"
  unfolding checkpoint_application_def checkpoint_components_def
  by (auto split: sum.splits prod.splits backend_outcome.splits)

text \<open>C19: a checkpoint is atomic in the database: when it is not reported as taken, no table has
  changed, and neither has the host's tree, whatever blobs were already published and at whatever step it was refused.\<close>

theorem refused_checkpoint_leaves_database:
  assumes "checkpoint_application X K sv ho session requested label w = (outcome, w1)"
    and "\<forall>report. outcome \<noteq> RSupported report"
  shows "rw_db w1 = rw_db w \<and> rw_host w1 = rw_host w"
  using assms checkpoint_outcome [of X K sv ho session requested label w]
    checkpoint_host [of X K sv ho session requested label w] persist_checkpoint_Inl by fastforce

theorem refused_checkpoint_leaves_database_witness:
  "\<exists>w1. checkpoint_application rx_externals rx_codec rx_supervisor (rx_host_at (Inl ''clock'')) example_session None None rx_world =
       (RFailed (recovery_issue_new RcPersistence (IssueClock ''clock'')), w1) \<and>
     rw_blobs w1 = rx_fs3 \<and> rw_db w1 = rx_db \<and> rw_host w1 = ws_tree"
proof -
  have "rw_db (rx_world\<lparr>rw_blobs := rx_fs3, rw_db := rx_db\<rparr>) = rw_db rx_world \<and>
      rw_host (rx_world\<lparr>rw_blobs := rx_fs3, rw_db := rx_db\<rparr>) = rw_host rx_world"
    by (rule refused_checkpoint_leaves_database [OF rx_checkpoint_without_clock]) simp
  with rx_checkpoint_without_clock show ?thesis by (simp add: rx_worlds)
qed

end
