(* ===== verification/Epoch_Fork_Properties.thy ===== *)
theory Epoch_Fork_Properties
  imports Epoch_Recovery_Runs
begin

text \<open>
  The properties of durable forks: a reported fork reads back, is recorded by one row and nothing
  else, and the names of a session's forks are unique.
\<close>

section \<open>What is stored\<close>

lemma branch_inserted:
  assumes "persist_fork X K ho source branch name now d = (Inr u, d')"
  obtains point where "i64_of_u64 (rc_boundary_sequence (cx_cursors (va_context source))) = Some point"
    "branch_insert_ok K d (t_branches d) (fork_row X source branch name point now)"
    "d' = d\<lparr>t_branches := t_branches d @ [fork_row X source branch name point now]\<rparr>"
  using assms unfolding persist_fork_def
  by (auto simp: run_tx_eq result_simps table_simps split: sum.splits)

lemma rejection_fails: "into_outcome r \<noteq> RSupported x"
  by (cases r) simp_all

lemma map_error_fails: "map_workspace_error e \<noteq> RSupported x"
  by (cases e) (simp_all add: map_workspace_error_def)

lemma loaded_epoch_id:
  assumes "load_epoch X K ho epoch d = Inr l"
  shows "le_epoch_id l = epoch"
proof -
  obtain q where row: "load_application_epoch_row X epoch d = Inr (Some q)"
    using assms unfolding load_epoch_def by (auto simp: result_simps split: option.split_asm)
  obtain e backend c b where q: "q = (e, backend, c, b)" by (rule prod_cases4)
  from assms show ?thesis
    unfolding load_epoch_def row q by (auto simp: result_simps split: if_split_asm)
qed

lemma source_names_epoch:
  assumes "validated_application_source X K sv ho epoch t d = (RSupported source, t')"
  shows "va_epoch_id source = epoch"
proof -
  obtain l c B t1 where v: "validated_epoch X K sv ho epoch t d = (RSupported (l, c, B), t1)" and s: "source = source_of l c"
    using assms unfolding validated_application_source_def by (auto split: prod.splits recovery_outcome.splits)
  have "load_epoch X K ho epoch d = Inr l"
    using v rejection_fails map_error_fails unfolding validated_epoch_def
    by (auto split: sum.splits prod.splits backend_outcome.splits)
  then have "le_epoch_id l = epoch" by (rule loaded_epoch_id)
  with s show ?thesis by (simp add: source_of_def)
qed

definition fork_of :: "fork_branch_report \<Rightarrow> stored_fork" where
  "fork_of r =
     \<lparr>sf_session_id = fk_session_id r, sf_parent_branch_id = fk_parent_branch_id r, sf_fork_epoch_id = fk_fork_epoch_id r,
      sf_name = fk_name r, sf_fork_point_sequence = fk_fork_point_sequence r, sf_component_hash = fk_component_hash r,
      sf_state = fk_state r, sf_next_event_sequence = fk_next_event_sequence r, sf_created_at = fk_created_at r,
      sf_updated_at = fk_updated_at r\<rparr>"

lemma fork_of_report: "fork_of (fork_report source sf branch rp) = sf"
  by (simp add: fork_of_def fork_report_def)

lemma row_parses:
  assumes "uuid_codec X" and "branch_insert_ok K d rows (fork_row X source branch name point now)"
    and "i64_of_u64 (rc_boundary_sequence (cx_cursors (va_context source))) = Some point"
  shows "parse_stored_fork X (fork_row X source branch name point now) (id_to_string X (va_branch_id source))
      (id_to_string X (va_epoch_id source)) name point (hash_str (va_component_hash source)) = Inr (new_fork source name now)"
proof -
  have "is_sha256_hex (hash_str (va_component_hash source))"
    using assms(2) by (simp add: branch_insert_ok_def branch_check_def fork_row_def)
  then have "blob_hash_from_str (hash_str (va_component_hash source)) = Some (va_component_hash source)"
    by (cases "va_component_hash source") (auto simp: blob_hash_from_str_def is_sha256_hex_def)
  moreover have "u64_of_i64 0 = Some 0" by (simp add: u64_of_i64_def)
  ultimately show ?thesis
    by (simp add: parse_stored_fork_def fork_row_def new_fork_def assms(1) u64_of_i64_of_u64 [OF assms(3)])
qed

lemma by_key_prefix: "by_key key k rows = Some r \<Longrightarrow> by_key key k (rows @ later) = Some r"
  by (induction rows) (auto simp: by_key_def)

lemma stored_row_loads:
  assumes "uuid_codec X" and "branch_insert_ok K d (t_branches d) (fork_row X source branch name point now)"
    and "i64_of_u64 (rc_boundary_sequence (cx_cursors (va_context source))) = Some point"
    and "vh_store_open ho" and "t_branches d2 = (t_branches d @ [fork_row X source branch name point now]) @ later"
  shows "load_stored_fork X ho branch d2 = Inr (new_fork source name now)"
proof -
  let ?r = "fork_row X source branch name point now"
  have "by_key b_id (id_to_string X branch) (t_branches d) = None"
    using assms(2) by (simp add: by_key_eq_None branch_insert_ok_def fork_row_def)
  then have "by_key b_id (id_to_string X branch) (t_branches d @ [?r]) = Some ?r"
    by (simp add: by_key_append fork_row_def)
  then have "by_key b_id (id_to_string X branch) (t_branches d2) = Some ?r"
    unfolding assms(5) by (rule by_key_prefix)
  moreover have "open_store ho = Inr ()" by (simp add: open_store_def assms(4))
  ultimately show ?thesis
    using row_parses [OF assms(1-3)] by (simp add: load_stored_fork_def fork_row_def)
qed


section \<open>Names\<close>

text \<open>What a fork is made of never changes: its identifier, session and lineage. The state, the next
  event sequence and the time of the last update do.\<close>

definition lineage :: "branch_row \<Rightarrow> string \<times> string \<times> string option \<times> string option \<times> string option \<times> i64 option \<times> string option" where
  "lineage b = (b_id b, b_session_id b, b_parent_branch_id b, b_fork_epoch_id b, b_name b, b_fork_point_sequence b,
     b_fork_component_hash b)"

definition lineages_kept :: "db \<Rightarrow> db \<Rightarrow> bool" where
  "lineages_kept d d' \<longleftrightarrow> (\<exists>more. map lineage (t_branches d') = map lineage (t_branches d) @ more)"

definition fork_name :: "branch_row \<Rightarrow> string \<times> string option" where
  "fork_name b = (b_session_id b, b_name b)"

definition forks_named_apart :: "db \<Rightarrow> bool" where
  "forks_named_apart d \<longleftrightarrow> distinct (filter (\<lambda>n. snd n \<noteq> None) (map fork_name (t_branches d)))"

lemma same_lineages:
  assumes "map lineage (t_branches d') = map lineage (t_branches d)"
  shows "lineages_kept d d'" and "forks_named_apart d' = forks_named_apart d"
proof -
  show "lineages_kept d d'" using assms by (simp add: lineages_kept_def)
  let ?name = "\<lambda>(i, session, parent, epoch, name, rest). (session, name)"
  have "map fork_name bs = map ?name (map lineage bs)" for bs by (simp add: fork_name_def lineage_def comp_def)
  with assms have "map fork_name (t_branches d') = map fork_name (t_branches d)" by metis
  then show "forks_named_apart d' = forks_named_apart d" by (simp add: forks_named_apart_def)
qed

lemma persist_fork_names:
  assumes "persist_fork X K ho source branch name now d = (r, d')" and "forks_named_apart d"
  shows "forks_named_apart d' \<and> lineages_kept d d'"
proof (cases r)
  case (Inl e)
  then have "d' = d" using assms(1) unfolding persist_fork_def
    by (auto simp: run_tx_eq result_simps table_simps split: sum.splits)
  with assms(2) show ?thesis by (simp add: lineages_kept_def)
next
  case (Inr u)
  obtain point where ok: "branch_insert_ok K d (t_branches d) (fork_row X source branch name point now)"
    and d': "d' = d\<lparr>t_branches := t_branches d @ [fork_row X source branch name point now]\<rparr>"
    using branch_inserted [OF assms(1) [unfolded Inr]] by blast
  have "(id_to_string X (va_session_id source), Some name) \<notin> fork_name ` set (t_branches d)"
    using ok by (auto simp: branch_insert_ok_def fork_row_def fork_name_def list_ex_iff)
  then show ?thesis
    using assms(2) by (auto simp: forks_named_apart_def d' fork_row_def fork_name_def lineages_kept_def)
qed

lemma append_lineages:
  assumes "append_inner X st ho ne fault (t, d) = (r, (t', d'))"
  shows "map lineage (t_branches d') = map lineage (t_branches d)"
proof (cases r)
  case (Inl e)
  with assms append_Inl have "d' = d" by blast
  then show ?thesis by simp
next
  case (Inr ev)
  have "t_branches d' = map (bumped X (ne_session_id ne) (ne_branch_id ne) d) (t_branches d)"
    by (rule append_Inr [OF assms [unfolded Inr]])
  then show ?thesis by (simp add: bumped_def lineage_def)
qed

lemma persist_checkpoint_branches:
  assumes "persist_checkpoint X K ho session branch artifact snapshot source label d = (r, d')"
  shows "t_branches d' = t_branches d"
proof (cases "d' = d")
  case False
  with assms obtain now cap eff where
    tx: "persist_in_transaction X K (vh_epoch_id ho) now session branch artifact snapshot source label d = Inr ((cap, eff), d')"
    unfolding persist_checkpoint_def by (auto simp: run_tx_eq split: sum.splits prod.splits)
  show ?thesis by (rule persist_tx_Inr [OF tx]) simp
qed simp

lemma restore_lineages:
  "map lineage (t_branches (rw_db (snd (restore_application X K sv ho epoch mode target w)))) =
   map lineage (t_branches (rw_db w))"
proof -
  have "map lineage (t_branches d') = map lineage (t_branches d)"
    if "record_activation X sv ho l c raw (t, d) = (r, (t', d'))" for l c raw t d r t' d'
    using that append_lineages unfolding record_activation_def append_event_def
    by (auto split: sum.splits prod.splits)
  then show ?thesis unfolding restore_application_def
    by (auto split: sum.splits prod.splits recovery_outcome.splits option.splits)
qed

lemma fork_names_step:
  assumes "forks_named_apart (rw_db w)"
  shows "forks_named_apart (rw_db (recovery_step X K sv a w)) \<and> lineages_kept (rw_db w) (rw_db (recovery_step X K sv a w))"
proof -
  have same: "?thesis" if "map lineage (t_branches (rw_db (recovery_step X K sv a w))) = map lineage (t_branches (rw_db w))"
    using same_lineages [OF that] assms by simp
  show ?thesis
  proof (cases a)
    case (OpCheckpoint ho session requested label)
    show ?thesis
      by (rule same) (use checkpoint_db [of X K sv ho session requested label w] persist_checkpoint_branches in \<open>fastforce simp: OpCheckpoint\<close>)
  next
    case (OpRestore ho epoch mode target)
    show ?thesis by (rule same) (simp add: OpRestore restore_lineages)
  next
    case (OpFork ho epoch name)
    have "rw_db (recovery_step X K sv a w) = rw_db w \<or> (\<exists>source branch now r.
        persist_fork X K ho source branch name now (rw_db w) = (r, rw_db (recovery_step X K sv a w)))"
      unfolding OpFork recovery_step.simps fork_application_epoch_def
      by (auto split: sum.splits prod.splits recovery_outcome.splits)
    then show ?thesis using persist_fork_names assms by (auto simp: lineages_kept_def)
  qed (use same in \<open>simp_all add: diff_db status_db fork_inspect_db\<close>)
qed

lemma lineages_kept_refl: "lineages_kept d d"
  by (simp add: lineages_kept_def)

lemma lineages_kept_trans: "lineages_kept a b \<Longrightarrow> lineages_kept b c \<Longrightarrow> lineages_kept a c"
  by (auto simp: lineages_kept_def)

interpretation forks: machine "recovery_step X K sv" "\<lambda>w. forks_named_apart (rw_db w)"
  "\<lambda>w w'. lineages_kept (rw_db w) (rw_db w')" for X K sv
  by unfold_locales (auto simp: fork_names_step lineages_kept_refl intro: lineages_kept_trans)

text \<open>C21: forks stay apart and stay what they are. After any sequence of supervisor operations no two
  forks of a session bear the same name, and every branch there was still has its identifier, session,
  parent, epoch, name, fork point and component.\<close>

theorem forks_stay_apart:
  assumes "forks_named_apart (rw_db w)"
  shows "forks_named_apart (rw_db (recovery_run X K sv ops w)) \<and> lineages_kept (rw_db w) (rw_db (recovery_run X K sv ops w))"
  using forks.run_inv [OF assms] forks.run_evolves [OF assms] by blast


theorem forks_stay_apart_witness:
  "forks_named_apart (rw_db (recovery_run rx_externals rx_codec rx_supervisor
       [OpFork rx_host (DomainId 3) ''trial'', OpFork rx_host (DomainId 3) ''trial''] rx_after)) \<and>
   lineages_kept (rw_db rx_after) (rw_db (recovery_run rx_externals rx_codec rx_supervisor
       [OpFork rx_host (DomainId 3) ''trial'', OpFork rx_host (DomainId 3) ''trial''] rx_after))"
  by (rule forks_stay_apart)
    (simp add: rx_after_def rx_committed_def rx_staged_def rx_db_def example_db_def forks_named_apart_def fork_name_def)

section \<open>A fork of the concrete checkpoint\<close>

lemma rx_validated:
  "validated_epoch rx_externals rx_codec rx_supervisor rx_host (DomainId 3) rx_fs3 rx_committed =
   (RSupported (rx_loaded, rx_context, snapshot_backend rx_supervisor), rx_fs3)"
proof -
  have after: "rw_blobs rx_after = rx_fs3" "rw_db rx_after = rx_committed" "vh_store_open rx_host"
    by (simp_all add: rx_after_def rx_host_at_def)
  have report: "cp_epoch_id rx_report = DomainId 3" "cp_branch_id rx_report = example_branch"
    by (simp_all add: rx_report_def checkpoint_report_def)
  have opens: "application_backend rx_externals rx_host (rw_blobs rx_after) = (Inr context_backend, rx_fs3)"
    "open_workspace_backend rx_externals rx_supervisor rx_host rx_fs3 = (Inr (snapshot_backend rx_supervisor), rx_fs3)"
    by (simp_all add: after rx_application_opens rx_workspace_opens)
  have tables: "recovery_tables (rw_db rx_world)" and setting: "recovery_setting rx_externals rx_codec rx_host (rw_host rx_world)"
    by (simp_all only: rx_worlds rx_tables rx_setting)
  obtain cx l canonical where cx: "capture_w02_context rx_externals rx_codec rx_supervisor rx_host example_session
      (cp_branch_id rx_report) (rw_blobs rx_world) (rw_db rx_world) = Inr cx"
    and held: "holds_checkpoint rx_externals rx_codec rx_supervisor rx_host (cp_epoch_id rx_report) cx l (rw_host rx_world)
      canonical rx_after rx_fs3"
    using checkpoint_held [OF rx_checkpoint tables setting recovery_extends_refl grows_refl after(3) opens] by blast
  then have v: "validated_epoch rx_externals rx_codec rx_supervisor rx_host (DomainId 3) rx_fs3 rx_committed =
      (RSupported (l, cx, snapshot_backend rx_supervisor), rx_fs3)"
    unfolding holds_checkpoint_def report after by blast
  have "cx = rx_context" using cx rx_captured by (simp add: report rx_worlds)
  moreover have "l = rx_loaded"
    using v rx_loads rejection_fails map_error_fails unfolding validated_epoch_def
    by (auto split: sum.splits prod.splits backend_outcome.splits)
  ultimately show ?thesis using v by simp
qed

lemma rx_history: "query_events rx_externals (vh_poisoned rx_host) (query_for_session example_session) rx_committed =
    Inr [rx_read 0 4 ''supervisor.run_started'' ''start'', rx_read 1 5 ''context.update'' ''update'',
      rx_read 2 6 ''safe_point'' ''safe'', rx_read 3 7 ''process.stderr'' ''stderr'']"
proof -
  have rows: "query_rows rx_externals (query_for_session example_session) 0 i64_max rx_committed =
      [rx_event ''001'' 0 ''supervisor.run_started'' ''start'', rx_event ''101'' 1 ''context.update'' ''update'',
        rx_event ''011'' 2 ''safe_point'' ''safe'', rx_event ''111'' 3 ''process.stderr'' ''stderr'']"
    by (simp add: query_rows_def event_matches_def query_for_session_def rx_committed_def rx_staged_def rx_db_def rx_event_def
        rx_ids i64_max_def)
  have "query_scope rx_externals False (query_for_session example_session) rx_committed = Inr ()"
    by (simp add: query_scope_def journal_lock_def query_for_session_def when_some_def ensure_session_exists_def rx_ids
        rx_committed_def rx_staged_def rx_db_def example_db_def)
  moreover have "vh_poisoned rx_host = False" by (simp add: rx_host_at_def)
  ultimately show ?thesis
    by (simp add: query_events_def sequence_bounds_def query_for_session_def rows [unfolded query_for_session_def] rx_decode rx_kinds)
qed

definition rx_source :: application_source where "rx_source = source_of rx_loaded rx_context"

definition rx_replay :: replay where
  "rx_replay = \<lparr>rp_resume_cursor = cx_cursors rx_context, rp_model = [], rp_tool = [], rp_continuation = continuation\<rparr>"

lemma rx_source: "validated_application_source rx_externals rx_codec rx_supervisor rx_host (DomainId 3) rx_fs3 rx_committed =
    (RSupported rx_source, rx_fs3)"
  by (simp add: validated_application_source_def rx_validated rx_source_def)

lemma rx_replayed: "replay_report rx_externals rx_codec rx_supervisor rx_host rx_source rx_fs3 rx_committed = Inr rx_replay"
proof -
  have s: "va_session_id rx_source = example_session" "va_context rx_source = rx_context"
    by (simp_all add: rx_source_def source_of_def rx_loaded_def loaded_of_def)
  have "replay_event rx_externals rx_codec rx_supervisor boundary t (rx_read n i kind payload) = Inr None"
    if "kind \<notin> {''model.response'', ''tool.result''}" for boundary t n i kind payload
    using that by (simp add: replay_event_def rx_read_def)
  then show ?thesis by (simp add: replay_report_def s rx_history rx_replay_def)
qed

definition rx_fork_row :: branch_row where "rx_fork_row = fork_row rx_externals rx_source (DomainId 4) ''trial'' 5 9"

lemma rx_fork_persisted: "persist_fork rx_externals rx_codec rx_host rx_source (DomainId 4) ''trial'' 9 rx_committed =
    (Inr (), rx_committed\<lparr>t_branches := t_branches rx_committed @ [rx_fork_row]\<rparr>)"
proof -
  have s: "va_session_id rx_source = example_session" "va_branch_id rx_source = example_branch"
    "va_epoch_id rx_source = DomainId 3" "va_component_hash rx_source = blob_hash_digest rx_externals ''c''"
    "rc_boundary_sequence (cx_cursors (va_context rx_source)) = 5"
    by (simp_all add: rx_source_def source_of_def rx_loaded_def loaded_of_def rx_artifact_def rx_context_def)
  have n: "i64_of_u64 5 = Some 5" by (simp add: i64_of_u64_def i64_max_def)
  have new: "id_to_string rx_externals (DomainId 4) = ''001''"
    by (simp add: id_to_string_def rx_externals_def example_externals_def bits_of_nat.simps)
  have source: "committed_source rx_codec rx_committed ''11'' ''1'' ''01'' (hash_str (blob_hash_digest rx_externals ''c'')) 5"
    by (simp add: committed_source_def rx_committed_def rx_staged_def rx_epoch_def rx_components_def rx_component_def
        application_component_kind_def workspace_component_kind_def) (simp add: rx_codec_def)
  have name: "stored_name_ok ''trial''"
    by (simp add: stored_name_ok_def length_between_def sql_length_def is_name_byte_def is_ascii_lowercase_def)
  have "branch_insert_ok rx_codec rx_committed (t_branches rx_committed) rx_fork_row"
    using source name rx_hex
    by (simp add: branch_insert_ok_def branch_check_def lineage_complete_def fork_source_ok_def rx_fork_row_def fork_row_def s new rx_ids)
      (simp add: rx_committed_def rx_staged_def rx_db_def example_db_def rx_epoch_def rx_blob_rows_def blob_registered_def)
  moreover have "ensure_name_available rx_externals example_session ''trial'' rx_committed = Inr ()"
    by (simp add: ensure_name_available_def rx_committed_def rx_staged_def rx_db_def example_db_def)
  moreover have "ensure_source_unchanged rx_externals rx_codec rx_source rx_committed = Inr ()"
    using source by (simp add: ensure_source_unchanged_def s n rx_ids)
  moreover have "open_store rx_host = Inr ()" by (simp add: rx_host_at_def open_store_def)
  ultimately show ?thesis
    by (simp add: persist_fork_def s n run_tx_def sql_stmt_def sql_insert_def rx_fork_row_def)
qed

definition rx_fork_report :: fork_branch_report where
  "rx_fork_report = fork_report rx_source (new_fork rx_source ''trial'' 9) (DomainId 4) rx_replay"

definition rx_with_fork :: recovery_world where
  "rx_with_fork = rx_after\<lparr>rw_db := rx_committed\<lparr>t_branches := t_branches rx_committed @ [rx_fork_row]\<rparr>\<rparr>"

lemma rx_fork: "fork_application_epoch rx_externals rx_codec rx_supervisor rx_host (DomainId 3) ''trial'' rx_after =
    (RSupported rx_fork_report, rx_with_fork)"
proof -
  have "valid_branch_name ''trial''"
    by (simp add: valid_branch_name_def max_branch_name_bytes_def is_name_byte_def is_ascii_lowercase_def)
  moreover have "rw_blobs rx_after = rx_fs3" "rw_db rx_after = rx_committed" by (simp_all add: rx_after_def)
  moreover have "vh_clock rx_host = Inr 9" "vh_branch_id rx_host = DomainId 4" by (simp_all add: rx_host_at_def)
  ultimately show ?thesis
    by (simp add: fork_application_epoch_def rx_source rx_replayed rx_fork_persisted rx_fork_report_def rx_with_fork_def)
qed


end
