(* ===== verification/Spec2Isabelle.thy ===== *)
theory Spec2Isabelle
  imports Epoch_Core Epoch_Capability_Properties Epoch_Blob_Properties Epoch_Intent_Properties
    Epoch_Gateway_Properties Epoch_Gateway_Call_Properties Epoch_Event_Properties
    Epoch_Protocol_Properties Epoch_Checkpoint_Properties Epoch_Storage_Properties
    Epoch_Workspace_Properties Epoch_Diff_Properties Epoch_Recovery_Properties Epoch_Fork_Properties
begin

text \<open>
  Verification of the Epoch agent runtime: the crates under \<open>src/crates\<close> that keep an agent's
  authority, effects, history and checkpoints.

  \<^bold>\<open>The program.\<close> Epoch runs an agent under a supervisor. Everything durable lives in one trusted
  SQLite database and in one content-addressed blob store. The agent acts on the world only through
  the effect gateway, which asks the capability service for authority inside the transaction that
  records the intent, dispatches, and records the outcome. What the agent says on its protocol
  stream is validated record by record and written to the append-only event journal. At a safe point
  of a completed run the supervisor checkpoints the application context and the workspace as one
  composite epoch, which can be restored, compared with another epoch, or forked into a new branch.

  \<^bold>\<open>Theories and code.\<close>

  \<^item> \<open>Epoch_Prelude\<close>, \<open>Epoch_Text\<close>: results and the question-mark operator, integers (a \<open>u64\<close> is a word, an \<open>i64\<close> an
    integer with its bounds written out), SQL statements and transactions on lists of rows, Rust
    strings as lists of UTF-8 bytes, and the record \<open>externals\<close> with the functions of the crates
    \<open>uuid\<close>, \<open>sha2\<close>, \<open>serde_json\<close> and of SQLite that the repository only calls. The locales \<open>machine\<close>
    (an invariant and an evolution relation that every operation respects) and \<open>code_table\<close> (text
    forms of enumerations) are declared here.
  \<^item> \<open>Epoch_Core\<close>: \<open>epoch-core\<close> (\<open>id.rs\<close>, \<open>state.rs\<close>, \<open>event.rs\<close>); the locale \<open>lifecycle\<close> with its two
    instances.
  \<^item> \<open>Epoch_Schema\<close>: the tables of \<open>epoch-storage/migrations\<close> as the record \<open>db\<close>, with their CHECK,
    UNIQUE and FOREIGN KEY constraints and triggers, as far as modelled statements can meet them.
  \<^item> \<open>Epoch_Storage\<close> and its properties: opening the database and the migration runner
    (\<open>epoch-storage/src/lib.rs\<close>).
  \<^item> \<open>Epoch_Capabilities\<close>, \<open>Epoch_Capability_Proofs\<close>, \<open>Epoch_Capability_Service\<close>, \<open>Epoch_Capability_Properties\<close>:
    \<open>epoch-capabilities\<close>: issue, attenuation, revocation, check-and-consume authorization and audit,
    each as one transaction; the service as a \<open>machine\<close>.
  \<^item> \<open>Epoch_Intent\<close> (canonical intents and credential screening), \<open>Epoch_Effects\<close> (journal, transactions, dispatch and
    \<open>execute\<close>), \<open>Epoch_Effect_Proofs\<close>, \<open>Epoch_Gateway_Proofs\<close>, \<open>Epoch_Gateway_Clients\<close> (clients that may stop between any
    two steps, interleaved with each other and with the capability service, as the inductive
    relation \<open>system_step\<close>), \<open>Epoch_Durability\<close> and the gateway's properties: \<open>epoch-effects\<close>.
  \<^item> \<open>Epoch_Blob\<close>: \<open>epoch-blob\<close> on a tree of files with modes, with other processes acting between any two
    file operations; the locale \<open>content_store\<close>.
  \<^item> \<open>Epoch_Events\<close> and its proofs: \<open>epoch-events\<close>, a \<open>machine\<close> twice (order and causality; numbering).
  \<^item> \<open>Epoch_Protocol\<close> and its proofs: \<open>epoch-protocol\<close>; the validator is an instance of the locale
    \<open>history_automaton\<close>, the object maps of \<open>field_map\<close>.
  \<^item> \<open>Epoch_Checkpoint\<close>: \<open>epoch-checkpoint\<close>; the locale \<open>checkpoint_backend\<close>. \<open>Epoch_Diff\<close>: \<open>epoch-diff\<close>.
  \<^item> \<open>Epoch_Host\<close>, \<open>Epoch_Workspace\<close>, \<open>Epoch_Workspace_Proofs\<close>, \<open>Epoch_Workspace_Capture\<close>: \<open>epoch-workspace\<close> over a
    host tree with directories, files, links and special files.
  \<^item> \<open>Epoch_Recovery\<close>, \<open>Epoch_Fork\<close>, \<open>Epoch_Recovery_Proofs\<close>: \<open>recovery.rs\<close> and \<open>fork.rs\<close> of \<open>epoch-supervisor\<close>, composed of all
    of the above. The state is the record \<open>recovery_world\<close> (blob tree, database, host tree);
    \<open>recovery_step\<close> is the supervisor as a \<open>machine\<close>, with the chain of epochs and the lineages of
    branches as its invariants.
  \<^item> \<open>Epoch_Example\<close>, \<open>Epoch_Gateway_Example\<close>, \<open>Epoch_Recovery_Example\<close>, \<open>Epoch_Recovery_Runs\<close>: concrete parameters and runs, for
    the witnesses.

  \<^bold>\<open>What is shown.\<close> Effects: at most one dispatch per operation under crashes, retries and concurrent
  clients, each authorized, with receipts that stay valid. Authority: conservation of uses and
  budgets under delegation, final revocation, attenuation, and the exact meaning of a decision.
  History: order, causality and immutability of events and exact queries. Protocol: the accepted
  streams are the well-formed ones. Stores: stored bytes read back, upgrades are exact or void.
  Workspaces: a snapshot restores to what it saw, a failed restore leaves no trace, and what the
  check of link targets confines. Composition: a reported checkpoint restores the context and the
  tree, epochs and forks survive every later operation, a refused checkpoint leaves the database.

  \<^bold>\<open>Bounds and termination.\<close> No definition takes fuel for its own sake. The walk of a workspace is a
  function whose recursion is bounded by the longest path of the tree (\<open>walk_room\<close>). Resolving a path
  follows at most \<open>max_links\<close> links, the kernel's limit of forty, and then answers the kernel's error.
  The busy retry of the database is bounded by the code's own counter. Machine limits (sizes,
  depths, counters, \<open>i64::MAX\<close>) are those of the code, and the branches that exceed them are
  branches of the model.

  \<^bold>\<open>What a call takes from outside\<close> is an argument of its definition: clock readings, fresh identifiers,
  random bytes, poisoned locks, what other processes do to the blob tree, the order in which a
  directory is listed, injected faults. Derived serializers (\<open>serde\<close>), the UUID text codec, SHA-256, the JSON
  parser and SQLite's pragmas and JSON functions are parameters; what a property assumes of them
  (a codec reads back what it wrote, no collision with a given digest) is a named hypothesis of it.

  \<^bold>\<open>Not modelled.\<close> \<open>fsync\<close> and I/O errors other than absent and existing files; variants for platforms
  other than Unix. The part of \<open>epoch-supervisor\<close> that launches and signals processes, \<open>epoch-sandbox\<close>,
  \<open>epoch-criu-compat\<close> and \<open>epoch-proc\<close> act on the kernel. \<open>epoch-trajectory\<close> and \<open>epoch-dashboard\<close> only read and
  render; \<open>epoch-cli\<close> parses arguments and prints; \<open>epoch-bench\<close>, \<open>epoch-performance-matrix\<close> and \<open>epoch-test-agent\<close>
  exercise the other crates. Detail texts of errors are kept where they are fixed and symbolic where
  they embed another error.
\<close>

end
